(* ===== verification/Base.thy ===== *)
theory Base
  imports Main "HOL-Library.Sublist"
begin

text \<open>
  The vocabulary every component shares.
  \<^item> The exception hierarchy of \<^verbatim>\<open>app/core/exceptions.py\<close> together with the Python and
    asyncssh exceptions the code tells apart in its \<^verbatim>\<open>except\<close> clauses.
  \<^item> An exception-and-state monad. A handler is a function from the state of the process to a
    result (\<open>Inl\<close> an exception, \<open>Inr\<close> a value) and the new state; a raise keeps
    the state reached so far, as in Python.
  \<^item> The string operations of Python the code uses. A \<^verbatim>\<open>str\<close> is a list of \<open>char\<close>,
    that is, of code points below 256 (Latin-1).
\<close>

named_theorems io_run \<open>how a monadic combinator runs on a state\<close>
named_theorems py_str \<open>evaluation rules of the string helpers\<close>

section \<open>Exceptions\<close>

datatype app_kind =
    BaseApp | Auth | Forbidden | NotFound | Validation | GitlabOperation
  | UpstreamTimeout | UpstreamUnavailable | Conflict | ServiceUnavailable
  | CommandExecution | SSHConfigNotFound | WhitelistConfiguration | ScriptVersion

text \<open>
  \<open>AppExc\<close> is an instance of \<^verbatim>\<open>BaseAppException\<close> with its message (the \<^verbatim>\<open>detail\<close>
  payload is not modelled). \<open>Cancelled\<close> is \<^verbatim>\<open>asyncio.CancelledError\<close>: it derives from
  \<^verbatim>\<open>BaseException\<close>, so \<^verbatim>\<open>except Exception\<close> does not catch it. \<open>PyOther\<close> stands for every
  other \<^verbatim>\<open>Exception\<close>, with its text. \<open>NotAuthenticated\<close> is the \<^verbatim>\<open>HTTPException(401)\<close> that the bearer
  dependency of the framework raises for a request without a token.
\<close>

datatype exn =
    AppExc app_kind string
  | PyTimeoutError
  | PyOSError string
  | SshError string
  | SshConnectionLost string
  | PyValueError string
  | PyKeyError string
  | PyAttributeError string
  | PyValidationError "string list"
  | PyRuntimeError string
  | PyOther string
  | NotAuthenticated
  | Cancelled

fun http_status :: "app_kind \<Rightarrow> int" where
  "http_status BaseApp = 500"
| "http_status Auth = 401"
| "http_status Forbidden = 403"
| "http_status NotFound = 404"
| "http_status Validation = 422"
| "http_status GitlabOperation = 502"
| "http_status UpstreamTimeout = 504"
| "http_status UpstreamUnavailable = 502"
| "http_status Conflict = 409"
| "http_status ServiceUnavailable = 503"
| "http_status CommandExecution = 400"
| "http_status SSHConfigNotFound = 400"
| "http_status WhitelistConfiguration = 500"
| "http_status ScriptVersion = 412"

fun error_code :: "app_kind \<Rightarrow> string" where
  "error_code BaseApp = ''INTERNAL_ERROR''"
| "error_code Auth = ''AUTH_ERROR''"
| "error_code Forbidden = ''FORBIDDEN''"
| "error_code NotFound = ''NOT_FOUND''"
| "error_code Validation = ''VALIDATION_ERROR''"
| "error_code GitlabOperation = ''GITLAB_ERROR''"
| "error_code UpstreamTimeout = ''UPSTREAM_TIMEOUT''"
| "error_code UpstreamUnavailable = ''UPSTREAM_UNAVAILABLE''"
| "error_code Conflict = ''CONFLICT''"
| "error_code ServiceUnavailable = ''SERVICE_UNAVAILABLE''"
| "error_code CommandExecution = ''COMMAND_EXECUTION_ERROR''"
| "error_code SSHConfigNotFound = ''SSH_CONFIG_NOT_FOUND''"
| "error_code WhitelistConfiguration = ''WHITELIST_CONFIG_ERROR''"
| "error_code ScriptVersion = ''SCRIPT_VERSION_MISMATCH''"

text \<open>The classes an \<^verbatim>\<open>except\<close> clause names. Since Python 3.11 (the version the project
  requires) \<^verbatim>\<open>asyncio.TimeoutError\<close> is the builtin \<^verbatim>\<open>TimeoutError\<close>, a subclass of \<^verbatim>\<open>OSError\<close>.\<close>

fun is_app_exception :: "exn \<Rightarrow> bool" where
  "is_app_exception (AppExc k m) = True"
| "is_app_exception _ = False"

fun is_exception :: "exn \<Rightarrow> bool" where
  "is_exception Cancelled = False"
| "is_exception _ = True"

fun is_os_or_ssh_error :: "exn \<Rightarrow> bool" where
  "is_os_or_ssh_error PyTimeoutError = True"
| "is_os_or_ssh_error (PyOSError m) = True"
| "is_os_or_ssh_error (SshError m) = True"
| "is_os_or_ssh_error (SshConnectionLost m) = True"
| "is_os_or_ssh_error _ = False"

fun is_command_execution :: "exn \<Rightarrow> bool" where
  "is_command_execution (AppExc CommandExecution m) = True"
| "is_command_execution _ = False"

text \<open>\<^verbatim>\<open>str(exc)\<close>.\<close>

fun exn_str :: "exn \<Rightarrow> string" where
  "exn_str (AppExc k m) = m"
| "exn_str PyTimeoutError = ''''"
| "exn_str (PyOSError m) = m"
| "exn_str (SshError m) = m"
| "exn_str (SshConnectionLost m) = m"
| "exn_str (PyValueError m) = m"
| "exn_str (PyKeyError m) = m"
| "exn_str (PyAttributeError m) = m"
| "exn_str (PyValidationError ms) = concat ms"
| "exn_str (PyRuntimeError m) = m"
| "exn_str (PyOther m) = m"
| "exn_str NotAuthenticated = ''401: Not authenticated''"
| "exn_str Cancelled = ''''"

section \<open>The effect monad\<close>

type_synonym ('s, 'a) io = "'s \<Rightarrow> (exn + 'a) \<times> 's"

definition ret :: "'a \<Rightarrow> ('s, 'a) io" where
  "ret x = (\<lambda>s. (Inr x, s))"

definition raise :: "exn \<Rightarrow> ('s, 'a) io" where
  "raise e = (\<lambda>s. (Inl e, s))"

definition bindE :: "('s, 'a) io \<Rightarrow> ('a \<Rightarrow> ('s, 'b) io) \<Rightarrow> ('s, 'b) io" where
  "bindE m f = (\<lambda>s. case m s of (Inl e, s') \<Rightarrow> (Inl e, s') | (Inr x, s') \<Rightarrow> f x s')"

definition thenE :: "('s, 'a) io \<Rightarrow> ('s, 'b) io \<Rightarrow> ('s, 'b) io" where
  "thenE m k = bindE m (\<lambda>_. k)"

text \<open>\<^verbatim>\<open>try: m; except E: h\<close>: the handler decides by itself which exceptions it takes, and
  re-raises the others.\<close>

definition catchE :: "('s, 'a) io \<Rightarrow> (exn \<Rightarrow> ('s, 'a) io) \<Rightarrow> ('s, 'a) io" where
  "catchE m h = (\<lambda>s. case m s of (Inl e, s') \<Rightarrow> h e s' | (Inr x, s') \<Rightarrow> (Inr x, s'))"

text \<open>\<^verbatim>\<open>try: m; finally: f\<close>: an exception of \<open>f\<close> replaces the outcome of \<open>m\<close>.\<close>

definition finallyE :: "('s, 'a) io \<Rightarrow> ('s, unit) io \<Rightarrow> ('s, 'a) io" where
  "finallyE m f = (\<lambda>s. case m s of (r, s') \<Rightarrow>
     (case f s' of (Inl e, s'') \<Rightarrow> (Inl e, s'') | (Inr _, s'') \<Rightarrow> (r, s'')))"

definition getS :: "('s \<Rightarrow> 'a) \<Rightarrow> ('s, 'a) io" where
  "getS f = (\<lambda>s. (Inr (f s), s))"

definition modifyS :: "('s \<Rightarrow> 's) \<Rightarrow> ('s, unit) io" where
  "modifyS f = (\<lambda>s. (Inr (), f s))"

definition liftE :: "exn + 'a \<Rightarrow> ('s, 'a) io" where
  "liftE r = (\<lambda>s. (r, s))"

text \<open>\<^verbatim>\<open>for x in xs: f(x)\<close>.\<close>

fun for_each :: "'a list \<Rightarrow> ('a \<Rightarrow> ('s, unit) io) \<Rightarrow> ('s, unit) io" where
  "for_each [] f = ret ()"
| "for_each (x # xs) f = thenE (f x) (for_each xs f)"

text \<open>The pure counterpart of a comprehension whose element expression may raise.\<close>

fun mapE :: "('a \<Rightarrow> exn + 'b) \<Rightarrow> 'a list \<Rightarrow> exn + 'b list" where
  "mapE f [] = Inr []"
| "mapE f (x # xs) =
     (case f x of Inl e \<Rightarrow> Inl e
      | Inr y \<Rightarrow> (case mapE f xs of Inl e \<Rightarrow> Inl e | Inr ys \<Rightarrow> Inr (y # ys)))"

lemma ret_run [io_run]: "ret x s = (Inr x, s)"
  by (simp add: ret_def)

lemma raise_run [io_run]: "raise e s = (Inl e, s)"
  by (simp add: raise_def)

lemma bindE_run [io_run]:
  "bindE m f s = (case m s of (Inl e, s') \<Rightarrow> (Inl e, s') | (Inr x, s') \<Rightarrow> f x s')"
  by (simp add: bindE_def)

lemma thenE_run [io_run]:
  "thenE m k s = (case m s of (Inl e, s') \<Rightarrow> (Inl e, s') | (Inr x, s') \<Rightarrow> k s')"
  by (simp add: thenE_def bindE_def)

lemma catchE_run [io_run]:
  "catchE m h s = (case m s of (Inl e, s') \<Rightarrow> h e s' | (Inr x, s') \<Rightarrow> (Inr x, s'))"
  by (simp add: catchE_def)

lemma finallyE_run [io_run]:
  "finallyE m f s = (case m s of (r, s') \<Rightarrow>
     (case f s' of (Inl e, s'') \<Rightarrow> (Inl e, s'') | (Inr _, s'') \<Rightarrow> (r, s'')))"
  by (simp add: finallyE_def)

lemma getS_run [io_run]: "getS f s = (Inr (f s), s)"
  by (simp add: getS_def)

lemma modifyS_run [io_run]: "modifyS f s = (Inr (), f s)"
  by (simp add: modifyS_def)

lemma liftE_run [io_run]: "liftE r s = (r, s)"
  by (simp add: liftE_def)

lemma bindE_assoc: "bindE (bindE m f) g = bindE m (\<lambda>x. bindE (f x) g)"
  by (rule ext) (simp add: io_run split: prod.splits sum.splits)

lemma bindE_ret_left [simp]: "bindE (ret x) f = f x"
  by (rule ext) (simp add: io_run)

lemma bindE_ret_right: "bindE m ret = m"
  by (rule ext) (auto simp: io_run split: prod.splits sum.splits)

lemma mapE_length: "mapE f xs = Inr ys \<Longrightarrow> length ys = length xs"
  by (induction xs arbitrary: ys) (auto split: sum.splits)

lemma mapE_Inr_nth:
  "mapE f xs = Inr ys \<Longrightarrow> i < length xs \<Longrightarrow> f (xs ! i) = Inr (ys ! i)"
proof (induction xs arbitrary: ys i)
  case Nil
  then show ?case by simp
next
  case (Cons x xs)
  then show ?case by (cases i) (auto split: sum.splits)
qed

lemma mapE_map: "mapE f (map g xs) = mapE (\<lambda>x. f (g x)) xs"
  by (induction xs) (auto split: sum.splits)

lemma mapE_all_Inr: "(\<And>x. x \<in> set xs \<Longrightarrow> f x = Inr (g x)) \<Longrightarrow> mapE f xs = Inr (map g xs)"
  by (induction xs) auto

text \<open>A handler that changes nothing.\<close>

definition inert :: "('s, 'a) io \<Rightarrow> bool" where
  "inert m \<longleftrightarrow> (\<forall>p. snd (m p) = p)"

lemma inert_prims: "inert (ret x)" "inert (raise e)" "inert (liftE y)"
  by (simp_all add: inert_def io_run)

lemma inert_iff: "inert m \<longleftrightarrow> (\<forall>p r q. m p = (r, q) \<longrightarrow> q = p)"
  unfolding inert_def by (metis prod.collapse snd_conv)

lemma inert_bindE: "inert m \<Longrightarrow> (\<And>x. inert (f x)) \<Longrightarrow> inert (bindE m f)"
  by (simp add: inert_iff bindE_run split: prod.splits sum.splits) blast

lemma inert_catchE: "inert m \<Longrightarrow> (\<And>e. inert (h e)) \<Longrightarrow> inert (catchE m h)"
  by (simp add: inert_iff catchE_run split: prod.splits sum.splits) blast

lemmas inert_intros [intro] = inert_prims inert_bindE inert_catchE

end
