(* ===== verification/Regex.thy ===== *)
theory Regex
  imports PyStr
begin

text \<open>
  The part of Python's \<^verbatim>\<open>re\<close> the program uses, as a backtracking matcher over a syntax tree.
  A matching state holds the captured groups, the text already consumed (reversed) and the text
  left. \<open>rx_run\<close> lists all ways to match, in the order the backtracking engine tries them
  (greedy repetition first, alternatives from left to right): the first is the match that
  \<^verbatim>\<open>re.match\<close> reports, and \<^verbatim>\<open>re.fullmatch\<close> takes the first that consumes everything.
  Patterns written in the source are transcribed as trees; patterns read from configuration or
  from the inventory are turned into trees by a parameter of the model (\<open>None\<close> is
  \<^verbatim>\<open>re.error\<close>).
\<close>

datatype rx =
    REps
  | RChr "char \<Rightarrow> bool"
  | RSeq rx rx
  | RAlt rx rx
  | RStar rx
  | RGrp nat rx
  | RBol
  | REol
  | RWordB

type_synonym mstate = "(nat \<times> string) list \<times> string \<times> string"

abbreviation caps :: "mstate \<Rightarrow> (nat \<times> string) list" where "caps st \<equiv> fst st"
abbreviation before :: "mstate \<Rightarrow> string" where "before st \<equiv> fst (snd st)"
abbreviation after :: "mstate \<Rightarrow> string" where "after st \<equiv> snd (snd st)"

text \<open>\<^verbatim>\<open>\w\<close> for \<^verbatim>\<open>str\<close> patterns: Unicode alphanumerics below 256, and the underscore.\<close>

definition is_word :: "char \<Rightarrow> bool" where
  "is_word c = (let n = of_char c :: nat in
     (48 \<le> n \<and> n \<le> 57) \<or> (65 \<le> n \<and> n \<le> 90) \<or> n = 95 \<or> (97 \<le> n \<and> n \<le> 122)
     \<or> n \<in> {170, 178, 179, 181, 185, 186, 188, 189, 190}
     \<or> (192 \<le> n \<and> n \<noteq> 215 \<and> n \<noteq> 247))"

fun head_word :: "string \<Rightarrow> bool" where
  "head_word [] = False"
| "head_word (c # cs) = is_word c"

text \<open>A repetition goes on only while the body consumes something, so the length of the text
  left bounds the number of rounds.\<close>

fun star_run :: "nat \<Rightarrow> (mstate \<Rightarrow> mstate list) \<Rightarrow> mstate \<Rightarrow> mstate list" where
  "star_run 0 m st = [st]"
| "star_run (Suc n) m st =
     concat (map (\<lambda>st'. if length (after st') < length (after st) then star_run n m st' else [])
                 (m st)) @ [st]"

definition chr_run :: "(char \<Rightarrow> bool) \<Rightarrow> mstate \<Rightarrow> mstate list" where
  "chr_run p st = (case after st of [] \<Rightarrow> []
     | c # cs \<Rightarrow> if p c then [(caps st, c # before st, cs)] else [])"

fun rx_run :: "rx \<Rightarrow> mstate \<Rightarrow> mstate list" where
  "rx_run REps st = [st]"
| "rx_run (RChr p) st = chr_run p st"
| "rx_run (RSeq r q) st = concat (map (rx_run q) (rx_run r st))"
| "rx_run (RAlt r q) st = rx_run r st @ rx_run q st"
| "rx_run (RStar r) st = star_run (length (after st)) (rx_run r) st"
| "rx_run (RGrp n r) st =
     map (\<lambda>st'. ((n, take (length (after st) - length (after st')) (after st)) # caps st',
                 before st', after st')) (rx_run r st)"
| "rx_run RBol st = (if before st = [] then [st] else [])"
| "rx_run REol st = (if after st = [] \<or> after st = [CHR 0x0A] then [st] else [])"
| "rx_run RWordB st = (if head_word (before st) \<noteq> head_word (after st) then [st] else [])"

lemma rx_run_RChr [simp]: "rx_run (RChr p) = chr_run p"
  by (rule ext) simp

definition re_match :: "rx \<Rightarrow> string \<Rightarrow> mstate option" where
  "re_match r s = (case rx_run r ([], [], s) of [] \<Rightarrow> None | st # _ \<Rightarrow> Some st)"

definition re_fullmatch :: "rx \<Rightarrow> string \<Rightarrow> mstate option" where
  "re_fullmatch r s =
     (case filter (\<lambda>st. after st = []) (rx_run r ([], [], s)) of [] \<Rightarrow> None | st # _ \<Rightarrow> Some st)"

text \<open>\<^verbatim>\<open>m.group(n)\<close>: the last capture of the group.\<close>

definition group :: "nat \<Rightarrow> mstate \<Rightarrow> string" where
  "group n st = (case map_of (caps st) n of None \<Rightarrow> [] | Some w \<Rightarrow> w)"

text \<open>\<^verbatim>\<open>re.findall\<close> for a pattern without groups: leftmost non-overlapping matches; after an
  empty match the search moves on by one character. The fuel is the number of characters left
  plus one.\<close>

fun findall_run :: "nat \<Rightarrow> rx \<Rightarrow> string \<Rightarrow> string \<Rightarrow> string list" where
  "findall_run 0 r bef aft = []"
| "findall_run (Suc n) r bef aft =
     (case rx_run r ([], bef, aft) of
        [] \<Rightarrow> (case aft of [] \<Rightarrow> [] | c # cs \<Rightarrow> findall_run n r (c # bef) cs)
      | st # _ \<Rightarrow>
          let w = take (length aft - length (after st)) aft
          in w # (if w = [] then (case aft of [] \<Rightarrow> [] | c # cs \<Rightarrow> findall_run n r (c # bef) cs)
                  else findall_run n r (before st) (after st)))"

definition re_findall :: "rx \<Rightarrow> string \<Rightarrow> string list" where
  "re_findall r s = findall_run (Suc (length s)) r [] s"

section \<open>Shorthands for the patterns of the source\<close>

definition lit :: "char \<Rightarrow> rx" where
  "lit c = RChr (\<lambda>x. x = c)"

definition rplus :: "rx \<Rightarrow> rx" where
  "rplus r = RSeq r (RStar r)"

fun rseq :: "rx list \<Rightarrow> rx" where
  "rseq [] = REps"
| "rseq [r] = r"
| "rseq (r # q # rs) = RSeq r (rseq (q # rs))"

section \<open>What a match consumes\<close>

text \<open>\<open>moved w st st'\<close>: \<open>st'\<close> is \<open>st\<close> after consuming \<open>w\<close>.\<close>

definition moved :: "string \<Rightarrow> mstate \<Rightarrow> mstate \<Rightarrow> bool" where
  "moved w st st' \<longleftrightarrow> after st = w @ after st' \<and> before st' = rev w @ before st"

lemma moved_refl: "moved [] st st"
  by (simp add: moved_def)

lemma moved_reflI: "\<exists>w. moved w st st"
  using moved_refl by (rule exI)

lemma moved_trans: "moved v st st' \<Longrightarrow> moved w st' st'' \<Longrightarrow> moved (v @ w) st st''"
  by (simp add: moved_def)

lemma chr_run_iff:
  "t \<in> set (chr_run p s) \<longleftrightarrow> (\<exists>c. p c \<and> moved [c] s t \<and> caps t = caps s)"
  by (cases s; cases t) (auto simp: chr_run_def moved_def split: list.splits if_splits)

lemma star_run_cases:
  assumes "t \<in> set (star_run n m s)"
  obtains "t = s" | n' u where "n = Suc n'" "u \<in> set (m s)" "t \<in> set (star_run n' m u)"
  using assms by (cases n) (auto split: if_splits)

lemma star_run_moved:
  assumes "\<And>s t. t \<in> set (m s) \<Longrightarrow> \<exists>w. moved w s t"
  shows "t \<in> set (star_run n m s) \<Longrightarrow> \<exists>w. moved w s t"
proof (induction n arbitrary: s)
  case 0
  then show ?case by (simp add: moved_reflI)
next
  case (Suc n)
  from Suc.prems show ?case
  proof (cases rule: star_run_cases)
    case 1
    then show ?thesis by (simp add: moved_reflI)
  next
    case (2 n' u)
    then obtain v where v: "moved v s u" using assms by blast
    from 2 obtain w where "moved w u t" using Suc.IH by blast
    with v have "moved (v @ w) s t" by (rule moved_trans)
    then show ?thesis by (rule exI)
  qed
qed

lemma rx_run_moved: "t \<in> set (rx_run r s) \<Longrightarrow> \<exists>w. moved w s t"
proof (induction r arbitrary: s t)
  case (RChr p)
  then show ?case by (auto simp only: rx_run.simps chr_run_iff)
next
  case (RSeq r q)
  then obtain u where "u \<in> set (rx_run r s)" "t \<in> set (rx_run q u)" by auto
  then obtain v w where "moved v s u" "moved w u t" using RSeq.IH by blast
  then show ?case using moved_trans by blast
next
  case (RAlt r q)
  from RAlt.prems have "t \<in> set (rx_run r s) \<or> t \<in> set (rx_run q s)" by simp
  then show ?case using RAlt.IH by blast
next
  case (RStar r)
  have "t \<in> set (star_run (length (after s)) (rx_run r) s)" using RStar.prems by simp
  then show ?case by (rule star_run_moved [rotated]) (rule RStar.IH)
next
  case (RGrp n r)
  then obtain u where u: "u \<in> set (rx_run r s)" "before t = before u" "after t = after u" by auto
  then obtain w where "moved w s u" using RGrp.IH by blast
  with u show ?case by (auto simp: moved_def)
qed (auto simp: moved_reflI split: if_splits)

text \<open>Repetition of one character class: exactly the runs of the class.\<close>

lemma star_chr_sound:
  "t \<in> set (star_run n (chr_run p) s) \<Longrightarrow>
     \<exists>w. moved w s t \<and> caps t = caps s \<and> (\<forall>c \<in> set w. p c)"
proof (induction n arbitrary: s)
  case 0
  then have "moved [] s t \<and> caps t = caps s" by (simp add: moved_refl)
  then show ?case by (intro exI [of _ "[]"]) simp
next
  case (Suc n)
  from Suc.prems show ?case
  proof (cases rule: star_run_cases)
    case 1
    then have "moved [] s t \<and> caps t = caps s" by (simp add: moved_refl)
    then show ?thesis by (intro exI [of _ "[]"]) simp
  next
    case (2 n' u)
    then obtain w where w: "moved w u t" "caps t = caps u" "\<forall>c \<in> set w. p c"
      using Suc.IH by blast
    from 2 obtain c where c: "p c" "moved [c] s u" "caps u = caps s"
      by (auto simp only: chr_run_iff)
    have "moved ([c] @ w) s t" using moved_trans c(2) w(1) by blast
    then show ?thesis using w c by (intro exI [of _ "[c] @ w"]) simp
  qed
qed

lemma star_chr_complete:
  "(\<forall>c \<in> set w. p c) \<Longrightarrow> length w \<le> n \<Longrightarrow>
     (cp, rev w @ b, a) \<in> set (star_run n (chr_run p) (cp, b, w @ a))"
proof (induction w arbitrary: n b)
  case Nil
  then show ?case by (cases n) auto
next
  case (Cons c w)
  then obtain m where n: "n = Suc m" by (cases n) auto
  have "(cp, rev w @ c # b, a) \<in> set (star_run m (chr_run p) (cp, c # b, w @ a))"
    using Cons n by simp
  moreover have "chr_run p (cp, b, c # w @ a) = [(cp, c # b, w @ a)]"
    using Cons.prems by (simp add: chr_run_def)
  ultimately show ?case using n by simp
qed

lemma star_run_nonempty [simp]: "star_run n m st \<noteq> []"
  by (cases n) auto

text \<open>Greedy: the first way to repeat a class takes all of it.\<close>

lemma star_chr_hd:
  "length a \<le> n \<Longrightarrow> hd (star_run n (chr_run p) (cp, b, a))
     = (cp, rev (takeWhile p a) @ b, dropWhile p a)"
proof (induction n arbitrary: a b)
  case 0
  then show ?case by simp
next
  case (Suc n)
  then show ?case by (cases a) (auto simp: chr_run_def)
qed

end
