(* ===== verification/Semver.thy ===== *)
theory Semver
  imports Regex
begin

text \<open>
  \<^verbatim>\<open>app/core/version.py\<close>: strict \<^verbatim>\<open>X.Y.Z\<close> versions compared number by number, and
  \<^verbatim>\<open>CommandExecutor._parse_version_output\<close>, which finds a version in the output of
  \<^verbatim>\<open><script> --version\<close>. A \<^verbatim>\<open>ValueError\<close> is \<open>Inl\<close>.
\<close>

text \<open>\<^verbatim>\<open>(0|[1-9]\d*)\<close>, then the whole pattern with its three groups.\<close>

definition rx_num :: rx where
  "rx_num = RAlt (lit (CHR ''0''))
     (RSeq (RChr (\<lambda>c. is_digit c \<and> c \<noteq> CHR ''0'')) (RStar (RChr is_digit)))"

definition SEMVER_RE :: rx where
  "SEMVER_RE = rseq [RBol, RGrp 1 rx_num, lit (CHR ''.''), RGrp 2 rx_num, lit (CHR ''.''),
     RGrp 3 rx_num, REol]"

definition parse_semver :: "string \<Rightarrow> exn + (int \<times> int \<times> int)" where
  "parse_semver s = (case re_match SEMVER_RE s of
     None \<Rightarrow> Inl (PyValueError (''Invalid semver (expected X.Y.Z): '' @ squoted s))
   | Some m \<Rightarrow> Inr (int (digits_val (group 1 m)), int (digits_val (group 2 m)),
                    int (digits_val (group 3 m))))"

text \<open>Comparison of tuples is lexicographic.\<close>

fun tuple_ge :: "int \<times> int \<times> int \<Rightarrow> int \<times> int \<times> int \<Rightarrow> bool" where
  "tuple_ge (a, b, c) (x, y, z) = (a > x \<or> (a = x \<and> (b > y \<or> (b = y \<and> c \<ge> z))))"

definition version_ge :: "string \<Rightarrow> string \<Rightarrow> exn + bool" where
  "version_ge a b = (case parse_semver a of Inl e \<Rightarrow> Inl e
     | Inr x \<Rightarrow> (case parse_semver b of Inl e \<Rightarrow> Inl e | Inr y \<Rightarrow> Inr (tuple_ge x y)))"

definition version_max :: "string \<Rightarrow> string \<Rightarrow> exn + string" where
  "version_max a b = (case parse_semver a of Inl e \<Rightarrow> Inl e
     | Inr x \<Rightarrow> (case parse_semver b of Inl e \<Rightarrow> Inl e
     | Inr y \<Rightarrow> Inr (if tuple_ge x y then a else b)))"

text \<open>\<^verbatim>\<open>\b\d+\.\d+\.\d+\b\<close>; the last match wins.\<close>

definition VERSION_TOKEN_RE :: rx where
  "VERSION_TOKEN_RE = rseq [RWordB, rplus (RChr is_digit), lit (CHR ''.''), rplus (RChr is_digit),
     lit (CHR ''.''), rplus (RChr is_digit), RWordB]"

definition parse_version_output :: "string \<Rightarrow> exn + string" where
  "parse_version_output text =
     (let tokens = re_findall VERSION_TOKEN_RE text
      in if tokens = [] then Inl (PyValueError (''no version found in output: '' @ squoted text))
         else Inr (last tokens))"

section \<open>The strings the pattern accepts\<close>

text \<open>A segment: \<^verbatim>\<open>0\<close>, or digits that do not start with \<^verbatim>\<open>0\<close>.\<close>

definition is_num :: "string \<Rightarrow> bool" where
  "is_num w \<longleftrightarrow> w \<noteq> [] \<and> (\<forall>c \<in> set w. is_digit c) \<and> (hd w = CHR ''0'' \<longrightarrow> w = ''0'')"

lemma zero_is_digit [simp]: "is_digit (CHR ''0'')"
  by (simp add: is_digit_def)

lemma rx_num_sound:
  assumes "t \<in> set (rx_run rx_num s)"
  shows "\<exists>w. moved w s t \<and> caps t = caps s \<and> is_num w"
proof -
  from assms consider c where "c = CHR ''0''" "moved [c] s t" "caps t = caps s"
    | c u where "is_digit c" "c \<noteq> CHR ''0''" "moved [c] s u" "caps u = caps s"
        "t \<in> set (star_run (length (after u)) (chr_run is_digit) u)"
    by (auto simp: rx_num_def lit_def chr_run_iff)
  then show ?thesis
  proof cases
    case 1
    then show ?thesis by (intro exI [of _ "''0''"]) (simp add: is_num_def)
  next
    case 2
    then obtain w where w: "moved w u t" "caps t = caps u" "\<forall>x \<in> set w. is_digit x"
      using star_chr_sound by blast
    then have "moved ([c] @ w) s t" using 2 moved_trans by blast
    moreover have "is_num ([c] @ w)" using 2 w by (simp add: is_num_def)
    ultimately show ?thesis using w 2 by (metis (no_types))
  qed
qed

lemma rx_num_complete:
  assumes "is_num w"
  shows "(cp, rev w @ b, a) \<in> set (rx_run rx_num (cp, b, w @ a))"
proof -
  obtain c w' where w: "w = c # w'" using assms by (cases w) (auto simp: is_num_def)
  show ?thesis
  proof (cases "c = CHR ''0''")
    case True
    with assms w have "w' = []" by (simp add: is_num_def)
    with True w show ?thesis by (simp add: rx_num_def lit_def chr_run_def)
  next
    case False
    have "(cp, rev w' @ c # b, a) \<in>
        set (star_run (length (w' @ a)) (chr_run is_digit) (cp, c # b, w' @ a))"
      using assms w by (intro star_chr_complete) (auto simp: is_num_def)
    moreover have "chr_run (\<lambda>c. is_digit c \<and> c \<noteq> CHR ''0'') (cp, b, c # w' @ a) = [(cp, c # b, w' @ a)]"
      using False assms w by (simp add: chr_run_def is_num_def)
    ultimately show ?thesis using w by (simp add: rx_num_def)
  qed
qed

lemma grp_num_sound:
  assumes "t \<in> set (rx_run (RGrp n rx_num) s)"
  shows "\<exists>w. moved w s t \<and> caps t = (n, w) # caps s \<and> is_num w"
proof -
  from assms obtain u where u: "u \<in> set (rx_run rx_num s)"
      "t = ((n, take (length (after s) - length (after u)) (after s)) # caps u, before u, after u)"
    by auto
  then obtain w where w: "moved w s u" "caps u = caps s" "is_num w" using rx_num_sound by blast
  then have "moved w s t \<and> caps t = (n, w) # caps s" using u by (simp add: moved_def)
  with w show ?thesis by blast
qed

lemma grp_num_complete:
  assumes "is_num w"
  shows "((n, w) # cp, rev w @ b, a) \<in> set (rx_run (RGrp n rx_num) (cp, b, w @ a))"
proof -
  let ?f = "\<lambda>st'. ((n, take (length (w @ a) - length (after st')) (w @ a)) # caps st', before st', after st')"
  have "?f (cp, rev w @ b, a) \<in> ?f ` set (rx_run rx_num (cp, b, w @ a))"
    using rx_num_complete [OF assms] by (rule imageI)
  then show ?thesis by simp
qed

lemma lit_sound:
  "t \<in> set (rx_run (lit c) s) \<Longrightarrow> moved [c] s t \<and> caps t = caps s"
  by (auto simp: lit_def chr_run_iff)

lemma lit_run: "rx_run (lit c) (cp, b, c # a) = [(cp, c # b, a)]"
  by (simp add: lit_def chr_run_def)

lemma seq_member: "t \<in> set (rx_run (RSeq r q) s) \<longleftrightarrow> (\<exists>u \<in> set (rx_run r s). t \<in> set (rx_run q u))"
  by simp

definition semver_text :: "string \<Rightarrow> string \<Rightarrow> string \<Rightarrow> string" where
  "semver_text x y z = x @ ''.'' @ y @ ''.'' @ z"

lemma semver_sound:
  assumes "t \<in> set (rx_run SEMVER_RE ([], [], s))"
  shows "\<exists>x y z. is_num x \<and> is_num y \<and> is_num z \<and> caps t = [(3, z), (2, y), (1, x)]
     \<and> (s = semver_text x y z \<or> s = semver_text x y z @ [CHR 0x0A])"
proof -
  let ?s0 = "([], [], s) :: mstate"
  have bol: "set (rx_run RBol ?s0) = {?s0}" by simp
  from assms obtain a b c d e where
      a: "a \<in> set (rx_run (RGrp 1 rx_num) ?s0)" and b: "b \<in> set (rx_run (lit (CHR ''.'')) a)"
      and c: "c \<in> set (rx_run (RGrp 2 rx_num) b)" and d: "d \<in> set (rx_run (lit (CHR ''.'')) c)"
      and e: "e \<in> set (rx_run (RGrp 3 rx_num) d)" and t: "t \<in> set (rx_run REol e)"
    unfolding SEMVER_RE_def rseq.simps seq_member bol by blast
  obtain x where x: "moved x ?s0 a" "caps a = [(1, x)]" "is_num x"
    using grp_num_sound [OF a] by auto
  obtain y where y: "moved y b c" "caps c = (2, y) # caps b" "is_num y"
    using grp_num_sound [OF c] by auto
  obtain z where z: "moved z d e" "caps e = (3, z) # caps d" "is_num z"
    using grp_num_sound [OF e] by auto
  have te: "t = e \<and> (after e = [] \<or> after e = [CHR 0x0A])" using t by (auto split: if_splits)
  have "s = semver_text x y z @ after e"
    using x(1) y(1) z(1) lit_sound [OF b] lit_sound [OF d] by (simp add: moved_def semver_text_def)
  moreover have "caps t = [(3, z), (2, y), (1, x)]"
    using te x(2) y(2) z(2) lit_sound [OF b] lit_sound [OF d] by simp
  ultimately show ?thesis using te x y z by auto
qed

lemma semver_complete:
  assumes "is_num x" and "is_num y" and "is_num z" and "nl = [] \<or> nl = [CHR 0x0A]"
  shows "rx_run SEMVER_RE ([], [], semver_text x y z @ nl) \<noteq> []"
proof -
  let ?r1 = "CHR ''.'' # y @ CHR ''.'' # z @ nl"
  let ?r2 = "CHR ''.'' # z @ nl"
  let ?s0 = "([], [], x @ ?r1) :: mstate"
  let ?s1 = "([(1, x)], rev x, ?r1) :: mstate"
  let ?s2 = "([(1, x)], CHR ''.'' # rev x, y @ ?r2) :: mstate"
  let ?s3 = "([(2, y), (1, x)], rev y @ CHR ''.'' # rev x, ?r2) :: mstate"
  let ?b = "CHR ''.'' # rev y @ CHR ''.'' # rev x"
  let ?s4 = "([(2, y), (1, x)], ?b, z @ nl) :: mstate"
  let ?s5 = "([(3, z), (2, y), (1, x)], rev z @ ?b, nl) :: mstate"
  have 1: "?s1 \<in> set (rx_run (RGrp 1 rx_num) ?s0)"
    using grp_num_complete [OF assms(1), of 1 "[]" "[]" ?r1] by simp
  have 2: "?s2 \<in> set (rx_run (lit (CHR ''.'')) ?s1)" by (simp add: lit_run)
  have 3: "?s3 \<in> set (rx_run (RGrp 2 rx_num) ?s2)"
    using grp_num_complete [OF assms(2), of 2 "[(1, x)]" "CHR ''.'' # rev x" ?r2] by simp
  have 4: "?s4 \<in> set (rx_run (lit (CHR ''.'')) ?s3)" by (simp add: lit_run)
  have 5: "?s5 \<in> set (rx_run (RGrp 3 rx_num) ?s4)"
    using grp_num_complete [OF assms(3), of 3 "[(2, y), (1, x)]" ?b nl] by simp
  have 6: "?s5 \<in> set (rx_run REol ?s5)" using assms(4) by auto
  have 0: "?s0 \<in> set (rx_run RBol ?s0)" by simp
  have "?s5 \<in> set (rx_run SEMVER_RE ?s0)"
    unfolding SEMVER_RE_def rseq.simps seq_member using 0 1 2 3 4 5 6 by blast
  then show ?thesis by (auto simp: semver_text_def)
qed

lemma is_num_nat_str: "is_num (nat_str n)"
proof -
  have "hd (nat_str n) = CHR ''0'' \<longrightarrow> nat_str n = ''0''"
  proof (induction n rule: nat_str.induct)
    case (1 n)
    show ?case
    proof (cases "n < 10")
      case True
      then show ?thesis by (simp add: nat_str.simps [of n])
    next
      case False
      have "nat_str (n div 10) \<noteq> ''0''"
      proof
        assume "nat_str (n div 10) = ''0''"
        then have "n div 10 = 0" using digits_val_nat_str [of "n div 10"] by (simp add: digits_val_0)
        then show False using False by simp
      qed
      with 1 False show ?thesis by (simp add: nat_str.simps [of n])
    qed
  qed
  then show ?thesis by (simp add: is_num_def nat_str_digits)
qed

lemma nat_str_digits_val: "is_num w \<Longrightarrow> nat_str (digits_val w) = w"
proof (induction w rule: rev_induct)
  case Nil
  then show ?case by (simp add: is_num_def)
next
  case (snoc c w)
  show ?case
  proof (cases "w = []")
    case True
    with snoc.prems have "is_digit c" by (simp add: is_num_def)
    with True show ?thesis
      by (simp add: digits_val_def nat_str.simps [of "digit_val c"] digit_val_less digit_char_val)
  next
    case False
    with snoc.prems have w: "is_num w" and c: "is_digit c" by (auto simp: is_num_def)
    have nz: "digits_val w \<noteq> 0"
    proof
      assume "digits_val w = 0"
      with snoc.IH [OF w] have "w = ''0''"
        by (simp add: nat_str.simps [of 0] digit_char_0)
      with snoc.prems show False by (simp add: is_num_def)
    qed
    with snoc.IH [OF w] c show ?thesis
      by (simp add: nat_str.simps [of "10 * digits_val w + digit_val c"] digit_val_less digit_char_val)
  qed
qed

lemma is_num_no_dot: "is_num w \<Longrightarrow> CHR ''.'' \<notin> set w"
  using is_digit_not_mark by (auto simp: is_num_def)

lemma is_num_no_nl: "is_num w \<Longrightarrow> CHR 0x0A \<notin> set w"
  using is_digit_not_mark by (auto simp: is_num_def)

text \<open>The parser's outcome is determined by the text: with the trailing newline the \<^verbatim>\<open>$\<close> of the
  pattern lets through.\<close>

lemma parse_semver_text:
  assumes "is_num x" and "is_num y" and "is_num z" and nl: "nl = [] \<or> nl = [CHR 0x0A]"
  shows "parse_semver (semver_text x y z @ nl) = Inr (int (digits_val x), int (digits_val y), int (digits_val z))"
proof -
  let ?s = "semver_text x y z @ nl"
  obtain t ts where ts: "rx_run SEMVER_RE ([], [], ?s) = t # ts"
    using semver_complete [OF assms] by (cases "rx_run SEMVER_RE ([], [], ?s)") auto
  then have "t \<in> set (rx_run SEMVER_RE ([], [], ?s))" by simp
  from semver_sound [OF this] obtain x' y' z' nl' where
      n: "is_num x'" "is_num y'" "is_num z'" "nl' = [] \<or> nl' = [CHR 0x0A]" and
      cp: "caps t = [(3, z'), (2, y'), (1, x')]" and eq: "?s = semver_text x' y' z' @ nl'"
    by (metis append_Nil2)
  have split: "split_on (CHR ''.'') (semver_text a b c @ m) = [a, b, c @ m]"
    if "is_num a" "is_num b" "is_num c" "m = [] \<or> m = [CHR 0x0A]" for a b c m
    using that is_num_no_dot
    by (auto simp: semver_text_def split_on_append_sep split_on_no_sep)
  have "[x, y, z @ nl] = [x', y', z' @ nl']"
    using split [of x y z nl] split [of x' y' z' nl'] assms n eq by metis
  moreover have "z = z'"
    using calculation nl n(3,4) assms(3) is_num_no_nl by fastforce
  ultimately show ?thesis using ts cp
    by (simp add: parse_semver_def re_match_def group_def)
qed

lemma parse_semver_cases:
  "parse_semver s = Inr v \<Longrightarrow> \<exists>x y z. is_num x \<and> is_num y \<and> is_num z
     \<and> v = (int (digits_val x), int (digits_val y), int (digits_val z))
     \<and> (s = semver_text x y z \<or> s = semver_text x y z @ [CHR 0x0A])"
proof -
  assume p: "parse_semver s = Inr v"
  then obtain t ts where ts: "rx_run SEMVER_RE ([], [], s) = t # ts"
    by (cases "rx_run SEMVER_RE ([], [], s)") (auto simp: parse_semver_def re_match_def)
  from semver_sound [of t s] ts obtain x y z where
      "is_num x" "is_num y" "is_num z" "caps t = [(3, z), (2, y), (1, x)]"
      "s = semver_text x y z \<or> s = semver_text x y z @ [CHR 0x0A]"
    by auto
  moreover have "v = (int (digits_val x), int (digits_val y), int (digits_val z))"
    using p ts calculation by (simp add: parse_semver_def re_match_def group_def)
  ultimately show ?thesis by blast
qed

lemma tuple_ge_total: "tuple_ge u v \<or> tuple_ge v u"
  by (cases u; cases v) auto

lemma tuple_ge_trans: "tuple_ge u v \<Longrightarrow> tuple_ge v w \<Longrightarrow> tuple_ge u w"
  by (cases u; cases v; cases w) auto

lemma tuple_ge_antisym: "tuple_ge u v \<Longrightarrow> tuple_ge v u \<Longrightarrow> u = v"
  by (cases u; cases v) auto

lemma tuple_ge_refl: "tuple_ge u u"
  by (cases u) auto

section \<open>What \<open>findall\<close> finds\<close>

lemma findall_run_sound:
  "w \<in> set (findall_run n r bef aft) \<Longrightarrow>
     \<exists>bef' st. st \<in> set (rx_run r ([], bef', w @ after st)) \<and> moved w ([], bef', w @ after st) st
       \<and> contains w aft"
proof (induction n arbitrary: bef aft)
  case 0
  then show ?case by simp
next
  case (Suc n)
  have later: ?case if h: "w \<in> set (findall_run n r bef' aft')" "aft = u @ aft'" for bef' aft' u
  proof -
    have "contains w aft" if "contains w aft'"
      using that h(2) by (metis append.assoc contains_iff)
    then show ?thesis using Suc.IH [OF h(1)] by blast
  qed
  show ?case
  proof (cases "rx_run r ([], bef, aft)")
    case Nil
    with Suc.prems obtain c cs where "aft = [c] @ cs" "w \<in> set (findall_run n r (c # bef) cs)"
      by (cases aft) auto
    then show ?thesis using later by blast
  next
    case (Cons st sts)
    then have mem: "st \<in> set (rx_run r ([], bef, aft))" by simp
    then obtain v where v: "moved v ([], bef, aft) st" using rx_run_moved by blast
    then have aft: "aft = v @ after st" by (simp add: moved_def)
    have tk: "take (length aft - length (after st)) aft = v"
      by (subst (1 2) aft) simp
    from Suc.prems Cons tk consider "w = v"
      | c cs where "aft = [c] @ cs" "w \<in> set (findall_run n r (c # bef) cs)"
      | "w \<in> set (findall_run n r (before st) (after st))"
      by (cases aft) (auto simp: Let_def split: if_splits)
    then show ?thesis
    proof cases
      case 1
      have "contains w aft" using 1 aft by (metis append_Nil contains_iff)
      moreover have "st \<in> set (rx_run r ([], bef, w @ after st))" using mem aft 1 by simp
      moreover have "moved w ([], bef, w @ after st) st" using v aft 1 by simp
      ultimately show ?thesis by blast
    next
      case 2
      then show ?thesis using later by blast
    next
      case 3
      then show ?thesis using later aft by blast
    qed
  qed
qed

definition digit_run :: "string \<Rightarrow> bool" where
  "digit_run w \<longleftrightarrow> w \<noteq> [] \<and> (\<forall>c \<in> set w. is_digit c)"

lemma rplus_digit_sound:
  assumes "t \<in> set (rx_run (rplus (RChr is_digit)) s)"
  shows "\<exists>w. moved w s t \<and> digit_run w"
proof -
  from assms obtain u c where u: "moved [c] s u" "is_digit c"
      "t \<in> set (star_run (length (after u)) (chr_run is_digit) u)"
    by (auto simp: rplus_def chr_run_iff)
  then obtain w where w: "moved w u t" "\<forall>c \<in> set w. is_digit c" using star_chr_sound by blast
  have "moved ([c] @ w) s t" using u(1) w(1) by (rule moved_trans)
  moreover have "digit_run ([c] @ w)" using u w by (simp add: digit_run_def)
  ultimately show ?thesis by blast
qed

lemma version_token_sound:
  assumes "t \<in> set (rx_run VERSION_TOKEN_RE s)"
  shows "\<exists>x y z. moved (semver_text x y z) s t \<and> digit_run x \<and> digit_run y \<and> digit_run z"
proof -
  have wb: "u = v" if "u \<in> set (rx_run RWordB v)" for u v :: mstate
    using that by (auto split: if_splits)
  from assms obtain s' a b c d e where s': "s' \<in> set (rx_run RWordB s)"
      and a: "a \<in> set (rx_run (rplus (RChr is_digit)) s')" and b: "b \<in> set (rx_run (lit (CHR ''.'')) a)"
      and c: "c \<in> set (rx_run (rplus (RChr is_digit)) b)" and d: "d \<in> set (rx_run (lit (CHR ''.'')) c)"
      and e: "e \<in> set (rx_run (rplus (RChr is_digit)) d)" and t: "t \<in> set (rx_run RWordB e)"
    unfolding VERSION_TOKEN_RE_def rseq.simps seq_member by blast
  obtain x where x: "moved x s' a" "digit_run x" using rplus_digit_sound [OF a] by blast
  obtain y where y: "moved y b c" "digit_run y" using rplus_digit_sound [OF c] by blast
  obtain z where z: "moved z d e" "digit_run z" using rplus_digit_sound [OF e] by blast
  have "moved (semver_text x y z) s t"
    using wb [OF s'] wb [OF t] x(1) y(1) z(1) lit_sound [OF b] lit_sound [OF d]
    by (simp add: moved_def semver_text_def)
  then show ?thesis using x y z by blast
qed

section \<open>Properties\<close>

definition render_semver :: "int \<Rightarrow> int \<Rightarrow> int \<Rightarrow> string" where
  "render_semver x y z = semver_text (nat_str (nat x)) (nat_str (nat y)) (nat_str (nat z))"

lemma parse_render: "0 \<le> x \<Longrightarrow> 0 \<le> y \<Longrightarrow> 0 \<le> z \<Longrightarrow> nl = [] \<or> nl = [CHR 0x0A] \<Longrightarrow>
    parse_semver (render_semver x y z @ nl) = Inr (x, y, z)"
  by (simp add: render_semver_def parse_semver_text is_num_nat_str)

lemma version_max_cases:
  assumes "version_max a b = Inr m"
  obtains x y where "parse_semver a = Inr x" "parse_semver b = Inr y" "m = (if tuple_ge x y then a else b)"
  using assms by (auto simp: version_max_def split: sum.splits)

text \<open>
  Property C37. \<open>parse_semver\<close> and printing are inverse: the texts that parse to three numbers are
  exactly their canonical rendering (no sign, no leading zero) and that rendering followed by one
  newline, which the \<^verbatim>\<open>$\<close> of the pattern lets through although the documentation of the
  function says that anything else raises.
\<close>

theorem parse_semver_roundtrip:
  "parse_semver s = Inr (x, y, z) \<longleftrightarrow>
     0 \<le> x \<and> 0 \<le> y \<and> 0 \<le> z
     \<and> s \<in> {render_semver x y z, render_semver x y z @ [CHR 0x0A]}"
proof
  assume "parse_semver s = Inr (x, y, z)"
  from parse_semver_cases [OF this]
  show "0 \<le> x \<and> 0 \<le> y \<and> 0 \<le> z \<and> s \<in> {render_semver x y z, render_semver x y z @ [CHR 0x0A]}"
    by (auto simp: render_semver_def nat_str_digits_val)
next
  assume "0 \<le> x \<and> 0 \<le> y \<and> 0 \<le> z \<and> s \<in> {render_semver x y z, render_semver x y z @ [CHR 0x0A]}"
  then show "parse_semver s = Inr (x, y, z)"
    using parse_render [of x y z "[]"] parse_render [of x y z "[CHR 0x0A]"] by auto
qed

text \<open>
  \<open>version_max\<close> is an upper bound: whatever it returns is one of its two arguments
  and, by \<open>version_ge\<close>, at least each of them, so that combining the whitelist minimum with a
  caller's minimum can only raise the requirement.
\<close>

theorem version_max_upper_bound:
  assumes "version_max a b = Inr m"
  shows "m \<in> {a, b} \<and> version_ge m a = Inr True \<and> version_ge m b = Inr True"
  using assms
proof (rule version_max_cases)
  fix x y
  assume h: "parse_semver a = Inr x" "parse_semver b = Inr y" "m = (if tuple_ge x y then a else b)"
  show ?thesis
  proof (cases "tuple_ge x y")
    case True
    with h show ?thesis by (simp add: version_ge_def tuple_ge_refl)
  next
    case False
    then have "tuple_ge y x" using tuple_ge_total by blast
    with h False show ?thesis by (simp add: version_ge_def tuple_ge_refl)
  qed
qed

theorem version_max_upper_bound_witness:
  "version_ge ''1.10.0'' ''1.9.7'' = Inr True \<and> version_ge ''1.10.0'' ''1.10.0'' = Inr True"
proof -
  have "version_max ''1.9.7'' ''1.10.0'' = Inr ''1.10.0''" by code_simp
  from version_max_upper_bound [OF this] show ?thesis by simp
qed

text \<open>
  What \<open>_parse_version_output\<close> returns occurs in the output it was given and has the
  shape \<^verbatim>\<open>digits.digits.digits\<close>.
\<close>

theorem parse_version_output_sound:
  assumes "parse_version_output text = Inr v"
  shows "contains v text \<and>
    (\<exists>x y z. digit_run x \<and> digit_run y \<and> digit_run z \<and> v = semver_text x y z)"
proof -
  have ne: "re_findall VERSION_TOKEN_RE text \<noteq> []" and v: "v = last (re_findall VERSION_TOKEN_RE text)"
    using assms by (auto simp: parse_version_output_def Let_def split: if_splits)
  then have "v \<in> set (findall_run (Suc (length text)) VERSION_TOKEN_RE [] text)"
    unfolding re_findall_def by simp
  from findall_run_sound [OF this] obtain bef st where
      st: "st \<in> set (rx_run VERSION_TOKEN_RE ([], bef, v @ after st))"
      and "contains v text"
    by blast
  moreover obtain x y z where "moved (semver_text x y z) ([], bef, v @ after st) st"
      "digit_run x" "digit_run y" "digit_run z"
    using version_token_sound [OF st] by blast
  ultimately show ?thesis by (auto simp: moved_def)
qed

theorem parse_version_output_sound_witness:
  "contains ''1.4.0'' ''run.sh 1.4.0''"
proof -
  have "parse_version_output ''run.sh 1.4.0'' = Inr ''1.4.0''" by code_simp
  from parse_version_output_sound [OF this] show ?thesis by blast
qed

end
