(* ===== verification/Domain.thy ===== *)
theory Domain
  imports Semver
begin

text \<open>
  \<^verbatim>\<open>app/domain/command.py\<close>: the command state and its transitions, the whitelist configuration
  with its load-time validators, the request, the response, and the run-time records.
  Field defaults are given where the model builds a value. \<^verbatim>\<open>arguments: Dict[str, Any]\<close> is a
  map to \<open>pyval\<close>, which keeps of a JSON value what \<^verbatim>\<open>str(value)\<close> and \<^verbatim>\<open>is None\<close> see.
\<close>

section \<open>Values of a request\<close>

datatype pyval = PNone | PBool bool | PInt int | PStr string | PRepr string

fun py_str :: "pyval \<Rightarrow> string" where
  "py_str PNone = ''None''"
| "py_str (PBool b) = (if b then ''True'' else ''False'')"
| "py_str (PInt i) = int_str i"
| "py_str (PStr s) = s"
| "py_str (PRepr s) = s"

type_synonym arguments = "string \<Rightarrow> pyval option"

text \<open>\<^verbatim>\<open>arguments.get(name) is None\<close>.\<close>

definition arg_absent :: "arguments \<Rightarrow> string \<Rightarrow> bool" where
  "arg_absent args n = (case args n of None \<Rightarrow> True | Some v \<Rightarrow> v = PNone)"

section \<open>Enumerations\<close>

datatype command_status = RUNNING | KILLING | KILLED | SUCCESS | FAILED

fun status_value :: "command_status \<Rightarrow> string" where
  "status_value RUNNING = ''running''"
| "status_value KILLING = ''killing''"
| "status_value KILLED = ''killed''"
| "status_value SUCCESS = ''success''"
| "status_value FAILED = ''failed''"

text \<open>\<^verbatim>\<open>f"{status}"\<close>: since Python 3.11 the format of a \<^verbatim>\<open>str\<close> enumeration is the class and the member.\<close>

fun status_format :: "command_status \<Rightarrow> string" where
  "status_format RUNNING = ''CommandStatus.RUNNING''"
| "status_format KILLING = ''CommandStatus.KILLING''"
| "status_format KILLED = ''CommandStatus.KILLED''"
| "status_format SUCCESS = ''CommandStatus.SUCCESS''"
| "status_format FAILED = ''CommandStatus.FAILED''"

datatype host_type = IP | BASTION | HOSTNAME | CLUSTER

text \<open>A decoded JSON document; a float is kept as its \<^verbatim>\<open>repr\<close>.\<close>

datatype json = JNull | JBool bool | JNum int | JFloat string | JStr string
  | JArr "json list" | JObj "(string \<times> json) list"

datatype output_format = OF_RAW | OF_JSON

datatype command_output_format = COF_TEXT | COF_JSON

datatype output_json_error = PARSE_FAILED | OUTPUT_UNAVAILABLE | NOT_APPLICABLE

section \<open>SSH config names\<close>

definition FALLBACK_SSH_CONFIG :: string where
  "FALLBACK_SSH_CONFIG = ''default''"

definition ssh_name_char :: "char \<Rightarrow> bool" where
  "ssh_name_char c = (let n = of_char c :: nat in
     (65 \<le> n \<and> n \<le> 90) \<or> (97 \<le> n \<and> n \<le> 122) \<or> (48 \<le> n \<and> n \<le> 57) \<or> c \<in> set ''._-'')"

definition SSH_CONFIG_NAME_RE :: rx where
  "SSH_CONFIG_NAME_RE = rseq [RBol, rplus (RChr ssh_name_char), REol]"

definition is_safe_ssh_config_name :: "string \<Rightarrow> bool" where
  "is_safe_ssh_config_name name \<longleftrightarrow>
     re_match SSH_CONFIG_NAME_RE name \<noteq> None \<and> \<not> contains ''..'' name"

section \<open>The state of a run\<close>

record command_state =
  cs_command_id :: string
  cs_status :: command_status
  cs_output :: "string option"
  cs_exit_code :: "int option"
  cs_message :: "string option"
  cs_run_log_path :: "string option"
  cs_host :: string
  cs_host_type :: host_type
  cs_resolved_ip :: string
  cs_port :: int
  cs_username :: string
  cs_ssh_config :: string
  cs_request_id :: string
  cs_exec_command :: string
  cs_output_format :: command_output_format
  cs_killable :: bool
  cs_pgids :: "int list"

definition is_running :: "command_state \<Rightarrow> bool" where
  "is_running s \<longleftrightarrow> cs_status s = RUNNING"

definition mark_success :: "int \<Rightarrow> string \<Rightarrow> command_state \<Rightarrow> command_state" where
  "mark_success code out s =
     s\<lparr>cs_status := SUCCESS, cs_exit_code := Some code, cs_output := Some out\<rparr>"

definition mark_failed ::
  "string \<Rightarrow> int option \<Rightarrow> string option \<Rightarrow> command_state \<Rightarrow> command_state" where
  "mark_failed msg code out s =
     (let s1 = s\<lparr>cs_status := FAILED, cs_message := Some msg\<rparr>;
          s2 = (if code \<noteq> None then s1\<lparr>cs_exit_code := code\<rparr> else s1)
      in if out \<noteq> None then s2\<lparr>cs_output := out\<rparr> else s2)"

definition mark_killing :: "string \<Rightarrow> command_state \<Rightarrow> command_state" where
  "mark_killing msg s = s\<lparr>cs_status := KILLING, cs_message := Some msg\<rparr>"

definition mark_killed :: "string \<Rightarrow> command_state \<Rightarrow> command_state" where
  "mark_killed msg s = s\<lparr>cs_status := KILLED, cs_message := Some msg\<rparr>"

definition set_pgids :: "int list \<Rightarrow> command_state \<Rightarrow> command_state" where
  "set_pgids ps s = s\<lparr>cs_pgids := ps\<rparr>"

section \<open>Whitelist configuration\<close>

record command_argument_config =
  arg_name :: string
  arg_type :: string
  arg_validation_regex :: string
  arg_required :: bool

record pipeline_step =
  ps_command :: "string list"

record command_whitelist_config =
  cc_command_name :: string
  cc_description :: string
  cc_disconnects_ssh :: bool
  cc_killable :: bool
  cc_logged :: bool
  cc_checks_script_version :: bool
  cc_min_script_version :: "string option"
  cc_output_format :: command_output_format
  cc_pipeline :: "pipeline_step list"
  cc_arguments :: "command_argument_config list"

record user_command_whitelist =
  wl_name :: string
  wl_allow_hosts :: "string list"
  wl_deny_hosts :: "string list"
  wl_allow_commands :: "command_whitelist_config list"

text \<open>
  The validators run when a whitelist file is loaded. The first argument compiles a pattern
  (\<open>None\<close> is \<^verbatim>\<open>re.error\<close>). A validator returns the error message, or \<open>None\<close>; pydantic
  collects the messages of all parts, and runs the validators of a record only when its parts
  are valid.
\<close>

definition compile_config_regex :: "(string \<Rightarrow> rx option) \<Rightarrow> string \<Rightarrow> string \<Rightarrow> exn + rx" where
  "compile_config_regex cre pattern field_label = (case cre pattern of
     None \<Rightarrow> Inl (PyValueError (field_label @ '': invalid regex '' @ pattern))
   | Some r \<Rightarrow> Inr r)"

definition arg_validate_regex ::
  "(string \<Rightarrow> rx option) \<Rightarrow> command_argument_config \<Rightarrow> string option" where
  "arg_validate_regex cre a =
     (if arg_validation_regex a \<noteq> []
      then (case compile_config_regex cre (arg_validation_regex a)
                   (''argument '' @ squoted (arg_name a) @ '' validation_regex'') of
              Inl e \<Rightarrow> Some (exn_str e) | Inr _ \<Rightarrow> None)
      else None)"

definition validate_version_config :: "command_whitelist_config \<Rightarrow> string option" where
  "validate_version_config c =
     (if cc_checks_script_version c
      then (case cc_min_script_version c of
              None \<Rightarrow> Some (''command '' @ squoted (cc_command_name c) @ '': checks_script_version=true requires min_script_version'')
            | Some v \<Rightarrow>
                if v = [] then Some (''command '' @ squoted (cc_command_name c) @ '': checks_script_version=true requires min_script_version'')
                else (case parse_semver v of Inl e \<Rightarrow> Some (exn_str e) | Inr _ \<Rightarrow> None))
      else None)"

definition validate_output_format :: "command_whitelist_config \<Rightarrow> string option" where
  "validate_output_format c =
     (if cc_output_format c \<noteq> COF_JSON then None
      else if cc_logged c then Some (''command '' @ squoted (cc_command_name c) @ '': output_format \"json\" is incompatible with logged=true - a logged command persists no stdout on success (its output lives in the control_node run log; use the /trace or /view endpoints instead)'')
      else if cc_disconnects_ssh c then Some (''command '' @ squoted (cc_command_name c) @ '': output_format \"json\" is incompatible with disconnects_ssh=true - such a command returns no command_id and is never polled'')
      else None)"

definition opt_list :: "'a option \<Rightarrow> 'a list" where
  "opt_list x = (case x of None \<Rightarrow> [] | Some y \<Rightarrow> [y])"

definition command_errors :: "(string \<Rightarrow> rx option) \<Rightarrow> command_whitelist_config \<Rightarrow> string list" where
  "command_errors cre c =
     (let argerrs = concat (map (\<lambda>a. opt_list (arg_validate_regex cre a)) (cc_arguments c))
      in if argerrs \<noteq> [] then argerrs
         else case validate_version_config c of Some e \<Rightarrow> [e]
              | None \<Rightarrow> opt_list (validate_output_format c))"

fun first_bad_pattern :: "(string \<Rightarrow> rx option) \<Rightarrow> string \<Rightarrow> string list \<Rightarrow> string option" where
  "first_bad_pattern cre label [] = None"
| "first_bad_pattern cre label (p # ps) =
     (case compile_config_regex cre p label of
        Inl e \<Rightarrow> Some (exn_str e) | Inr _ \<Rightarrow> first_bad_pattern cre label ps)"

definition validate_host_patterns ::
  "(string \<Rightarrow> rx option) \<Rightarrow> user_command_whitelist \<Rightarrow> string option" where
  "validate_host_patterns cre w =
     (case first_bad_pattern cre ''allow_hosts'' (wl_allow_hosts w) of
        Some e \<Rightarrow> Some e
      | None \<Rightarrow> first_bad_pattern cre ''deny_hosts'' (wl_deny_hosts w))"

definition whitelist_errors ::
  "(string \<Rightarrow> rx option) \<Rightarrow> user_command_whitelist \<Rightarrow> string list" where
  "whitelist_errors cre w =
     (let cmderrs = concat (map (command_errors cre) (wl_allow_commands w))
      in if cmderrs \<noteq> [] then cmderrs else opt_list (validate_host_patterns cre w))"

section \<open>SSH configuration, request and response\<close>

record ssh_connection_config =
  sc_auth_method :: string
  sc_key_base64 :: string
  sc_cert_base64 :: "string option"

record command_option =
  opt_timeout_seconds :: int
  opt_bastion_type :: "string option"
  opt_ip_label :: "string option"

record command_request =
  rq_command_name :: string
  rq_host :: string
  rq_host_type :: host_type
  rq_port :: int
  rq_username :: string
  rq_ssh_config :: string
  rq_option :: "command_option option"
  rq_arguments :: arguments
  rq_min_script_version :: "string option"

text \<open>The request validators; \<open>None\<close> accepts (a message is a 422 of the framework).\<close>

definition request_error :: "command_request \<Rightarrow> string option" where
  "request_error r =
     (if \<not> is_safe_ssh_config_name (rq_ssh_config r)
      then Some (''ssh_config must contain only letters, digits, '' @ squoted ''.'' @ '', '' @ squoted ''_'' @ '' or '' @ squoted ''-'' @ '' and must not contain '' @ squoted ''..'')
      else case rq_min_script_version r of None \<Rightarrow> None
           | Some v \<Rightarrow> (case parse_semver v of Inl e \<Rightarrow> Some (exn_str e) | Inr _ \<Rightarrow> None))"

record command_response =
  rs_command_id :: "string option"
  rs_status :: string
  rs_message :: string
  rs_exit_status :: "int option"
  rs_output :: "string option"
  rs_exec_command :: "string option"
  rs_host_type :: "host_type option"
  rs_resolved_ip :: "string option"
  rs_ssh_config :: "string option"
  rs_pgids :: "int list"
  rs_output_json :: "json option"
  rs_output_json_error :: "output_json_error option"

text \<open>A response with every other field at its default. The parsed document \<^verbatim>\<open>null\<close> is \<^verbatim>\<open>None\<close> in
  Python, so \<open>rs_output_json\<close> is never \<open>Some JNull\<close>.\<close>

definition response :: "string \<Rightarrow> command_response" where
  "response st = \<lparr>rs_command_id = None, rs_status = st, rs_message = [], rs_exit_status = None,
     rs_output = None, rs_exec_command = None, rs_host_type = None, rs_resolved_ip = None,
     rs_ssh_config = None, rs_pgids = [], rs_output_json = None, rs_output_json_error = None\<rparr>"

definition response_failed ::
  "string \<Rightarrow> int option \<Rightarrow> string option \<Rightarrow> string option \<Rightarrow> command_response" where
  "response_failed msg code out cid =
     (response (status_value FAILED))\<lparr>rs_message := msg, rs_exit_status := code, rs_output := out,
        rs_command_id := cid\<rparr>"

definition response_success :: "string \<Rightarrow> int \<Rightarrow> string \<Rightarrow> command_response" where
  "response_success cid code out =
     (response (status_value SUCCESS))\<lparr>rs_command_id := Some cid, rs_exit_status := Some code,
        rs_output := Some out\<rparr>"

section \<open>Run-time records\<close>

text \<open>A connection or a process is an object identity: a real asyncssh object or a dry-run
  stand-in.\<close>

datatype conn = RealConn nat | DryConn nat

datatype proc = RealProc nat | DryProc nat

record running_entry =
  en_host_ip :: string
  en_killable :: bool
  en_conn :: "conn option"
  en_processes :: "proc list"
  en_pgids :: "int list"

record resolved_host =
  rh_ip :: string
  rh_source_input :: string
  rh_metadata :: "(string \<times> string) list"
  rh_bastion_name :: "string option"

record execution_context =
  cx_username :: string
  cx_request_id :: string
  cx_command_name :: string
  cx_raw_request :: command_request
  cx_cmd_config :: command_whitelist_config
  cx_ssh_config :: ssh_connection_config
  cx_resolved_host :: resolved_host
  cx_conn :: "conn option"
  cx_pipeline_cmds :: "string list list"
  cx_run_id :: "string option"
  cx_run_log_path :: "string option"
  cx_effective_ssh_config :: string

section \<open>Lemmas\<close>

lemmas mark_defs = mark_success_def mark_failed_def mark_killing_def mark_killed_def set_pgids_def

lemma mark_status [simp]:
  "cs_status (mark_success c out s) = SUCCESS"
  "cs_status (mark_failed m fc fo s) = FAILED"
  "cs_status (mark_killing m s) = KILLING"
  "cs_status (mark_killed m s) = KILLED"
  "cs_status (set_pgids ps s) = cs_status s"
  by (simp_all add: mark_defs Let_def)

lemma mark_id [simp]:
  "cs_command_id (mark_success c out s) = cs_command_id s"
  "cs_command_id (mark_failed m fc fo s) = cs_command_id s"
  "cs_command_id (mark_killing m s) = cs_command_id s"
  "cs_command_id (mark_killed m s) = cs_command_id s"
  "cs_command_id (set_pgids ps s) = cs_command_id s"
  by (simp_all add: mark_defs Let_def)

lemma ssh_name_match:
  "re_match SSH_CONFIG_NAME_RE s \<noteq> None \<longleftrightarrow>
     (\<exists>w. w \<noteq> [] \<and> (\<forall>c \<in> set w. ssh_name_char c) \<and> (s = w \<or> s = w @ [CHR 0x0A]))"
proof
  let ?s0 = "([], [], s) :: mstate"
  assume "re_match SSH_CONFIG_NAME_RE s \<noteq> None"
  then obtain t where "t \<in> set (rx_run SSH_CONFIG_NAME_RE ?s0)"
    by (cases "rx_run SSH_CONFIG_NAME_RE ?s0") (auto simp: re_match_def)
  moreover have bol: "set (rx_run RBol ?s0) = {?s0}" by simp
  ultimately obtain b where b0: "b \<in> set (rx_run (rplus (RChr ssh_name_char)) ?s0)"
      and t: "t \<in> set (rx_run REol b)"
    unfolding SSH_CONFIG_NAME_RE_def rseq.simps seq_member bol by blast
  from b0 obtain a where a: "a \<in> set (chr_run ssh_name_char ?s0)"
      and b: "b \<in> set (star_run (length (after a)) (chr_run ssh_name_char) a)"
    unfolding rplus_def seq_member rx_run_RChr rx_run.simps(5) by blast
  from a obtain c where c: "ssh_name_char c" "moved [c] ?s0 a" by (auto simp only: chr_run_iff)
  from b obtain w where w: "moved w a b" "\<forall>x \<in> set w. ssh_name_char x" using star_chr_sound by blast
  have "moved ([c] @ w) ?s0 b" using c(2) w(1) by (rule moved_trans)
  then have "s = ([c] @ w) @ after b" by (simp add: moved_def)
  moreover have "after b = [] \<or> after b = [CHR 0x0A]" using t by (auto split: if_splits)
  ultimately show "\<exists>w. w \<noteq> [] \<and> (\<forall>c \<in> set w. ssh_name_char c) \<and> (s = w \<or> s = w @ [CHR 0x0A])"
    using c w by (intro exI [of _ "[c] @ w"]) auto
next
  assume "\<exists>w. w \<noteq> [] \<and> (\<forall>c \<in> set w. ssh_name_char c) \<and> (s = w \<or> s = w @ [CHR 0x0A])"
  then obtain c w nl where w: "ssh_name_char c" "\<forall>x \<in> set w. ssh_name_char x"
      "s = c # w @ nl" "nl = [] \<or> nl = [CHR 0x0A]"
    by (metis append_Cons append_Nil2 list.exhaust list.set_intros(1) list.set_intros(2))
  let ?s0 = "([], [], s) :: mstate"
  let ?s1 = "([], [c], w @ nl) :: mstate"
  let ?s2 = "([], rev w @ [c], nl) :: mstate"
  have 1: "?s1 \<in> set (rx_run (RChr ssh_name_char) ?s0)" using w by (simp add: chr_run_def)
  have 2: "?s2 \<in> set (rx_run (RStar (RChr ssh_name_char)) ?s1)"
    using star_chr_complete [of w ssh_name_char "length (w @ nl)" "[]" "[c]" nl] w by simp
  have 3: "?s2 \<in> set (rx_run REol ?s2)" using w by auto
  have 0: "?s0 \<in> set (rx_run RBol ?s0)" by simp
  have 4: "?s2 \<in> set (rx_run (rplus (RChr ssh_name_char)) ?s0)"
    unfolding rplus_def seq_member using 1 2 by blast
  have "?s2 \<in> set (rx_run SSH_CONFIG_NAME_RE ?s0)"
    unfolding SSH_CONFIG_NAME_RE_def rseq.simps seq_member using 0 3 4 by blast
  then show "re_match SSH_CONFIG_NAME_RE s \<noteq> None"
    by (cases "rx_run SSH_CONFIG_NAME_RE ?s0") (auto simp: re_match_def)
qed

lemma ssh_name_char_slash: "\<not> ssh_name_char (CHR ''/'')" and
  ssh_name_char_nul: "\<not> ssh_name_char (CHR 0x00)"
  by code_simp+

end
