(* ===== verification/Shlex.thy ===== *)
theory Shlex
  imports PyStr
begin

text \<open>
  How a command line reaches the remote shell: \<^verbatim>\<open>shlex.quote\<close> and \<^verbatim>\<open>shlex.join\<close> (Python
  standard library), and the step wrapper of \<^verbatim>\<open>CommandExecutor._build_step_wrapper\<close>. The
  specification side is \<open>sh_words\<close>, the word splitting of a POSIX shell restricted to quoting: it
  answers \<open>None\<close> as soon as it meets a character with a special meaning that is not quoted.
\<close>

section \<open>Quoting\<close>

text \<open>The complement of \<^verbatim>\<open>[^\w@%+=:,./-]\<close> with \<^verbatim>\<open>re.ASCII\<close>.\<close>

definition is_safe_char :: "char \<Rightarrow> bool" where
  "is_safe_char c = (let n = of_char c :: nat in
     (48 \<le> n \<and> n \<le> 57) \<or> (65 \<le> n \<and> n \<le> 90) \<or> n = 95 \<or> (97 \<le> n \<and> n \<le> 122)
     \<or> c \<in> set ''@%+=:,./-'')"

fun escape_quotes :: "string \<Rightarrow> string" where
  "escape_quotes [] = []"
| "escape_quotes (c # cs) =
     (if c = CHR 0x27 then [CHR 0x27, CHR 0x22, CHR 0x27, CHR 0x22, CHR 0x27] @ escape_quotes cs
      else c # escape_quotes cs)"

definition shlex_quote :: "string \<Rightarrow> string" where
  "shlex_quote s =
     (if s = [] then [CHR 0x27, CHR 0x27]
      else if list_all is_safe_char s then s
      else CHR 0x27 # escape_quotes s @ [CHR 0x27])"

definition shlex_join :: "string list \<Rightarrow> string" where
  "shlex_join args = join '' '' (map shlex_quote args)"

section \<open>What the shell reads\<close>

datatype sh_mode = Plain | SQuote | DQuote

definition dquote_special :: "char \<Rightarrow> bool" where
  "dquote_special c \<longleftrightarrow> c = CHR ''$'' \<or> c = CHR 0x60 \<or> c = CHR 0x5C"

definition cur :: "string option \<Rightarrow> string" where
  "cur w = (case w of None \<Rightarrow> [] | Some x \<Rightarrow> x)"

fun sh_words :: "sh_mode \<Rightarrow> string option \<Rightarrow> string \<Rightarrow> string list option" where
  "sh_words Plain w [] = Some (case w of None \<Rightarrow> [] | Some x \<Rightarrow> [x])"
| "sh_words SQuote w [] = None"
| "sh_words DQuote w [] = None"
| "sh_words Plain w (c # cs) =
     (if c = CHR '' '' then
        (case w of None \<Rightarrow> sh_words Plain None cs
         | Some x \<Rightarrow> map_option (Cons x) (sh_words Plain None cs))
      else if c = CHR 0x27 then sh_words SQuote (Some (cur w)) cs
      else if c = CHR 0x22 then sh_words DQuote (Some (cur w)) cs
      else if is_safe_char c then sh_words Plain (Some (cur w @ [c])) cs
      else None)"
| "sh_words SQuote w (c # cs) =
     (if c = CHR 0x27 then sh_words Plain (Some (cur w)) cs
      else sh_words SQuote (Some (cur w @ [c])) cs)"
| "sh_words DQuote w (c # cs) =
     (if c = CHR 0x22 then sh_words Plain (Some (cur w)) cs
      else if dquote_special c then None
      else sh_words DQuote (Some (cur w @ [c])) cs)"

definition sh_split :: "string \<Rightarrow> string list option" where
  "sh_split s = sh_words Plain None s"

section \<open>The step wrapper\<close>

definition wrapper_script :: "bool \<Rightarrow> string" where
  "wrapper_script detached =
     (if detached
      then ''echo $$ >&2; echo READY >&2; exec \"$@\" > /dev/null 2>&1 < /dev/null''
      else ''echo $$ >&2; exec \"$@\"'')"

text \<open>An empty path counts as no path (\<^verbatim>\<open>if not run_log_path\<close>).\<close>

definition build_step_wrapper :: "string option \<Rightarrow> string list" where
  "build_step_wrapper run_log_path =
     (if run_log_path = None \<or> run_log_path = Some []
      then [''setsid'', ''-w'', ''sh'', ''-c'', wrapper_script False, ''_'']
      else [''setsid'', ''-w'', ''sh'', ''-c'', wrapper_script True, ''_''])"

section \<open>Lemmas\<close>

lemma cur_simps [simp]: "cur None = []" "cur (Some x) = x"
  by (simp_all add: cur_def)

lemma safe_not_quote [simp]:
  "\<not> is_safe_char (CHR 0x27)" "\<not> is_safe_char (CHR 0x22)" "\<not> is_safe_char (CHR '' '')"
  by code_simp+

lemma safe_not_special: "is_safe_char c \<Longrightarrow> c \<noteq> CHR '' '' \<and> c \<noteq> CHR 0x27 \<and> c \<noteq> CHR 0x22"
  by auto

lemma sh_words_safe:
  "list_all is_safe_char s \<Longrightarrow> s \<noteq> [] \<Longrightarrow>
     sh_words Plain w (s @ rest) = sh_words Plain (Some (cur w @ s)) rest"
proof (induction s arbitrary: w)
  case Nil
  then show ?case by simp
next
  case (Cons c s)
  have "sh_words Plain w (c # s @ rest) = sh_words Plain (Some (cur w @ [c])) (s @ rest)"
    using Cons.prems safe_not_special by auto
  then show ?case using Cons by (cases s) auto
qed

lemma sh_words_escaped:
  "sh_words SQuote (Some w) (escape_quotes s @ CHR 0x27 # rest) = sh_words Plain (Some (w @ s)) rest"
proof (induction s arbitrary: w)
  case Nil
  then show ?case by simp
next
  case (Cons c s)
  then show ?case by (cases "c = CHR 0x27") (auto simp: dquote_special_def)
qed

lemma sh_words_quote:
  "sh_words Plain None (shlex_quote s @ rest) = sh_words Plain (Some s) rest"
  using sh_words_safe [of s None rest] sh_words_escaped [of "[]" s rest]
  by (simp add: shlex_quote_def)

lemma sh_words_join: "sh_words Plain None (join '' '' (map shlex_quote args)) = Some args"
proof (induction args)
  case Nil
  then show ?case by simp
next
  case (Cons a args)
  show ?case
  proof (cases args)
    case Nil
    then show ?thesis using sh_words_quote [of a "[]"] by simp
  next
    case (Cons b bs)
    then show ?thesis using Cons.IH by (simp add: sh_words_quote join_Cons)
  qed
qed

section \<open>Properties\<close>


end
