(* ===== verification/DryRunSsh.thy ===== *)
theory DryRunSsh
  imports Domain Shlex
begin

text \<open>
  \<^verbatim>\<open>app/repositories/dry_run_ssh_connection.py\<close>: the stand-in for an asyncssh connection and its
  processes. An object is a record; a method returns the new object. Seconds are integers.
\<close>

section \<open>Results, streams, processes\<close>

text \<open>What \<^verbatim>\<open>conn.run\<close> returns. A stream is \<^verbatim>\<open>str | None\<close>; connections are opened without an
  \<^verbatim>\<open>encoding\<close> option, so asyncssh decodes and no \<^verbatim>\<open>bytes\<close> reach the program.\<close>

record completed =
  cp_stdout :: "string option"
  cp_stderr :: "string option"
  cp_exit_status :: "int option"

record dry_proc =
  dp_command :: string
  dp_returncode :: int
  dp_stderr_lines :: "string list"
  dp_stdout_body :: string
  dp_run_seconds :: int

record dry_conn =
  dc_closes_after_run :: bool
  dc_stdout_body :: string
  dc_exit_status :: int
  dc_stderr_lines :: "string list option"
  dc_run_seconds :: int
  dc_closed :: bool

definition DRY_RUN_PGID :: int where
  "DRY_RUN_PGID = 999001"

definition nl :: string where
  "nl = [CHR 0x0A]"

definition DRY_RUN_STDOUT :: string where
  "DRY_RUN_STDOUT = ''[dry-run] command was not executed on any host'' @ nl"

definition READY :: string where
  "READY = ''READY''"

definition DRY_RUN_LOG_BODY :: string where
  "DRY_RUN_LOG_BODY =
     ''[dry-run] this log was generated by deploy-service in DRY_RUN_MODE'' @ nl
     @ ''[dry-run] no playbook was executed and no host was contacted'' @ nl
     @ ''[dry-run] run complete'' @ nl"

text \<open>\<^verbatim>\<open>command.split("+", 1)[1].split(None, 1)[0]\<close>, then \<^verbatim>\<open>int\<close>; a missing part or an
  unparseable number is offset 0.\<close>

definition parse_tail_offset :: "string \<Rightarrow> int" where
  "parse_tail_offset command =
     (case dropWhile (\<lambda>c. c \<noteq> CHR ''+'') command of
        [] \<Rightarrow> 0
      | _ # rest \<Rightarrow>
          (case takeWhile (\<lambda>c. \<not> is_space c) (lstrip rest) of
             [] \<Rightarrow> 0
           | tok \<Rightarrow> (case py_int tok of None \<Rightarrow> 0 | Some start \<Rightarrow> max 0 (start - 1))))"

definition dry_result :: "string \<Rightarrow> int \<Rightarrow> completed" where
  "dry_result out code = \<lparr>cp_stdout = Some out, cp_stderr = Some [], cp_exit_status = Some code\<rparr>"

definition new_dry_conn :: "bool \<Rightarrow> int \<Rightarrow> dry_conn" where
  "new_dry_conn closes secs = \<lparr>dc_closes_after_run = closes, dc_stdout_body = DRY_RUN_STDOUT,
     dc_exit_status = 0, dc_stderr_lines = None, dc_run_seconds = secs, dc_closed = False\<rparr>"

text \<open>\<^verbatim>\<open>DryRunSSHConnection.run\<close>.\<close>

definition dry_run :: "string \<Rightarrow> dry_conn \<Rightarrow> completed \<times> dry_conn" where
  "dry_run command c =
     (if contains ''--version'' command then (dry_result (''999.0.0'' @ nl) 0, c)
      else if prefix ''kill -0 '' command then (dry_result [] 1, c)
      else if prefix ''stat -c %s '' command
        then (dry_result (nat_str (length DRY_RUN_LOG_BODY) @ nl) 0, c)
      else if prefix ''tail -c +'' command
        then (dry_result (drop (nat (parse_tail_offset command)) DRY_RUN_LOG_BODY) 0, c)
      else if prefix ''tail -n '' command then (dry_result DRY_RUN_LOG_BODY 0, c)
      else (dry_result (dc_stdout_body c) (dc_exit_status c),
            if dc_closes_after_run c then c\<lparr>dc_closed := True\<rparr> else c))"

definition is_detached :: "string \<Rightarrow> bool" where
  "is_detached command \<longleftrightarrow> contains (''echo '' @ READY @ '' >&2'') command"

definition dry_create_process :: "string \<Rightarrow> dry_conn \<Rightarrow> dry_proc" where
  "dry_create_process command c =
     (let pgid = int_str DRY_RUN_PGID @ nl;
          lines = (case dc_stderr_lines c of Some ls \<Rightarrow> ls
                   | None \<Rightarrow> [pgid] @ (if is_detached command then [READY @ nl] else []))
      in \<lparr>dp_command = command, dp_returncode = dc_exit_status c,
          dp_stderr_lines = (if lines = [] then [pgid] else lines),
          dp_stdout_body = dc_stdout_body c, dp_run_seconds = dc_run_seconds c\<rparr>)"

definition dry_readline :: "dry_proc \<Rightarrow> string \<times> dry_proc" where
  "dry_readline p = (case dp_stderr_lines p of [] \<Rightarrow> ([], p)
     | l # ls \<Rightarrow> (l, p\<lparr>dp_stderr_lines := ls\<rparr>))"

definition dry_communicate :: "dry_proc \<Rightarrow> string \<times> string" where
  "dry_communicate p = (dp_stdout_body p, [])"

definition dry_close :: "dry_conn \<Rightarrow> dry_conn" where
  "dry_close c = c\<lparr>dc_closed := True\<rparr>"

section \<open>The handshake\<close>

lemma contains_append_left: "contains p s \<Longrightarrow> contains p (u @ s)"
  by (metis append.assoc contains_iff)

lemma contains_append_right: "contains p s \<Longrightarrow> contains p (s @ u)"
  by (metis append.assoc contains_iff)

lemma escape_id: "CHR 0x27 \<notin> set s \<Longrightarrow> escape_quotes s = s"
  by (induction s) auto

lemma wrapper_detached_text: "contains (''echo '' @ READY @ '' >&2'') (shlex_quote (wrapper_script True))"
proof -
  have q: "CHR 0x27 \<notin> set (wrapper_script True)" by (simp add: wrapper_script_def)
  have "contains (''echo '' @ READY @ '' >&2'') (wrapper_script True)"
    by (simp add: wrapper_script_def READY_def)
  then show ?thesis
    unfolding shlex_quote_def escape_id [OF q]
    by (auto intro!: contains_append_left [of _ _ "[CHR 0x27]", simplified] contains_append_right)
qed

lemma contains_join: "x \<in> set xs \<Longrightarrow> contains p x \<Longrightarrow> contains p (join sep xs)"
proof (induction xs)
  case Nil
  then show ?case by simp
next
  case (Cons y xs)
  show ?case
  proof (cases "xs = []")
    case True
    with Cons show ?thesis by simp
  next
    case False
    with Cons show ?thesis
      by (auto simp: join_Cons intro: contains_append_left contains_append_right)
  qed
qed

lemma detached_wrapper:
  "path \<noteq> None \<Longrightarrow> path \<noteq> Some [] \<Longrightarrow>
     is_detached (shlex_join (build_step_wrapper path @ args))"
proof -
  assume "path \<noteq> None" "path \<noteq> Some []"
  then have "wrapper_script True \<in> set (build_step_wrapper path @ args)"
    by (auto simp: build_step_wrapper_def)
  then have "shlex_quote (wrapper_script True) \<in> set (map shlex_quote (build_step_wrapper path @ args))"
    unfolding set_map by (rule imageI)
  then show ?thesis
    unfolding is_detached_def shlex_join_def by (rule contains_join [OF _ wrapper_detached_text])
qed

end
