(* ===== verification/Env.thy ===== *)
theory Env
  imports DryRunSsh
begin

text \<open>
  The surroundings of the program.
  \<^item> \<open>settings\<close>: the fields of \<^verbatim>\<open>app/core/config.py\<close> the modelled code reads.
  \<^item> \<open>env\<close>: everything that is not code of the repository, as functions on an abstract external
    state \<open>'e\<close>: Redis (with serialised records \<open>'d\<close>), the file system, asyncssh, the compiler
    of configured patterns, credentials, UUIDs and sleeping. Any of these calls may raise.
  \<^item> \<open>pod\<close>: the state of one process: the pool of running commands
    (\<^verbatim>\<open>command_pool._local_running_commands\<close>, in insertion order), the dry-run objects it made,
    the background tasks it created, and the external state.
\<close>

record settings =
  COMMAND_CONFIG_DIR :: string
  SSH_CONFIG_DIR :: string
  COMMAND_DEFAULT_TIMEOUT :: int
  COMMAND_KILL_GRACE_SECONDS :: int
  COMMAND_MAX_CONCURRENCY :: int
  COMMAND_MAX_RUNNING :: int
  SSH_CONNECT_TIMEOUT_SECONDS :: int
  COMMAND_LOG_DIR :: string
  COMMAND_LOG_SOFT_CAP_BYTES :: int
  COMMAND_LOG_HARD_CAP_BYTES :: int
  COMMAND_LOG_FAILURE_TAIL_LINES :: int
  BASTION_NODE_TYPE_MAP :: "(string \<times> string) list"
  INVENTORY_IP_LABEL :: string
  CLUSTER_SLASH_TYPE_MAP :: "(string \<times> string) list"
  COMMAND_RESULT_TTL_SECONDS :: int
  DRY_RUN_MODE :: bool
  DRY_RUN_COMMAND_SECONDS :: int

datatype credentials = KeyCred string | CertCred string string

record ('e, 'd) env =
  env_settings :: settings
  redis_get :: "string \<Rightarrow> ('e, 'd option) io"
  redis_setex :: "string \<Rightarrow> int \<Rightarrow> 'd \<Rightarrow> ('e, unit) io"
  redis_scan :: "string \<Rightarrow> ('e, string list) io"
  data_empty :: "'d \<Rightarrow> bool"
  dump_state :: "command_state \<Rightarrow> 'd"
  load_state :: "'d \<Rightarrow> command_state option"
  path_exists :: "string \<Rightarrow> 'e \<Rightarrow> bool"
  read_whitelist :: "string \<Rightarrow> ('e, user_command_whitelist) io"
  read_ssh_config :: "string \<Rightarrow> ('e, ssh_connection_config) io"
  compile_regex :: "string \<Rightarrow> rx option"
  b64_text :: "string \<Rightarrow> exn + string"
  import_private_key :: "string \<Rightarrow> exn + string"
  import_certificate :: "string \<Rightarrow> exn + string"
  ssh_connect :: "string \<Rightarrow> int \<Rightarrow> string \<Rightarrow> credentials \<Rightarrow> int \<Rightarrow> ('e, nat) io"
  ssh_run :: "nat \<Rightarrow> string \<Rightarrow> ('e, completed) io"
  ssh_create_process :: "nat \<Rightarrow> string \<Rightarrow> proc option \<Rightarrow> ('e, nat) io"
  ssh_is_closed :: "nat \<Rightarrow> ('e, bool) io"
  ssh_close :: "nat \<Rightarrow> ('e, unit) io"
  proc_readline :: "nat \<Rightarrow> ('e, string) io"
  proc_wait :: "nat \<Rightarrow> ('e, unit) io"
  proc_communicate :: "nat \<Rightarrow> ('e, string option \<times> string option) io"
  proc_returncode :: "nat \<Rightarrow> ('e, int option) io"
  new_uuid :: "('e, string) io"
  sleep :: "int \<Rightarrow> ('e, unit) io"

record 'e pod =
  pod_pool :: "(string \<times> running_entry) list"
  pod_dry_conns :: "dry_conn list"
  pod_dry_procs :: "dry_proc list"
  pod_tasks :: "string list"
  pod_world :: 'e

definition ext :: "('e, 'a) io \<Rightarrow> ('e pod, 'a) io" where
  "ext m = (\<lambda>p. case m (pod_world p) of (r, e) \<Rightarrow> (r, p\<lparr>pod_world := e\<rparr>))"

lemma ext_run [io_run]: "ext m p = (case m (pod_world p) of (r, e) \<Rightarrow> (r, p\<lparr>pod_world := e\<rparr>))"
  by (simp add: ext_def)

text \<open>\<^verbatim>\<open>os.path.join\<close> of a directory and a name.\<close>

definition os_path_join :: "string \<Rightarrow> string \<Rightarrow> string" where
  "os_path_join a b =
     (if prefix ''/'' b then b else if a = [] \<or> endswith a ''/'' then a @ b else a @ ''/'' @ b)"

section \<open>Methods of connection and process objects\<close>

text \<open>A dry-run object that does not exist cannot be named by the program; the last branch of each
  dispatch is never taken.\<close>

definition no_object :: exn where
  "no_object = PyOther ''no such object''"

fun conn_run :: "('e, 'd) env \<Rightarrow> conn \<Rightarrow> string \<Rightarrow> ('e pod, completed) io" where
  "conn_run env (RealConn n) cmd = ext (ssh_run env n cmd)"
| "conn_run env (DryConn i) cmd = (\<lambda>p.
     if i < length (pod_dry_conns p)
     then (case dry_run cmd (pod_dry_conns p ! i) of
             (r, c) \<Rightarrow> (Inr r, p\<lparr>pod_dry_conns := (pod_dry_conns p)[i := c]\<rparr>))
     else (Inl no_object, p))"

fun conn_is_closed :: "('e, 'd) env \<Rightarrow> conn \<Rightarrow> ('e pod, bool) io" where
  "conn_is_closed env (RealConn n) = ext (ssh_is_closed env n)"
| "conn_is_closed env (DryConn i) = (\<lambda>p.
     if i < length (pod_dry_conns p) then (Inr (dc_closed (pod_dry_conns p ! i)), p)
     else (Inl no_object, p))"

fun conn_close :: "('e, 'd) env \<Rightarrow> conn \<Rightarrow> ('e pod, unit) io" where
  "conn_close env (RealConn n) = ext (ssh_close env n)"
| "conn_close env (DryConn i) = (\<lambda>p.
     if i < length (pod_dry_conns p)
     then (Inr (), p\<lparr>pod_dry_conns := (pod_dry_conns p)[i := dry_close (pod_dry_conns p ! i)]\<rparr>)
     else (Inl no_object, p))"

fun conn_create_process :: "('e, 'd) env \<Rightarrow> conn \<Rightarrow> string \<Rightarrow> proc option \<Rightarrow> ('e pod, proc) io" where
  "conn_create_process env (RealConn n) cmd stdin =
     bindE (ext (ssh_create_process env n cmd stdin)) (\<lambda>k. ret (RealProc k))"
| "conn_create_process env (DryConn i) cmd stdin = (\<lambda>p.
     if i < length (pod_dry_conns p)
     then (Inr (DryProc (length (pod_dry_procs p))),
           p\<lparr>pod_dry_procs := pod_dry_procs p @ [dry_create_process cmd (pod_dry_conns p ! i)]\<rparr>)
     else (Inl no_object, p))"

fun stderr_readline :: "('e, 'd) env \<Rightarrow> proc \<Rightarrow> ('e pod, string) io" where
  "stderr_readline env (RealProc k) = ext (proc_readline env k)"
| "stderr_readline env (DryProc i) = (\<lambda>p.
     if i < length (pod_dry_procs p)
     then (case dry_readline (pod_dry_procs p ! i) of
             (l, q) \<Rightarrow> (Inr l, p\<lparr>pod_dry_procs := (pod_dry_procs p)[i := q]\<rparr>))
     else (Inl no_object, p))"

fun process_wait :: "('e, 'd) env \<Rightarrow> proc \<Rightarrow> ('e pod, unit) io" where
  "process_wait env (RealProc k) = ext (proc_wait env k)"
| "process_wait env (DryProc i) = ret ()"

fun communicate :: "('e, 'd) env \<Rightarrow> proc \<Rightarrow> ('e pod, string option \<times> string option) io" where
  "communicate env (RealProc k) = ext (proc_communicate env k)"
| "communicate env (DryProc i) = (\<lambda>p.
     if i < length (pod_dry_procs p)
     then (let q = pod_dry_procs p ! i
           in thenE (if dp_run_seconds q \<noteq> 0 then ext (sleep env (dp_run_seconds q)) else ret ())
                    (ret (case dry_communicate q of (o', e') \<Rightarrow> (Some o', Some e'))) p)
     else (Inl no_object, p))"

fun returncode :: "('e, 'd) env \<Rightarrow> proc \<Rightarrow> ('e pod, int option) io" where
  "returncode env (RealProc k) = ext (proc_returncode env k)"
| "returncode env (DryProc i) = (\<lambda>p.
     if i < length (pod_dry_procs p) then (Inr (Some (dp_returncode (pod_dry_procs p ! i))), p)
     else (Inl no_object, p))"

definition make_dry_conn :: "bool \<Rightarrow> int \<Rightarrow> ('e pod, conn) io" where
  "make_dry_conn closes secs = (\<lambda>p.
     (Inr (DryConn (length (pod_dry_conns p))),
      p\<lparr>pod_dry_conns := pod_dry_conns p @ [new_dry_conn closes secs]\<rparr>))"

section \<open>The command pool\<close>

text \<open>\<^verbatim>\<open>app/services/command_pool.py\<close>: a dictionary keeps the position of a key that is set
  again.\<close>

fun alist_set :: "'k \<Rightarrow> 'v \<Rightarrow> ('k \<times> 'v) list \<Rightarrow> ('k \<times> 'v) list" where
  "alist_set k v [] = [(k, v)]"
| "alist_set k v ((k', v') # xs) = (if k' = k then (k, v) # xs else (k', v') # alist_set k v xs)"

definition pool_add :: "string \<Rightarrow> running_entry \<Rightarrow> ('e pod, unit) io" where
  "pool_add cid en = modifyS (\<lambda>p. p\<lparr>pod_pool := alist_set cid en (pod_pool p)\<rparr>)"

definition pool_get :: "string \<Rightarrow> ('e pod, running_entry option) io" where
  "pool_get cid = getS (\<lambda>p. map_of (pod_pool p) cid)"

definition pool_remove :: "string \<Rightarrow> ('e pod, unit) io" where
  "pool_remove cid = modifyS (\<lambda>p. p\<lparr>pod_pool := filter (\<lambda>(k, _). k \<noteq> cid) (pod_pool p)\<rparr>)"

definition pool_size :: "('e pod, int) io" where
  "pool_size = getS (\<lambda>p. int (length (pod_pool p)))"

definition pool_command_ids :: "('e pod, string list) io" where
  "pool_command_ids = getS (\<lambda>p. map fst (pod_pool p))"

lemmas pool_run [io_run] = pool_add_def pool_get_def pool_remove_def pool_size_def pool_command_ids_def

lemma alist_set_lookup [simp]: "map_of (alist_set k v xs) k' = (if k' = k then Some v else map_of xs k')"
  by (induction xs) auto

lemma alist_set_keys: "fst ` set (alist_set k v xs) = insert k (fst ` set xs)"
proof (induction xs)
  case (Cons x xs)
  then show ?case by (cases x) (simp add: insert_commute)
qed simp

lemma alist_set_distinct: "distinct (map fst xs) \<Longrightarrow> distinct (map fst (alist_set k v xs))"
proof (induction xs)
  case (Cons x xs)
  have "fst ` set (alist_set k v xs) = insert k (fst ` set xs)" by (rule alist_set_keys)
  with Cons show ?case by (cases x) auto
qed simp

lemma pool_remove_lookup:
  "map_of (filter (\<lambda>(k, _). k \<noteq> cid) xs) k' = (if k' = cid then None else map_of xs k')"
  by (induction xs) auto

end
