(* ===== verification/StateRepo.thy ===== *)
theory StateRepo
  imports Env
begin

text \<open>
  \<^verbatim>\<open>app/repositories/command_state_repository.py\<close>. Redis is a parameter; \<open>redis_ok env kv\<close>
  states what the code relies on: \<open>kv\<close> reads the stored bytes off the external state,
  \<^verbatim>\<open>GET\<close> answers them, \<^verbatim>\<open>SETEX\<close> with a positive time to live replaces one key and with
  another raises, \<^verbatim>\<open>SCAN\<close> answers the keys that match, and the JSON codec of the record is
  lossless. \<open>command_store\<close> is the interface the other components use.
\<close>

section \<open>The repository\<close>

definition state_key :: "string \<Rightarrow> string" where
  "state_key command_id = ''command'' @ '':'' @ command_id"

definition repo_save :: "('e, 'd) env \<Rightarrow> command_state \<Rightarrow> int \<Rightarrow> ('e pod, unit) io" where
  "repo_save env st ttl_seconds =
     ext (redis_setex env (state_key (cs_command_id st)) ttl_seconds (dump_state env st))"

definition repo_get :: "('e, 'd) env \<Rightarrow> string \<Rightarrow> ('e pod, command_state) io" where
  "repo_get env command_id =
     bindE (ext (redis_get env (state_key command_id))) (\<lambda>data.
       case data of
         None \<Rightarrow> raise (AppExc CommandExecution
                   (''Execution record '' @ command_id @ '' not found in Redis.''))
       | Some d \<Rightarrow>
           if data_empty env d
           then raise (AppExc CommandExecution
                  (''Execution record '' @ command_id @ '' not found in Redis.''))
           else (case load_state env d of
                   None \<Rightarrow> raise (AppExc CommandExecution
                             (''Invalid record format for '' @ command_id @ ''.''))
                 | Some st \<Rightarrow> ret st))"

text \<open>\<^verbatim>\<open>update\<close> and \<^verbatim>\<open>update_if\<close> over any \<^verbatim>\<open>get\<close> and \<^verbatim>\<open>save\<close>: two awaited calls, not one
  atomic step. Every updater of the program is a pure change of the record.\<close>

definition update_with ::
  "(string \<Rightarrow> ('s, command_state) io) \<Rightarrow> (command_state \<Rightarrow> int \<Rightarrow> ('s, unit) io)
   \<Rightarrow> string \<Rightarrow> (command_state \<Rightarrow> command_state) \<Rightarrow> int \<Rightarrow> ('s, unit) io" where
  "update_with get save command_id updater ttl_seconds =
     bindE (get command_id) (\<lambda>st. save (updater st) ttl_seconds)"

definition update_if_with ::
  "(string \<Rightarrow> ('s, command_state) io) \<Rightarrow> (command_state \<Rightarrow> int \<Rightarrow> ('s, unit) io)
   \<Rightarrow> string \<Rightarrow> (command_state \<Rightarrow> bool) \<Rightarrow> (command_state \<Rightarrow> command_state) \<Rightarrow> int
   \<Rightarrow> ('s, bool) io" where
  "update_if_with get save command_id condition updater ttl_seconds =
     bindE (get command_id) (\<lambda>st.
       if \<not> condition st then ret False
       else thenE (save (updater st) ttl_seconds) (ret True))"

definition repo_update ::
  "('e, 'd) env \<Rightarrow> string \<Rightarrow> (command_state \<Rightarrow> command_state) \<Rightarrow> int \<Rightarrow> ('e pod, unit) io" where
  "repo_update env = update_with (repo_get env) (repo_save env)"

definition repo_update_if ::
  "('e, 'd) env \<Rightarrow> string \<Rightarrow> (command_state \<Rightarrow> bool) \<Rightarrow> (command_state \<Rightarrow> command_state) \<Rightarrow> int
   \<Rightarrow> ('e pod, bool) io" where
  "repo_update_if env = update_if_with (repo_get env) (repo_save env)"

fun collect_states ::
  "('e, 'd) env \<Rightarrow> command_status list option \<Rightarrow> string list \<Rightarrow> ('e pod, command_state list) io" where
  "collect_states env statuses [] = ret []"
| "collect_states env statuses (key # keys) =
     bindE (ext (redis_get env key)) (\<lambda>raw.
       bindE (collect_states env statuses keys) (\<lambda>rest.
         case raw of
           None \<Rightarrow> ret rest
         | Some d \<Rightarrow>
             if data_empty env d then ret rest
             else (case load_state env d of
                     None \<Rightarrow> ret rest
                   | Some st \<Rightarrow>
                       (case statuses of
                          None \<Rightarrow> ret (st # rest)
                        | Some ss \<Rightarrow> if cs_status st \<in> set ss then ret (st # rest)
                                     else ret rest))))"

definition list_states ::
  "('e, 'd) env \<Rightarrow> command_status list option \<Rightarrow> ('e pod, command_state list) io" where
  "list_states env statuses =
     bindE (ext (redis_scan env ''command:'')) (\<lambda>keys. collect_states env statuses keys)"

section \<open>What the code relies on\<close>

definition redis_ok :: "('e, 'd) env \<Rightarrow> ('e \<Rightarrow> string \<Rightarrow> 'd option) \<Rightarrow> bool" where
  "redis_ok env kv \<longleftrightarrow>
     (\<forall>k e. redis_get env k e = (Inr (kv e k), e))
     \<and> (\<forall>k ttl d e. 0 < ttl \<longrightarrow>
          (\<exists>e'. redis_setex env k ttl d e = (Inr (), e') \<and> kv e' = (kv e)(k \<mapsto> d)))
     \<and> (\<forall>k ttl d e. ttl \<le> 0 \<longrightarrow> (\<exists>m. redis_setex env k ttl d e = (Inl (PyOther m), e)))
     \<and> (\<forall>p e. \<exists>ks. redis_scan env p e = (Inr ks, e) \<and> set ks = {k \<in> dom (kv e). prefix p k})
     \<and> (\<forall>st. load_state env (dump_state env st) = Some st)
     \<and> (\<forall>st. \<not> data_empty env (dump_state env st))"

text \<open>The record a reader finds under a command id; a corrupt one reads as none.\<close>

definition decoded :: "('e, 'd) env \<Rightarrow> 'd option \<Rightarrow> command_state option" where
  "decoded env r = (case r of None \<Rightarrow> None
     | Some d \<Rightarrow> if data_empty env d then None else load_state env d)"

definition stored ::
  "('e, 'd) env \<Rightarrow> ('e \<Rightarrow> string \<Rightarrow> 'd option) \<Rightarrow> 'e pod \<Rightarrow> string \<Rightarrow> command_state option" where
  "stored env kv p command_id = decoded env (kv (pod_world p) (state_key command_id))"

lemma state_key_inj [simp]: "state_key a = state_key b \<longleftrightarrow> a = b"
  by (simp add: state_key_def)

lemma repo_get_spec:
  assumes "redis_ok env kv"
  shows "case stored env kv p cid of
      Some st \<Rightarrow> repo_get env cid p = (Inr st, p)
    | None \<Rightarrow> (\<exists>m. repo_get env cid p = (Inl (AppExc CommandExecution m), p))"
proof -
  have g: "redis_get env (state_key cid) (pod_world p) = (Inr (kv (pod_world p) (state_key cid)), pod_world p)"
    using assms by (simp add: redis_ok_def)
  show ?thesis
    by (cases "kv (pod_world p) (state_key cid)")
       (simp_all add: repo_get_def stored_def decoded_def io_run g split: option.splits)
qed

lemma repo_save_spec:
  assumes "redis_ok env kv" "0 < ttl"
  shows "\<exists>p'. repo_save env st ttl p = (Inr (), p') \<and> (\<exists>e. p' = p\<lparr>pod_world := e\<rparr>)
    \<and> stored env kv p' = (stored env kv p)(cs_command_id st \<mapsto> st)"
proof -
  obtain e where e: "redis_setex env (state_key (cs_command_id st)) ttl (dump_state env st) (pod_world p) = (Inr (), e)"
      "kv e = (kv (pod_world p))(state_key (cs_command_id st) \<mapsto> dump_state env st)"
    using assms unfolding redis_ok_def by blast
  have d: "decoded env (Some (dump_state env st)) = Some st"
    using assms by (simp add: decoded_def redis_ok_def)
  show ?thesis
    by (rule exI [of _ "p\<lparr>pod_world := e\<rparr>"])
       (auto simp: repo_save_def io_run e stored_def d fun_eq_iff)
qed

lemma repo_save_expired:
  assumes "redis_ok env kv" "ttl \<le> 0"
  shows "\<exists>m. repo_save env st ttl p = (Inl (PyOther m), p)"
proof -
  obtain m where "redis_setex env (state_key (cs_command_id st)) ttl (dump_state env st) (pod_world p)
      = (Inl (PyOther m), pod_world p)"
    using assms unfolding redis_ok_def by blast
  then show ?thesis by (simp add: repo_save_def io_run)
qed

section \<open>The interface\<close>

text \<open>
  \<open>backed\<close> is the assumption under which the provider promises its laws; \<open>frame\<close> reads the
  part of the state the store never touches.
\<close>

locale command_store =
  fixes get :: "string \<Rightarrow> ('s, command_state) io"
    and save :: "command_state \<Rightarrow> int \<Rightarrow> ('s, unit) io"
    and view :: "'s \<Rightarrow> string \<Rightarrow> command_state option"
    and frame :: "'s \<Rightarrow> 'f"
    and backed :: bool
  assumes get_found: "backed \<Longrightarrow> view s cid = Some st \<Longrightarrow> get cid s = (Inr st, s)"
    and get_missing: "backed \<Longrightarrow> view s cid = None \<Longrightarrow>
      \<exists>m. get cid s = (Inl (AppExc CommandExecution m), s)"
    and save_stores: "backed \<Longrightarrow> 0 < ttl \<Longrightarrow>
      \<exists>s'. save st ttl s = (Inr (), s') \<and> view s' = (view s)(cs_command_id st \<mapsto> st)
        \<and> frame s' = frame s"
    and save_refuses: "backed \<Longrightarrow> ttl \<le> 0 \<Longrightarrow> \<exists>m. save st ttl s = (Inl (PyOther m), s)"
begin

text \<open>Every record stands under its own id.\<close>

definition keyed :: "'s \<Rightarrow> bool" where
  "keyed s \<longleftrightarrow> (\<forall>cid st. view s cid = Some st \<longrightarrow> cs_command_id st = cid)"

lemma keyed_upd: "keyed s \<Longrightarrow> view s' = (view s)(cs_command_id st \<mapsto> st) \<Longrightarrow> keyed s'"
  by (simp add: keyed_def)

lemma update_if_holds:
  assumes "backed" "0 < ttl" "view s cid = Some st" "C st"
  shows "\<exists>s'. update_if_with get save cid C f ttl s = (Inr True, s')
    \<and> view s' = (view s)(cs_command_id (f st) \<mapsto> f st) \<and> frame s' = frame s"
proof -
  obtain s' where "save (f st) ttl s = (Inr (), s')"
      "view s' = (view s)(cs_command_id (f st) \<mapsto> f st)" "frame s' = frame s"
    using save_stores [OF assms(1,2)] by blast
  then show ?thesis by (simp add: update_if_with_def io_run get_found [OF assms(1,3)] assms(4))
qed

lemma update_if_fails:
  assumes "backed" "view s cid = Some st" "\<not> C st"
  shows "update_if_with get save cid C f ttl s = (Inr False, s)"
  by (simp add: update_if_with_def io_run get_found [OF assms(1,2)] assms(3))

lemma update_if_missing:
  assumes "backed" "view s cid = None"
  shows "\<exists>m. update_if_with get save cid C f ttl s = (Inl (AppExc CommandExecution m), s)"
  using get_missing [OF assms] by (auto simp: update_if_with_def io_run)

lemma update_found:
  assumes "backed" "0 < ttl" "view s cid = Some st"
  shows "\<exists>s'. update_with get save cid f ttl s = (Inr (), s')
    \<and> view s' = (view s)(cs_command_id (f st) \<mapsto> f st) \<and> frame s' = frame s"
  using save_stores [OF assms(1,2)] by (simp add: update_with_def io_run get_found [OF assms(1,3)])

lemma update_missing:
  assumes "backed" "view s cid = None"
  shows "\<exists>m. update_with get save cid f ttl s = (Inl (AppExc CommandExecution m), s)"
  using get_missing [OF assms] by (auto simp: update_with_def io_run)

text \<open>In one statement: the outcome of a guarded update.\<close>

lemma update_if_cases:
  assumes "backed" "keyed s" "0 < ttl" "\<And>st. cs_command_id (f st) = cs_command_id st"
    and run: "update_if_with get save cid C f ttl s = (r, s')"
  shows "frame s' = frame s \<and> keyed s'
    \<and> (case view s cid of
         None \<Rightarrow> view s' = view s \<and> (\<exists>m. r = Inl (AppExc CommandExecution m))
       | Some st \<Rightarrow> view s' = (if C st then (view s)(cid \<mapsto> f st) else view s) \<and> r = Inr (C st))"
proof (cases "view s cid")
  case None
  obtain m where "update_if_with get save cid C f ttl s = (Inl (AppExc CommandExecution m), s)"
    using update_if_missing [OF assms(1) None] by blast
  with run have "r = Inl (AppExc CommandExecution m)" "s' = s" by simp_all
  with assms(2) None show ?thesis by simp
next
  case (Some st)
  then have id: "cs_command_id st = cid" using assms(2) by (simp add: keyed_def)
  show ?thesis
  proof (cases "C st")
    case True
    obtain s2 where s2: "update_if_with get save cid C f ttl s = (Inr True, s2)"
        "view s2 = (view s)(cs_command_id (f st) \<mapsto> f st)" "frame s2 = frame s"
      using update_if_holds [of ttl s cid st C f, OF assms(1,3) Some True] by blast
    moreover have "keyed s2" using keyed_upd [OF assms(2) s2(2)] .
    moreover have "s' = s2" "r = Inr True" using run s2(1) by simp_all
    ultimately show ?thesis by (simp add: Some True assms(4) id)
  next
    case False
    with update_if_fails [where C = C, OF assms(1) Some False] run assms(2) Some show ?thesis by simp
  qed
qed

end

text \<open>The part of a process the store leaves alone: everything but the external state.\<close>

definition pod_local :: "'e pod \<Rightarrow> (string \<times> running_entry) list \<times> dry_conn list \<times> dry_proc list \<times> string list" where
  "pod_local p = (pod_pool p, pod_dry_conns p, pod_dry_procs p, pod_tasks p)"

interpretation repo: command_store "repo_get env" "repo_save env" "stored env kv" pod_local "redis_ok env kv"
  for env :: "('e, 'd) env" and kv
proof (unfold_locales, goal_cases)
  case (1 s cid st)
  then show ?case using repo_get_spec [of env kv cid s] by simp
next
  case (2 s cid)
  then show ?case using repo_get_spec [of env kv cid s] by simp
next
  case (3 ttl st s)
  then show ?case using repo_save_spec [of env kv ttl st s, OF 3] by (auto simp: pod_local_def)
next
  case (4 ttl st s)
  then show ?case by (rule repo_save_expired)
qed

section \<open>An executable environment\<close>

text \<open>
  For the witnesses: the external state is the list of stored records, a record is its own
  serialisation, every SSH call succeeds and \<open>answer\<close> says what a remote command prints.
\<close>

type_synonym demo_world = "(string \<times> command_state) list"

definition demo_setex :: "string \<Rightarrow> int \<Rightarrow> command_state \<Rightarrow> (demo_world, unit) io" where
  "demo_setex k ttl d = (\<lambda>e. if 0 < ttl then (Inr (), (k, d) # e)
     else (Inl (PyOther ''invalid expire time in setex''), e))"

definition demo_settings :: "bool \<Rightarrow> settings" where
  "demo_settings dry = \<lparr>COMMAND_CONFIG_DIR = ''/cfg'', SSH_CONFIG_DIR = [], COMMAND_DEFAULT_TIMEOUT = 300,
     COMMAND_KILL_GRACE_SECONDS = 30, COMMAND_MAX_CONCURRENCY = 20, COMMAND_MAX_RUNNING = 50, SSH_CONNECT_TIMEOUT_SECONDS = 10,
     COMMAND_LOG_DIR = ''/var/log/runs'', COMMAND_LOG_SOFT_CAP_BYTES = 1000,
     COMMAND_LOG_HARD_CAP_BYTES = 2000, COMMAND_LOG_FAILURE_TAIL_LINES = 3,
     BASTION_NODE_TYPE_MAP = [(''master'', ''ops'')], INVENTORY_IP_LABEL = ''ip'',
     CLUSTER_SLASH_TYPE_MAP = [(''stg'', ''staging'')], COMMAND_RESULT_TTL_SECONDS = 3600,
     DRY_RUN_MODE = dry, DRY_RUN_COMMAND_SECONDS = 0\<rparr>"

definition demo_env ::
  "settings \<Rightarrow> user_command_whitelist \<Rightarrow> (string \<Rightarrow> exn + completed) \<Rightarrow> (demo_world, command_state) env" where
  "demo_env cfg wl answer = \<lparr>env_settings = cfg,
     redis_get = (\<lambda>k e. (Inr (map_of e k), e)), redis_setex = demo_setex,
     redis_scan = (\<lambda>p e. (Inr (filter (prefix p) (map fst e)), e)),
     data_empty = (\<lambda>_. False), dump_state = (\<lambda>st. st), load_state = Some,
     path_exists = (\<lambda>_ _. True), read_whitelist = (\<lambda>_. ret wl),
     read_ssh_config = (\<lambda>_. ret \<lparr>sc_auth_method = ''key'', sc_key_base64 = ''a2V5'', sc_cert_base64 = None\<rparr>),
     compile_regex = (\<lambda>p. Some (rseq (map lit p))), b64_text = Inr, import_private_key = Inr,
     import_certificate = Inr, ssh_connect = (\<lambda>_ _ _ _ _. ret 0),
     ssh_run = (\<lambda>_ c. liftE (answer c)), ssh_create_process = (\<lambda>_ _ _. ret 0),
     ssh_is_closed = (\<lambda>_. ret False), ssh_close = (\<lambda>_. ret ()), proc_readline = (\<lambda>_. ret (''77'' @ nl)),
     proc_wait = (\<lambda>_. ret ()), proc_communicate = (\<lambda>_. ret (Some ''out'', Some [])),
     proc_returncode = (\<lambda>_. ret (Some 0)), new_uuid = ret ''u1'', sleep = (\<lambda>_. ret ())\<rparr>"

definition demo_whitelist :: user_command_whitelist where
  "demo_whitelist = \<lparr>wl_name = ''alice'', wl_allow_hosts = [''10.''], wl_deny_hosts = [''10.0.9''],
     wl_allow_commands = []\<rparr>"

definition demo_state :: "string \<Rightarrow> command_status \<Rightarrow> string option \<Rightarrow> bool \<Rightarrow> command_state" where
  "demo_state cid st logp kill = \<lparr>cs_command_id = cid, cs_status = st, cs_output = None, cs_exit_code = None,
     cs_message = None, cs_run_log_path = logp, cs_host = ''10.0.0.7'', cs_host_type = IP,
     cs_resolved_ip = ''10.0.0.7'', cs_port = 22, cs_username = ''ops'', cs_ssh_config = ''default'',
     cs_request_id = ''r1'', cs_exec_command = ''run'', cs_output_format = COF_TEXT, cs_killable = kill,
     cs_pgids = [42]\<rparr>"

definition demo_pod :: "command_state list \<Rightarrow> demo_world pod" where
  "demo_pod sts = \<lparr>pod_pool = [], pod_dry_conns = [], pod_dry_procs = [], pod_tasks = [],
     pod_world = map (\<lambda>st. (state_key (cs_command_id st), st)) sts\<rparr>"

lemma demo_state_fields [simp]:
  "cs_command_id (demo_state cid st logp kill) = cid" "cs_status (demo_state cid st logp kill) = st"
  "cs_run_log_path (demo_state cid st logp kill) = logp" "cs_killable (demo_state cid st logp kill) = kill"
  "cs_pgids (demo_state cid st logp kill) = [42]"
  by (simp_all add: demo_state_def)

lemma demo_pod_fields [simp]:
  "pod_pool (demo_pod sts) = []" "pod_dry_conns (demo_pod sts) = []" "pod_dry_procs (demo_pod sts) = []"
  "pod_tasks (demo_pod sts) = []"
  "pod_world (demo_pod sts) = map (\<lambda>st. (state_key (cs_command_id st), st)) sts"
  by (simp_all add: demo_pod_def)

lemma redis_ok_demo: "redis_ok (demo_env cfg wl answer) map_of"
  unfolding redis_ok_def demo_env_def demo_setex_def
  by (auto simp: dom_map_of_conv_image_fst)

lemma stored_demo:
  "stored (demo_env cfg wl answer) map_of p cid = map_of (pod_world p) (state_key cid)"
  by (simp add: stored_def decoded_def demo_env_def split: option.splits)

lemma stored_demo_pod_id:
  "stored (demo_env cfg wl answer) map_of (demo_pod sts) c = Some st \<Longrightarrow> cs_command_id st = c"
  by (auto simp: stored_demo dest!: map_of_SomeD)

text \<open>The records are where their ids say.\<close>

definition ids_match :: "('e, 'd) env \<Rightarrow> ('e \<Rightarrow> string \<Rightarrow> 'd option) \<Rightarrow> 'e pod \<Rightarrow> bool" where
  "ids_match env kv p \<longleftrightarrow> (\<forall>c st. stored env kv p c = Some st \<longrightarrow> cs_command_id st = c)"

lemma ids_match_keyed: "command_store.keyed (stored env kv) p \<longleftrightarrow> ids_match env kv p"
  by (simp add: repo.keyed_def ids_match_def)

lemma ids_match_demo: "ids_match (demo_env cfg wl answer) map_of (demo_pod sts)"
  unfolding ids_match_def using stored_demo_pod_id by blast

lemma repo_get_found: "redis_ok env kv \<Longrightarrow> stored env kv p cid = Some st \<Longrightarrow> repo_get env cid p = (Inr st, p)"
  by (rule repo.get_found)

lemma repo_get_missing:
  "redis_ok env kv \<Longrightarrow> stored env kv p cid = None \<Longrightarrow>
     \<exists>m. repo_get env cid p = (Inl (AppExc CommandExecution m), p)"
  by (rule repo.get_missing)

lemma repo_update_if_true:
  assumes "redis_ok env kv" "ids_match env kv p" "0 < ttl" "stored env kv p cid = Some s" "C s"
    and f: "\<And>s. cs_command_id (f s) = cs_command_id s"
  obtains p' where "repo_update_if env cid C f ttl p = (Inr True, p')"
    "stored env kv p' = (stored env kv p)(cid \<mapsto> f s)" "pod_local p' = pod_local p" "ids_match env kv p'"
proof -
  obtain r p' where u: "repo_update_if env cid C f ttl p = (r, p')" by fastforce
  from repo.update_if_cases [where f = f and C = C, OF assms(1) _ assms(3) f u [unfolded repo_update_if_def]] assms
  have "pod_local p' = pod_local p \<and> ids_match env kv p' \<and> stored env kv p' = (stored env kv p)(cid \<mapsto> f s) \<and> r = Inr True"
    unfolding ids_match_keyed by fastforce
  with u that show thesis by blast
qed

lemma repo_update_if_false:
  assumes "redis_ok env kv" "stored env kv p cid = Some s" "\<not> C s"
  shows "repo_update_if env cid C f ttl p = (Inr False, p)"
  unfolding repo_update_if_def by (rule repo.update_if_fails [where C = C, OF assms])

lemma repo_update_if_none:
  assumes "redis_ok env kv" "stored env kv p cid = None"
  obtains m where "repo_update_if env cid C f ttl p = (Inl (AppExc CommandExecution m), p)"
  using repo.update_if_missing [OF assms] unfolding repo_update_if_def by blast

lemma repo_update_true:
  assumes "redis_ok env kv" "ids_match env kv p" "0 < ttl" "stored env kv p cid = Some s"
    and f: "\<And>s. cs_command_id (f s) = cs_command_id s"
  obtains p' where "repo_update env cid f ttl p = (Inr (), p')"
    "stored env kv p' = (stored env kv p)(cid \<mapsto> f s)" "pod_local p' = pod_local p" "ids_match env kv p'"
proof -
  have id: "cs_command_id (f s) = cid" using assms(2,4) f by (simp add: ids_match_def)
  obtain p' where p': "repo_update env cid f ttl p = (Inr (), p')"
      "stored env kv p' = (stored env kv p)(cid \<mapsto> f s)" "pod_local p' = pod_local p"
    using repo.update_found [where f = f, OF assms(1,3,4)] id unfolding repo_update_def by auto
  moreover have "ids_match env kv p'" using assms(2) p'(2) id by (auto simp: ids_match_def)
  ultimately show thesis using that by blast
qed

section \<open>Properties\<close>

text \<open>
  Guarded update. On a healthy Redis whose records stand under their own ids,
  \<^verbatim>\<open>update_if\<close> with an updater that keeps the id raises \<^verbatim>\<open>CommandExecutionException\<close> without
  effect when there is no readable record; otherwise it answers whether the condition held, writes the
  updated record under that id exactly when it did, touches no other record, no pool entry and no
  background task, and keeps the records under their ids.
\<close>

theorem repo_update_if_spec:
  assumes "redis_ok env kv" "0 < ttl" "\<And>st. cs_command_id (f st) = cs_command_id st"
    and "\<And>c st. stored env kv p c = Some st \<Longrightarrow> cs_command_id st = c"
    and "repo_update_if env cid C f ttl p = (r, p')"
  shows "pod_local p' = pod_local p \<and> (\<forall>c st. stored env kv p' c = Some st \<longrightarrow> cs_command_id st = c)
    \<and> (case stored env kv p cid of
         None \<Rightarrow> stored env kv p' = stored env kv p \<and> (\<exists>m. r = Inl (AppExc CommandExecution m))
       | Some st \<Rightarrow> stored env kv p' = (if C st then (stored env kv p)(cid \<mapsto> f st) else stored env kv p)
                    \<and> r = Inr (C st))"
  using repo.update_if_cases [where f = f and C = C, OF assms(1) _ assms(2,3) assms(5) [unfolded repo_update_if_def]]
    assms(4)
  unfolding repo.keyed_def by blast

lemma repo_update_if_spec_witness:
  "\<exists>r p'. repo_update_if (demo_env (demo_settings False) demo_whitelist (\<lambda>_. Inl PyTimeoutError)) ''c1'' is_running
       (mark_killing ''stop'') 60 (demo_pod [demo_state ''c1'' RUNNING None True]) = (r, p')
     \<and> r = Inr True \<and> pod_tasks p' = []"
proof -
  let ?env = "demo_env (demo_settings False) demo_whitelist (\<lambda>_. Inl PyTimeoutError)"
  let ?p = "demo_pod [demo_state ''c1'' RUNNING None True]"
  obtain r p' where run: "repo_update_if ?env ''c1'' is_running (mark_killing ''stop'') 60 ?p = (r, p')"
    by fastforce
  have "stored ?env map_of ?p ''c1'' = Some (demo_state ''c1'' RUNNING None True)"
    by (simp add: stored_demo)
  with repo_update_if_spec [OF redis_ok_demo _ _ stored_demo_pod_id run]
  show ?thesis using run by (auto simp: is_running_def pod_local_def)
qed

end
