(* ===== verification/Pipeline.thy ===== *)
theory Pipeline
  imports Domain
begin

text \<open>
  \<^verbatim>\<open>app/services/pipeline_builder.py\<close>: from the whitelist's template to the final pipeline. A
  \<^verbatim>\<open>KeyError\<close> of \<^verbatim>\<open>arguments[arg.name]\<close> is \<open>Inl\<close>. The specification side reads a template token
  as a list of pieces, literal text and holes, and substitutes all holes at once.
\<close>

definition placeholder :: "string \<Rightarrow> string" where
  "placeholder n = CHR ''{'' # n @ [CHR ''}'']"

fun resolve_args ::
  "string \<Rightarrow> arguments \<Rightarrow> command_argument_config list \<Rightarrow> exn + string" where
  "resolve_args part args [] = Inr part"
| "resolve_args part args (a # defs) =
     (if contains (placeholder (arg_name a)) part
      then (case args (arg_name a) of
              None \<Rightarrow> Inl (PyKeyError (arg_name a))
            | Some v \<Rightarrow> resolve_args (py_replace (placeholder (arg_name a)) (py_str v) part) args defs)
      else resolve_args part args defs)"

definition resolve_part ::
  "string \<Rightarrow> arguments \<Rightarrow> command_argument_config list \<Rightarrow> string option \<Rightarrow> exn + string" where
  "resolve_part part args defs run_id =
     (case resolve_args part args defs of Inl e \<Rightarrow> Inl e
      | Inr p \<Rightarrow> Inr (case run_id of None \<Rightarrow> p
          | Some r \<Rightarrow> if contains ''{run_id}'' p then py_replace ''{run_id}'' r p else p))"

definition omitted_names :: "arguments \<Rightarrow> command_argument_config list \<Rightarrow> string list" where
  "omitted_names args defs =
     map arg_name (filter (\<lambda>a. \<not> arg_required a \<and> arg_absent args (arg_name a)) defs)"

definition mentions :: "string list \<Rightarrow> string \<Rightarrow> bool" where
  "mentions phs tok \<longleftrightarrow> list_ex (\<lambda>ph. contains ph tok) phs"

definition is_flag :: "string \<Rightarrow> bool" where
  "is_flag tok \<longleftrightarrow> prefix ''-'' tok \<and> CHR ''{'' \<notin> set tok"

text \<open>The indices the loop adds to \<^verbatim>\<open>drop\<close>.\<close>

definition drop_indices :: "string list \<Rightarrow> string list \<Rightarrow> nat list" where
  "drop_indices phs command =
     concat (map (\<lambda>i. if mentions phs (command ! i)
                      then (if i > 0 \<and> is_flag (command ! (i - 1)) then [i, i - 1] else [i])
                      else []) [0..<length command])"

definition strip_omitted_optionals ::
  "string list \<Rightarrow> arguments \<Rightarrow> command_argument_config list \<Rightarrow> string list" where
  "strip_omitted_optionals command args defs =
     (let omitted = omitted_names args defs
      in if omitted = [] then command
         else let d = drop_indices (map placeholder omitted) command
              in map (\<lambda>i. command ! i) (filter (\<lambda>i. i \<notin> set d) [0..<length command]))"

definition build :: "execution_context \<Rightarrow> exn + string list list" where
  "build cx =
     (let args = rq_arguments (cx_raw_request cx); defs = cc_arguments (cx_cmd_config cx)
      in mapE (\<lambda>step. mapE (\<lambda>part. resolve_part part args defs (cx_run_id cx))
                            (strip_omitted_optionals (ps_command step) args defs))
              (cc_pipeline (cx_cmd_config cx)))"

section \<open>Templates as pieces\<close>

datatype piece = Lit string | Hole string

definition brace_free :: "string \<Rightarrow> bool" where
  "brace_free s \<longleftrightarrow> CHR ''{'' \<notin> set s \<and> CHR ''}'' \<notin> set s"

fun piece_text :: "piece \<Rightarrow> string" where
  "piece_text (Lit s) = s"
| "piece_text (Hole n) = placeholder n"

fun piece_body :: "piece \<Rightarrow> string" where
  "piece_body (Lit s) = s"
| "piece_body (Hole n) = n"

definition template :: "piece list \<Rightarrow> string" where
  "template ps = concat (map piece_text ps)"

definition wf_pieces :: "piece list \<Rightarrow> bool" where
  "wf_pieces ps \<longleftrightarrow> (\<forall>p \<in> set ps. brace_free (piece_body p))"

fun fill_piece :: "string \<Rightarrow> string \<Rightarrow> piece \<Rightarrow> piece" where
  "fill_piece n v (Lit s) = Lit s"
| "fill_piece n v (Hole m) = (if m = n then Lit v else Hole m)"

text \<open>Simultaneous substitution of all holes.\<close>

definition subst_hole :: "arguments \<Rightarrow> string list \<Rightarrow> string option \<Rightarrow> string \<Rightarrow> string" where
  "subst_hole args names run_id n =
     (if n \<in> set names then (case args n of Some v \<Rightarrow> py_str v | None \<Rightarrow> placeholder n)
      else case run_id of Some r \<Rightarrow> if n = ''run_id'' then r else placeholder n
           | None \<Rightarrow> placeholder n)"

fun subst_piece :: "arguments \<Rightarrow> string list \<Rightarrow> string option \<Rightarrow> piece \<Rightarrow> string" where
  "subst_piece args names run_id (Lit s) = s"
| "subst_piece args names run_id (Hole n) = subst_hole args names run_id n"

section \<open>Replacing inside a template\<close>

lemma prefix_brace_char:
  "brace_free m \<Longrightarrow> brace_free n \<Longrightarrow> prefix (n @ [CHR ''}'']) (m @ CHR ''}'' # rest) \<longleftrightarrow> n = m"
proof (induction n arbitrary: m)
  case Nil
  then show ?case by (cases m) (auto simp: brace_free_def)
next
  case (Cons c n)
  then show ?case by (cases m) (auto simp: brace_free_def)
qed

lemma prefix_placeholder:
  "brace_free m \<Longrightarrow> brace_free n \<Longrightarrow> prefix (placeholder n) (placeholder m @ rest) \<longleftrightarrow> n = m"
  using prefix_brace_char [of m n rest] by (simp add: placeholder_def)

lemma replace_skip:
  "CHR ''{'' \<notin> set s \<Longrightarrow>
     replace_all (placeholder n) v (s @ rest) = s @ replace_all (placeholder n) v rest"
  by (induction s) (auto simp: placeholder_def)

lemma contains_skip:
  "CHR ''{'' \<notin> set s \<Longrightarrow> contains (placeholder n) (s @ rest) = contains (placeholder n) rest"
  by (induction s) (auto simp: placeholder_def)

lemma replace_placeholder:
  assumes "brace_free m" and "brace_free n"
  shows "replace_all (placeholder n) v (placeholder m @ rest) =
     (if m = n then v else placeholder m) @ replace_all (placeholder n) v rest"
proof (cases "m = n")
  case True
  have "placeholder n @ rest = CHR ''{'' # (n @ CHR ''}'' # rest)" by (simp add: placeholder_def)
  moreover have "prefix (placeholder n) (CHR ''{'' # (n @ CHR ''}'' # rest))"
    by (simp add: placeholder_def prefix_def)
  moreover have "drop (length (placeholder n)) (CHR ''{'' # (n @ CHR ''}'' # rest)) = rest"
    by (simp add: placeholder_def)
  ultimately show ?thesis using True by (simp add: placeholder_def)
next
  case False
  have np: "\<not> prefix (placeholder n) (CHR ''{'' # (m @ CHR ''}'' # rest))"
    using False prefix_placeholder [OF assms, of rest] by (auto simp: placeholder_def)
  have "CHR ''{'' \<notin> set (m @ ''}'')" using assms(1) by (simp add: brace_free_def)
  from replace_skip [OF this, of n v rest] np False show ?thesis
    by (simp add: placeholder_def)
qed

lemma contains_placeholder:
  assumes "brace_free m" and "brace_free n"
  shows "contains (placeholder n) (placeholder m @ rest) \<longleftrightarrow> m = n \<or> contains (placeholder n) rest"
proof -
  have "CHR ''{'' \<notin> set (m @ ''}'')" using assms(1) by (simp add: brace_free_def)
  from contains_skip [OF this, of n rest]
  have "contains (placeholder n) (m @ CHR ''}'' # rest) = contains (placeholder n) rest" by simp
  then show ?thesis using prefix_placeholder [OF assms, of rest] by (auto simp: placeholder_def)
qed

lemma template_Cons: "template (p # ps) = piece_text p @ template ps"
  by (simp add: template_def)

lemma template_Nil: "template [] = []"
  by (simp add: template_def)

lemma wf_pieces_Cons: "wf_pieces (p # ps) \<longleftrightarrow> brace_free (piece_body p) \<and> wf_pieces ps"
  by (simp add: wf_pieces_def)

lemma replace_template:
  "wf_pieces ps \<Longrightarrow> brace_free n \<Longrightarrow>
     replace_all (placeholder n) v (template ps) = template (map (fill_piece n v) ps)"
proof (induction ps)
  case Nil
  then show ?case by (simp add: template_Nil)
next
  case (Cons p ps)
  then show ?case
    by (cases p) (auto simp: template_Cons wf_pieces_Cons replace_placeholder replace_skip brace_free_def)
qed

lemma contains_template:
  "wf_pieces ps \<Longrightarrow> brace_free n \<Longrightarrow> contains (placeholder n) (template ps) \<longleftrightarrow> Hole n \<in> set ps"
proof (induction ps)
  case Nil
  then show ?case by (simp add: template_Nil placeholder_def)
next
  case (Cons p ps)
  then show ?case
    by (cases p) (auto simp: template_Cons wf_pieces_Cons contains_placeholder contains_skip brace_free_def)
qed

lemma fill_absent: "Hole n \<notin> set ps \<Longrightarrow> map (fill_piece n v) ps = ps"
proof (induction ps)
  case (Cons p ps)
  then show ?case by (cases p) auto
qed simp

lemma wf_fill: "wf_pieces ps \<Longrightarrow> brace_free v \<Longrightarrow> wf_pieces (map (fill_piece n v) ps)"
proof (induction ps)
  case (Cons p ps)
  then show ?case by (cases p) (auto simp: wf_pieces_Cons)
qed simp

section \<open>Resolving a template\<close>

fun fill_all :: "arguments \<Rightarrow> string list \<Rightarrow> piece \<Rightarrow> piece" where
  "fill_all args names (Lit s) = Lit s"
| "fill_all args names (Hole n) = (if n \<in> set names then Lit (py_str (the (args n))) else Hole n)"

lemma fill_all_step:
  "args n = Some v \<Longrightarrow> fill_all args names (fill_piece n (py_str v) p) = fill_all args (n # names) p"
  by (cases p) auto

lemma fill_all_skip: "p \<noteq> Hole n \<Longrightarrow> fill_all args (n # names) p = fill_all args names p"
  by (cases p) auto

lemma placeholder_nonempty [simp]: "placeholder n \<noteq> []"
  by (simp add: placeholder_def)

text \<open>Every hole of a declared argument that the token really has must be supplied, with a value
  free of braces.\<close>

definition holes_supplied :: "arguments \<Rightarrow> command_argument_config list \<Rightarrow> piece list \<Rightarrow> bool" where
  "holes_supplied args defs ps \<longleftrightarrow>
     (\<forall>a \<in> set defs. Hole (arg_name a) \<in> set ps \<longrightarrow>
        (\<exists>v. args (arg_name a) = Some v \<and> brace_free (py_str v)))"

lemma holes_supplied_fill:
  "holes_supplied args (a # defs) ps \<Longrightarrow> holes_supplied args defs (map (fill_piece n v) ps)"
proof -
  have "Hole m \<in> set (map (fill_piece n v) ps) \<Longrightarrow> Hole m \<in> set ps" for m
  proof -
    assume "Hole m \<in> set (map (fill_piece n v) ps)"
    then obtain p where "p \<in> set ps" "fill_piece n v p = Hole m" by auto
    then show "Hole m \<in> set ps" by (cases p rule: piece.exhaust) (auto split: if_splits)
  qed
  then show "holes_supplied args (a # defs) ps \<Longrightarrow> ?thesis"
    by (simp add: holes_supplied_def)
qed

lemma resolve_args_template:
  "wf_pieces ps \<Longrightarrow> (\<forall>a \<in> set defs. brace_free (arg_name a)) \<Longrightarrow> holes_supplied args defs ps \<Longrightarrow>
     resolve_args (template ps) args defs = Inr (template (map (fill_all args (map arg_name defs)) ps))"
proof (induction defs arbitrary: ps)
  case Nil
  have "map (fill_all args []) ps = ps"
    by (rule map_idI) (metis fill_all.simps empty_iff list.set(1) piece.exhaust)
  then show ?case by simp
next
  case (Cons a defs)
  let ?n = "arg_name a"
  have n: "brace_free ?n" using Cons.prems by simp
  show ?case
  proof (cases "Hole ?n \<in> set ps")
    case True
    then obtain v where v: "args ?n = Some v" "brace_free (py_str v)"
      using Cons.prems(3) by (auto simp: holes_supplied_def)
    let ?ps = "map (fill_piece ?n (py_str v)) ps"
    have "resolve_args (template ?ps) args defs =
        Inr (template (map (fill_all args (map arg_name defs)) ?ps))"
      using Cons.prems v by (intro Cons.IH wf_fill holes_supplied_fill [of args a]) auto
    moreover have "map (fill_all args (map arg_name defs)) ?ps = map (fill_all args (?n # map arg_name defs)) ps"
      using fill_all_step [of args ?n v, OF v(1)] by simp
    ultimately have "resolve_args (template ?ps) args defs =
        Inr (template (map (fill_all args (?n # map arg_name defs)) ps))" by metis
    then show ?thesis
      using True v n Cons.prems
      by (simp add: contains_template replace_template py_replace_def del: map_map)
  next
    case False
    have "map (fill_all args (?n # map arg_name defs)) ps = map (fill_all args (map arg_name defs)) ps"
      using False fill_all_skip by (intro map_cong refl) metis
    moreover have "resolve_args (template ps) args defs =
        Inr (template (map (fill_all args (map arg_name defs)) ps))"
      using Cons.prems by (intro Cons.IH) (auto simp: holes_supplied_def)
    ultimately have "resolve_args (template ps) args defs =
        Inr (template (map (fill_all args (?n # map arg_name defs)) ps))" by metis
    then show ?thesis using False n Cons.prems by (simp add: contains_template)
  qed
qed

lemma wf_fill_all:
  assumes "wf_pieces ps" and "holes_supplied args defs ps"
  shows "wf_pieces (map (fill_all args (map arg_name defs)) ps)"
  unfolding wf_pieces_def
proof
  fix q assume "q \<in> set (map (fill_all args (map arg_name defs)) ps)"
  then obtain p where p: "p \<in> set ps" "q = fill_all args (map arg_name defs) p" by auto
  then show "brace_free (piece_body q)"
    using assms by (cases p rule: piece.exhaust) (force simp: wf_pieces_def holes_supplied_def)+
qed

lemma piece_text_subst:
  assumes "holes_supplied args defs ps" and "p \<in> set ps"
  shows "piece_text (case run_id of None \<Rightarrow> fill_all args (map arg_name defs) p
           | Some r \<Rightarrow> fill_piece ''run_id'' r (fill_all args (map arg_name defs) p))
         = subst_piece args (map arg_name defs) run_id p"
  using assms by (cases p rule: piece.exhaust) (fastforce simp: subst_hole_def holes_supplied_def split: option.splits)+

lemma run_id_placeholder: "''{run_id}'' = placeholder ''run_id''"
  by (simp add: placeholder_def)

lemma brace_free_run_id: "brace_free ''run_id''"
  by (simp add: brace_free_def)

section \<open>Dropping omitted options\<close>

text \<open>Reference: one pass, looking one token ahead.\<close>

fun strip_spec :: "string list \<Rightarrow> string list \<Rightarrow> string list" where
  "strip_spec phs [] = []"
| "strip_spec phs [t] = (if mentions phs t then [] else [t])"
| "strip_spec phs (t # u # ts) =
     (if mentions phs t \<or> (is_flag t \<and> mentions phs u) then strip_spec phs (u # ts)
      else t # strip_spec phs (u # ts))"

definition dropped :: "string list \<Rightarrow> string list \<Rightarrow> nat \<Rightarrow> bool" where
  "dropped phs xs i \<longleftrightarrow>
     mentions phs (xs ! i) \<or> (Suc i < length xs \<and> is_flag (xs ! i) \<and> mentions phs (xs ! Suc i))"

lemma drop_indices_iff:
  "i < length xs \<Longrightarrow> i \<in> set (drop_indices phs xs) \<longleftrightarrow> dropped phs xs i"
proof -
  assume i: "i < length xs"
  have "i \<in> set (drop_indices phs xs) \<longleftrightarrow>
      (\<exists>j < length xs. mentions phs (xs ! j) \<and> (i = j \<or> (j > 0 \<and> is_flag (xs ! (j - 1)) \<and> i = j - 1)))"
    by (auto simp: drop_indices_def split: if_splits)
  also have "\<dots> \<longleftrightarrow> dropped phs xs i"
  proof
    assume "\<exists>j < length xs. mentions phs (xs ! j) \<and> (i = j \<or> (j > 0 \<and> is_flag (xs ! (j - 1)) \<and> i = j - 1))"
    then obtain j where "j < length xs" "mentions phs (xs ! j)"
        "i = j \<or> (j > 0 \<and> is_flag (xs ! (j - 1)) \<and> i = j - 1)" by blast
    then show "dropped phs xs i" by (cases j) (auto simp: dropped_def)
  next
    assume "dropped phs xs i"
    then consider "mentions phs (xs ! i)"
      | "Suc i < length xs" "is_flag (xs ! i)" "mentions phs (xs ! Suc i)"
      by (auto simp: dropped_def)
    then show "\<exists>j < length xs. mentions phs (xs ! j) \<and> (i = j \<or> (j > 0 \<and> is_flag (xs ! (j - 1)) \<and> i = j - 1))"
    proof cases
      case 1
      then show ?thesis using i by blast
    next
      case 2
      then show ?thesis by (intro exI [of _ "Suc i"]) simp
    qed
  qed
  finally show ?thesis .
qed

lemma upt_Suc_map: "[0..<Suc n] = 0 # map Suc [0..<n]"
  by (metis map_Suc_upt upt_conv_Cons zero_less_Suc)

lemma dropped_Suc: "dropped phs (t # xs) (Suc i) = dropped phs xs i"
  by (simp add: dropped_def)

lemma keep_indices_spec:
  "map (\<lambda>i. xs ! i) (filter (\<lambda>i. \<not> dropped phs xs i) [0..<length xs]) = strip_spec phs xs"
proof (induction phs xs rule: strip_spec.induct)
  case (1 phs)
  then show ?case by simp
next
  case (2 phs t)
  then show ?case by (simp add: dropped_def)
next
  case (3 phs t u ts)
  let ?xs = "u # ts"
  have "map (\<lambda>i. (t # ?xs) ! i) (filter (\<lambda>i. \<not> dropped phs (t # ?xs) i) [0..<length (t # ?xs)])
      = (if dropped phs (t # ?xs) 0 then [] else [t])
        @ map (\<lambda>i. ?xs ! i) (filter (\<lambda>i. \<not> dropped phs ?xs i) [0..<length ?xs])"
    unfolding length_Cons [of t] upt_Suc_map
    by (simp add: filter_map comp_def dropped_Suc del: upt_Suc)
  moreover have "dropped phs (t # ?xs) 0 \<longleftrightarrow> mentions phs t \<or> (is_flag t \<and> mentions phs u)"
    by (simp add: dropped_def)
  ultimately show ?case using 3 by simp
qed

lemma strip_spec_none: "\<not> list_ex (mentions phs) xs \<Longrightarrow> strip_spec phs xs = xs"
  by (induction phs xs rule: strip_spec.induct) auto

lemma strip_spec_subset: "set (strip_spec phs xs) \<subseteq> {t \<in> set xs. \<not> mentions phs t}"
  by (induction phs xs rule: strip_spec.induct) auto

lemma strip_omitted_eq:
  "strip_omitted_optionals command args defs = strip_spec (map placeholder (omitted_names args defs)) command"
proof (cases "omitted_names args defs = []")
  case True
  have "\<not> list_ex (mentions []) command" by (simp add: mentions_def list_ex_iff)
  with True show ?thesis by (simp add: strip_omitted_optionals_def strip_spec_none)
next
  case False
  have "filter (\<lambda>i. i \<notin> set (drop_indices phs command)) [0..<length command]
      = filter (\<lambda>i. \<not> dropped phs command i) [0..<length command]" for phs
    by (rule filter_cong) (auto simp: drop_indices_iff)
  then show ?thesis using False by (simp add: strip_omitted_optionals_def Let_def keep_indices_spec)
qed

section \<open>Building the whole pipeline\<close>

lemma resolve_part_template:
  assumes "wf_pieces ps" and "\<forall>a \<in> set defs. brace_free (arg_name a)" and "holes_supplied args defs ps"
  shows "resolve_part (template ps) args defs run_id =
     Inr (concat (map (subst_piece args (map arg_name defs) run_id) ps))"
proof -
  let ?fa = "fill_all args (map arg_name defs)"
  have r: "resolve_args (template ps) args defs = Inr (template (map ?fa ps))"
    by (rule resolve_args_template [OF assms])
  have t: "(if contains ''{run_id}'' (template qs) then py_replace ''{run_id}'' v (template qs) else template qs)
      = template (map (fill_piece ''run_id'' v) qs)" if "wf_pieces qs" for v qs
    using that unfolding run_id_placeholder
    by (simp add: contains_template replace_template fill_absent brace_free_run_id py_replace_def)
  have e: "(case run_id of None \<Rightarrow> template (map ?fa ps)
        | Some v \<Rightarrow> template (map (fill_piece ''run_id'' v) (map ?fa ps)))
      = concat (map (\<lambda>p. piece_text (case run_id of None \<Rightarrow> ?fa p | Some v \<Rightarrow> fill_piece ''run_id'' v (?fa p))) ps)"
    by (cases run_id) (simp_all add: template_def comp_def)
  have "map (\<lambda>p. piece_text (case run_id of None \<Rightarrow> ?fa p | Some v \<Rightarrow> fill_piece ''run_id'' v (?fa p))) ps
      = map (subst_piece args (map arg_name defs) run_id) ps"
    using piece_text_subst [OF assms(3)] by (intro map_cong refl)
  with e have e': "(case run_id of None \<Rightarrow> template (map ?fa ps)
        | Some v \<Rightarrow> template (map (fill_piece ''run_id'' v) (map ?fa ps)))
      = concat (map (subst_piece args (map arg_name defs) run_id) ps)" by (simp only:)
  have "resolve_part (template ps) args defs run_id = Inr (case run_id of None \<Rightarrow> template (map ?fa ps)
        | Some v \<Rightarrow> template (map (fill_piece ''run_id'' v) (map ?fa ps)))"
    unfolding resolve_part_def r using t [OF wf_fill_all [OF assms(1,3)]]
    by (simp del: map_map split: option.splits)
  then show ?thesis unfolding e' .
qed

text \<open>What \<open>_prepare_execution\<close> has checked when \<open>build\<close> runs: no required argument is missing.\<close>

definition required_supplied :: "arguments \<Rightarrow> command_argument_config list \<Rightarrow> bool" where
  "required_supplied args defs \<longleftrightarrow>
     (\<forall>a \<in> set defs. arg_required a \<longrightarrow> \<not> arg_absent args (arg_name a))"

definition values_brace_free :: "arguments \<Rightarrow> command_argument_config list \<Rightarrow> bool" where
  "values_brace_free args defs \<longleftrightarrow>
     (\<forall>a \<in> set defs. \<forall>v. args (arg_name a) = Some v \<longrightarrow> brace_free (py_str v))"

lemma kept_token_supplied:
  assumes "required_supplied args defs" and "values_brace_free args defs"
    and "\<forall>a \<in> set defs. brace_free (arg_name a)" and "wf_pieces ps"
    and "\<not> mentions (map placeholder (omitted_names args defs)) (template ps)"
  shows "holes_supplied args defs ps"
  unfolding holes_supplied_def
proof (intro ballI impI)
  fix a assume a: "a \<in> set defs" and h: "Hole (arg_name a) \<in> set ps"
  have "contains (placeholder (arg_name a)) (template ps)"
    using h a assms(3,4) by (simp add: contains_template)
  with assms(5) a have "\<not> (\<not> arg_required a \<and> arg_absent args (arg_name a))"
    by (auto simp: mentions_def list_ex_iff omitted_names_def)
  with assms(1) a have "\<not> arg_absent args (arg_name a)" by (auto simp: required_supplied_def)
  then obtain v where "args (arg_name a) = Some v" by (auto simp: arg_absent_def split: option.splits)
  with assms(2) a show "\<exists>v. args (arg_name a) = Some v \<and> brace_free (py_str v)"
    by (auto simp: values_brace_free_def)
qed

text \<open>The reference for one step: drop the omitted options, then substitute.\<close>

fun strip_pieces :: "string list \<Rightarrow> piece list list \<Rightarrow> piece list list" where
  "strip_pieces phs [] = []"
| "strip_pieces phs [t] = (if mentions phs (template t) then [] else [t])"
| "strip_pieces phs (t # u # ts) =
     (if mentions phs (template t) \<or> (is_flag (template t) \<and> mentions phs (template u))
      then strip_pieces phs (u # ts) else t # strip_pieces phs (u # ts))"

lemma strip_pieces_template: "strip_spec phs (map template ts) = map template (strip_pieces phs ts)"
  by (induction phs ts rule: strip_pieces.induct) auto

lemma strip_pieces_subset: "t \<in> set (strip_pieces phs ts) \<Longrightarrow> t \<in> set ts \<and> \<not> mentions phs (template t)"
  by (induction phs ts rule: strip_pieces.induct) (auto split: if_splits)

definition build_spec ::
  "arguments \<Rightarrow> command_argument_config list \<Rightarrow> string option \<Rightarrow> piece list list list \<Rightarrow> string list list" where
  "build_spec args defs run_id steps =
     map (\<lambda>toks. map (\<lambda>ps. concat (map (subst_piece args (map arg_name defs) run_id) ps))
                    (strip_pieces (map placeholder (omitted_names args defs)) toks)) steps"

section \<open>Properties\<close>

text \<open>
  \<open>strip_omitted_optionals\<close>, which collects the indices to drop and filters by index,
  equals a single pass that looks one token ahead: a token goes when it mentions an omitted
  optional argument, or when it is a flag (\<^verbatim>\<open>-...\<close> without a placeholder) and the next token
  mentions one; all other tokens stay, in order.
\<close>

theorem strip_omitted_optionals_spec:
  "strip_omitted_optionals command args defs =
     strip_spec (map placeholder (omitted_names args defs)) command"
  by (rule strip_omitted_eq)

text \<open>
  For values without braces, the successive replacements of \<open>resolve_part\<close> amount to
  one simultaneous substitution: every hole of a declared argument gets the text of its value,
  \<^verbatim>\<open>{run_id}\<close> gets the server's run id unless an argument of that name is declared, everything
  else is copied. No value is ever rescanned.
\<close>

theorem resolve_part_simultaneous:
  assumes "wf_pieces ps" and "\<forall>a \<in> set defs. brace_free (arg_name a)" and "holes_supplied args defs ps"
  shows "resolve_part (template ps) args defs run_id =
     Inr (concat (map (subst_piece args (map arg_name defs) run_id) ps))"
  by (rule resolve_part_template [OF assms])

definition demo_arg :: "string \<Rightarrow> bool \<Rightarrow> command_argument_config" where
  "demo_arg n req = \<lparr>arg_name = n, arg_type = ''string'', arg_validation_regex = [], arg_required = req\<rparr>"

theorem resolve_part_simultaneous_witness:
  "resolve_part ''--log={dir}/{run_id}.log'' [''dir'' \<mapsto> PStr ''/tmp''] [demo_arg ''dir'' True] (Some ''r1'')
     = Inr ''--log=/tmp/r1.log''"
proof -
  let ?ps = "[Lit ''--log='', Hole ''dir'', Lit ''/'', Hole ''run_id'', Lit ''.log'']"
  let ?defs = "[demo_arg ''dir'' True]"
  have 1: "wf_pieces ?ps" by (simp add: wf_pieces_def brace_free_def)
  have 2: "\<forall>a \<in> set ?defs. brace_free (arg_name a)" by (simp add: demo_arg_def brace_free_def)
  have 3: "holes_supplied [''dir'' \<mapsto> PStr ''/tmp''] ?defs ?ps"
    by (simp add: holes_supplied_def demo_arg_def brace_free_def)
  from resolve_part_simultaneous [OF 1 2 3, of "Some ''r1''"] show ?thesis
    by (simp add: template_def placeholder_def subst_hole_def demo_arg_def)
qed

text \<open>
  Property C21. \<open>build\<close> never raises on a validated request: when no required argument is missing,
  the values contain no braces and the whitelist's tokens are texts with well-formed placeholders,
  the pipeline is the template with the omitted options dropped and the values substituted. In
  particular no \<^verbatim>\<open>KeyError\<close> for an omitted optional argument is possible.
\<close>

theorem build_functional:
  assumes "required_supplied (rq_arguments (cx_raw_request cx)) (cc_arguments (cx_cmd_config cx))"
    and "values_brace_free (rq_arguments (cx_raw_request cx)) (cc_arguments (cx_cmd_config cx))"
    and "\<forall>a \<in> set (cc_arguments (cx_cmd_config cx)). brace_free (arg_name a)"
    and "map ps_command (cc_pipeline (cx_cmd_config cx)) = map (map template) steps"
    and "\<forall>toks \<in> set steps. \<forall>ps \<in> set toks. wf_pieces ps"
  shows "build cx = Inr (build_spec (rq_arguments (cx_raw_request cx)) (cc_arguments (cx_cmd_config cx))
     (cx_run_id cx) steps)"
proof -
  let ?args = "rq_arguments (cx_raw_request cx)" and ?defs = "cc_arguments (cx_cmd_config cx)"
  let ?phs = "map placeholder (omitted_names ?args ?defs)"
  let ?one = "\<lambda>c. mapE (\<lambda>part. resolve_part part ?args ?defs (cx_run_id cx)) (strip_omitted_optionals c ?args ?defs)"
  let ?out = "\<lambda>toks. map (\<lambda>ps. concat (map (subst_piece ?args (map arg_name ?defs) (cx_run_id cx)) ps)) (strip_pieces ?phs toks)"
  have one: "?one (map template toks) = Inr (?out toks)" if "toks \<in> set steps" for toks
  proof -
    have "resolve_part (template ps) ?args ?defs (cx_run_id cx) =
        Inr (concat (map (subst_piece ?args (map arg_name ?defs) (cx_run_id cx)) ps))"
      if p: "ps \<in> set (strip_pieces ?phs toks)" for ps
      using strip_pieces_subset [OF p] \<open>toks \<in> set steps\<close> assms kept_token_supplied
      by (intro resolve_part_template) auto
    then have "mapE (\<lambda>ps. resolve_part (template ps) ?args ?defs (cx_run_id cx)) (strip_pieces ?phs toks) = Inr (?out toks)"
      by (rule mapE_all_Inr)
    then show ?thesis by (simp add: strip_omitted_eq strip_pieces_template mapE_map)
  qed
  have "mapE ?one (map (map template) steps) = Inr (map ?out steps)"
    unfolding mapE_map using one by (intro mapE_all_Inr) simp
  then have "mapE (\<lambda>step. ?one (ps_command step)) (cc_pipeline (cx_cmd_config cx)) = Inr (map ?out steps)"
    unfolding assms(4) [symmetric] mapE_map .
  then show ?thesis by (simp add: build_def build_spec_def Let_def)
qed

definition demo_request :: command_request where
  "demo_request = \<lparr>rq_command_name = ''play'', rq_host = ''10.0.0.7'', rq_host_type = IP, rq_port = 22,
     rq_username = ''root'', rq_ssh_config = ''default'', rq_option = None,
     rq_arguments = [''book'' \<mapsto> PStr ''site.yml''], rq_min_script_version = None\<rparr>"

definition demo_config :: command_whitelist_config where
  "demo_config = \<lparr>cc_command_name = ''play'', cc_description = [], cc_disconnects_ssh = False,
     cc_killable = True, cc_logged = False, cc_checks_script_version = False,
     cc_min_script_version = None, cc_output_format = COF_TEXT,
     cc_pipeline = [\<lparr>ps_command = [''run'', ''{book}'', ''--limit'', ''{limit}'']\<rparr>],
     cc_arguments = [demo_arg ''book'' True, demo_arg ''limit'' False]\<rparr>"

definition demo_context :: execution_context where
  "demo_context = \<lparr>cx_username = ''admin'', cx_request_id = ''q'', cx_command_name = ''play'',
     cx_raw_request = demo_request, cx_cmd_config = demo_config,
     cx_ssh_config = \<lparr>sc_auth_method = ''key'', sc_key_base64 = [], sc_cert_base64 = None\<rparr>,
     cx_resolved_host = \<lparr>rh_ip = ''10.0.0.7'', rh_source_input = ''10.0.0.7'', rh_metadata = [], rh_bastion_name = None\<rparr>,
     cx_conn = None, cx_pipeline_cmds = [], cx_run_id = None, cx_run_log_path = None,
     cx_effective_ssh_config = ''default''\<rparr>"

theorem build_functional_witness:
  "build demo_context = Inr [[''run'', ''site.yml'']]"
proof -
  let ?steps = "[[[Lit ''run''], [Hole ''book''], [Lit ''--limit''], [Hole ''limit'']]]"
  let ?args = "rq_arguments (cx_raw_request demo_context)"
  let ?defs = "cc_arguments (cx_cmd_config demo_context)"
  note ev = demo_context_def demo_request_def demo_config_def demo_arg_def
  have 1: "required_supplied ?args ?defs" by (simp add: ev required_supplied_def arg_absent_def)
  have 2: "values_brace_free ?args ?defs" by (simp add: ev values_brace_free_def brace_free_def)
  have 3: "\<forall>a \<in> set ?defs. brace_free (arg_name a)" by (simp add: ev brace_free_def)
  have 4: "map ps_command (cc_pipeline (cx_cmd_config demo_context)) = map (map template) ?steps"
    by (simp add: ev template_def placeholder_def)
  have 5: "\<forall>toks \<in> set ?steps. \<forall>ps \<in> set toks. wf_pieces ps"
    by (simp add: wf_pieces_def brace_free_def)
  have spec: "build_spec ?args ?defs (cx_run_id demo_context) ?steps = [[''run'', ''site.yml'']]"
    by (simp add: ev build_spec_def omitted_names_def arg_absent_def mentions_def template_def
        placeholder_def is_flag_def subst_hole_def)
  from build_functional [OF 1 2 3 4 5] spec show ?thesis by simp
qed

end
