(* ===== verification/SshSupport.thy ===== *)
theory SshSupport
  imports StateRepo Pipeline
begin

text \<open>
  \<^verbatim>\<open>app/services/command_ssh.py\<close> with the authenticators of \<^verbatim>\<open>app/repositories/ssh_*_auth\<close>:
  which SSH configuration a run uses, where it is read from, the connection back to the control node,
  and the tail of a run log.
\<close>

section \<open>Authenticators\<close>

datatype authenticator =
    SSHKeyAuthenticator string
  | SSHCertificateAuthenticator string string

definition create_authenticator :: "ssh_connection_config \<Rightarrow> authenticator" where
  "create_authenticator c =
     (case sc_cert_base64 c of
        Some cert \<Rightarrow> if sc_auth_method c = ''ca'' \<and> cert \<noteq> []
                      then SSHCertificateAuthenticator (sc_key_base64 c) cert
                      else SSHKeyAuthenticator (sc_key_base64 c)
      | None \<Rightarrow> SSHKeyAuthenticator (sc_key_base64 c))"

fun get_connect_kwargs :: "('e, 'd) env \<Rightarrow> authenticator \<Rightarrow> exn + credentials" where
  "get_connect_kwargs env (SSHKeyAuthenticator key) =
     (case b64_text env key of Inl e \<Rightarrow> Inl e
      | Inr key_str \<Rightarrow> (case import_private_key env key_str of Inl e \<Rightarrow> Inl e
          | Inr k \<Rightarrow> Inr (KeyCred k)))"
| "get_connect_kwargs env (SSHCertificateAuthenticator key cert) =
     (case b64_text env key of Inl e \<Rightarrow> Inl e
      | Inr key_str \<Rightarrow> (case b64_text env cert of Inl e \<Rightarrow> Inl e
          | Inr cert_str \<Rightarrow> (case import_private_key env key_str of Inl e \<Rightarrow> Inl e
              | Inr k \<Rightarrow> (case import_certificate env cert_str of Inl e \<Rightarrow> Inl e
                  | Inr c \<Rightarrow> Inr (CertCred k c)))))"

section \<open>Configuration\<close>

definition ssh_config_path :: "('e, 'd) env \<Rightarrow> string \<Rightarrow> string" where
  "ssh_config_path env name =
     (let config_dir = (if SSH_CONFIG_DIR (env_settings env) \<noteq> []
                        then SSH_CONFIG_DIR (env_settings env)
                        else COMMAND_CONFIG_DIR (env_settings env))
      in os_path_join config_dir (''SSH-'' @ name @ ''.json''))"

definition select_ssh_config ::
  "('e, 'd) env \<Rightarrow> string \<Rightarrow> string option \<Rightarrow> ('e pod, string) io" where
  "select_ssh_config env requested bastion_name = (case bastion_name of
       None \<Rightarrow> ret requested
     | Some b \<Rightarrow>
         if requested \<noteq> FALLBACK_SSH_CONFIG then ret requested
         else if \<not> is_safe_ssh_config_name b
           then raise (AppExc BaseApp ''Inventory returned an invalid bastion name.'')
         else bindE (getS (\<lambda>p. path_exists env (ssh_config_path env b) (pod_world p))) (\<lambda>found.
           if found then ret b else ret FALLBACK_SSH_CONFIG))"

definition load_ssh_config :: "('e, 'd) env \<Rightarrow> string \<Rightarrow> ('e pod, ssh_connection_config) io" where
  "load_ssh_config env name =
     (if DRY_RUN_MODE (env_settings env)
      then ret \<lparr>sc_auth_method = ''key'', sc_key_base64 = [], sc_cert_base64 = None\<rparr>
      else let file_path = ssh_config_path env name in
        bindE (getS (\<lambda>p. path_exists env file_path (pod_world p))) (\<lambda>found.
          if \<not> found
          then if name = FALLBACK_SSH_CONFIG
               then raise (AppExc BaseApp ''SSH configuration not found.'')
               else raise (AppExc SSHConfigNotFound (''SSH config '' @ squoted name
                      @ '' is not provisioned. Add the SSH-'' @ name @ ''.json secret.''))
          else ext (read_ssh_config env file_path)))"

section \<open>The control node\<close>

text \<open>\<^verbatim>\<open>asyncssh.connect\<close> under \<^verbatim>\<open>asyncio.wait_for\<close>: the library call with its bound; a
  connection that takes too long is the outcome \<open>PyTimeoutError\<close>.\<close>

definition ssh_connect_within ::
  "('e, 'd) env \<Rightarrow> string \<Rightarrow> int \<Rightarrow> string \<Rightarrow> credentials \<Rightarrow> int \<Rightarrow> ('e pod, conn) io" where
  "ssh_connect_within env host port user cred timeout =
     bindE (ext (ssh_connect env host port user cred timeout)) (\<lambda>n. ret (RealConn n))"

definition connect_to_control_node :: "('e, 'd) env \<Rightarrow> command_state \<Rightarrow> ('e pod, conn) io" where
  "connect_to_control_node env st =
     (if DRY_RUN_MODE (env_settings env) then make_dry_conn True 0
      else bindE (load_ssh_config env (cs_ssh_config st)) (\<lambda>ssh_config.
        bindE (liftE (get_connect_kwargs env (create_authenticator ssh_config))) (\<lambda>conn_kwargs.
          catchE
            (ssh_connect_within env (cs_resolved_ip st) (cs_port st) (cs_username st) conn_kwargs
               (SSH_CONNECT_TIMEOUT_SECONDS (env_settings env)))
            (\<lambda>exc. if exc = PyTimeoutError
               then raise (AppExc UpstreamTimeout
                      (''SSH connect to control_node timed out for '' @ cs_command_id st @ ''.''))
               else if is_os_or_ssh_error exc
               then raise (AppExc UpstreamUnavailable
                      (''SSH connect to control_node failed for '' @ cs_command_id st @ '': '' @ exn_str exc))
               else raise exc))))"

text \<open>\<^verbatim>\<open>str(x) if x else ""\<close> on a stream.\<close>

definition text_of :: "string option \<Rightarrow> string" where
  "text_of stream = (case stream of None \<Rightarrow> [] | Some s \<Rightarrow> s)"

definition read_log_tail ::
  "('e, 'd) env \<Rightarrow> command_state \<Rightarrow> int \<Rightarrow> ('e pod, string option) io" where
  "read_log_tail env st n =
     (let path = text_of (cs_run_log_path st) in
      if path = [] then ret None
      else bindE
        (catchE (bindE (connect_to_control_node env st) (\<lambda>c. ret (Some c)))
           (\<lambda>exc. if is_app_exception exc then ret None else raise exc))
        (\<lambda>mc. case mc of
           None \<Rightarrow> ret None
         | Some c \<Rightarrow>
             finallyE
               (catchE
                 (bindE (conn_run env c (''tail -n '' @ int_str n @ '' '' @ shlex_quote path)) (\<lambda>res.
                    if cp_exit_status res \<noteq> Some 0 then ret None
                    else let text = text_of (cp_stdout res) in
                      ret (if text = [] then None else Some text)))
                 (\<lambda>exc. if is_os_or_ssh_error exc then ret None else raise exc))
               (conn_close env c)))"

section \<open>Frames\<close>

text \<open>
  Calls on connections, processes and clocks leave the stored records alone. This is the view of
  one handler between two steps of another: \<open>Race\<close> looks at the interleavings.
\<close>

definition ssh_frame :: "('e, 'd) env \<Rightarrow> ('e \<Rightarrow> string \<Rightarrow> 'd option) \<Rightarrow> bool" where
  "ssh_frame env kv \<longleftrightarrow>
     (\<forall>h i u c t e. kv (snd (ssh_connect env h i u c t e)) = kv e)
     \<and> (\<forall>n c e. kv (snd (ssh_run env n c e)) = kv e)
     \<and> (\<forall>n c i e. kv (snd (ssh_create_process env n c i e)) = kv e)
     \<and> (\<forall>n e. kv (snd (ssh_is_closed env n e)) = kv e)
     \<and> (\<forall>n e. kv (snd (ssh_close env n e)) = kv e)
     \<and> (\<forall>n e. kv (snd (proc_readline env n e)) = kv e)
     \<and> (\<forall>n e. kv (snd (proc_wait env n e)) = kv e)
     \<and> (\<forall>n e. kv (snd (proc_communicate env n e)) = kv e)
     \<and> (\<forall>n e. kv (snd (proc_returncode env n e)) = kv e)
     \<and> (\<forall>f e. kv (snd (read_ssh_config env f e)) = kv e)
     \<and> (\<forall>f e. kv (snd (read_whitelist env f e)) = kv e)
     \<and> (\<forall>e. kv (snd (new_uuid env e)) = kv e)
     \<and> (\<forall>t e. kv (snd (sleep env t e)) = kv e)"

lemma ssh_frame_demo: "ssh_frame (demo_env cfg wl answer) map_of"
  by (simp add: ssh_frame_def demo_env_def io_run)

text \<open>A computation that keeps the pool, the tasks and the stored records. The rules are
  syntax-directed: a component proves its frame by \<open>intro quiet\<close>.\<close>

definition keeps :: "('e \<Rightarrow> string \<Rightarrow> 'd option) \<Rightarrow> ('e pod, 'a) io \<Rightarrow> bool" where
  "keeps kv m \<longleftrightarrow> (\<forall>p. pod_pool (snd (m p)) = pod_pool p \<and> pod_tasks (snd (m p)) = pod_tasks p
     \<and> kv (pod_world (snd (m p))) = kv (pod_world p))"

named_theorems quiet \<open>computations that keep the pool and the stored records\<close>

lemma keepsD:
  assumes "keeps kv m" "m p = (r, p')"
  shows "pod_pool p' = pod_pool p" "pod_tasks p' = pod_tasks p" "kv (pod_world p') = kv (pod_world p)"
  using assms unfolding keeps_def by (metis snd_conv)+

lemma keeps_stored: "keeps kv m \<Longrightarrow> m p = (r, p') \<Longrightarrow> stored env kv p' = stored env kv p"
  by (simp add: stored_def fun_eq_iff keepsD)

lemma ids_match_keeps: "keeps kv m \<Longrightarrow> m p = (r, p') \<Longrightarrow> ids_match env kv p' = ids_match env kv p"
  unfolding ids_match_def by (simp add: keeps_stored)

lemma keeps_ret [quiet]: "keeps kv (ret x)"
  by (simp add: keeps_def io_run)

lemma keeps_raise [quiet]: "keeps kv (raise x)"
  by (simp add: keeps_def io_run)

lemma keeps_liftE [quiet]: "keeps kv (liftE x)"
  by (simp add: keeps_def io_run)

lemma keeps_getS [quiet]: "keeps kv (getS f)"
  by (simp add: keeps_def io_run)

lemma keeps_bindE [quiet]: "keeps kv m \<Longrightarrow> (\<And>x. keeps kv (f x)) \<Longrightarrow> keeps kv (bindE m f)"
  by (simp add: keeps_def io_run split: prod.splits sum.splits) (metis snd_conv)

lemma keeps_thenE [quiet]: "keeps kv m \<Longrightarrow> keeps kv k \<Longrightarrow> keeps kv (thenE m k)"
  unfolding thenE_def by (rule keeps_bindE)

lemma keeps_catchE [quiet]: "keeps kv m \<Longrightarrow> (\<And>x. keeps kv (h x)) \<Longrightarrow> keeps kv (catchE m h)"
  by (simp add: keeps_def io_run split: prod.splits sum.splits) (metis snd_conv)

lemma keeps_finallyE [quiet]: "keeps kv m \<Longrightarrow> keeps kv f \<Longrightarrow> keeps kv (finallyE m f)"
  by (simp add: keeps_def io_run split: prod.splits sum.splits) (metis snd_conv)

lemma keeps_if [quiet]: "(b \<Longrightarrow> keeps kv m) \<Longrightarrow> (\<not> b \<Longrightarrow> keeps kv n) \<Longrightarrow> keeps kv (if b then m else n)"
  by simp

lemma keeps_Let [quiet]: "(\<And>y. keeps kv (f y)) \<Longrightarrow> keeps kv (Let x f)"
  by (simp add: Let_def)

lemma keeps_case_option [quiet]:
  "keeps kv m \<Longrightarrow> (\<And>y. keeps kv (f y)) \<Longrightarrow> keeps kv (case x of None \<Rightarrow> m | Some y \<Rightarrow> f y)"
  by (cases x) auto

lemma keeps_case_sum [quiet]:
  "(\<And>y. keeps kv (f y)) \<Longrightarrow> (\<And>y. keeps kv (g y)) \<Longrightarrow> keeps kv (case x of Inl y \<Rightarrow> f y | Inr y \<Rightarrow> g y)"
  by (cases x) auto

lemma keeps_for_each [quiet]: "(\<And>x. keeps kv (f x)) \<Longrightarrow> keeps kv (for_each xs f)"
  by (induction xs) (auto intro: quiet)

lemma keeps_ext [quiet]: "(\<And>e. kv (snd (m e)) = kv e) \<Longrightarrow> keeps kv (ext m)"
  by (simp add: keeps_def io_run split: prod.splits) (metis snd_conv)

lemma keeps_make_dry_conn [quiet]: "keeps kv (make_dry_conn b n)"
  by (simp add: keeps_def make_dry_conn_def)

lemma ssh_frameD:
  assumes "ssh_frame env kv"
  shows "kv (snd (ssh_connect env h i u cr t e)) = kv e"
    "kv (snd (ssh_run env n c e)) = kv e" "kv (snd (ssh_create_process env n c pi e)) = kv e"
    "kv (snd (ssh_is_closed env n e)) = kv e" "kv (snd (ssh_close env n e)) = kv e"
    "kv (snd (proc_readline env n e)) = kv e" "kv (snd (proc_wait env n e)) = kv e"
    "kv (snd (proc_communicate env n e)) = kv e" "kv (snd (proc_returncode env n e)) = kv e"
    "kv (snd (read_ssh_config env f e)) = kv e" "kv (snd (read_whitelist env f e)) = kv e"
    "kv (snd (new_uuid env e)) = kv e" "kv (snd (sleep env t e)) = kv e"
  using assms by (simp_all add: ssh_frame_def)

lemma keeps_conn_run [quiet]: "ssh_frame env kv \<Longrightarrow> keeps kv (conn_run env c cmd)"
proof (cases c)
  case (RealConn n)
  moreover assume "ssh_frame env kv"
  ultimately show ?thesis by (simp add: keeps_ext ssh_frameD)
next
  case (DryConn i)
  then show ?thesis by (simp add: keeps_def split: prod.splits)
qed

lemma keeps_conn_is_closed [quiet]: "ssh_frame env kv \<Longrightarrow> keeps kv (conn_is_closed env c)"
proof (cases c)
  case (RealConn n)
  moreover assume "ssh_frame env kv"
  ultimately show ?thesis by (simp add: keeps_ext ssh_frameD)
next
  case (DryConn i)
  then show ?thesis by (simp add: keeps_def)
qed

lemma keeps_conn_close [quiet]: "ssh_frame env kv \<Longrightarrow> keeps kv (conn_close env c)"
proof (cases c)
  case (RealConn n)
  moreover assume "ssh_frame env kv"
  ultimately show ?thesis by (simp add: keeps_ext ssh_frameD)
next
  case (DryConn i)
  then show ?thesis by (simp add: keeps_def)
qed

lemma keeps_load_ssh_config [quiet]: "ssh_frame env kv \<Longrightarrow> keeps kv (load_ssh_config env name)"
  unfolding load_ssh_config_def by (intro quiet) (rule ssh_frameD)

lemma keeps_select_ssh_config [quiet]: "keeps kv (select_ssh_config env name b)"
  unfolding select_ssh_config_def by (intro quiet)

lemma keeps_ssh_connect_within [quiet]:
  "ssh_frame env kv \<Longrightarrow> keeps kv (ssh_connect_within env h p u c t)"
  unfolding ssh_connect_within_def by (intro quiet) (rule ssh_frameD)

lemma keeps_connect_to_control_node [quiet]:
  "ssh_frame env kv \<Longrightarrow> keeps kv (connect_to_control_node env st)"
  unfolding connect_to_control_node_def by (intro quiet)

lemma keeps_read_log_tail [quiet]: "ssh_frame env kv \<Longrightarrow> keeps kv (read_log_tail env st n)"
  unfolding read_log_tail_def by (intro quiet)

section \<open>Which file is read\<close>

lemma ssh_name_no_slash: "is_safe_ssh_config_name name \<Longrightarrow> CHR ''/'' \<notin> set name"
  unfolding is_safe_ssh_config_name_def ssh_name_match using ssh_name_char_slash by fastforce

lemma is_safe_ssh_config_nameI:
  "name \<noteq> [] \<Longrightarrow> \<forall>c \<in> set name. ssh_name_char c \<Longrightarrow> \<not> contains ''..'' name \<Longrightarrow> is_safe_ssh_config_name name"
  unfolding is_safe_ssh_config_name_def ssh_name_match by blast

lemma request_ssh_config_safe:
  "request_error r = None \<Longrightarrow> is_safe_ssh_config_name (rq_ssh_config r)"
  by (auto simp: request_error_def split: if_splits)

lemma select_ssh_config_safe:
  assumes "is_safe_ssh_config_name requested" "select_ssh_config env requested b p = (Inr name, p')"
  shows "is_safe_ssh_config_name name"
  using assms
  by (auto simp: select_ssh_config_def io_run FALLBACK_SSH_CONFIG_def split: option.splits if_splits)

lemma ssh_config_path_split:
  "\<exists>d. (d = [] \<or> last d = CHR ''/'') \<and> (\<forall>name. ssh_config_path env name = d @ ''SSH-'' @ name @ ''.json'')"
proof -
  define dir where "dir = (if SSH_CONFIG_DIR (env_settings env) \<noteq> [] then SSH_CONFIG_DIR (env_settings env)
                           else COMMAND_CONFIG_DIR (env_settings env))"
  define d where "d = (if dir = [] \<or> endswith dir ''/'' then dir else dir @ ''/'')"
  have "d = [] \<or> last d = CHR ''/''" by (auto simp: d_def endswith_def suffix_def)
  moreover have "ssh_config_path env name = d @ ''SSH-'' @ name @ ''.json''" for name
    by (simp add: ssh_config_path_def os_path_join_def d_def dir_def Let_def)
  ultimately show ?thesis by blast
qed

text \<open>
  Property C25. The SSH configuration of a run. For a request the model validator accepts, the name the launch
  records is the requested one when it is not \<^verbatim>\<open>default\<close> or no bastion fronts the target; otherwise
  it is the bastion's name (which then passed the safety check and whose file exists) or \<^verbatim>\<open>default\<close>. The
  selection has no effect, and the file a loader opens for the recorded name, now or from another pod,
  is one component \<^verbatim>\<open>SSH-<name>.json\<close> without \<^verbatim>\<open>/\<close> inside the configured directory.
\<close>

theorem ssh_config_confined:
  assumes "request_error r = None" and "select_ssh_config env (rq_ssh_config r) b p = (Inr name, p')"
  shows "p' = p
    \<and> (if rq_ssh_config r \<noteq> ''default'' \<or> b = None then name = rq_ssh_config r
       else name = ''default''
          \<or> (b = Some name \<and> is_safe_ssh_config_name name \<and> path_exists env (ssh_config_path env name) (pod_world p)))
    \<and> (\<exists>d. (d = [] \<or> last d = CHR ''/'') \<and> ssh_config_path env name = d @ ''SSH-'' @ name @ ''.json''
          \<and> CHR ''/'' \<notin> set (''SSH-'' @ name @ ''.json''))"
proof (intro conjI)
  show "p' = p" using assms(2)
    by (auto simp: select_ssh_config_def io_run split: option.splits if_splits)
  show "if rq_ssh_config r \<noteq> ''default'' \<or> b = None then name = rq_ssh_config r
     else name = ''default''
        \<or> (b = Some name \<and> is_safe_ssh_config_name name \<and> path_exists env (ssh_config_path env name) (pod_world p))"
    using assms(2)
    by (auto simp: select_ssh_config_def io_run FALLBACK_SSH_CONFIG_def split: option.splits if_splits)
  have "is_safe_ssh_config_name name"
    using select_ssh_config_safe [OF request_ssh_config_safe [OF assms(1)] assms(2)] .
  then have "CHR ''/'' \<notin> set (''SSH-'' @ name @ ''.json'')" by (simp add: ssh_name_no_slash)
  with ssh_config_path_split [of env]
  show "\<exists>d. (d = [] \<or> last d = CHR ''/'') \<and> ssh_config_path env name = d @ ''SSH-'' @ name @ ''.json''
      \<and> CHR ''/'' \<notin> set (''SSH-'' @ name @ ''.json'')" by blast
qed

lemma ssh_config_confined_witness:
  "\<exists>p' d. select_ssh_config (demo_env (demo_settings False) demo_whitelist (\<lambda>_. Inl PyTimeoutError))
       (rq_ssh_config demo_request) (Some ''b-1'') (demo_pod []) = (Inr ''b-1'', p')
     \<and> ssh_config_path (demo_env (demo_settings False) demo_whitelist (\<lambda>_. Inl PyTimeoutError)) ''b-1''
         = d @ ''SSH-'' @ ''b-1'' @ ''.json''"
proof -
  let ?env = "demo_env (demo_settings False) demo_whitelist (\<lambda>_. Inl PyTimeoutError)"
  have "is_safe_ssh_config_name ''default''" "is_safe_ssh_config_name ''b-1''"
    by (rule is_safe_ssh_config_nameI; simp add: ssh_name_char_def Let_def)+
  then have req: "request_error demo_request = None"
    and run: "select_ssh_config ?env (rq_ssh_config demo_request) (Some ''b-1'') (demo_pod []) = (Inr ''b-1'', demo_pod [])"
    by (simp_all add: request_error_def demo_request_def select_ssh_config_def FALLBACK_SSH_CONFIG_def io_run
        demo_env_def)
  from ssh_config_confined [OF req run] run show ?thesis by blast
qed

end
