(* ===== verification/Inventory.thy ===== *)
theory Inventory
  imports Env
begin

text \<open>
  The inventory: the models and the repository contract of
  \<^verbatim>\<open>app/repositories/inventory_repository.py\<close>, its HTTP implementations there and in
  \<^verbatim>\<open>app/clients/inventory_client.py\<close>, and the dry-run implementation. A JSON document is a value
  of \<open>json\<close>; the transport is a parameter that answers a status and a body, or one of the two
  exceptions of \<^verbatim>\<open>httpx\<close> the code names.
\<close>

section \<open>Models\<close>

record cluster_ref =
  cl_id :: string
  cl_name :: string
  cl_context :: string

record node_info =
  nd_id :: string
  nd_name :: string
  nd_labels :: "(string \<times> string) list"

record cluster_node_info =
  ni_node_type :: string
  ni_node :: node_info
  ni_cluster :: cluster_ref

record bastion_mapping =
  bm_patterns :: "string list"
  bm_runner :: string
  bm_bastion :: string
  bm_bastion_ip :: string

text \<open>An object that implements \<^verbatim>\<open>InventoryRepository\<close>.\<close>

record 's inventory =
  lookup_by_name :: "string \<Rightarrow> ('s, cluster_node_info) io"
  list_mappings :: "string \<Rightarrow> ('s, bastion_mapping list) io"

section \<open>JSON and its validation\<close>

definition invalid :: "string \<Rightarrow> exn" where
  "invalid m = PyValidationError [m]"

text \<open>A required field of type \<^verbatim>\<open>str\<close>: pydantic does not coerce to a string.\<close>

definition str_field :: "string \<Rightarrow> (string \<times> json) list \<Rightarrow> exn + string" where
  "str_field k fs = (case map_of fs k of Some (JStr s) \<Rightarrow> Inr s | _ \<Rightarrow> Inl (invalid k))"

definition str_items :: "json list \<Rightarrow> exn + string list" where
  "str_items = mapE (\<lambda>j. case j of JStr s \<Rightarrow> Inr s | _ \<Rightarrow> Inl (invalid ''item''))"

fun validate_cluster_ref :: "json \<Rightarrow> exn + cluster_ref" where
  "validate_cluster_ref (JObj fs) =
     (case str_field ''id'' fs of Inl e \<Rightarrow> Inl e
      | Inr i \<Rightarrow> (case str_field ''name'' fs of Inl e \<Rightarrow> Inl e
          | Inr n \<Rightarrow> (case map_of fs ''context'' of
                None \<Rightarrow> Inr \<lparr>cl_id = i, cl_name = n, cl_context = []\<rparr>
              | Some JNull \<Rightarrow> Inr \<lparr>cl_id = i, cl_name = n, cl_context = []\<rparr>
              | Some (JStr c) \<Rightarrow> Inr \<lparr>cl_id = i, cl_name = n, cl_context = c\<rparr>
              | Some _ \<Rightarrow> Inl (invalid ''context''))))"
| "validate_cluster_ref _ = Inl (invalid ''cluster'')"

definition validate_labels :: "json option \<Rightarrow> exn + (string \<times> string) list" where
  "validate_labels v = (case v of
       None \<Rightarrow> Inr []
     | Some JNull \<Rightarrow> Inr []
     | Some (JObj ls) \<Rightarrow>
         mapE (\<lambda>(k, j). case j of JStr s \<Rightarrow> Inr (k, s) | _ \<Rightarrow> Inl (invalid k)) ls
     | Some _ \<Rightarrow> Inl (invalid ''labels''))"

fun validate_node_info :: "json \<Rightarrow> exn + node_info" where
  "validate_node_info (JObj fs) =
     (case str_field ''id'' fs of Inl e \<Rightarrow> Inl e
      | Inr i \<Rightarrow> (case str_field ''name'' fs of Inl e \<Rightarrow> Inl e
          | Inr n \<Rightarrow> (case validate_labels (map_of fs ''labels'') of Inl e \<Rightarrow> Inl e
              | Inr ls \<Rightarrow> Inr \<lparr>nd_id = i, nd_name = n, nd_labels = ls\<rparr>)))"
| "validate_node_info _ = Inl (invalid ''node'')"

fun validate_cluster_node_info :: "json \<Rightarrow> exn + cluster_node_info" where
  "validate_cluster_node_info (JObj fs) =
     (case str_field ''node_type'' fs of Inl e \<Rightarrow> Inl e
      | Inr t \<Rightarrow> (case map_of fs ''node'' of None \<Rightarrow> Inl (invalid ''node'')
          | Some nj \<Rightarrow> (case validate_node_info nj of Inl e \<Rightarrow> Inl e
              | Inr n \<Rightarrow> (case map_of fs ''cluster'' of None \<Rightarrow> Inl (invalid ''cluster'')
                  | Some cj \<Rightarrow> (case validate_cluster_ref cj of Inl e \<Rightarrow> Inl e
                      | Inr c \<Rightarrow> Inr \<lparr>ni_node_type = t, ni_node = n, ni_cluster = c\<rparr>)))))"
| "validate_cluster_node_info _ = Inl (invalid ''root'')"

fun validate_bastion_mapping :: "json \<Rightarrow> exn + bastion_mapping" where
  "validate_bastion_mapping (JObj fs) =
     (case map_of fs ''patterns'' of
        Some (JArr ps) \<Rightarrow> (case str_items ps of Inl e \<Rightarrow> Inl e
          | Inr pats \<Rightarrow> (case str_field ''runner'' fs of Inl e \<Rightarrow> Inl e
              | Inr r \<Rightarrow> (case str_field ''bastion'' fs of Inl e \<Rightarrow> Inl e
                  | Inr b \<Rightarrow> (case str_field ''bastion_ip'' fs of Inl e \<Rightarrow> Inl e
                      | Inr ip \<Rightarrow> Inr \<lparr>bm_patterns = pats, bm_runner = r, bm_bastion = b, bm_bastion_ip = ip\<rparr>))))
      | _ \<Rightarrow> Inl (invalid ''patterns''))"
| "validate_bastion_mapping _ = Inl (invalid ''root'')"

text \<open>\<^verbatim>\<open>not x\<close> and \<^verbatim>\<open>len(x)\<close> on a decoded value.\<close>

fun json_falsy :: "json \<Rightarrow> bool" where
  "json_falsy JNull = True"
| "json_falsy (JBool b) = (\<not> b)"
| "json_falsy (JNum n) = (n = 0)"
| "json_falsy (JFloat t) = (t \<in> {''0.0'', ''-0.0''})"
| "json_falsy (JStr s) = (s = [])"
| "json_falsy (JArr xs) = (xs = [])"
| "json_falsy (JObj fs) = (fs = [])"

fun json_len :: "json \<Rightarrow> exn + nat" where
  "json_len (JStr s) = Inr (length s)"
| "json_len (JArr xs) = Inr (length xs)"
| "json_len (JObj fs) = Inr (length fs)"
| "json_len _ = Inl (PyOther ''TypeError: object has no len()'')"

text \<open>\<^verbatim>\<open>x[0].get("data")\<close>; \<open>JNull\<close> when the key is absent.\<close>

fun first_data :: "json \<Rightarrow> exn + json" where
  "first_data (JArr (JObj fs # _)) = Inr (case map_of fs ''data'' of None \<Rightarrow> JNull | Some j \<Rightarrow> j)"
| "first_data (JArr (_ # _)) = Inl (PyAttributeError ''get'')"
| "first_data (JArr []) = Inl (PyOther ''IndexError'')"
| "first_data (JObj fs) = Inl (PyKeyError ''0'')"
| "first_data (JStr s) = Inl (PyAttributeError ''get'')"
| "first_data _ = Inl (PyOther ''TypeError: object is not subscriptable'')"

section \<open>The HTTP clients\<close>

text \<open>The body of a response is \<open>None\<close> when it does not parse as JSON.\<close>

datatype http_result = HttpTimeout | HttpRequestError string | HttpResponse nat "json option"

type_synonym 's transport = "string \<Rightarrow> string \<Rightarrow> string \<Rightarrow> string \<Rightarrow> 's \<Rightarrow> http_result \<times> 's"

text \<open>The arguments of a transport: the token, the path, the name and the value of the query
  parameter.\<close>

definition LOOKUP_PATH :: string where
  "LOOKUP_PATH = ''/api/v1/k8s-clusters/node-cluster-lookup''"

definition MAPPINGS_PATH :: string where
  "MAPPINGS_PATH = ''/api/v1/bastion-cluster-mappings''"

definition unavailable :: "string \<Rightarrow> exn" where
  "unavailable m = AppExc UpstreamUnavailable m"

text \<open>The common tail of both clients: decoding a body that came with a good status; \<open>ctx\<close> is
  the phrase the messages end with.\<close>

definition decode_node :: "string \<Rightarrow> string \<Rightarrow> json option \<Rightarrow> exn + cluster_node_info" where
  "decode_node api ctx body = (case body of
       None \<Rightarrow> Inl (unavailable (api @ '' returned non-JSON '' @ ctx))
     | Some payload \<Rightarrow> (case validate_cluster_node_info payload of
           Inl _ \<Rightarrow> Inl (unavailable (api @ '' returned unexpected payload shape '' @ ctx))
         | Inr n \<Rightarrow> Inr n))"

definition decode_mappings :: "string \<Rightarrow> string \<Rightarrow> string \<Rightarrow> json option \<Rightarrow> exn + bastion_mapping list" where
  "decode_mappings api type_name ctx body = (case body of
       None \<Rightarrow> Inl (unavailable (api @ '' returned non-JSON '' @ ctx))
     | Some (JObj fs) \<Rightarrow>
         (case map_of fs ''results'' of
            None \<Rightarrow> Inl (unavailable (api @ '' returned unexpected payload shape '' @ ctx))
          | Some results \<Rightarrow>
              if json_falsy results
              then Inl (AppExc NotFound (''No bastion mappings found for type '' @ squoted type_name @ ''.''))
              else (case json_len results of Inl e \<Rightarrow> Inl e
                | Inr n \<Rightarrow>
                    if n \<noteq> 1 then Inl (unavailable (api @ '' returned '' @ nat_str n @ '' results '' @ ctx))
                    else (case first_data results of Inl e \<Rightarrow> Inl e
                      | Inr (JArr items) \<Rightarrow> mapE validate_bastion_mapping items
                      | Inr _ \<Rightarrow> Inl (unavailable (api @ '' result missing data list '' @ ctx)))))
     | Some _ \<Rightarrow> Inl (unavailable (api @ '' returned unexpected payload shape '' @ ctx)))"

text \<open>\<^verbatim>\<open>HttpInventoryRepository\<close>.\<close>

definition http_lookup :: "'s transport \<Rightarrow> string \<Rightarrow> string \<Rightarrow> ('s, cluster_node_info) io" where
  "http_lookup http token node_name = (\<lambda>s. case http token LOOKUP_PATH ''node_name'' node_name s of
       (HttpTimeout, s') \<Rightarrow>
         (Inl (AppExc UpstreamTimeout (''Cluster node lookup for '' @ squoted node_name @ '' timed out'')), s')
     | (HttpRequestError m, s') \<Rightarrow>
         (Inl (unavailable (''Cluster node lookup for '' @ squoted node_name @ '' failed: '' @ m)), s')
     | (HttpResponse code body, s') \<Rightarrow>
         (if code = 404
          then Inl (AppExc NotFound (''Node '' @ squoted node_name @ '' not found in cluster lookup.''))
          else if code \<ge> 400
          then Inl (unavailable (''Cluster node lookup API returned '' @ nat_str code @ '' for '' @ squoted node_name @ ''.''))
          else decode_node ''Cluster node lookup API'' (''for '' @ squoted node_name @ ''.'') body, s'))"

definition http_list :: "'s transport \<Rightarrow> string \<Rightarrow> string \<Rightarrow> ('s, bastion_mapping list) io" where
  "http_list http token type_name = (\<lambda>s. case http token MAPPINGS_PATH ''name'' type_name s of
       (HttpTimeout, s') \<Rightarrow>
         (Inl (AppExc UpstreamTimeout (''Bastion mapping lookup for type '' @ squoted type_name @ '' timed out'')), s')
     | (HttpRequestError m, s') \<Rightarrow>
         (Inl (unavailable (''Bastion mapping lookup for type '' @ squoted type_name @ '' failed: '' @ m)), s')
     | (HttpResponse code body, s') \<Rightarrow>
         (if code \<ge> 400
          then Inl (unavailable (''Bastion mapping API returned '' @ nat_str code @ '' for type '' @ squoted type_name @ ''.''))
          else decode_mappings ''Bastion mapping API'' type_name (''for type '' @ squoted type_name @ ''.'') body, s'))"

definition HttpInventoryRepository :: "'s transport \<Rightarrow> string \<Rightarrow> 's inventory" where
  "HttpInventoryRepository http token =
     \<lparr>lookup_by_name = http_lookup http token, list_mappings = http_list http token\<rparr>"

text \<open>\<^verbatim>\<open>InventoryTokenManager\<close>: a static key that never expires; a refresh fetches the same key. The
  lock only serialises callers.\<close>

record token_manager =
  tm_token :: string
  tm_api_key :: string

definition new_token_manager :: "string \<Rightarrow> token_manager" where
  "new_token_manager api_key = \<lparr>tm_token = api_key, tm_api_key = api_key\<rparr>"

definition tm_is_expired :: "token_manager \<Rightarrow> bool" where
  "tm_is_expired tm = False"

definition tm_refresh :: "token_manager \<Rightarrow> token_manager" where
  "tm_refresh tm = tm\<lparr>tm_token := tm_api_key tm\<rparr>"

definition tm_get_token :: "token_manager \<Rightarrow> string \<times> token_manager" where
  "tm_get_token tm =
     (let tm' = (if tm_token tm = [] \<or> tm_is_expired tm then tm_refresh tm else tm) in (tm_token tm', tm'))"

text \<open>\<^verbatim>\<open>InventoryClient\<close>: a 401 refreshes the token and repeats the request once.\<close>

definition request_with_retry ::
  "'s transport \<Rightarrow> token_manager \<Rightarrow> string \<Rightarrow> string \<Rightarrow> string \<Rightarrow> string \<Rightarrow> ('s, nat \<times> json option) io" where
  "request_with_retry http tm path ctx pname pvalue = (\<lambda>s.
     let timed_out = Inl (AppExc UpstreamTimeout (''Inventory API timed out ('' @ ctx @ '').''));
         failed = (\<lambda>m. Inl (unavailable (''Inventory API request failed ('' @ ctx @ ''): '' @ m)));
         (token, tm1) = tm_get_token tm
     in case http token path pname pvalue s of
          (HttpTimeout, s1) \<Rightarrow> (timed_out, s1)
        | (HttpRequestError m, s1) \<Rightarrow> (failed m, s1)
        | (HttpResponse code body, s1) \<Rightarrow>
            if code = 401
            then (let (token2, tm2) = tm_get_token (tm_refresh tm1)
                  in case http token2 path pname pvalue s1 of
                       (HttpTimeout, s2) \<Rightarrow> (timed_out, s2)
                     | (HttpRequestError m, s2) \<Rightarrow> (failed m, s2)
                     | (HttpResponse code2 body2, s2) \<Rightarrow> (Inr (code2, body2), s2))
            else (Inr (code, body), s1))"

definition raise_for_error :: "nat \<Rightarrow> string \<Rightarrow> exn" where
  "raise_for_error code ctx =
     (if code = 404 then AppExc NotFound (''Inventory resource not found ('' @ ctx @ '').'')
      else unavailable (''Inventory API returned '' @ nat_str code @ '' ('' @ ctx @ '').''))"

text \<open>\<^verbatim>\<open>response.is_error\<close>.\<close>

definition is_error :: "nat \<Rightarrow> bool" where
  "is_error code \<longleftrightarrow> 400 \<le> code \<and> code \<le> 599"

definition client_lookup :: "'s transport \<Rightarrow> token_manager \<Rightarrow> string \<Rightarrow> ('s, cluster_node_info) io" where
  "client_lookup http tm node_name =
     (let ctx = ''lookup_by_name('' @ node_name @ '')'' in
      bindE (request_with_retry http tm LOOKUP_PATH ctx ''node_name'' node_name) (\<lambda>(code, body).
        if is_error code then raise (raise_for_error code ctx)
        else liftE (decode_node ''Inventory API'' (''for lookup_by_name('' @ squoted node_name @ '').'') body)))"

definition client_list :: "'s transport \<Rightarrow> token_manager \<Rightarrow> string \<Rightarrow> ('s, bastion_mapping list) io" where
  "client_list http tm type_name =
     (let ctx = ''list_mappings('' @ type_name @ '')'' in
      bindE (request_with_retry http tm MAPPINGS_PATH ctx ''name'' type_name) (\<lambda>(code, body).
        if is_error code then raise (raise_for_error code ctx)
        else liftE (decode_mappings ''Inventory API'' type_name
                      (''for list_mappings('' @ squoted type_name @ '').'') body)))"

definition InventoryClient :: "'s transport \<Rightarrow> token_manager \<Rightarrow> 's inventory" where
  "InventoryClient http tm =
     \<lparr>lookup_by_name = client_lookup http tm, list_mappings = client_list http tm\<rparr>"

section \<open>Dry-run\<close>

definition dry_lookup :: "string \<Rightarrow> string \<Rightarrow> string \<Rightarrow> string \<Rightarrow> ('s, cluster_node_info) io" where
  "dry_lookup node_type cluster_name ip_label node_name =
     ret \<lparr>ni_node_type = node_type,
          ni_node = \<lparr>nd_id = ''dry-run-node-id'', nd_name = node_name,
                     nd_labels = [(ip_label, ''192.0.2.10'')]\<rparr>,
          ni_cluster = \<lparr>cl_id = ''dry-run-cluster-id'', cl_name = cluster_name,
                        cl_context = ''dry-run-context''\<rparr>\<rparr>"

definition dry_list :: "string \<Rightarrow> ('s, bastion_mapping list) io" where
  "dry_list type_name =
     ret [\<lparr>bm_patterns = [''.*''], bm_runner = ''dry-run-runner-'' @ type_name,
           bm_bastion = ''dry-run-bastion-'' @ type_name, bm_bastion_ip = ''192.0.2.20''\<rparr>]"

definition DryRunInventoryRepository :: "string \<Rightarrow> string \<Rightarrow> string \<Rightarrow> 's inventory" where
  "DryRunInventoryRepository node_type cluster_name ip_label =
     \<lparr>lookup_by_name = dry_lookup node_type cluster_name ip_label, list_mappings = dry_list\<rparr>"

section \<open>The contract\<close>

text \<open>The errors the repository documents, and the ones a malformed mapping payload lets through.\<close>

fun upstream_error :: "exn \<Rightarrow> bool" where
  "upstream_error (AppExc NotFound _) = True"
| "upstream_error (AppExc UpstreamTimeout _) = True"
| "upstream_error (AppExc UpstreamUnavailable _) = True"
| "upstream_error _ = False"

fun malformed_error :: "exn \<Rightarrow> bool" where
  "malformed_error (PyValidationError _) = True"
| "malformed_error (PyAttributeError _) = True"
| "malformed_error (PyKeyError _) = True"
| "malformed_error (PyOther _) = True"
| "malformed_error _ = False"

locale inventory_repo =
  fixes look :: "string \<Rightarrow> ('s, cluster_node_info) io"
    and maps :: "string \<Rightarrow> ('s, bastion_mapping list) io"
  assumes look_err: "look n s = (Inl e, s') \<Longrightarrow> upstream_error e"
    and maps_err: "maps t s = (Inl e, s') \<Longrightarrow> upstream_error e \<or> malformed_error e"
begin

text \<open>A handler that reads a node and then its mappings fails only in these ways.\<close>

lemma look_then_maps_err:
  assumes "bindE (look n) (\<lambda>i. bindE (maps (f i)) (\<lambda>ms. ret (g i ms))) s = (Inl e, s')"
  shows "upstream_error e \<or> malformed_error e"
  using assms by (auto simp: io_run split: prod.splits sum.splits dest: look_err maps_err)

end

lemma unavailable_upstream [simp]: "upstream_error (unavailable m)"
  by (simp add: unavailable_def)

lemma decode_node_err: "decode_node a c b = Inl e \<Longrightarrow> upstream_error e"
  by (auto simp: decode_node_def split: option.splits sum.splits)

lemma str_field_err: "str_field k fs = Inl e \<Longrightarrow> malformed_error e"
  by (auto simp: str_field_def invalid_def split: option.splits json.splits)

lemma mapE_err: "(\<And>x e. f x = Inl e \<Longrightarrow> P e) \<Longrightarrow> mapE f xs = Inl e \<Longrightarrow> P e"
  by (induction xs) (auto split: sum.splits)

lemma validate_bastion_mapping_err: "validate_bastion_mapping j = Inl e \<Longrightarrow> malformed_error e"
proof (cases j)
  case (JObj fs)
  have items: "str_items ps = Inl e \<Longrightarrow> malformed_error e" for ps e
    unfolding str_items_def by (erule mapE_err [rotated]) (auto simp: invalid_def split: json.splits)
  assume "validate_bastion_mapping j = Inl e"
  then show ?thesis
    by (auto simp: JObj invalid_def split: option.splits json.splits sum.splits dest: str_field_err items)
qed (auto simp: invalid_def)

lemma first_data_err: "first_data j = Inl e \<Longrightarrow> malformed_error e"
  by (induction j rule: first_data.induct) auto

lemma json_len_err: "json_len j = Inl e \<Longrightarrow> malformed_error e"
  by (cases j) auto

lemma mapE_mapping_err: "mapE validate_bastion_mapping js = Inl e \<Longrightarrow> malformed_error e"
  by (rule mapE_err [of validate_bastion_mapping malformed_error]) (auto dest: validate_bastion_mapping_err)

lemma decode_mappings_err: "decode_mappings a t c b = Inl e \<Longrightarrow> upstream_error e \<or> malformed_error e"
  unfolding decode_mappings_def
  by (auto split: option.splits json.splits sum.splits if_splits
      dest: json_len_err first_data_err mapE_mapping_err)

lemma request_err: "request_with_retry http tm path ctx pn pv s = (Inl e, s') \<Longrightarrow> upstream_error e"
  by (auto simp: request_with_retry_def Let_def split: prod.splits http_result.splits if_splits)

lemma raise_for_error_upstream: "upstream_error (raise_for_error c ctx)"
  by (simp add: raise_for_error_def)

interpretation client: inventory_repo "client_lookup http tm" "client_list http tm" for http tm
proof (unfold_locales, goal_cases)
  case (1 n s e s')
  then show ?case
    by (auto simp: client_lookup_def io_run Let_def raise_for_error_upstream
        split: prod.splits sum.splits if_splits dest: request_err decode_node_err)
next
  case (2 t s e s')
  then show ?case
    by (auto simp: client_list_def io_run Let_def raise_for_error_upstream
        split: prod.splits sum.splits if_splits dest: request_err decode_mappings_err)
qed

interpretation http: inventory_repo "http_lookup http token" "http_list http token" for http token
proof (unfold_locales, goal_cases)
  case (1 n s e s')
  then show ?case
    by (auto simp: http_lookup_def split: prod.splits http_result.splits if_splits dest: decode_node_err)
next
  case (2 t s e s')
  then show ?case
    by (auto simp: http_list_def split: prod.splits http_result.splits if_splits dest: decode_mappings_err)
qed

interpretation dry: inventory_repo "dry_lookup node_type cluster ip_label" dry_list for node_type cluster ip_label
  by unfold_locales (simp_all add: dry_lookup_def dry_list_def ret_run)

section \<open>Properties\<close>

fun same_error :: "exn \<Rightarrow> exn \<Rightarrow> bool" where
  "same_error (AppExc k m) (AppExc k' m') = (k = k')"
| "same_error e e' = (e = e')"

fun same_outcome :: "exn + 'a \<Rightarrow> exn + 'a \<Rightarrow> bool" where
  "same_outcome (Inr x) (Inr y) = (x = y)"
| "same_outcome (Inl e) (Inl e') = same_error e e'"
| "same_outcome _ _ = False"

definition plain_answer :: "http_result \<Rightarrow> bool" where
  "plain_answer res = (case res of HttpResponse c _ \<Rightarrow> c \<noteq> 401 \<and> c \<le> 599 | _ \<Rightarrow> True)"

lemma same_error_refl [simp]: "same_error e e"
  by (cases e) auto

lemma same_outcome_refl [simp]: "same_outcome r r"
  by (cases r) auto

lemma same_unavailable [simp]: "same_error (unavailable m) (unavailable n)"
  by (simp add: unavailable_def)

lemma decode_node_same: "same_outcome (decode_node a c b) (decode_node a' c' b)"
  by (cases b) (auto simp: decode_node_def split: sum.splits)

lemma decode_mappings_same: "same_outcome (decode_mappings a t c b) (decode_mappings a' t c' b)"
proof (cases b)
  case (Some j)
  show ?thesis
    by (cases j) (auto simp: Some decode_mappings_def split: option.splits sum.splits json.splits)
qed (simp add: decode_mappings_def)

lemma key_token [simp]: "tm_get_token (new_token_manager key) = (key, new_token_manager key)"
  by (simp add: tm_get_token_def new_token_manager_def tm_refresh_def tm_is_expired_def)

lemma request_plain:
  assumes "http key path pn pv s = (res, s')" "plain_answer res"
  shows "request_with_retry http (new_token_manager key) path ctx pn pv s = (case res of
       HttpTimeout \<Rightarrow> (Inl (AppExc UpstreamTimeout (''Inventory API timed out ('' @ ctx @ '').'')), s')
     | HttpRequestError m \<Rightarrow> (Inl (unavailable (''Inventory API request failed ('' @ ctx @ ''): '' @ m)), s')
     | HttpResponse code body \<Rightarrow> (Inr (code, body), s'))"
  using assms by (simp add: request_with_retry_def plain_answer_def split: http_result.splits)

text \<open>
  Property C35. The two HTTP implementations of the inventory agree. As long as the server does not answer 401 and its
  status codes stay below 600, \<^verbatim>\<open>InventoryClient\<close> and \<^verbatim>\<open>HttpInventoryRepository\<close> give the same node,
  or errors of the same class, after the same single request; and the same mappings, except for a 404 of
  the mapping endpoint.
\<close>

theorem inventory_clients_agree:
  assumes "\<And>path pn pv s. plain_answer (fst (http key path pn pv s))"
  shows "same_outcome (fst (http_lookup http key n s)) (fst (client_lookup http (new_token_manager key) n s))
    \<and> snd (http_lookup http key n s) = snd (client_lookup http (new_token_manager key) n s)
    \<and> ((\<forall>b. fst (http key MAPPINGS_PATH ''name'' t s) \<noteq> HttpResponse 404 b) \<longrightarrow>
         same_outcome (fst (http_list http key t s)) (fst (client_list http (new_token_manager key) t s))
         \<and> snd (http_list http key t s) = snd (client_list http (new_token_manager key) t s))"
proof -
  obtain r1 s1 where r1: "http key LOOKUP_PATH ''node_name'' n s = (r1, s1)" by fastforce
  obtain r2 s2 where r2: "http key MAPPINGS_PATH ''name'' t s = (r2, s2)" by fastforce
  have p: "plain_answer r1" "plain_answer r2"
    using assms [of LOOKUP_PATH "''node_name''" n s] assms [of MAPPINGS_PATH "''name''" t s] r1 r2 by simp_all
  note q = request_plain [of http key, OF r1 p(1)] request_plain [of http key, OF r2 p(2)]
  have 1: "same_outcome (fst (http_lookup http key n s)) (fst (client_lookup http (new_token_manager key) n s))
    \<and> snd (http_lookup http key n s) = snd (client_lookup http (new_token_manager key) n s)"
    using p(1) by (cases r1) (auto simp: http_lookup_def client_lookup_def Let_def io_run r1 q is_error_def
        raise_for_error_def plain_answer_def decode_node_same)
  have 2: "same_outcome (fst (http_list http key t s)) (fst (client_list http (new_token_manager key) t s))
      \<and> snd (http_list http key t s) = snd (client_list http (new_token_manager key) t s)"
    if "\<forall>b. r2 \<noteq> HttpResponse 404 b"
    using p(2) that by (cases r2) (auto simp: http_list_def client_list_def Let_def io_run r2 q is_error_def
        raise_for_error_def plain_answer_def decode_mappings_same)
  from 1 2 show ?thesis by (simp add: r2)
qed

definition demo_transport :: "unit transport" where
  "demo_transport token path pn pv = (\<lambda>s.
     (HttpResponse 200 (Some (JObj [(''results'', JArr [JObj [(''data'', JArr
        [JObj [(''patterns'', JArr [JStr ''k8s'']), (''runner'', JStr ''r''), (''bastion'', JStr ''b''),
               (''bastion_ip'', JStr ''10.1.1.1'')]])]])])), s))"

lemma inventory_clients_agree_witness:
  "fst (client_list demo_transport (new_token_manager ''key'') ''prod'' ()) =
     Inr [\<lparr>bm_patterns = [''k8s''], bm_runner = ''r'', bm_bastion = ''b'', bm_bastion_ip = ''10.1.1.1''\<rparr>]"
proof -
  have plain: "\<And>path pn pv s. plain_answer (fst (demo_transport ''key'' path pn pv s))"
    by (simp add: demo_transport_def plain_answer_def)
  have "fst (http_list demo_transport ''key'' ''prod'' ()) =
      Inr [\<lparr>bm_patterns = [''k8s''], bm_runner = ''r'', bm_bastion = ''b'', bm_bastion_ip = ''10.1.1.1''\<rparr>]"
    by (simp add: http_list_def demo_transport_def decode_mappings_def str_items_def str_field_def)
  moreover have "fst (demo_transport ''key'' MAPPINGS_PATH ''name'' ''prod'' ()) \<noteq> HttpResponse 404 b" for b
    by (simp add: demo_transport_def)
  ultimately show ?thesis
    using inventory_clients_agree [where http = demo_transport and key = "''key''" and s = "()" and t = "''prod''", OF plain]
    by (cases "fst (client_list demo_transport (new_token_manager ''key'') ''prod'' ())") auto
qed

text \<open>A mapping item of the wrong shape is not classified as an upstream error.\<close>

lemma malformed_mapping_escapes:
  "fst (client_list (\<lambda>_ _ _ _ s. (HttpResponse 200 (Some (JObj [(''results'', JArr [JObj [(''data'', JArr [JNull])]])])), s))
     (new_token_manager ''key'') ''prod'' ()) = Inl (PyValidationError [''root''])"
  by (simp add: client_list_def request_with_retry_def io_run is_error_def decode_mappings_def invalid_def)

end
