(* ===== verification/Hosts.thy ===== *)
theory Hosts
  imports Inventory Regex
begin

text \<open>
  \<^verbatim>\<open>app/repositories/bastion_matching.py\<close>, \<^verbatim>\<open>app/repositories/host_resolver.py\<close> and
  \<^verbatim>\<open>app/services/inventory_service.py\<close>: which bastion fronts a cluster, and which address a
  request is sent to. \<open>cre\<close> compiles a pattern of the inventory data; \<open>None\<close> is
  \<^verbatim>\<open>re.error\<close>. In messages a Python \<^verbatim>\<open>repr\<close> of a text is written between single quotes and
  the arrow of the known mappings as \<open>->\<close>.
\<close>

section \<open>Matching\<close>

record bastion_match =
  mt_mapping :: bastion_mapping
  mt_pattern :: string

definition bastion_type_for_node :: "string \<Rightarrow> (string \<times> string) list \<Rightarrow> exn + string" where
  "bastion_type_for_node node_type node_type_map = (case map_of node_type_map node_type of
       Some b \<Rightarrow> Inr b
     | None \<Rightarrow> Inl (AppExc CommandExecution
         (''node_type '' @ squoted node_type @ '' has no bastion mapping. Known mappings: {''
          @ join '', '' (map (\<lambda>(k, v). squoted k @ ''->'' @ squoted v) node_type_map)
          @ ''}. Update BASTION_NODE_TYPE_MAP to include this node_type.'')))"

definition pick_bastion_type ::
  "string option \<Rightarrow> string \<Rightarrow> (string \<times> string) list \<Rightarrow> exn + string" where
  "pick_bastion_type override node_type node_type_map = (case override of
     Some b \<Rightarrow> Inr b | None \<Rightarrow> bastion_type_for_node node_type node_type_map)"

fun match_patterns ::
  "(string \<Rightarrow> rx option) \<Rightarrow> string \<Rightarrow> bastion_mapping \<Rightarrow> string list \<Rightarrow> bastion_match option" where
  "match_patterns cre cluster_name mapping [] = None"
| "match_patterns cre cluster_name mapping (pattern # ps) = (case cre pattern of
       None \<Rightarrow> match_patterns cre cluster_name mapping ps
     | Some r \<Rightarrow> if re_fullmatch r cluster_name \<noteq> None
                 then Some \<lparr>mt_mapping = mapping, mt_pattern = pattern\<rparr>
                 else match_patterns cre cluster_name mapping ps)"

fun match_mappings ::
  "(string \<Rightarrow> rx option) \<Rightarrow> string \<Rightarrow> bastion_mapping list \<Rightarrow> bastion_match option" where
  "match_mappings cre cluster_name [] = None"
| "match_mappings cre cluster_name (mapping # ms) =
     (case match_patterns cre cluster_name mapping (bm_patterns mapping) of
        Some m \<Rightarrow> Some m | None \<Rightarrow> match_mappings cre cluster_name ms)"

definition match_bastion ::
  "(string \<Rightarrow> rx option) \<Rightarrow> 's inventory \<Rightarrow> string \<Rightarrow> string \<Rightarrow> ('s, bastion_match option) io" where
  "match_bastion cre repo bastion_type cluster_name =
     bindE (list_mappings repo bastion_type) (\<lambda>mappings. ret (match_mappings cre cluster_name mappings))"

definition require_bastion ::
  "(string \<Rightarrow> rx option) \<Rightarrow> 's inventory \<Rightarrow> string \<Rightarrow> string \<Rightarrow> ('s, bastion_match) io" where
  "require_bastion cre repo bastion_type cluster_name =
     bindE (match_bastion cre repo bastion_type cluster_name) (\<lambda>m. case m of
         Some x \<Rightarrow> ret x
       | None \<Rightarrow> raise (AppExc NotFound (''No bastion mapping matched cluster '' @ squoted cluster_name
                   @ '' for type '' @ squoted bastion_type @ ''.'')))"

section \<open>Resolvers\<close>

definition cluster_type_from_name ::
  "string \<Rightarrow> (string \<times> string) list \<Rightarrow> exn + (string \<times> bool)" where
  "cluster_type_from_name cluster_name slash_map =
     (let has_slash = contains ''/'' cluster_name;
          key = (if has_slash then ''with_slash'' else ''no_slash'')
      in case map_of slash_map key of
           Some b \<Rightarrow> Inr (b, has_slash)
         | None \<Rightarrow> Inl (AppExc CommandExecution (''CLUSTER_SLASH_TYPE_MAP is missing key '' @ squoted key
             @ ''. Current map: {''
             @ join '', '' (map (\<lambda>(k, v). squoted k @ '': '' @ squoted v) slash_map)
             @ ''}. Add both '' @ squoted ''no_slash'' @ '' and '' @ squoted ''with_slash'' @ ''.'')))"

datatype 's host_resolver =
    IpHostResolver
  | HostnameHostResolver "'s inventory" string bool "(string \<times> string) list" "string option"
  | ClusterBastionHostResolver "'s inventory" "(string \<times> string) list" "string option"
  | ClusterNameResolver "'s inventory" "(string \<times> string) list"

definition resolve_ip :: "string \<Rightarrow> ('s, resolved_host) io" where
  "resolve_ip raw_host =
     ret \<lparr>rh_ip = raw_host, rh_source_input = raw_host, rh_metadata = [], rh_bastion_name = None\<rparr>"

definition resolve_hostname ::
  "(string \<Rightarrow> rx option) \<Rightarrow> 's inventory \<Rightarrow> string \<Rightarrow> bool \<Rightarrow> (string \<times> string) list \<Rightarrow> string option
   \<Rightarrow> string \<Rightarrow> ('s, resolved_host) io" where
  "resolve_hostname cre repo ip_label with_bastion node_type_map btype raw_host =
     bindE (lookup_by_name repo raw_host) (\<lambda>info.
       case map_of (nd_labels (ni_node info)) ip_label of
         None \<Rightarrow> raise (AppExc CommandExecution
                   (''Label '' @ squoted ip_label @ '' not found in node labels for '' @ squoted raw_host @ ''.''))
       | Some raw_ip \<Rightarrow>
           (let ip = hd (split_on (CHR ''/'') raw_ip);
                metadata = [(''node_name'', raw_host), (''ip_label'', ip_label)] in
            if with_bastion then
              (let cluster_name = cl_name (ni_cluster info) in
               bindE (liftE (pick_bastion_type btype (ni_node_type info) node_type_map)) (\<lambda>bastion_type.
               bindE (require_bastion cre repo bastion_type cluster_name) (\<lambda>m.
                 let bastion_name = bm_bastion (mt_mapping m) in
                 ret \<lparr>rh_ip = ip, rh_source_input = raw_host,
                      rh_metadata = metadata @ [(''cluster_name'', cluster_name),
                        (''bastion_hostname'', bastion_name), (''bastion_type'', bastion_type)],
                      rh_bastion_name = Some bastion_name\<rparr>)))
            else ret \<lparr>rh_ip = ip, rh_source_input = raw_host, rh_metadata = metadata, rh_bastion_name = None\<rparr>))"

definition resolve_cluster_bastion_host ::
  "(string \<Rightarrow> rx option) \<Rightarrow> 's inventory \<Rightarrow> (string \<times> string) list \<Rightarrow> string option \<Rightarrow> string
   \<Rightarrow> ('s, resolved_host) io" where
  "resolve_cluster_bastion_host cre repo node_type_map btype raw_host =
     bindE (lookup_by_name repo raw_host) (\<lambda>info.
       let cluster_name = cl_name (ni_cluster info) in
       bindE (liftE (pick_bastion_type btype (ni_node_type info) node_type_map)) (\<lambda>bastion_type.
       bindE (require_bastion cre repo bastion_type cluster_name) (\<lambda>m.
         ret \<lparr>rh_ip = bm_bastion_ip (mt_mapping m), rh_source_input = raw_host,
              rh_metadata = [(''node_name'', raw_host), (''cluster_name'', cluster_name),
                (''bastion_hostname'', bm_bastion (mt_mapping m)), (''bastion_type'', bastion_type),
                (''matched_pattern'', mt_pattern m)],
              rh_bastion_name = Some (bm_bastion (mt_mapping m))\<rparr>)))"

definition resolve_cluster_name ::
  "(string \<Rightarrow> rx option) \<Rightarrow> 's inventory \<Rightarrow> (string \<times> string) list \<Rightarrow> string \<Rightarrow> ('s, resolved_host) io" where
  "resolve_cluster_name cre repo slash_map raw_host =
     bindE (liftE (cluster_type_from_name raw_host slash_map)) (\<lambda>(bastion_type, has_slash).
     bindE (require_bastion cre repo bastion_type raw_host) (\<lambda>m.
       ret \<lparr>rh_ip = bm_bastion_ip (mt_mapping m), rh_source_input = raw_host,
            rh_metadata = [(''cluster_name'', raw_host), (''bastion_type'', bastion_type),
              (''has_slash'', if has_slash then ''True'' else ''False''),
              (''bastion_hostname'', bm_bastion (mt_mapping m)), (''matched_pattern'', mt_pattern m)],
            rh_bastion_name = Some (bm_bastion (mt_mapping m))\<rparr>))"

fun resolve :: "(string \<Rightarrow> rx option) \<Rightarrow> 's host_resolver \<Rightarrow> string \<Rightarrow> ('s, resolved_host) io" where
  "resolve cre IpHostResolver raw_host = resolve_ip raw_host"
| "resolve cre (HostnameHostResolver repo ip_label wb ntm btype) raw_host =
     resolve_hostname cre repo ip_label wb ntm btype raw_host"
| "resolve cre (ClusterBastionHostResolver repo ntm btype) raw_host =
     resolve_cluster_bastion_host cre repo ntm btype raw_host"
| "resolve cre (ClusterNameResolver repo slash_map) raw_host =
     resolve_cluster_name cre repo slash_map raw_host"

fun create_host_resolver ::
  "host_type \<Rightarrow> 's inventory option \<Rightarrow> (string \<times> string) list option \<Rightarrow> string option \<Rightarrow> string option
   \<Rightarrow> (string \<times> string) list option \<Rightarrow> bool \<Rightarrow> exn + 's host_resolver" where
  "create_host_resolver IP repo ntm btype ip_label slash_map wb = Inr IpHostResolver"
| "create_host_resolver HOSTNAME repo ntm btype ip_label slash_map wb =
     (case (repo, ip_label) of
        (Some r, Some l) \<Rightarrow> Inr (HostnameHostResolver r l wb (case ntm of None \<Rightarrow> [] | Some m \<Rightarrow> m) btype)
      | _ \<Rightarrow> Inl (PyValueError ''HOSTNAME resolver requires inventory_repo and ip_label''))"
| "create_host_resolver BASTION repo ntm btype ip_label slash_map wb =
     (case (repo, ntm) of
        (Some r, Some m) \<Rightarrow> Inr (ClusterBastionHostResolver r m btype)
      | _ \<Rightarrow> Inl (PyValueError ''BASTION resolver requires inventory_repo and node_type_map''))"
| "create_host_resolver CLUSTER repo ntm btype ip_label slash_map wb =
     (case (repo, slash_map) of
        (Some r, Some m) \<Rightarrow> Inr (ClusterNameResolver r m)
      | _ \<Rightarrow> Inl (PyValueError ''CLUSTER resolver requires inventory_repo and slash_map''))"

section \<open>The inventory service\<close>

datatype type_source = FromConfig | FromQueryParam

record node_bastion_resolution =
  nb_node_type :: string
  nb_node :: node_info
  nb_cluster :: cluster_ref
  nb_bastion_type :: string
  nb_source :: type_source
  nb_mapping :: bastion_mapping
  nb_pattern :: string

record cluster_bastion_resolution =
  cb_cluster_name :: string
  cb_has_slash :: bool
  cb_bastion_type :: string
  cb_mapping :: bastion_mapping
  cb_pattern :: string

definition resolve_node_bastion ::
  "(string \<Rightarrow> rx option) \<Rightarrow> 's inventory \<Rightarrow> (string \<times> string) list \<Rightarrow> string \<Rightarrow> string option
   \<Rightarrow> ('s, node_bastion_resolution) io" where
  "resolve_node_bastion cre repo node_type_map node_name override =
     bindE (lookup_by_name repo node_name) (\<lambda>info.
       let cluster_name = cl_name (ni_cluster info) in
       bindE (liftE (pick_bastion_type override (ni_node_type info) node_type_map)) (\<lambda>bastion_type.
       let source = (if override \<noteq> None then FromQueryParam else FromConfig) in
       bindE (require_bastion cre repo bastion_type cluster_name) (\<lambda>m.
         ret \<lparr>nb_node_type = ni_node_type info, nb_node = ni_node info, nb_cluster = ni_cluster info,
              nb_bastion_type = bastion_type, nb_source = source, nb_mapping = mt_mapping m,
              nb_pattern = mt_pattern m\<rparr>)))"

definition resolve_cluster_bastion ::
  "(string \<Rightarrow> rx option) \<Rightarrow> 's inventory \<Rightarrow> (string \<times> string) list \<Rightarrow> string
   \<Rightarrow> ('s, cluster_bastion_resolution) io" where
  "resolve_cluster_bastion cre repo slash_map cluster_name =
     bindE (liftE (cluster_type_from_name cluster_name slash_map)) (\<lambda>(bastion_type, has_slash).
     bindE (require_bastion cre repo bastion_type cluster_name) (\<lambda>m.
       ret \<lparr>cb_cluster_name = cluster_name, cb_has_slash = has_slash, cb_bastion_type = bastion_type,
            cb_mapping = mt_mapping m, cb_pattern = mt_pattern m\<rparr>))"

section \<open>The first match\<close>

text \<open>The candidates in the order of the inventory data.\<close>

definition candidates :: "bastion_mapping list \<Rightarrow> bastion_match list" where
  "candidates ms =
     concat (map (\<lambda>m. map (\<lambda>p. \<lparr>mt_mapping = m, mt_pattern = p\<rparr>) (bm_patterns m)) ms)"

definition fits :: "(string \<Rightarrow> rx option) \<Rightarrow> string \<Rightarrow> bastion_match \<Rightarrow> bool" where
  "fits cre cluster_name c = (case cre (mt_pattern c) of
     None \<Rightarrow> False | Some r \<Rightarrow> re_fullmatch r cluster_name \<noteq> None)"

lemma match_patterns_find:
  "match_patterns cre cn m ps = find (fits cre cn) (map (\<lambda>p. \<lparr>mt_mapping = m, mt_pattern = p\<rparr>) ps)"
  by (induction ps) (auto simp: fits_def split: option.splits)

lemma find_append: "find P (xs @ ys) = (case find P xs of Some x \<Rightarrow> Some x | None \<Rightarrow> find P ys)"
  by (induction xs) auto

lemma match_mappings_find: "match_mappings cre cn ms = find (fits cre cn) (candidates ms)"
  by (induction ms) (auto simp: candidates_def find_append match_patterns_find split: option.splits)

text \<open>
  The bastion of a cluster. \<^verbatim>\<open>require_bastion\<close> answers the first candidate, in the order of
  the mappings and of the patterns in each, whose pattern compiles and matches the whole cluster name; a pattern
  that does not compile is passed over; when no candidate fits it is a 404, and an error of the repository
  is passed on.
\<close>

theorem require_bastion_spec:
  "require_bastion cre repo btype cn s = (case list_mappings repo btype s of
       (Inl e, s') \<Rightarrow> (Inl e, s')
     | (Inr ms, s') \<Rightarrow> ((case find (fits cre cn) (candidates ms) of
           Some c \<Rightarrow> Inr c
         | None \<Rightarrow> Inl (AppExc NotFound (''No bastion mapping matched cluster '' @ squoted cn
                     @ '' for type '' @ squoted btype @ ''.''))), s'))"
  by (simp add: require_bastion_def match_bastion_def io_run match_mappings_find split: prod.splits sum.splits option.splits)

lemma node_resolution_agrees:
  "case resolve_node_bastion cre repo ntm node override s of
      (Inl e, s') \<Rightarrow> resolve_cluster_bastion_host cre repo ntm override node s = (Inl e, s')
    | (Inr v, s') \<Rightarrow> \<exists>h. resolve_cluster_bastion_host cre repo ntm override node s = (Inr h, s')
        \<and> rh_ip h = bm_bastion_ip (nb_mapping v) \<and> rh_bastion_name h = Some (bm_bastion (nb_mapping v))"
proof -
  note defs = resolve_node_bastion_def resolve_cluster_bastion_host_def bindE_run liftE_run ret_run Let_def
  obtain l s1 where l: "lookup_by_name repo node s = (l, s1)" by fastforce
  show ?thesis
  proof (cases l)
    case (Inr info)
    show ?thesis
    proof (cases "pick_bastion_type override (ni_node_type info) ntm")
      case (Inl e)
      then show ?thesis by (simp add: defs l Inr)
    next
      case bt: (Inr bt)
      obtain m s2 where m: "require_bastion cre repo bt (cl_name (ni_cluster info)) s1 = (m, s2)" by fastforce
      show ?thesis by (cases m) (simp_all add: defs l Inr bt m)
    qed
  qed (simp add: defs l)
qed

lemma cluster_resolution_agrees:
  "case resolve_cluster_bastion cre repo slash_map cn s of
      (Inl e, s') \<Rightarrow> resolve_cluster_name cre repo slash_map cn s = (Inl e, s')
    | (Inr v, s') \<Rightarrow> \<exists>h. resolve_cluster_name cre repo slash_map cn s = (Inr h, s')
        \<and> rh_ip h = bm_bastion_ip (cb_mapping v) \<and> rh_bastion_name h = Some (bm_bastion (cb_mapping v))"
proof -
  note defs = resolve_cluster_bastion_def resolve_cluster_name_def bindE_run liftE_run ret_run
  show ?thesis
  proof (cases "cluster_type_from_name cn slash_map")
    case (Inl e)
    then show ?thesis by (simp add: defs)
  next
    case (Inr x)
    obtain bt hs where x: "x = (bt, hs)" by fastforce
    obtain m s2 where m: "require_bastion cre repo bt cn s = (m, s2)" by fastforce
    show ?thesis by (cases m) (simp_all add: defs Inr x m)
  qed
qed

text \<open>
  Property C33. The endpoints that explain a resolution tell the truth about a launch. For the same configuration and
  override, \<^verbatim>\<open>InventoryService\<close> and the host resolvers perform the same calls and fail with the
  same error, and when they succeed the launch targets the address and uses the bastion name of the mapping the
  endpoint reports, for a node and for a cluster name.
\<close>

theorem resolution_agrees_with_launch:
  "(case resolve_node_bastion cre repo ntm node override s of
      (Inl e, s') \<Rightarrow> resolve cre (ClusterBastionHostResolver repo ntm override) node s = (Inl e, s')
    | (Inr v, s') \<Rightarrow> \<exists>h. resolve cre (ClusterBastionHostResolver repo ntm override) node s = (Inr h, s')
        \<and> rh_ip h = bm_bastion_ip (nb_mapping v) \<and> rh_bastion_name h = Some (bm_bastion (nb_mapping v)))
   \<and> (case resolve_cluster_bastion cre repo slash_map cn s of
      (Inl e, s') \<Rightarrow> resolve cre (ClusterNameResolver repo slash_map) cn s = (Inl e, s')
    | (Inr v, s') \<Rightarrow> \<exists>h. resolve cre (ClusterNameResolver repo slash_map) cn s = (Inr h, s')
        \<and> rh_ip h = bm_bastion_ip (cb_mapping v) \<and> rh_bastion_name h = Some (bm_bastion (cb_mapping v)))"
  unfolding resolve.simps by (intro conjI) (rule node_resolution_agrees cluster_resolution_agrees)+

section \<open>Failures of a resolution\<close>

fun command_execution_error :: "exn \<Rightarrow> bool" where
  "command_execution_error (AppExc CommandExecution _) = True"
| "command_execution_error _ = False"

context inventory_repo
begin

definition repo_of :: "'s inventory" where
  "repo_of = \<lparr>lookup_by_name = look, list_mappings = maps\<rparr>"

lemma repo_of_sel [simp]: "lookup_by_name repo_of = look" "list_mappings repo_of = maps"
  by (simp_all add: repo_of_def)

lemma require_bastion_err:
  "require_bastion cre repo_of bt cn s = (Inl e, s') \<Longrightarrow> upstream_error e \<or> malformed_error e"
  by (auto simp: require_bastion_def match_bastion_def io_run
      split: prod.splits sum.splits option.splits dest: maps_err)

lemma pick_err: "pick_bastion_type o' nt m = Inl e \<Longrightarrow> command_execution_error e"
  by (auto simp: pick_bastion_type_def bastion_type_for_node_def split: option.splits)

lemma cluster_bastion_host_err:
  "resolve_cluster_bastion_host cre repo_of ntm bt h s = (Inl e, s') \<Longrightarrow>
     upstream_error e \<or> malformed_error e \<or> command_execution_error e"
  unfolding resolve_cluster_bastion_host_def Let_def
  by (auto simp: bindE_run liftE_run ret_run
      split: prod.splits sum.splits dest: look_err require_bastion_err pick_err)

lemma hostname_err:
  "resolve_hostname cre repo_of l wb m bt h s = (Inl e, s') \<Longrightarrow>
     upstream_error e \<or> malformed_error e \<or> command_execution_error e"
  unfolding resolve_hostname_def Let_def
  by (auto simp: bindE_run liftE_run ret_run raise_run
      split: prod.splits sum.splits option.splits if_splits dest: look_err require_bastion_err pick_err)

lemma cluster_type_err: "cluster_type_from_name n m = Inl e \<Longrightarrow> command_execution_error e"
  by (auto simp: cluster_type_from_name_def Let_def split: option.splits)

lemma cluster_name_err:
  "resolve_cluster_name cre repo_of m h s = (Inl e, s') \<Longrightarrow>
     upstream_error e \<or> malformed_error e \<or> command_execution_error e"
  unfolding resolve_cluster_name_def
  by (auto simp: bindE_run liftE_run ret_run
      split: prod.splits sum.splits dest: require_bastion_err cluster_type_err)

lemma launch_resolution_err:
  assumes "create_host_resolver ht (Some repo_of) (Some ntm) bt (Some l) (Some sm) wb = Inr res"
    and "resolve cre res h s = (Inl e, s')"
  shows "upstream_error e \<or> malformed_error e \<or> command_execution_error e"
  using assms
  by (cases ht) (auto simp: resolve_ip_def ret_run
      dest: hostname_err cluster_bastion_host_err cluster_name_err)

end

lemma client_repo_of: "inventory_repo.repo_of (client_lookup http tm) (client_list http tm) = InventoryClient http tm"
  by (simp add: client.repo_of_def InventoryClient_def)

text \<open>
  Resolving the target of a launch through the inventory client is total and fails only in documented
  ways: the resolver for any host type is created, and if it raises, the exception is a NotFound, an upstream
  timeout, an upstream failure, a configuration error reported as CommandExecution, or the error of a
  mapping payload that does not validate. An address given as such never touches the inventory.
\<close>

theorem launch_resolution_errors:
  "\<exists>res. create_host_resolver ht (Some (InventoryClient http tm)) (Some ntm) bt (Some l) (Some sm) wb = Inr res
     \<and> (case resolve cre res h s of
          (Inl e, s') \<Rightarrow> ht \<noteq> IP \<and> (upstream_error e \<or> malformed_error e \<or> command_execution_error e)
        | (Inr v, s') \<Rightarrow> rh_source_input v = h \<and> (if ht = IP then rh_ip v = h \<and> s' = s else True))"
proof -
  obtain res where res: "create_host_resolver ht (Some (InventoryClient http tm)) (Some ntm) bt (Some l) (Some sm) wb = Inr res"
    by (cases ht) auto
  obtain r s' where r: "resolve cre res h s = (r, s')" by fastforce
  show ?thesis
  proof (cases r)
    case (Inl e)
    have "upstream_error e \<or> malformed_error e \<or> command_execution_error e"
      using client.launch_resolution_err [unfolded client_repo_of, OF res r [unfolded Inl]] .
    moreover have "ht \<noteq> IP" using res r Inl by (auto simp: resolve_ip_def ret_run)
    ultimately show ?thesis using res r Inl by auto
  next
    case (Inr v)
    have "rh_source_input v = h \<and> (ht = IP \<longrightarrow> rh_ip v = h \<and> s' = s)"
      using res r Inr by (cases ht)
        (auto simp: resolve_ip_def resolve_hostname_def resolve_cluster_bastion_host_def resolve_cluster_name_def
          bindE_run liftE_run ret_run raise_run Let_def split: prod.splits sum.splits option.splits if_splits)
    then show ?thesis using res r Inr by auto
  qed
qed

end
