(* ===== verification/Launch.thy ===== *)
theory Launch
  imports SshSupport Hosts
begin

text \<open>
  The synchronous half of \<^verbatim>\<open>app/services/command_executor.py\<close>: the capacity gate, the validation of a
  request, the connection, the script version gate, the fire-and-forget dispatch and the registration of
  a background run, composed by \<open>execute_command\<close>. The pipeline itself is built by \<open>build\<close>.
\<close>

section \<open>Validation\<close>

definition validate_anti_injection :: "string \<Rightarrow> exn option" where
  "validate_anti_injection user_input =
     (if list_ex (\<lambda>c. c \<in> set user_input) '';&|$`''
      then Some (AppExc CommandExecution ''Invalid characters detected in input.'') else None)"

definition load_user_whitelist :: "('e, 'd) env \<Rightarrow> string \<Rightarrow> ('e pod, user_command_whitelist) io" where
  "load_user_whitelist env username =
     (let file_path = os_path_join (COMMAND_CONFIG_DIR (env_settings env))
                        (''allow-commands-'' @ username @ ''.json'') in
      bindE (getS (\<lambda>p. path_exists env file_path (pod_world p))) (\<lambda>found.
        if \<not> found
        then raise (AppExc Forbidden (''User '' @ squoted username @ '' has no command whitelist configured.''))
        else catchE
          (bindE (ext (read_whitelist env file_path)) (\<lambda>w.
             let errors = whitelist_errors (compile_regex env) w in
             if errors \<noteq> [] then raise (PyValidationError errors) else ret w))
          (\<lambda>exc. case exc of
             PyValidationError errors \<Rightarrow>
               raise (AppExc WhitelistConfiguration (''Command whitelist for user '' @ squoted username
                        @ '' is misconfigured: '' @ join ''; '' errors))
           | _ \<Rightarrow> raise exc)))"

text \<open>\<^verbatim>\<open>any(re.match(p, ip) for p in patterns)\<close>; a pattern that does not compile raises.\<close>

fun any_match :: "(string \<Rightarrow> rx option) \<Rightarrow> string list \<Rightarrow> string \<Rightarrow> exn + bool" where
  "any_match cre [] s = Inr False"
| "any_match cre (p # ps) s = (case cre p of
       None \<Rightarrow> Inl (PyOther ''re.error'')
     | Some r \<Rightarrow> if re_match r s \<noteq> None then Inr True else any_match cre ps s)"

definition check_argument ::
  "(string \<Rightarrow> rx option) \<Rightarrow> arguments \<Rightarrow> command_argument_config \<Rightarrow> exn option" where
  "check_argument cre args arg_conf =
     (if arg_absent args (arg_name arg_conf)
      then if \<not> arg_required arg_conf then None
           else Some (AppExc CommandExecution (''Missing required argument: '' @ arg_name arg_conf))
      else let val_str = py_str (the (args (arg_name arg_conf))) in
           case validate_anti_injection val_str of Some e \<Rightarrow> Some e
         | None \<Rightarrow>
             if arg_validation_regex arg_conf = [] then None
             else (case cre (arg_validation_regex arg_conf) of
                 None \<Rightarrow> Some (PyOther ''re.error'')
               | Some r \<Rightarrow> if re_match r val_str \<noteq> None then None
                   else Some (AppExc CommandExecution (''Argument '' @ squoted (arg_name arg_conf)
                          @ '' does not match validation regex.''))))"

fun check_arguments ::
  "(string \<Rightarrow> rx option) \<Rightarrow> arguments \<Rightarrow> command_argument_config list \<Rightarrow> exn option" where
  "check_arguments cre args [] = None"
| "check_arguments cre args (a # as) =
     (case check_argument cre args a of Some e \<Rightarrow> Some e | None \<Rightarrow> check_arguments cre args as)"

definition truthy :: "string option \<Rightarrow> string option" where
  "truthy x = (case x of None \<Rightarrow> None | Some s \<Rightarrow> if s = [] then None else Some s)"

definition requested_bastion_type :: "command_request \<Rightarrow> string option" where
  "requested_bastion_type req = (case rq_option req of None \<Rightarrow> None | Some opt \<Rightarrow> truthy (opt_bastion_type opt))"

definition requested_ip_label :: "settings \<Rightarrow> command_request \<Rightarrow> string" where
  "requested_ip_label cfg req =
     (case rq_option req of None \<Rightarrow> INVENTORY_IP_LABEL cfg
      | Some opt \<Rightarrow> (case truthy (opt_ip_label opt) of None \<Rightarrow> INVENTORY_IP_LABEL cfg | Some l \<Rightarrow> l))"

text \<open>The host part of the preparation: resolve, then the deny list, then the allow list.\<close>

definition resolve_target ::
  "('e, 'd) env \<Rightarrow> 'e pod inventory option \<Rightarrow> command_request \<Rightarrow> ('e pod, resolved_host) io" where
  "resolve_target env inven req =
     (let cfg = env_settings env in
      bindE (liftE (create_host_resolver (rq_host_type req) inven (Some (BASTION_NODE_TYPE_MAP cfg))
               (requested_bastion_type req) (Some (requested_ip_label cfg req))
               (Some (CLUSTER_SLASH_TYPE_MAP cfg)) (rq_ssh_config req = FALLBACK_SSH_CONFIG)))
        (\<lambda>resolver. resolve (compile_regex env) resolver (rq_host req)))"

definition check_host ::
  "(string \<Rightarrow> rx option) \<Rightarrow> user_command_whitelist \<Rightarrow> resolved_host \<Rightarrow> exn + unit" where
  "check_host cre whitelist resolved =
     (case any_match cre (wl_deny_hosts whitelist) (rh_ip resolved) of
        Inl e \<Rightarrow> Inl e
      | Inr True \<Rightarrow> Inl (AppExc Forbidden (''Host '' @ squoted (rh_ip resolved) @ '' is blocked.''))
      | Inr False \<Rightarrow>
          (case any_match cre (wl_allow_hosts whitelist) (rh_ip resolved) of
             Inl e \<Rightarrow> Inl e
           | Inr False \<Rightarrow> Inl (AppExc Forbidden (''Host '' @ squoted (rh_ip resolved) @ '' is not allowed.''))
           | Inr True \<Rightarrow> Inr ()))"

definition find_command :: "user_command_whitelist \<Rightarrow> string \<Rightarrow> command_whitelist_config option" where
  "find_command whitelist name = find (\<lambda>c. cc_command_name c = name) (wl_allow_commands whitelist)"

definition prepare_execution ::
  "('e, 'd) env \<Rightarrow> 'e pod inventory option \<Rightarrow> string \<Rightarrow> string \<Rightarrow> command_request
   \<Rightarrow> ('e pod, execution_context) io" where
  "prepare_execution env inven username request_id req =
     bindE (load_user_whitelist env username) (\<lambda>whitelist.
     bindE (resolve_target env inven req) (\<lambda>resolved.
     thenE (liftE (check_host (compile_regex env) whitelist resolved))
     (case find_command whitelist (rq_command_name req) of
        None \<Rightarrow> raise (AppExc Forbidden (''Command '' @ squoted (rq_command_name req) @ '' not in user ''
                  @ squoted username @ '' whitelist.''))
      | Some cmd_config \<Rightarrow>
          (case check_arguments (compile_regex env) (rq_arguments req) (cc_arguments cmd_config) of
             Some e \<Rightarrow> raise e
           | None \<Rightarrow>
               bindE (select_ssh_config env (rq_ssh_config req) (rh_bastion_name resolved)) (\<lambda>effective.
               bindE (load_ssh_config env effective) (\<lambda>ssh_config.
                 ret \<lparr>cx_username = username, cx_request_id = request_id,
                      cx_command_name = rq_command_name req, cx_raw_request = req,
                      cx_cmd_config = cmd_config, cx_ssh_config = ssh_config,
                      cx_resolved_host = resolved, cx_conn = None, cx_pipeline_cmds = [],
                      cx_run_id = None, cx_run_log_path = None,
                      cx_effective_ssh_config = effective\<rparr>))))))"

section \<open>Connection and version gate\<close>

fun host_type_value :: "host_type \<Rightarrow> string" where
  "host_type_value IP = ''ip''"
| "host_type_value BASTION = ''bastion''"
| "host_type_value HOSTNAME = ''hostname''"
| "host_type_value CLUSTER = ''cluster''"

definition connect :: "('e, 'd) env \<Rightarrow> execution_context \<Rightarrow> command_request \<Rightarrow> ('e pod, conn) io" where
  "connect env cx req =
     (if DRY_RUN_MODE (env_settings env)
      then make_dry_conn (cc_disconnects_ssh (cx_cmd_config cx)) (DRY_RUN_COMMAND_SECONDS (env_settings env))
      else bindE (liftE (get_connect_kwargs env (create_authenticator (cx_ssh_config cx)))) (\<lambda>conn_kwargs.
        let ip = rh_ip (cx_resolved_host cx);
            target = ip @ '':'' @ int_str (rq_port req);
            whom = ''SSH connection to '' @ target @ '' (host_type='' @ host_type_value (rq_host_type req)
                   @ '', raw='' @ rq_host req @ '') '' in
        catchE
          (ssh_connect_within env ip (rq_port req) (rq_username req) conn_kwargs
             (SSH_CONNECT_TIMEOUT_SECONDS (env_settings env)))
          (\<lambda>exc. if exc = PyTimeoutError
             then raise (AppExc UpstreamTimeout
                    (whom @ ''timed out after '' @ int_str (SSH_CONNECT_TIMEOUT_SECONDS (env_settings env)) @ ''s.''))
             else if is_os_or_ssh_error exc
             then raise (AppExc UpstreamUnavailable (whom @ ''failed: '' @ exn_str exc))
             else raise exc)))"

text \<open>\<^verbatim>\<open>xs[0]\<close>.\<close>

definition first_item :: "'a list \<Rightarrow> exn + 'a" where
  "first_item xs = (case xs of [] \<Rightarrow> Inl (PyOther ''list index out of range'') | x # _ \<Rightarrow> Inr x)"

definition is_value_error :: "exn \<Rightarrow> bool" where
  "is_value_error e = (case e of PyValueError _ \<Rightarrow> True | _ \<Rightarrow> False)"

definition reclassify :: "exn \<Rightarrow> exn + 'a \<Rightarrow> exn + 'a" where
  "reclassify e' r = (case r of Inl e \<Rightarrow> Inl (if is_value_error e then e' else e) | Inr x \<Rightarrow> Inr x)"

text \<open>\<^verbatim>\<open>parse_semver\<close> reads a missing text as the empty one, which raises \<^verbatim>\<open>ValueError\<close>.\<close>

definition required_version :: "command_whitelist_config \<Rightarrow> command_request \<Rightarrow> string \<Rightarrow> exn + string option" where
  "required_version cfg req script = (case truthy (rq_min_script_version req) of
       None \<Rightarrow> Inr (cc_min_script_version cfg)
     | Some api_min \<Rightarrow>
         reclassify (AppExc ScriptVersion (''Invalid version requirement for '' @ squoted script @ ''.''))
           (case version_max (text_of (cc_min_script_version cfg)) api_min of Inl e \<Rightarrow> Inl e | Inr m \<Rightarrow> Inr (Some m)))"

definition accept_version :: "string \<Rightarrow> string option \<Rightarrow> string \<Rightarrow> exn + unit" where
  "accept_version script effective_min raw =
     (case reclassify (AppExc ScriptVersion (''Could not parse version of '' @ squoted script @ '' on the target.''))
             (parse_version_output raw) of
        Inl e \<Rightarrow> Inl e
      | Inr actual \<Rightarrow>
          (case reclassify (AppExc ScriptVersion (''Invalid version data for '' @ squoted script @ ''.''))
                  (version_ge actual (text_of effective_min)) of
             Inl e \<Rightarrow> Inl e
           | Inr ok \<Rightarrow> if ok then Inr ()
               else Inl (AppExc ScriptVersion (script @ '' on the target is version '' @ actual
                      @ '', below the required '' @ text_of effective_min @ ''.''))))"

definition exit_text :: "int option \<Rightarrow> string" where
  "exit_text c = (case c of None \<Rightarrow> ''None'' | Some i \<Rightarrow> int_str i)"

definition precheck_script_version ::
  "('e, 'd) env \<Rightarrow> execution_context \<Rightarrow> conn \<Rightarrow> ('e pod, unit) io" where
  "precheck_script_version env cx c =
     (let cfg = cx_cmd_config cx in
      if \<not> cc_checks_script_version cfg then ret ()
      else
        bindE (liftE (case first_item (cx_pipeline_cmds cx) of Inl e \<Rightarrow> Inl e | Inr step \<Rightarrow> first_item step)) (\<lambda>script.
        bindE (liftE (required_version cfg (cx_raw_request cx) script)) (\<lambda>effective_min.
        bindE (conn_run env c (shlex_join [script, ''--version''])) (\<lambda>result.
          if cp_exit_status result \<noteq> Some 0
          then raise (AppExc ScriptVersion (''Could not read version of '' @ squoted script
                 @ '' on the target (exit '' @ exit_text (cp_exit_status result) @ '').''))
          else
            (let raw = text_of (cp_stdout result)
                       @ (if text_of (cp_stderr result) \<noteq> [] then nl @ text_of (cp_stderr result) else [])
             in liftE (accept_version script effective_min raw))))))"

section \<open>Dispatch\<close>

definition merge_output :: "string \<Rightarrow> string \<Rightarrow> string" where
  "merge_output out_str err_str =
     out_str @ (if err_str \<noteq> [] \<and> out_str \<noteq> [] then nl @ err_str else err_str)"

definition dropped_message :: "command_request \<Rightarrow> string" where
  "dropped_message req = ''Command dispatched and connection to '' @ rq_host req @ '':'' @ int_str (rq_port req)
     @ '' dropped as expected.''"

definition handle_fire_and_forget ::
  "('e, 'd) env \<Rightarrow> execution_context \<Rightarrow> conn \<Rightarrow> ('e pod, command_response) io" where
  "handle_fire_and_forget env cx c =
     finallyE
       (catchE
         (bindE (liftE (first_item (cx_pipeline_cmds cx))) (\<lambda>cmd_line.
          let cmd_str_preview = shlex_join cmd_line in
          bindE (conn_run env c cmd_str_preview) (\<lambda>result.
          bindE (conn_is_closed env c) (\<lambda>closed.
            if closed
            then ret ((response (status_value SUCCESS))\<lparr>rs_message := dropped_message (cx_raw_request cx),
                        rs_exec_command := Some cmd_str_preview\<rparr>)
            else ret (response_failed ''Command executed but did not disconnect the session as expected.''
                        (cp_exit_status result)
                        (Some (merge_output (text_of (cp_stdout result)) (text_of (cp_stderr result)))) None)))))
         (\<lambda>e. case e of
            SshConnectionLost _ \<Rightarrow>
              ret ((response (status_value SUCCESS))\<lparr>rs_message := dropped_message (cx_raw_request cx)\<rparr>)
          | _ \<Rightarrow> if is_exception e then ret (response_failed (''Unexpected error: '' @ exn_str e) None None None)
                else raise e))
       (conn_close env c)"

definition run_timeout :: "settings \<Rightarrow> command_request \<Rightarrow> int" where
  "run_timeout cfg req = (case rq_option req of None \<Rightarrow> COMMAND_DEFAULT_TIMEOUT cfg
     | Some opt \<Rightarrow> opt_timeout_seconds opt)"

definition preview :: "execution_context \<Rightarrow> string" where
  "preview cx = join '' | '' (map shlex_join (cx_pipeline_cmds cx))"

definition initial_entry :: "execution_context \<Rightarrow> conn \<Rightarrow> running_entry" where
  "initial_entry cx c = \<lparr>en_host_ip = rh_ip (cx_resolved_host cx),
     en_killable = cc_killable (cx_cmd_config cx), en_conn = Some c, en_processes = [], en_pgids = []\<rparr>"

definition initial_state :: "execution_context \<Rightarrow> string \<Rightarrow> command_state" where
  "initial_state cx command_id = \<lparr>cs_command_id = command_id, cs_status = RUNNING, cs_output = None,
     cs_exit_code = None, cs_message = None, cs_run_log_path = cx_run_log_path cx,
     cs_host = rq_host (cx_raw_request cx), cs_host_type = rq_host_type (cx_raw_request cx),
     cs_resolved_ip = rh_ip (cx_resolved_host cx), cs_port = rq_port (cx_raw_request cx),
     cs_username = rq_username (cx_raw_request cx), cs_ssh_config = cx_effective_ssh_config cx,
     cs_request_id = cx_request_id cx, cs_exec_command = preview cx,
     cs_output_format = cc_output_format (cx_cmd_config cx), cs_killable = cc_killable (cx_cmd_config cx),
     cs_pgids = []\<rparr>"

text \<open>The created task is the id it runs for; what it does is \<open>timeout_wrapper\<close> of theory \<open>Run\<close>.\<close>

definition create_task :: "string \<Rightarrow> ('e pod, unit) io" where
  "create_task command_id = modifyS (\<lambda>p. p\<lparr>pod_tasks := pod_tasks p @ [command_id]\<rparr>)"

definition handle_async_execution ::
  "('e, 'd) env \<Rightarrow> execution_context \<Rightarrow> conn \<Rightarrow> string option \<Rightarrow> ('e pod, command_response) io" where
  "handle_async_execution env cx c command_id_opt =
     bindE (case truthy command_id_opt of Some i \<Rightarrow> ret i | None \<Rightarrow> ext (new_uuid env)) (\<lambda>command_id.
     thenE (pool_add command_id (initial_entry cx c))
     (thenE (repo_save env (initial_state cx command_id)
               (run_timeout (env_settings env) (cx_raw_request cx) + 30))
     (thenE (create_task command_id)
       (ret ((response (status_value RUNNING))\<lparr>rs_command_id := Some command_id\<rparr>)))))"

definition check_capacity :: "('e, 'd) env \<Rightarrow> ('e pod, unit) io" where
  "check_capacity env = bindE pool_size (\<lambda>n.
     if n \<ge> COMMAND_MAX_RUNNING (env_settings env)
     then raise (AppExc ServiceUnavailable (''Too many running commands (limit: ''
            @ int_str (COMMAND_MAX_RUNNING (env_settings env)) @ ''). Please try again later.''))
     else ret ())"

definition compute_log_path :: "settings \<Rightarrow> string \<Rightarrow> string" where
  "compute_log_path cfg command_id = COMMAND_LOG_DIR cfg @ ''/'' @ command_id @ ''.log''"

definition assign_run_id ::
  "('e, 'd) env \<Rightarrow> execution_context \<Rightarrow> ('e pod, string option \<times> execution_context) io" where
  "assign_run_id env cx =
     (if cc_logged (cx_cmd_config cx)
      then bindE (ext (new_uuid env)) (\<lambda>command_id.
        ret (Some command_id, cx\<lparr>cx_run_id := Some command_id,
               cx_run_log_path := Some (compute_log_path (env_settings env) command_id)\<rparr>))
      else ret (None, cx))"

definition run_on ::
  "('e, 'd) env \<Rightarrow> execution_context \<Rightarrow> conn \<Rightarrow> string option \<Rightarrow> ('e pod, command_response) io" where
  "run_on env cx c command_id =
     thenE
       (catchE (precheck_script_version env cx c)
          (\<lambda>e. if is_exception e then thenE (conn_close env c) (raise e) else raise e))
       (if cc_disconnects_ssh (cx_cmd_config cx) then handle_fire_and_forget env cx c
        else handle_async_execution env cx c command_id)"

definition execute_command ::
  "('e, 'd) env \<Rightarrow> 'e pod inventory option \<Rightarrow> string \<Rightarrow> string \<Rightarrow> command_request
   \<Rightarrow> ('e pod, command_response) io" where
  "execute_command env inven username request_id req =
     thenE (check_capacity env)
     (bindE (prepare_execution env inven username request_id req) (\<lambda>cx0.
      bindE (assign_run_id env cx0) (\<lambda>(command_id, cx1).
      bindE (liftE (build cx1)) (\<lambda>cmds.
      bindE (connect env (cx1\<lparr>cx_pipeline_cmds := cmds\<rparr>) req) (\<lambda>c.
        run_on env (cx1\<lparr>cx_pipeline_cmds := cmds, cx_conn := Some c\<rparr>) c command_id)))))"

section \<open>Frames\<close>

definition inventory_frame :: "('e \<Rightarrow> string \<Rightarrow> 'd option) \<Rightarrow> 'e pod inventory option \<Rightarrow> bool" where
  "inventory_frame kv inven \<longleftrightarrow> (case inven of None \<Rightarrow> True
     | Some r \<Rightarrow> (\<forall>n. keeps kv (lookup_by_name r n)) \<and> (\<forall>t. keeps kv (list_mappings r t)))"

lemma keeps_case_prod [quiet]: "(\<And>x y. keeps kv (f x y)) \<Longrightarrow> keeps kv (case z of (x, y) \<Rightarrow> f x y)"
  by (cases z) auto

lemma keeps_require_bastion:
  "inventory_frame kv (Some r) \<Longrightarrow> keeps kv (require_bastion cre r bt cn)"
  unfolding require_bastion_def match_bastion_def by (intro quiet) (simp add: inventory_frame_def)

lemma keeps_resolve:
  assumes "inventory_frame kv inven" "create_host_resolver ht inven ntm bt l sm wb = Inr res"
  shows "keeps kv (resolve cre res h)"
proof (cases res)
  case IpHostResolver
  then show ?thesis by (simp add: resolve_ip_def keeps_ret)
next
  case (HostnameHostResolver r l' wb' m bt')
  then have "inventory_frame kv (Some r)" using assms by (cases ht) (auto split: option.splits)
  then show ?thesis unfolding HostnameHostResolver resolve.simps resolve_hostname_def
    by (intro quiet keeps_require_bastion) (simp_all add: inventory_frame_def)
next
  case (ClusterBastionHostResolver r m bt')
  then have "inventory_frame kv (Some r)" using assms by (cases ht) (auto split: option.splits)
  then show ?thesis unfolding ClusterBastionHostResolver resolve.simps resolve_cluster_bastion_host_def
    by (intro quiet keeps_require_bastion) (simp_all add: inventory_frame_def)
next
  case (ClusterNameResolver r m)
  then have "inventory_frame kv (Some r)" using assms by (cases ht) (auto split: option.splits)
  then show ?thesis unfolding ClusterNameResolver resolve.simps resolve_cluster_name_def
    by (intro quiet keeps_require_bastion) (simp_all add: inventory_frame_def)
qed

lemma keeps_liftE_bind: "(\<And>x. m = Inr x \<Longrightarrow> keeps kv (f x)) \<Longrightarrow> keeps kv (bindE (liftE m) f)"
  by (cases m) (auto simp: keeps_def io_run)

lemma keeps_resolve_target [quiet]: "inventory_frame kv inven \<Longrightarrow> keeps kv (resolve_target env inven req)"
  unfolding resolve_target_def Let_def by (rule keeps_liftE_bind) (rule keeps_resolve)

lemma keeps_load_user_whitelist [quiet]: "ssh_frame env kv \<Longrightarrow> keeps kv (load_user_whitelist env u)"
proof -
  assume f: "ssh_frame env kv"
  have h: "keeps kv (case exc of PyValidationError es \<Rightarrow> raise (g es) | _ \<Rightarrow> raise exc)" for exc g
    by (cases exc) (simp_all add: keeps_raise)
  show ?thesis unfolding load_user_whitelist_def
    by (intro quiet h) (simp add: f ssh_frameD)
qed

lemma keeps_prepare_execution [quiet]:
  "ssh_frame env kv \<Longrightarrow> inventory_frame kv inven \<Longrightarrow> keeps kv (prepare_execution env inven u rid req)"
  unfolding prepare_execution_def by (intro quiet)

lemma keeps_assign_run_id [quiet]: "ssh_frame env kv \<Longrightarrow> keeps kv (assign_run_id env cx)"
  unfolding assign_run_id_def by (intro quiet) (simp add: ssh_frameD)

lemma keeps_connect [quiet]: "ssh_frame env kv \<Longrightarrow> keeps kv (connect env cx req)"
  unfolding connect_def by (intro quiet)

lemma keeps_precheck [quiet]: "ssh_frame env kv \<Longrightarrow> keeps kv (precheck_script_version env cx c)"
  unfolding precheck_script_version_def by (intro quiet)

lemma keeps_fire_and_forget [quiet]: "ssh_frame env kv \<Longrightarrow> keeps kv (handle_fire_and_forget env cx c)"
proof -
  assume f: "ssh_frame env kv"
  have h: "keeps kv (case e of SshConnectionLost m \<Rightarrow> ret x | _ \<Rightarrow> if b then ret y else raise e)" for e b x y
    by (cases e) (simp_all add: keeps_raise keeps_ret)
  show ?thesis unfolding handle_fire_and_forget_def by (intro quiet h f)
qed

lemma keeps_check_capacity [quiet]: "keeps kv (check_capacity env)"
  unfolding check_capacity_def pool_size_def by (intro quiet)

section \<open>Properties\<close>

text \<open>
  Backpressure. When the pool of this process has reached \<^verbatim>\<open>COMMAND_MAX_RUNNING\<close>, a launch is refused
  with 503 before anything else happens: no whitelist is read, no host resolved, and nothing changes.
\<close>

theorem capacity_rejects:
  assumes "COMMAND_MAX_RUNNING (env_settings env) \<le> int (length (pod_pool p))"
  shows "execute_command env inven u rid req p = (Inl (AppExc ServiceUnavailable
     (''Too many running commands (limit: '' @ int_str (COMMAND_MAX_RUNNING (env_settings env))
      @ ''). Please try again later.'')), p)"
  using assms by (simp add: execute_command_def check_capacity_def pool_size_def io_run)

lemma capacity_rejects_witness:
  "snd (execute_command (demo_env ((demo_settings False)\<lparr>COMMAND_MAX_RUNNING := 0\<rparr>) demo_whitelist (\<lambda>_. Inl PyTimeoutError))
     None ''alice'' ''r1'' demo_request (demo_pod [])) = demo_pod []"
  by (subst capacity_rejects) (simp_all add: demo_env_def)

definition pattern_matches :: "(string \<Rightarrow> rx option) \<Rightarrow> string \<Rightarrow> string \<Rightarrow> bool" where
  "pattern_matches cre pat s = (case cre pat of None \<Rightarrow> False | Some r \<Rightarrow> re_match r s \<noteq> None)"

lemma any_match_True: "any_match cre ps s = Inr True \<Longrightarrow> \<exists>pat \<in> set ps. pattern_matches cre pat s"
  by (induction ps) (auto simp: pattern_matches_def split: option.splits if_splits)

lemma any_match_False: "any_match cre ps s = Inr False \<Longrightarrow> pat \<in> set ps \<Longrightarrow> \<not> pattern_matches cre pat s"
  by (induction ps) (auto simp: pattern_matches_def split: option.splits if_splits)

definition clean :: "string \<Rightarrow> bool" where
  "clean s \<longleftrightarrow> (\<forall>c \<in> set '';&|$`''. c \<notin> set s)"

lemma anti_injection_clean: "validate_anti_injection s = None \<longleftrightarrow> clean s"
  by (auto simp: validate_anti_injection_def clean_def)

definition argument_ok :: "(string \<Rightarrow> rx option) \<Rightarrow> arguments \<Rightarrow> command_argument_config \<Rightarrow> bool" where
  "argument_ok cre args a =
     (if arg_absent args (arg_name a) then \<not> arg_required a
      else (let v = py_str (the (args (arg_name a))) in
            clean v \<and> (arg_validation_regex a \<noteq> [] \<longrightarrow> pattern_matches cre (arg_validation_regex a) v)))"

lemma check_argument_ok: "check_argument cre args a = None \<longleftrightarrow> argument_ok cre args a"
  by (auto simp: check_argument_def argument_ok_def anti_injection_clean [symmetric] pattern_matches_def Let_def
      split: option.splits)

lemma check_arguments_ok: "check_arguments cre args as = None \<longleftrightarrow> (\<forall>a \<in> set as. argument_ok cre args a)"
  by (induction as) (auto simp: check_argument_ok [symmetric] split: option.splits)

lemma check_host_ok:
  "check_host cre w h = Inr () \<Longrightarrow>
     (\<exists>pat \<in> set (wl_allow_hosts w). pattern_matches cre pat (rh_ip h))
     \<and> (\<forall>pat \<in> set (wl_deny_hosts w). \<not> pattern_matches cre pat (rh_ip h))"
  by (auto simp: check_host_def split: sum.splits bool.splits dest: any_match_True any_match_False)

lemma load_user_whitelist_valid:
  "load_user_whitelist env u p = (Inr w, p') \<Longrightarrow> whitelist_errors (compile_regex env) w = []"
  by (auto simp: load_user_whitelist_def io_run Let_def split: prod.splits sum.splits if_splits exn.splits)

text \<open>
  Property C3. What a prepared execution has passed. The whitelist of the user was read and is valid; the resolved
  address matches an allow pattern and no deny pattern; the command is the first one of that name in the
  whitelist; every argument it defines is either optional and absent, or present, free of the five shell
  metacharacters and matching its pattern. The context carries the request unchanged, no connection yet,
  and the SSH configuration chosen for the target.
\<close>

theorem prepare_authorised:
  assumes "prepare_execution env inven u rid req p = (Inr cx, p')"
  shows "\<exists>w p1. load_user_whitelist env u p = (Inr w, p1) \<and> whitelist_errors (compile_regex env) w = []
    \<and> (\<exists>pat \<in> set (wl_allow_hosts w). pattern_matches (compile_regex env) pat (rh_ip (cx_resolved_host cx)))
    \<and> (\<forall>pat \<in> set (wl_deny_hosts w). \<not> pattern_matches (compile_regex env) pat (rh_ip (cx_resolved_host cx)))
    \<and> find_command w (rq_command_name req) = Some (cx_cmd_config cx)
    \<and> (\<forall>a \<in> set (cc_arguments (cx_cmd_config cx)). argument_ok (compile_regex env) (rq_arguments req) a)
    \<and> (\<exists>p2. resolve_target env inven req p1 = (Inr (cx_resolved_host cx), p2)
         \<and> fst (select_ssh_config env (rq_ssh_config req) (rh_bastion_name (cx_resolved_host cx)) p2)
             = Inr (cx_effective_ssh_config cx))
    \<and> cx_raw_request cx = req \<and> cx_username cx = u \<and> cx_request_id cx = rid \<and> cx_conn cx = None"
proof -
  obtain lw p1 where lw: "load_user_whitelist env u p = (lw, p1)" by fastforce
  then obtain w where w: "lw = Inr w"
    using assms by (cases lw) (simp_all add: prepare_execution_def bindE_run)
  obtain lr p2 where lr: "resolve_target env inven req p1 = (lr, p2)" by fastforce
  then obtain h where h: "lr = Inr h"
    using assms lw w by (cases lr) (simp_all add: prepare_execution_def bindE_run)
  have ch: "check_host (compile_regex env) w h = Inr ()"
    using assms lw w lr h by (cases "check_host (compile_regex env) w h")
      (simp_all add: prepare_execution_def bindE_run thenE_run liftE_run)
  obtain c where c: "find_command w (rq_command_name req) = Some c"
    using assms lw w lr h ch by (cases "find_command w (rq_command_name req)")
      (simp_all add: prepare_execution_def bindE_run thenE_run liftE_run raise_run)
  have args: "check_arguments (compile_regex env) (rq_arguments req) (cc_arguments c) = None"
    using assms lw w lr h ch c by (cases "check_arguments (compile_regex env) (rq_arguments req) (cc_arguments c)")
      (simp_all add: prepare_execution_def bindE_run thenE_run liftE_run raise_run)
  obtain se p3 where se: "select_ssh_config env (rq_ssh_config req) (rh_bastion_name h) p2 = (se, p3)" by fastforce
  have cx: "se = Inr (cx_effective_ssh_config cx) \<and> cx_cmd_config cx = c \<and> cx_resolved_host cx = h
      \<and> cx_raw_request cx = req \<and> cx_username cx = u \<and> cx_request_id cx = rid \<and> cx_conn cx = None"
    using assms lw w lr h ch c args se
    by (auto simp: prepare_execution_def bindE_run thenE_run liftE_run ret_run split: prod.splits sum.splits)
  show ?thesis
    using lw w lr h se cx c check_host_ok [OF ch] args [unfolded check_arguments_ok]
      load_user_whitelist_valid [OF lw [unfolded w]]
    by auto
qed

definition demo_play_whitelist :: user_command_whitelist where
  "demo_play_whitelist = demo_whitelist\<lparr>wl_allow_commands := [demo_config]\<rparr>"

abbreviation demo_launch_env :: "bool \<Rightarrow> (demo_world, command_state) env" where
  "demo_launch_env dry \<equiv> demo_env (demo_settings dry) demo_play_whitelist (\<lambda>_. Inl PyTimeoutError)"

lemmas launch_eval = io_run load_user_whitelist_def demo_env_def demo_settings_def demo_play_whitelist_def
  demo_whitelist_def demo_config_def demo_arg_def demo_request_def whitelist_errors_def command_errors_def
  arg_validate_regex_def validate_version_config_def validate_output_format_def opt_list_def validate_host_patterns_def
  compile_config_regex_def resolve_target_def resolve_ip_def requested_bastion_type_def requested_ip_label_def
  check_host_def re_match_def rseq.simps lit_def chr_run_def find_command_def check_argument_def arg_absent_def
  validate_anti_injection_def select_ssh_config_def load_ssh_config_def prepare_execution_def

lemma prepare_demo:
  "\<exists>cx. prepare_execution (demo_launch_env False) None ''alice'' ''r1'' demo_request (demo_pod []) = (Inr cx, demo_pod [])
     \<and> rh_ip (cx_resolved_host cx) = ''10.0.0.7'' \<and> cx_cmd_config cx = demo_config"
  by (simp add: launch_eval)

lemma prepare_authorised_witness:
  "find_command demo_play_whitelist ''play'' = Some demo_config
   \<and> (\<exists>pat \<in> set (wl_allow_hosts demo_play_whitelist).
        pattern_matches (compile_regex (demo_launch_env False)) pat ''10.0.0.7'')"
proof -
  obtain cx where cx: "prepare_execution (demo_launch_env False) None ''alice'' ''r1'' demo_request (demo_pod [])
      = (Inr cx, demo_pod [])" "rh_ip (cx_resolved_host cx) = ''10.0.0.7''" "cx_cmd_config cx = demo_config"
    using prepare_demo by blast
  have "load_user_whitelist (demo_launch_env False) ''alice'' (demo_pod []) = (Inr demo_play_whitelist, demo_pod [])"
    by (simp add: launch_eval)
  with prepare_authorised [OF cx(1)] cx(2,3) show ?thesis by (simp add: demo_request_def) 
qed

lemma tuple_ge_linear: "\<not> tuple_ge a b \<Longrightarrow> tuple_ge b a"
  by (cases a; cases b) auto

lemma version_max_bounds:
  assumes "version_max a b = Inr m" "version_ge x m = Inr True"
  shows "version_ge x a = Inr True \<and> version_ge x b = Inr True"
  using assms unfolding version_max_def version_ge_def
  by (auto split: sum.splits if_splits dest: tuple_ge_trans tuple_ge_linear)

lemma required_version_bounds:
  assumes "required_version cfg req script = Inr eff" "version_ge x (text_of eff) = Inr True"
  shows "(\<forall>v. cc_min_script_version cfg = Some v \<longrightarrow> version_ge x v = Inr True)
    \<and> (\<forall>v. truthy (rq_min_script_version req) = Some v \<longrightarrow> version_ge x v = Inr True)"
proof (cases "truthy (rq_min_script_version req)")
  case None
  then show ?thesis using assms by (auto simp: required_version_def text_of_def)
next
  case (Some v)
  then obtain m where m: "version_max (text_of (cc_min_script_version cfg)) v = Inr m" "eff = Some m"
    using assms(1) by (auto simp: required_version_def reclassify_def split: sum.splits)
  then have "version_ge x m = Inr True" using assms(2) by (simp add: text_of_def)
  from version_max_bounds [OF m(1) this] Some show ?thesis by (auto simp: text_of_def)
qed

lemma accept_version_ok:
  assumes "accept_version script eff raw = Inr ()"
  shows "\<exists>actual. parse_version_output raw = Inr actual \<and> version_ge actual (text_of eff) = Inr True"
  using assms
  by (auto simp: accept_version_def reclassify_def split: sum.splits if_splits)

definition version_text :: "completed \<Rightarrow> string" where
  "version_text res = text_of (cp_stdout res)
     @ (if text_of (cp_stderr res) \<noteq> [] then nl @ text_of (cp_stderr res) else [])"

text \<open>
  Property C24. The version gate fails closed. When it lets a command that opted in pass, the script was asked for its
  version over the connection, exited with 0, and printed a version token; the last such token parses and is at
  least the whitelist minimum and at least the minimum the caller asked for.
\<close>

theorem version_gate_fails_closed:
  assumes "precheck_script_version env cx c p = (Inr (), p')" "cc_checks_script_version (cx_cmd_config cx)"
  shows "\<exists>step script rest res actual.
      cx_pipeline_cmds cx = step # rest \<and> first_item step = Inr script
    \<and> conn_run env c (shlex_join [script, ''--version'']) p = (Inr res, p') \<and> cp_exit_status res = Some 0
    \<and> parse_version_output (version_text res) = Inr actual
    \<and> (\<forall>v. cc_min_script_version (cx_cmd_config cx) = Some v \<longrightarrow> version_ge actual v = Inr True)
    \<and> (\<forall>v. truthy (rq_min_script_version (cx_raw_request cx)) = Some v \<longrightarrow> version_ge actual v = Inr True)"
proof -
  note defs = precheck_script_version_def bindE_run liftE_run raise_run Let_def
  obtain step rest where st: "cx_pipeline_cmds cx = step # rest"
    using assms by (cases "cx_pipeline_cmds cx") (simp_all add: defs first_item_def)
  obtain script where sc: "first_item step = Inr script"
    using assms st by (cases "first_item step") (simp_all add: defs first_item_def [of "_ # _"])
  obtain eff where eff: "required_version (cx_cmd_config cx) (cx_raw_request cx) script = Inr eff"
    using assms st sc by (cases "required_version (cx_cmd_config cx) (cx_raw_request cx) script")
      (simp_all add: defs first_item_def [of "_ # _"])
  obtain rr p1 where rr: "conn_run env c (shlex_join [script, ''--version'']) p = (rr, p1)" by fastforce
  then obtain res where res: "rr = Inr res"
    using assms st sc eff by (cases rr) (simp_all add: defs first_item_def [of "_ # _"])
  have "cp_exit_status res = Some 0" "p' = p1" "accept_version script eff (version_text res) = Inr ()"
    using assms st sc eff rr res
    by (auto simp: defs first_item_def [of "_ # _"] version_text_def split: if_splits)
  moreover from this(3) obtain actual where am: "parse_version_output (version_text res) = Inr actual"
      "version_ge actual (text_of eff) = Inr True"
    using accept_version_ok by blast
  moreover note required_version_bounds [OF eff am(2)]
  ultimately show ?thesis using st sc rr res by blast
qed

definition gated_context :: execution_context where
  "gated_context = demo_context\<lparr>cx_cmd_config := demo_config\<lparr>cc_checks_script_version := True,
     cc_min_script_version := Some ''1.2.0''\<rparr>, cx_pipeline_cmds := [[''run'', ''site.yml'']]\<rparr>"

text \<open>The dry-run object answers the version question with a version no requirement exceeds.\<close>

definition dry_pod :: "demo_world pod" where
  "dry_pod = (demo_pod [])\<lparr>pod_dry_conns := [new_dry_conn False 0]\<rparr>"

lemma gate_demo:
  "precheck_script_version (demo_launch_env True) gated_context (DryConn 0) dry_pod = (Inr (), dry_pod)"
proof -
  have c: "contains ''--version'' (shlex_join [''run'', ''--version''])" by code_simp
  have v: "accept_version ''run'' (Some ''1.2.0'') (version_text (dry_result (''999.0.0'' @ nl) 0)) = Inr ()"
    by code_simp
  then show ?thesis
    by (simp add: precheck_script_version_def io_run gated_context_def demo_context_def first_item_def
        required_version_def truthy_def demo_request_def demo_config_def dry_pod_def dry_run_def c version_text_def dry_result_def)
qed

lemma version_gate_fails_closed_witness:
  "\<exists>res actual. fst (conn_run (demo_launch_env True) (DryConn 0) (shlex_join [''run'', ''--version'']) dry_pod) = Inr res
     \<and> parse_version_output (version_text res) = Inr actual \<and> version_ge actual ''1.2.0'' = Inr True"
proof -
  have opt: "cc_checks_script_version (cx_cmd_config gated_context)"
    and step: "cx_pipeline_cmds gated_context = [[''run'', ''site.yml'']]"
    and minv: "cc_min_script_version (cx_cmd_config gated_context) = Some ''1.2.0''"
    by (simp_all add: gated_context_def)
  from version_gate_fails_closed [OF gate_demo opt] show ?thesis
    by (auto simp: step minv first_item_def)
qed

definition fire_outcome :: "('e, 'd) env \<Rightarrow> conn \<Rightarrow> string \<Rightarrow> ('e pod, bool) io" where
  "fire_outcome env c cmd = thenE (conn_run env c cmd) (conn_is_closed env c)"

text \<open>
  Fire and forget. The dispatch of a command that should sever the connection answers \<^verbatim>\<open>success\<close> exactly when the
  command returned and the connection is then closed, or when the connection was lost during it; it answers
  \<^verbatim>\<open>failed\<close> when the connection is still open or for any other exception; it only raises when it is cancelled
  or when closing raises; and the connection is closed in every case.
\<close>

theorem fire_and_forget_spec:
  assumes "cx_pipeline_cmds cx = cmd # rest" "fire_outcome env c (shlex_join cmd) p = (o', p1)"
    and "conn_close env c p1 = (Inr (), p2)"
  shows "snd (handle_fire_and_forget env cx c p) = p2
    \<and> (case fst (handle_fire_and_forget env cx c p) of
         Inl e \<Rightarrow> e = Cancelled \<and> o' = Inl Cancelled
       | Inr resp \<Rightarrow> o' \<noteq> Inl Cancelled \<and>
           rs_status resp = (if o' = Inr True \<or> (\<exists>m. o' = Inl (SshConnectionLost m)) then ''success'' else ''failed''))"
proof -
  note defs = handle_fire_and_forget_def finallyE_run catchE_run bindE_run thenE_run liftE_run ret_run raise_run
    first_item_def Let_def
  obtain r q where r: "conn_run env c (shlex_join cmd) p = (r, q)" by fastforce
  show ?thesis
  proof (cases r)
    case (Inl e)
    then have "o' = Inl e" "p1 = q" using assms(2) r by (simp_all add: fire_outcome_def thenE_run)
    with Inl r assms show ?thesis
      by (cases e) (simp_all add: defs response_def response_failed_def)
  next
    case (Inr res)
    obtain z q2 where z: "conn_is_closed env c q = (z, q2)" by fastforce
    then have o: "o' = z" "p1 = q2" using assms(2) r Inr by (simp_all add: fire_outcome_def thenE_run)
    show ?thesis
    proof (cases z)
      case (Inl e)
      with Inr r z o assms show ?thesis
        by (cases e) (simp_all add: defs response_def response_failed_def)
    next
      case (Inr b)
      with \<open>r = Inr res\<close> r z o assms show ?thesis
        by (cases b) (simp_all add: defs response_def response_failed_def)
    qed
  qed
qed

lemma fire_and_forget_spec_witness:
  "rs_status (case fst (handle_fire_and_forget (demo_launch_env True)
       (demo_context\<lparr>cx_pipeline_cmds := [[''reboot'']]\<rparr>) (DryConn 0)
       ((demo_pod [])\<lparr>pod_dry_conns := [new_dry_conn True 0]\<rparr>)) of Inr resp \<Rightarrow> resp | Inl _ \<Rightarrow> response []) = ''success''"
proof -
  let ?env = "demo_launch_env True" and ?p = "(demo_pod [])\<lparr>pod_dry_conns := [new_dry_conn True 0]\<rparr>"
  let ?q = "(demo_pod [])\<lparr>pod_dry_conns := [(new_dry_conn True 0)\<lparr>dc_closed := True\<rparr>]\<rparr>"
  let ?cx = "demo_context\<lparr>cx_pipeline_cmds := [[''reboot'']]\<rparr>"
  have sj: "shlex_join [''reboot''] = ''reboot''" by code_simp
  have 1: "cx_pipeline_cmds ?cx = [[''reboot'']]" by simp
  have "dry_run ''reboot'' (new_dry_conn True 0) =
      (dry_result DRY_RUN_STDOUT 0, (new_dry_conn True 0)\<lparr>dc_closed := True\<rparr>)" by code_simp
  then have 2: "fire_outcome ?env (DryConn 0) (shlex_join [''reboot'']) ?p = (Inr True, ?q)"
    by (simp add: fire_outcome_def io_run sj)
  have 3: "conn_close ?env (DryConn 0) ?q = (Inr (), ?q)"
    by (simp add: dry_close_def)
  from fire_and_forget_spec [OF 1 2 3] show ?thesis
    by (cases "fst (handle_fire_and_forget ?env ?cx (DryConn 0) ?p)") auto
qed

section \<open>Registration\<close>

definition uuid_ok :: "('e, 'd) env \<Rightarrow> bool" where
  "uuid_ok env \<longleftrightarrow> (\<forall>e. \<exists>u. fst (new_uuid env e) = Inr u \<and> u \<noteq> [])"

text \<open>The choice of the id keeps the process as it is.\<close>

lemma command_id_choice:
  assumes "uuid_ok env" "ssh_frame env kv"
  obtains cid p1 where "(case truthy o' of Some i \<Rightarrow> ret i | None \<Rightarrow> ext (new_uuid env)) p = (Inr cid, p1)"
    "o' \<noteq> None \<longrightarrow> o' \<noteq> Some [] \<longrightarrow> o' = Some cid" "pod_pool p1 = pod_pool p" "pod_tasks p1 = pod_tasks p"
    "kv (pod_world p1) = kv (pod_world p)"
proof (cases "truthy o'")
  case None
  obtain u e where u: "new_uuid env (pod_world p) = (Inr u, e)"
    using assms(1) unfolding uuid_ok_def by (metis prod.collapse)
  moreover have "kv e = kv (pod_world p)" using ssh_frameD(12) [OF assms(2), of "pod_world p"] u by simp
  ultimately show thesis using None that [of u "p\<lparr>pod_world := e\<rparr>"]
    by (auto simp: ext_run truthy_def split: option.splits if_splits)
next
  case (Some i)
  then show thesis using that [of i p] by (auto simp: ret_run truthy_def split: option.splits if_splits)
qed

lemma handle_async_cases:
  assumes "redis_ok env kv" "ssh_frame env kv" "uuid_ok env"
    and "handle_async_execution env cx c cid_opt p = (r, p')"
  shows "\<exists>cid. pod_pool p' = alist_set cid (initial_entry cx c) (pod_pool p)
    \<and> (if 0 < run_timeout (env_settings env) (cx_raw_request cx) + 30
       then r = Inr ((response ''running'')\<lparr>rs_command_id := Some cid\<rparr>)
          \<and> stored env kv p' = (stored env kv p)(cid \<mapsto> initial_state cx cid) \<and> pod_tasks p' = pod_tasks p @ [cid]
       else (\<exists>m. r = Inl (PyOther m)) \<and> stored env kv p' = stored env kv p \<and> pod_tasks p' = pod_tasks p)"
proof -
  let ?ttl = "run_timeout (env_settings env) (cx_raw_request cx) + 30"
  obtain cid p1 where ch: "(case truthy cid_opt of Some i \<Rightarrow> ret i | None \<Rightarrow> ext (new_uuid env)) p = (Inr cid, p1)"
      "pod_pool p1 = pod_pool p" "pod_tasks p1 = pod_tasks p" "kv (pod_world p1) = kv (pod_world p)"
    using command_id_choice [OF assms(3,2), of cid_opt p] by blast
  define p2 where "p2 = p1\<lparr>pod_pool := alist_set cid (initial_entry cx c) (pod_pool p1)\<rparr>"
  have st: "stored env kv p2 = stored env kv p" by (simp add: fun_eq_iff stored_def p2_def ch(4))
  have run: "thenE (repo_save env (initial_state cx cid) ?ttl) (thenE (create_task cid)
      (ret ((response (status_value RUNNING))\<lparr>rs_command_id := Some cid\<rparr>))) p2 = (r, p')"
    using assms(4) ch(1) by (simp add: handle_async_execution_def bindE_run [of "case_option _ _ _"] thenE_run [of "modifyS _"]
        pool_add_def modifyS_run p2_def)
  show ?thesis
  proof (cases "0 < ?ttl")
    case True
    obtain p3 where p3: "repo_save env (initial_state cx cid) ?ttl p2 = (Inr (), p3)" "\<exists>e. p3 = p2\<lparr>pod_world := e\<rparr>"
        "stored env kv p3 = (stored env kv p2)(cs_command_id (initial_state cx cid) \<mapsto> initial_state cx cid)"
      using repo_save_spec [OF assms(1) True] by blast
    have "stored env kv (p3\<lparr>pod_tasks := x\<rparr>) = stored env kv p3" for x
      by (simp add: fun_eq_iff stored_def)
    with p3 run st ch True show ?thesis
      by (intro exI [of _ cid]) (auto simp: thenE_run create_task_def modifyS_run ret_run initial_state_def p2_def)
  next
    case False
    then obtain m where "repo_save env (initial_state cx cid) ?ttl p2 = (Inl (PyOther m), p2)"
      using repo_save_expired [OF assms(1), of ?ttl] by force
    with run st ch False show ?thesis
      by (intro exI [of _ cid]) (auto simp: thenE_run p2_def)
  qed
qed

lemma run_on_cases:
  assumes "redis_ok env kv" "ssh_frame env kv" "uuid_ok env"
    and "run_on env cx c cid_opt p = (r, p')" "-30 < run_timeout (env_settings env) (cx_raw_request cx)"
  shows "pod_pool p' = pod_pool p \<and> pod_tasks p' = pod_tasks p \<and> stored env kv p' = stored env kv p
      \<and> (case r of Inl e \<Rightarrow> True | Inr resp \<Rightarrow> cc_disconnects_ssh (cx_cmd_config cx) \<and> rs_command_id resp = None)
    \<or> (\<exists>cid. r = Inr ((response ''running'')\<lparr>rs_command_id := Some cid\<rparr>)
        \<and> \<not> cc_disconnects_ssh (cx_cmd_config cx)
        \<and> pod_pool p' = alist_set cid (initial_entry cx c) (pod_pool p)
        \<and> stored env kv p' = (stored env kv p)(cid \<mapsto> initial_state cx cid) \<and> pod_tasks p' = pod_tasks p @ [cid])"
proof -
  let ?gate = "catchE (precheck_script_version env cx c)
    (\<lambda>e. if is_exception e then thenE (conn_close env c) (raise e) else raise e)"
  obtain g p1 where g: "?gate p = (g, p1)" by fastforce
  have k: "keeps kv ?gate" using assms(2) by (intro quiet)
  note p1 = keepsD [OF k g] keeps_stored [OF k g, of env]
  show ?thesis
  proof (cases g)
    case (Inl e)
    then show ?thesis using assms(4) g p1 by (auto simp: run_on_def thenE_run [of ?gate])
  next
    case (Inr u)
    show ?thesis
    proof (cases "cc_disconnects_ssh (cx_cmd_config cx)")
      case True
      then have f: "handle_fire_and_forget env cx c p1 = (r, p')"
        using assms(4) g Inr by (simp add: run_on_def thenE_run [of ?gate])
      have k2: "keeps kv (handle_fire_and_forget env cx c)" using assms(2) by (rule quiet)
      have "case r of Inl e \<Rightarrow> True | Inr resp \<Rightarrow> rs_command_id resp = None"
        using f by (auto simp: handle_fire_and_forget_def finallyE_run catchE_run bindE_run ret_run raise_run Let_def
            response_def response_failed_def split: prod.splits sum.splits exn.splits if_splits)
      then show ?thesis using keepsD [OF k2 f] keeps_stored [OF k2 f, of env] p1 True by (simp split: sum.splits)
    next
      case False
      then have h: "handle_async_execution env cx c cid_opt p1 = (r, p')"
        using assms(4) g Inr by (simp add: run_on_def thenE_run [of ?gate])
      from handle_async_cases [OF assms(1-3) h] p1 False assms(5) show ?thesis by auto
    qed
  qed
qed

text \<open>The context the launch runs with keeps the request.\<close>

lemma assign_run_id_request:
  "assign_run_id env cx p = (Inr (i, cx'), p') \<Longrightarrow> cx_raw_request cx' = cx_raw_request cx
     \<and> cx_cmd_config cx' = cx_cmd_config cx \<and> cx_resolved_host cx' = cx_resolved_host cx
     \<and> cx_effective_ssh_config cx' = cx_effective_ssh_config cx"
  by (auto simp: assign_run_id_def bindE_run ret_run split: if_splits prod.splits sum.splits)

lemma prepare_request:
  "prepare_execution env inven u rid req p = (Inr cx, p') \<Longrightarrow> cx_raw_request cx = req"
  by (auto simp: prepare_execution_def bindE_run thenE_run liftE_run ret_run raise_run
      split: prod.splits sum.splits option.splits)

lemma connect_real:
  "connect env cx req p = (Inr c, p') \<Longrightarrow> \<not> DRY_RUN_MODE (env_settings env) \<Longrightarrow> \<exists>n. c = RealConn n"
  by (auto simp: connect_def ssh_connect_within_def bindE_run catchE_run liftE_run ret_run raise_run ext_run Let_def
      split: prod.splits sum.splits if_splits)

lemma execute_launched:
  assumes "redis_ok env kv" "ssh_frame env kv" "uuid_ok env" "inventory_frame kv inven"
    and "-30 < run_timeout (env_settings env) req"
    and "execute_command env inven u rid req p = (r, p')"
  shows "pod_pool p' = pod_pool p \<and> pod_tasks p' = pod_tasks p \<and> stored env kv p' = stored env kv p
      \<and> (case r of Inl e \<Rightarrow> True | Inr resp \<Rightarrow> rs_command_id resp = None)
    \<or> (\<exists>cid cx c. r = Inr ((response ''running'')\<lparr>rs_command_id := Some cid\<rparr>)
        \<and> cx_raw_request cx = req \<and> \<not> cc_disconnects_ssh (cx_cmd_config cx)
        \<and> cx_conn cx = Some c \<and> (\<not> DRY_RUN_MODE (env_settings env) \<longrightarrow> (\<exists>n. c = RealConn n))
        \<and> pod_pool p' = alist_set cid (initial_entry cx c) (pod_pool p)
        \<and> stored env kv p' = (stored env kv p)(cid \<mapsto> initial_state cx cid) \<and> pod_tasks p' = pod_tasks p @ [cid])"
proof -
  let ?prep = "thenE (check_capacity env) (bindE (prepare_execution env inven u rid req) (\<lambda>cx0.
      bindE (assign_run_id env cx0) (\<lambda>(command_id, cx1). bindE (liftE (build cx1)) (\<lambda>cmds.
      bindE (connect env (cx1\<lparr>cx_pipeline_cmds := cmds\<rparr>) req) (\<lambda>c. ret (command_id, cx1, cmds, c))))))"
  have split: "execute_command env inven u rid req =
      bindE ?prep (\<lambda>(command_id, cx1, cmds, c).
        run_on env (cx1\<lparr>cx_pipeline_cmds := cmds, cx_conn := Some c\<rparr>) c command_id)"
    by (rule HOL.ext) (simp add: execute_command_def bindE_run thenE_run liftE_run ret_run split: prod.splits sum.splits)
  obtain x p1 where x: "?prep p = (x, p1)" by fastforce
  have k: "keeps kv ?prep" using assms(2,4) by (intro quiet)
  note p1 = keepsD [OF k x] keeps_stored [OF k x, of env]
  show ?thesis
  proof (cases x)
    case (Inl e)
    then show ?thesis using assms(6) x p1 by (auto simp: split bindE_run [of ?prep])
  next
    case (Inr y)
    obtain i cx1 cmds c where y: "y = (i, cx1, cmds, c)" by (cases y)
    let ?cx = "cx1\<lparr>cx_pipeline_cmds := cmds, cx_conn := Some c\<rparr>"
    have run: "run_on env ?cx c i p1 = (r, p')"
      using assms(6) x Inr y by (simp add: split bindE_run [of ?prep])
    have req: "cx_raw_request ?cx = req"
      using x Inr y by (auto simp: thenE_run bindE_run liftE_run ret_run split: prod.splits sum.splits
          dest: assign_run_id_request prepare_request)
    then have t: "-30 < run_timeout (env_settings env) (cx_raw_request ?cx)" using assms(5) by simp
    have real: "\<not> DRY_RUN_MODE (env_settings env) \<longrightarrow> (\<exists>n. c = RealConn n)"
      using x Inr y by (auto simp: thenE_run bindE_run liftE_run ret_run split: prod.splits sum.splits dest: connect_real)
    from run_on_cases [OF assms(1-3) run t]
    show ?thesis
    proof (elim disjE exE conjE, goal_cases)
      case 1
      then show ?thesis using p1 by (simp split: sum.splits)
    next
      case (2 cid)
      then show ?thesis using p1 req real
        by (intro disjI2 exI [of _ cid] exI [of _ ?cx] exI [of _ c]) simp
    qed
  qed
qed

lemma execute_cases:
  assumes "redis_ok env kv" "ssh_frame env kv" "uuid_ok env" "inventory_frame kv inven"
    and "-30 < run_timeout (env_settings env) req"
    and "execute_command env inven u rid req p = (r, p')"
  shows "pod_pool p' = pod_pool p \<and> pod_tasks p' = pod_tasks p \<and> stored env kv p' = stored env kv p
      \<and> (case r of Inl e \<Rightarrow> True | Inr resp \<Rightarrow> rs_command_id resp = None)
    \<or> (\<exists>cid cx c. r = Inr ((response ''running'')\<lparr>rs_command_id := Some cid\<rparr>)
        \<and> cx_raw_request cx = req \<and> \<not> cc_disconnects_ssh (cx_cmd_config cx)
        \<and> pod_pool p' = alist_set cid (initial_entry cx c) (pod_pool p)
        \<and> stored env kv p' = (stored env kv p)(cid \<mapsto> initial_state cx cid) \<and> pod_tasks p' = pod_tasks p @ [cid])"
  using execute_launched [OF assms] by blast


lemma uuid_ok_demo: "uuid_ok (demo_env cfg wl answer)"
  by (simp add: uuid_ok_def demo_env_def ret_run)

lemma launch_demo:
  "fst (execute_command (demo_launch_env True) None ''alice'' ''r1'' demo_request (demo_pod []))
     = Inr ((response ''running'')\<lparr>rs_command_id := Some ''u1''\<rparr>)"
proof -
  obtain cx where cx: "prepare_execution (demo_launch_env True) None ''alice'' ''r1'' demo_request (demo_pod [])
      = (Inr cx, demo_pod [])" "cx_cmd_config cx = demo_config" "cx_raw_request cx = demo_request" "cx_run_id cx = None"
    by (simp add: launch_eval)
  have b: "build cx = Inr [[''run'', ''site.yml'']]"
    unfolding build_def cx(2-4) by code_simp
  have flags: "\<not> cc_logged demo_config" "\<not> cc_disconnects_ssh demo_config" "\<not> cc_checks_script_version demo_config"
    by (simp_all add: demo_config_def)
  have opt: "rq_option demo_request = None" by (simp add: demo_request_def)
  show ?thesis
    by (simp add: execute_command_def io_run check_capacity_def pool_size_def cx b assign_run_id_def flags connect_def
        make_dry_conn_def run_on_def precheck_script_version_def handle_async_execution_def truthy_def pool_add_def
        repo_save_def create_task_def run_timeout_def opt)
       (simp add: demo_env_def demo_settings_def demo_setex_def io_run)
qed


text \<open>
  A launch whose record cannot be saved leaks its slot. With a timeout of -30 seconds or less, which the request model
  accepts, the time to live of the record is not positive: the registration raises, but the pool entry it added before stays, and
  no task exists that would remove it.
\<close>

theorem launch_leaks_pool_entry:
  assumes "redis_ok env kv" "ssh_frame env kv" "uuid_ok env"
    and "run_timeout (env_settings env) (cx_raw_request cx) \<le> -30"
    and "handle_async_execution env cx c cid_opt p = (r, p')"
  shows "\<exists>cid m. r = Inl (PyOther m) \<and> map_of (pod_pool p') cid = Some (initial_entry cx c) \<and> pod_tasks p' = pod_tasks p"
  using handle_async_cases [OF assms(1-3,5)] assms(4) by auto

lemma launch_leaks_pool_entry_witness:
  "\<exists>r p' cid. handle_async_execution (demo_launch_env False)
       (demo_context\<lparr>cx_raw_request := demo_request\<lparr>rq_option :=
          Some \<lparr>opt_timeout_seconds = -30, opt_bastion_type = None, opt_ip_label = None\<rparr>\<rparr>\<rparr>)
       (RealConn 0) None (demo_pod []) = (r, p')
     \<and> map_of (pod_pool p') cid \<noteq> None \<and> pod_tasks p' = []"
proof -
  let ?cx = "demo_context\<lparr>cx_raw_request := demo_request\<lparr>rq_option :=
    Some \<lparr>opt_timeout_seconds = -30, opt_bastion_type = None, opt_ip_label = None\<rparr>\<rparr>\<rparr>"
  obtain r p' where run: "handle_async_execution (demo_launch_env False) ?cx (RealConn 0) None (demo_pod []) = (r, p')"
    by fastforce
  have t: "run_timeout (env_settings (demo_launch_env False)) (cx_raw_request ?cx) \<le> -30"
    by (simp add: run_timeout_def)
  from launch_leaks_pool_entry [OF redis_ok_demo ssh_frame_demo uuid_ok_demo t run]
  obtain cid where "map_of (pod_pool p') cid = Some (initial_entry ?cx (RealConn 0))" "pod_tasks p' = []" by auto
  then show ?thesis using run by (intro exI [of _ r] exI [of _ p'] exI [of _ cid]) simp
qed

section \<open>Dry-run\<close>

text \<open>An environment with every real SSH operation exchanged.\<close>

definition with_ssh ::
  "(string \<Rightarrow> int \<Rightarrow> string \<Rightarrow> credentials \<Rightarrow> int \<Rightarrow> ('e, nat) io) \<Rightarrow> (nat \<Rightarrow> string \<Rightarrow> ('e, completed) io)
   \<Rightarrow> (nat \<Rightarrow> string \<Rightarrow> proc option \<Rightarrow> ('e, nat) io) \<Rightarrow> (nat \<Rightarrow> ('e, bool) io) \<Rightarrow> (nat \<Rightarrow> ('e, unit) io)
   \<Rightarrow> (string \<Rightarrow> ('e, ssh_connection_config) io) \<Rightarrow> (string \<Rightarrow> exn + string)
   \<Rightarrow> ('e, 'd) env \<Rightarrow> ('e, 'd) env" where
  "with_ssh con run cre clo cl cfg key env = env\<lparr>ssh_connect := con, ssh_run := run, ssh_create_process := cre,
     ssh_is_closed := clo, ssh_close := cl, read_ssh_config := cfg, import_private_key := key\<rparr>"

lemma dry_settings [simp]:
  "env_settings (with_ssh con run cre clo cl cfg key env) = env_settings env"
  "compile_regex (with_ssh con run cre clo cl cfg key env) = compile_regex env"
  "path_exists (with_ssh con run cre clo cl cfg key env) = path_exists env"
  "new_uuid (with_ssh con run cre clo cl cfg key env) = new_uuid env"
  "read_whitelist (with_ssh con run cre clo cl cfg key env) = read_whitelist env"
  "redis_setex (with_ssh con run cre clo cl cfg key env) = redis_setex env"
  "dump_state (with_ssh con run cre clo cl cfg key env) = dump_state env"
  by (simp_all add: with_ssh_def)

lemma dry_prepare:
  "DRY_RUN_MODE (env_settings env) \<Longrightarrow>
     prepare_execution (with_ssh con run cre clo cl cfg key env) inven u rid req = prepare_execution env inven u rid req"
proof -
  let ?e = "with_ssh con run cre clo cl cfg key env"
  assume d: "DRY_RUN_MODE (env_settings env)"
  have path: "ssh_config_path ?e n = ssh_config_path env n" for n by (simp add: ssh_config_path_def)
  have "load_user_whitelist ?e u = load_user_whitelist env u"
    unfolding load_user_whitelist_def dry_settings by (rule refl)
  moreover have "resolve_target ?e inven req = resolve_target env inven req"
    unfolding resolve_target_def dry_settings by (rule refl)
  moreover have "select_ssh_config ?e r b = select_ssh_config env r b" for r b
    unfolding select_ssh_config_def path dry_settings by (rule refl)
  moreover have "load_ssh_config ?e n = load_ssh_config env n" for n using d by (simp add: load_ssh_config_def)
  ultimately show ?thesis unfolding prepare_execution_def dry_settings by (simp only:)
qed

lemma dry_conn_ops:
  "conn_run (with_ssh con run cre clo cl cfg key env) (DryConn i) = conn_run env (DryConn i)"
  "conn_close (with_ssh con run cre clo cl cfg key env) (DryConn i) = conn_close env (DryConn i)"
  "conn_is_closed (with_ssh con run cre clo cl cfg key env) (DryConn i) = conn_is_closed env (DryConn i)"
  by (simp_all add: fun_eq_iff)

lemma dry_run_on:
  "run_on (with_ssh con run cre clo cl cfg key env) cx (DryConn i) cid = run_on env cx (DryConn i) cid"
  unfolding run_on_def precheck_script_version_def handle_fire_and_forget_def handle_async_execution_def
    repo_save_def dry_conn_ops dry_settings by (rule refl)

lemma dry_connect_then:
  assumes "DRY_RUN_MODE (env_settings env)" "\<And>i. f' (DryConn i) = f (DryConn i)"
  shows "bindE (connect (with_ssh con run cre clo cl cfg key env) cx req) f' = bindE (connect env cx req) f"
  using assms by (simp add: fun_eq_iff bindE_run connect_def make_dry_conn_def)

lemma dry_execute:
  assumes "DRY_RUN_MODE (env_settings env)"
  shows "execute_command (with_ssh con run cre clo cl cfg key env) inven u rid req = execute_command env inven u rid req"
proof -
  let ?e = "with_ssh con run cre clo cl cfg key env"
  have "bindE (connect ?e (cx1\<lparr>cx_pipeline_cmds := cmds\<rparr>) req)
        (\<lambda>c. run_on ?e (cx1\<lparr>cx_pipeline_cmds := cmds, cx_conn := Some c\<rparr>) c i)
      = bindE (connect env (cx1\<lparr>cx_pipeline_cmds := cmds\<rparr>) req)
        (\<lambda>c. run_on env (cx1\<lparr>cx_pipeline_cmds := cmds, cx_conn := Some c\<rparr>) c i)" for cx1 cmds i
    using assms by (rule dry_connect_then) (rule dry_run_on)
  moreover have "assign_run_id ?e = assign_run_id env" "check_capacity ?e = check_capacity env"
    unfolding fun_eq_iff assign_run_id_def check_capacity_def dry_settings by simp_all
  ultimately show ?thesis using assms by (simp add: execute_command_def dry_prepare)
qed



end
