(* ===== verification/Heal.thy ===== *)
theory Heal
  imports SshSupport
begin

text \<open>
  \<^verbatim>\<open>app/services/command_state_helpers.py\<close>: loading a record for the poll and trace endpoints, and
  the reconciliation of a record that is still \<^verbatim>\<open>RUNNING\<close> or \<^verbatim>\<open>KILLING\<close> with the exit marker the
  run left on the control node.
\<close>

section \<open>Operations\<close>

definition get_state_or_404 :: "('e, 'd) env \<Rightarrow> string \<Rightarrow> ('e pod, command_state) io" where
  "get_state_or_404 env command_id =
     catchE (repo_get env command_id)
       (\<lambda>exc. if is_command_execution exc
              then raise (AppExc NotFound (''Command '' @ command_id @ '' not found.''))
              else raise exc)"

definition exit_marker_path :: "string \<Rightarrow> string" where
  "exit_marker_path run_log_path =
     (if endswith run_log_path ''.log''
      then take (length run_log_path - length ''.log'') run_log_path @ ''.exit''
      else run_log_path @ ''.exit'')"

definition read_run_exit_marker :: "('e, 'd) env \<Rightarrow> command_state \<Rightarrow> ('e pod, int option) io" where
  "read_run_exit_marker env st = (case cs_run_log_path st of
       None \<Rightarrow> raise (PyAttributeError ''endswith'')
     | Some path \<Rightarrow>
         (let marker_path = exit_marker_path path in
          bindE (connect_to_control_node env st) (\<lambda>c.
            finallyE
              (bindE (conn_run env c (''cat '' @ shlex_quote marker_path)) (\<lambda>res.
                 if cp_exit_status res \<noteq> Some 0 then ret None
                 else ret (py_int (strip (text_of (cp_stdout res))))))
              (conn_close env c))))"

definition heal_updater :: "int \<Rightarrow> string option \<Rightarrow> command_state \<Rightarrow> command_state" where
  "heal_updater code tail s =
     (if code = 0 then mark_success code [] s
      else mark_failed (''Recovered from control_node marker: exit '' @ int_str code @ ''.'')
             (Some code) tail s)"

definition in_transit :: "command_state \<Rightarrow> bool" where
  "in_transit s \<longleftrightarrow> cs_status s = RUNNING \<or> cs_status s = KILLING"

definition heal_from_marker :: "('e, 'd) env \<Rightarrow> command_state \<Rightarrow> ('e pod, command_state) io" where
  "heal_from_marker env st =
     bindE
       (catchE (bindE (read_run_exit_marker env st) (\<lambda>code. ret (Some code)))
          (\<lambda>exc. if is_app_exception exc then ret None else raise exc))
       (\<lambda>marker. case marker of
          None \<Rightarrow> ret st
        | Some None \<Rightarrow> ret st
        | Some (Some code) \<Rightarrow>
            bindE (if code \<noteq> 0
                   then read_log_tail env st (COMMAND_LOG_FAILURE_TAIL_LINES (env_settings env))
                   else ret None) (\<lambda>tail.
            bindE (repo_update_if env (cs_command_id st) in_transit (heal_updater code tail)
                     (COMMAND_RESULT_TTL_SECONDS (env_settings env))) (\<lambda>healed.
            if healed then repo_get env (cs_command_id st)
            else repo_get env (cs_command_id st))))"

section \<open>Lemmas\<close>

lemma keeps_read_run_exit_marker [quiet]:
  "ssh_frame env kv \<Longrightarrow> keeps kv (read_run_exit_marker env st)"
  unfolding read_run_exit_marker_def by (intro quiet)

lemma heal_updater_id [simp]: "cs_command_id (heal_updater code tail s) = cs_command_id s"
  by (simp add: heal_updater_def)

lemma heal_updater_status [simp]:
  "cs_status (heal_updater code tail s) = (if code = 0 then SUCCESS else FAILED)"
  by (simp add: heal_updater_def)

lemma exit_marker_path_sidecar: "exit_marker_path (base @ ''.log'') = base @ ''.exit''"
  by (simp add: exit_marker_path_def endswith_def suffix_def)

text \<open>The outcome of the guarded write that ends a heal.\<close>

lemma heal_write:
  assumes "redis_ok env kv" "ids_match env kv p" "0 < ttl"
    and run: "bindE (repo_update_if env cid C f ttl) (\<lambda>_. repo_get env cid) p = (r, p')"
    and f: "\<And>s. cs_command_id (f s) = cs_command_id s"
  shows "pod_local p' = pod_local p \<and> ids_match env kv p'
    \<and> (case stored env kv p cid of
         None \<Rightarrow> stored env kv p' = stored env kv p \<and> (\<exists>m. r = Inl (AppExc CommandExecution m))
       | Some s \<Rightarrow> (let s' = if C s then f s else s in
            stored env kv p' = (stored env kv p)(cid \<mapsto> s') \<and> r = Inr s'))"
proof -
  obtain u q where u: "repo_update_if env cid C f ttl p = (u, q)" by fastforce
  from repo.update_if_cases [where f = f and C = C, OF assms(1) _ assms(3) f u [unfolded repo_update_if_def]]
    assms(2)
  have q: "pod_local q = pod_local p" "ids_match env kv q"
    and c: "case stored env kv p cid of
         None \<Rightarrow> stored env kv q = stored env kv p \<and> (\<exists>m. u = Inl (AppExc CommandExecution m))
       | Some s \<Rightarrow> stored env kv q = (if C s then (stored env kv p)(cid \<mapsto> f s) else stored env kv p) \<and> u = Inr (C s)"
    unfolding ids_match_keyed by blast+
  show ?thesis
  proof (cases "stored env kv p cid")
    case None
    with c u run q show ?thesis by (auto simp: io_run)
  next
    case (Some s)
    with c have sq: "stored env kv q = (stored env kv p)(cid \<mapsto> (if C s then f s else s))" "u = Inr (C s)"
      by (auto simp: fun_eq_iff)
    then have "repo_get env cid q = (Inr (if C s then f s else s), q)"
      by (intro repo_get_found [OF assms(1)]) simp
    with u sq run have "p' = q" "r = Inr (if C s then f s else s)" by (simp_all add: io_run)
    with q sq(1) Some show ?thesis by simp
  qed
qed

text \<open>The effect of a heal, for every outcome of the marker read.\<close>

lemma heal_effect:
  assumes "redis_ok env kv" "ssh_frame env kv" "ids_match env kv p"
    and "0 < COMMAND_RESULT_TTL_SECONDS (env_settings env)"
    and "heal_from_marker env st p = (r, p')"
  shows "pod_pool p' = pod_pool p \<and> pod_tasks p' = pod_tasks p \<and> ids_match env kv p'
    \<and> (case fst (read_run_exit_marker env st p) of
         Inl e \<Rightarrow> stored env kv p' = stored env kv p \<and> r = (if is_app_exception e then Inr st else Inl e)
       | Inr None \<Rightarrow> stored env kv p' = stored env kv p \<and> r = Inr st
       | Inr (Some code) \<Rightarrow>
           (\<exists>e. r = Inl e \<and> stored env kv p' = stored env kv p
              \<and> (stored env kv p (cs_command_id st) = None \<or> code \<noteq> 0))
           \<or> (\<exists>s tail. stored env kv p (cs_command_id st) = Some s \<and> (code = 0 \<longrightarrow> tail = None)
                \<and> (let s' = if in_transit s then heal_updater code tail s else s in
                     stored env kv p' = (stored env kv p)(cs_command_id st \<mapsto> s') \<and> r = Inr s')))"
proof -
  let ?ttl = "COMMAND_RESULT_TTL_SECONDS (env_settings env)"
  let ?n = "COMMAND_LOG_FAILURE_TAIL_LINES (env_settings env)"
  obtain m p1 where m: "read_run_exit_marker env st p = (m, p1)" by fastforce
  have k1: "keeps kv (read_run_exit_marker env st)" using assms(2) by (rule quiet)
  note p1 = keepsD [OF k1 m] keeps_stored [OF k1 m, of env] ids_match_keeps [OF k1 m, of env]
  show ?thesis
  proof (cases "\<exists>code. m = Inr (Some code)")
    case False
    then show ?thesis using assms(3,5) p1
      by (auto simp: heal_from_marker_def io_run m split: sum.splits if_splits option.splits)
  next
    case True
    then obtain code where code: "m = Inr (Some code)" by blast
    define rd where "rd = (if code \<noteq> 0 then read_log_tail env st ?n else ret None)"
    obtain t p2 where t: "rd p1 = (t, p2)" by fastforce
    have k2: "keeps kv rd" unfolding rd_def using assms(2) by (intro quiet)
    note p2 = keepsD [OF k2 t] keeps_stored [OF k2 t, of env] ids_match_keeps [OF k2 t, of env]
    have run: "(case t of Inl e \<Rightarrow> (Inl e, p2) | Inr tail \<Rightarrow>
        bindE (repo_update_if env (cs_command_id st) in_transit (heal_updater code tail) ?ttl)
          (\<lambda>_. repo_get env (cs_command_id st)) p2) = (r, p')"
      using assms(5) by (simp add: heal_from_marker_def bindE_run catchE_run ret_run m code t rd_def [symmetric]
          cong: if_cong split: sum.splits)
    show ?thesis
    proof (cases t)
      case (Inl e)
      then have "code \<noteq> 0" using t by (auto simp: rd_def io_run)
      with run Inl p1 p2 assms(3) show ?thesis by (auto simp: m code)
    next
      case (Inr tail)
      then have "code = 0 \<longrightarrow> tail = None" using t by (auto simp: rd_def io_run)
      moreover have "ids_match env kv p2" using assms(3) p1 p2 by simp
      note w = heal_write [where C = in_transit and f = "heal_updater code tail", OF assms(1) this assms(4) _ heal_updater_id]
      from w [of "cs_command_id st" r p'] run Inr
      have "pod_local p' = pod_local p2 \<and> ids_match env kv p' \<and>
          (case stored env kv p2 (cs_command_id st) of
            None \<Rightarrow> stored env kv p' = stored env kv p2 \<and> (\<exists>m. r = Inl (AppExc CommandExecution m))
          | Some s \<Rightarrow> (let s' = if in_transit s then heal_updater code tail s else s in
              stored env kv p' = (stored env kv p2)(cs_command_id st \<mapsto> s') \<and> r = Inr s'))"
        by simp
      ultimately show ?thesis using p1 p2
        by (cases "stored env kv p2 (cs_command_id st)") (auto simp: m code pod_local_def)
    qed
  qed
qed

section \<open>Properties\<close>

text \<open>
  Property C8. Healing. With a healthy Redis and records under their ids: when the marker cannot be read for a
  reason the service classifies, or is absent or unparseable, the caller keeps the record it had and
  nothing is written; any other exception of the read escapes. When the marker holds \<^verbatim>\<open>code\<close>, the record found in Redis becomes
  \<^verbatim>\<open>SUCCESS\<close> or \<^verbatim>\<open>FAILED\<close> according to the code if it is still \<^verbatim>\<open>RUNNING\<close> or \<^verbatim>\<open>KILLING\<close>, a terminal
  record is left as it is, and the caller gets the record now stored; it fails only when the record has
  vanished, or when reading the log tail of a failed run raises. No other record, pool entry or task
  changes.
\<close>

theorem heal_from_marker_spec:
  assumes "redis_ok env kv" "ssh_frame env kv" "ids_match env kv p"
    and "0 < COMMAND_RESULT_TTL_SECONDS (env_settings env)"
    and "heal_from_marker env st p = (r, p')"
  shows "pod_pool p' = pod_pool p \<and> pod_tasks p' = pod_tasks p \<and> ids_match env kv p'
    \<and> (case fst (read_run_exit_marker env st p) of
         Inl e \<Rightarrow> stored env kv p' = stored env kv p \<and> r = (if is_app_exception e then Inr st else Inl e)
       | Inr None \<Rightarrow> stored env kv p' = stored env kv p \<and> r = Inr st
       | Inr (Some code) \<Rightarrow>
           (\<exists>e. r = Inl e \<and> stored env kv p' = stored env kv p
              \<and> (stored env kv p (cs_command_id st) = None \<or> code \<noteq> 0))
           \<or> (\<exists>s tail. stored env kv p (cs_command_id st) = Some s \<and> (code = 0 \<longrightarrow> tail = None)
                \<and> (let s' = if in_transit s then heal_updater code tail s else s in
                     stored env kv p' = (stored env kv p)(cs_command_id st \<mapsto> s') \<and> r = Inr s')))"
  using assms by (rule heal_effect)

definition demo_answer :: "string \<Rightarrow> exn + completed" where
  "demo_answer cmd = Inr \<lparr>cp_stdout = Some (''0'' @ nl), cp_stderr = None, cp_exit_status = Some 0\<rparr>"

definition demo_run :: command_state where
  "demo_run = demo_state ''c1'' KILLING (Some ''/l/c1.log'') True"

lemma demo_connect:
  "connect_to_control_node (demo_env (demo_settings False) wl answer) st p = (Inr (RealConn 0), p)"
  by (simp add: connect_to_control_node_def load_ssh_config_def ssh_connect_within_def
      create_authenticator_def demo_env_def demo_settings_def io_run)

lemma heal_from_marker_spec_witness:
  "\<exists>p' s'. heal_from_marker (demo_env (demo_settings False) demo_whitelist demo_answer) demo_run (demo_pod [demo_run])
       = (Inr s', p')
     \<and> stored (demo_env (demo_settings False) demo_whitelist demo_answer) map_of p' ''c1'' = Some s'
     \<and> cs_status s' = SUCCESS"
proof -
  let ?env = "demo_env (demo_settings False) demo_whitelist demo_answer"
  let ?p = "demo_pod [demo_run]"
  obtain r p' where run: "heal_from_marker ?env demo_run ?p = (r, p')" by fastforce
  have "py_int (strip (''0'' @ nl)) = Some 0" by code_simp
  then have m: "fst (read_run_exit_marker ?env demo_run ?p) = Inr (Some 0)"
    by (simp add: read_run_exit_marker_def demo_run_def demo_connect io_run)
       (simp add: demo_env_def demo_answer_def io_run text_of_def)
  have s: "stored ?env map_of ?p ''c1'' = Some demo_run"
    by (simp add: stored_demo demo_run_def)
  have c: "cs_command_id demo_run = ''c1''" "in_transit demo_run"
    by (simp_all add: demo_run_def in_transit_def)
  have ttl: "0 < COMMAND_RESULT_TTL_SECONDS (env_settings ?env)"
    by (simp add: demo_env_def demo_settings_def)
  show ?thesis
    using heal_from_marker_spec [OF redis_ok_demo ssh_frame_demo ids_match_demo ttl run] run
    by (auto simp: m s c Let_def)
qed

text \<open>
  A channel that drops while the marker is read is not swallowed. When the connection to the control node opens and
  the remote read then raises an exception that is not one of the service's own (an asyncssh error, an
  \<^verbatim>\<open>OSError\<close>), that exception leaves \<^verbatim>\<open>_heal_from_marker\<close>, and with it the poll.
\<close>

theorem heal_channel_drop_escapes:
  assumes "cs_run_log_path st = Some path" "connect_to_control_node env st p = (Inr c, p1)"
    and "conn_run env c (''cat '' @ shlex_quote (exit_marker_path path)) p1 = (Inl e, p2)" "\<not> is_app_exception e"
    and "conn_close env c p2 = (Inr (), p3)"
  shows "heal_from_marker env st p = (Inl e, p3)"
  using assms by (simp add: heal_from_marker_def read_run_exit_marker_def bindE_run catchE_run finallyE_run raise_run)

lemma heal_channel_drop_escapes_witness:
  "fst (heal_from_marker (demo_env (demo_settings False) demo_whitelist (\<lambda>_. Inl (SshError ''channel closed'')))
     demo_run (demo_pod [demo_run])) = Inl (SshError ''channel closed'')"
proof -
  let ?env = "demo_env (demo_settings False) demo_whitelist (\<lambda>_. Inl (SshError ''channel closed''))"
  let ?p = "demo_pod [demo_run]"
  have "cs_run_log_path demo_run = Some ''/l/c1.log''" by (simp add: demo_run_def)
  moreover have "conn_run ?env (RealConn 0) cmd ?p = (Inl (SshError ''channel closed''), ?p)" for cmd
    by (simp add: demo_env_def io_run)
  moreover have "conn_close ?env (RealConn 0) ?p = (Inr (), ?p)" by (simp add: demo_env_def io_run)
  ultimately have "heal_from_marker ?env demo_run ?p = (Inl (SshError ''channel closed''), ?p)"
    by (intro heal_channel_drop_escapes [OF _ demo_connect]) auto
  then show ?thesis by simp
qed

end
