(* ===== verification/Lifecycle.thy ===== *)
theory Lifecycle
  imports Heal
begin

text \<open>
  \<^verbatim>\<open>app/services/command_lifecycle.py\<close>: killing a run through the connection of this process or,
  when the run belongs to another process, through a new one; listing runs; shutdown.
\<close>

section \<open>Operations\<close>

text \<open>An absent connection object raises \<^verbatim>\<open>AttributeError\<close> at its first use.\<close>

definition the_conn_run :: "('e, 'd) env \<Rightarrow> conn option \<Rightarrow> string \<Rightarrow> ('e pod, completed) io" where
  "the_conn_run env mc cmd = (case mc of
     None \<Rightarrow> raise (PyAttributeError ''run'') | Some c \<Rightarrow> conn_run env c cmd)"

definition kill_pgid :: "('e, 'd) env \<Rightarrow> conn option \<Rightarrow> int \<Rightarrow> ('e pod, unit) io" where
  "kill_pgid env mc pgid =
     catchE
       (thenE (the_conn_run env mc (''kill -TERM -'' @ int_str pgid))
       (thenE (ext (sleep env (COMMAND_KILL_GRACE_SECONDS (env_settings env))))
       (bindE (the_conn_run env mc (''kill -0 -'' @ int_str pgid)) (\<lambda>res.
          if cp_exit_status res = Some 0
          then thenE (the_conn_run env mc (''kill -KILL -'' @ int_str pgid)) (ret ())
          else ret ()))))
       (\<lambda>e. if is_exception e then ret () else raise e)"

definition do_kill_via_connection ::
  "('e, 'd) env \<Rightarrow> conn option \<Rightarrow> int list \<Rightarrow> ('e pod, unit) io" where
  "do_kill_via_connection env mc pgids = for_each pgids (kill_pgid env mc)"

text \<open>Step 0: an unknown run and a run that is not killable are both left alone.\<close>

definition kill_permitted :: "('e, 'd) env \<Rightarrow> string \<Rightarrow> ('e pod, bool) io" where
  "kill_permitted env command_id =
     bindE (pool_get command_id) (\<lambda>entry. case entry of
         Some en \<Rightarrow> ret (en_killable en)
       | None \<Rightarrow>
           catchE (bindE (repo_get env command_id) (\<lambda>s. ret (cs_killable s)))
             (\<lambda>exc. if is_command_execution exc then ret False else raise exc))"

text \<open>Step 0b.\<close>

definition check_recorded_config :: "('e, 'd) env \<Rightarrow> string \<Rightarrow> ('e pod, unit) io" where
  "check_recorded_config env command_id =
     bindE (pool_get command_id) (\<lambda>entry. case entry of
         Some en \<Rightarrow> ret ()
       | None \<Rightarrow>
           bindE
             (catchE (bindE (repo_get env command_id) (\<lambda>s. ret (Some s)))
                (\<lambda>exc. if is_command_execution exc then ret None else raise exc))
             (\<lambda>recorded. case recorded of
                None \<Rightarrow> ret ()
              | Some s \<Rightarrow> thenE (load_ssh_config env (cs_ssh_config s)) (ret ())))"

definition cross_pod_kill :: "('e, 'd) env \<Rightarrow> string \<Rightarrow> string \<Rightarrow> int \<Rightarrow> ('e pod, unit) io" where
  "cross_pod_kill env command_id message ttl =
     bindE
       (catchE (bindE (repo_get env command_id) (\<lambda>s. ret (Some s)))
          (\<lambda>exc. if is_command_execution exc then ret None else raise exc))
       (\<lambda>found. case found of
          None \<Rightarrow> ret ()
        | Some state \<Rightarrow>
            if cs_pgids state = [] then repo_update env command_id (mark_killed message) ttl
            else bindE (load_ssh_config env (cs_ssh_config state)) (\<lambda>ssh_config.
              bindE (liftE (get_connect_kwargs env (create_authenticator ssh_config))) (\<lambda>conn_kwargs.
                catchE
                  (bindE (ssh_connect_within env (cs_resolved_ip state) (cs_port state)
                            (cs_username state) conn_kwargs 10) (\<lambda>c.
                     finallyE
                       (thenE (do_kill_via_connection env (Some c) (cs_pgids state))
                          (repo_update env command_id (mark_killed message) ttl))
                       (conn_close env c)))
                  (\<lambda>e. if is_exception e then ret () else raise e))))"

definition kill_command :: "('e, 'd) env \<Rightarrow> string \<Rightarrow> string \<Rightarrow> bool \<Rightarrow> ('e pod, unit) io" where
  "kill_command env command_id message force =
     (let ttl = COMMAND_RESULT_TTL_SECONDS (env_settings env) in
      bindE (if force then ret True else kill_permitted env command_id) (\<lambda>permitted.
        if \<not> permitted then ret ()
        else thenE (check_recorded_config env command_id)
          (bindE (repo_update_if env command_id is_running (mark_killing message) ttl) (\<lambda>success.
            if \<not> success then ret ()
            else bindE (pool_get command_id) (\<lambda>entry. case entry of
                Some en \<Rightarrow>
                  thenE (do_kill_via_connection env (en_conn en) (en_pgids en))
                    (repo_update env command_id (mark_killed message) ttl)
              | None \<Rightarrow> cross_pod_kill env command_id message ttl)))))"

definition list_running_commands ::
  "('e, 'd) env \<Rightarrow> command_status list option \<Rightarrow> ('e pod, command_state list) io" where
  "list_running_commands env statuses =
     list_states env (Some (case statuses of None \<Rightarrow> [RUNNING, KILLING] | Some ss \<Rightarrow> ss))"

text \<open>\<^verbatim>\<open>asyncio.gather\<close> on the schedule in which every task runs to its end in turn: all run, and the
  first exception is the outcome.\<close>

fun gather :: "('s, unit) io list \<Rightarrow> ('s, unit) io" where
  "gather [] = ret ()"
| "gather (m # ms) = (\<lambda>s. case m s of
     (Inl e, s') \<Rightarrow> (Inl e, snd (gather ms s')) | (Inr _, s') \<Rightarrow> gather ms s')"

definition shutdown_gracefully :: "('e, 'd) env \<Rightarrow> ('e pod, unit) io" where
  "shutdown_gracefully env =
     bindE pool_command_ids (\<lambda>ids. gather (map (\<lambda>cid. kill_command env cid ''Killed'' False) ids))"

text \<open>What both a client of \<^verbatim>\<open>asyncio.gather\<close> and its schedules agree on: what each task keeps, the whole keeps.\<close>

locale task_schedule =
  fixes sched :: "('s, unit) io list \<Rightarrow> ('s, unit) io"
  assumes keeps: "(\<And>m p r p'. m \<in> set ms \<Longrightarrow> I p \<Longrightarrow> m p = (r, p') \<Longrightarrow> I p') \<Longrightarrow> I s \<Longrightarrow> sched ms s = (r, s') \<Longrightarrow> I s'"
begin

lemma keeps_all:
  assumes "\<And>x p r p'. x \<in> set xs \<Longrightarrow> I p \<Longrightarrow> f x p = (r, p') \<Longrightarrow> I p'" "I s" "sched (map f xs) s = (r, s')"
  shows "I s'"
  by (rule keeps [where I = I and ms = "map f xs" and s = s and r = r, OF _ assms(2,3)]) (use assms(1) in auto)

end

interpretation all_tasks: task_schedule gather
proof
  fix ms and I :: "'a \<Rightarrow> bool" and s r s'
  assume "\<And>m p r p'. m \<in> set ms \<Longrightarrow> I p \<Longrightarrow> m p = (r, p') \<Longrightarrow> I p'" "I s" "gather ms s = (r, s')"
  then show "I s'"
  proof (induction ms arbitrary: s r)
    case Nil
    then show ?case by (simp add: ret_run)
  next
    case (Cons m ms)
    obtain x q where x: "m s = (x, q)" by fastforce
    have q: "I q" by (rule Cons.prems(1) [where m = m and p = s and r = x, OF _ Cons.prems(2) x]) simp
    obtain y where y: "gather ms q = (y, s')" using Cons.prems(3) x by (cases x) (auto, metis prod.collapse)
    show ?case by (rule Cons.IH [OF _ q y]) (use Cons.prems(1) in auto)
  qed
qed

section \<open>Lemmas\<close>

lemma keeps_the_conn_run [quiet]: "ssh_frame env kv \<Longrightarrow> keeps kv (the_conn_run env mc cmd)"
  unfolding the_conn_run_def by (intro quiet)

lemma keeps_kill_pgid [quiet]: "ssh_frame env kv \<Longrightarrow> keeps kv (kill_pgid env mc pgid)"
  unfolding kill_pgid_def by (intro quiet) (simp_all add: ssh_frameD)

lemma keeps_do_kill [quiet]: "ssh_frame env kv \<Longrightarrow> keeps kv (do_kill_via_connection env mc pgids)"
  unfolding do_kill_via_connection_def by (intro quiet)

lemma kill_pgid_raises: "kill_pgid env mc pgid p = (Inl e, p') \<Longrightarrow> e = Cancelled"
  by (cases e) (auto simp: kill_pgid_def catchE_run ret_run raise_run split: prod.splits sum.splits if_splits)

lemma do_kill_raises: "do_kill_via_connection env mc pgids p = (Inl e, p') \<Longrightarrow> e = Cancelled"
  unfolding do_kill_via_connection_def
proof (induction pgids arbitrary: p)
  case Nil
  then show ?case by (simp add: ret_run)
next
  case (Cons x xs)
  then show ?case by (auto simp: thenE_run split: prod.splits sum.splits dest: kill_pgid_raises)
qed

text \<open>What the guard reads.\<close>

definition killable_now ::
  "('e, 'd) env \<Rightarrow> ('e \<Rightarrow> string \<Rightarrow> 'd option) \<Rightarrow> 'e pod \<Rightarrow> string \<Rightarrow> bool" where
  "killable_now env kv p cid = (case map_of (pod_pool p) cid of
     Some en \<Rightarrow> en_killable en
   | None \<Rightarrow> (case stored env kv p cid of None \<Rightarrow> False | Some s \<Rightarrow> cs_killable s))"

lemma kill_permitted_run:
  assumes "redis_ok env kv"
  shows "kill_permitted env cid p = (Inr (killable_now env kv p cid), p)"
proof (cases "stored env kv p cid")
  case None
  obtain m where "repo_get env cid p = (Inl (AppExc CommandExecution m), p)"
    using repo_get_missing [OF assms None] by blast
  then show ?thesis
    by (simp add: kill_permitted_def killable_now_def io_run None split: option.splits)
next
  case (Some s)
  then show ?thesis
    by (simp add: kill_permitted_def killable_now_def io_run repo_get_found [OF assms Some] split: option.splits)
qed

lemma keeps_repo_get [quiet]: "redis_ok env kv \<Longrightarrow> keeps kv (repo_get env cid)"
proof -
  assume a: "redis_ok env kv"
  have "kv (snd (redis_get env k e)) = kv e" for k e using a by (simp add: redis_ok_def)
  then show ?thesis unfolding repo_get_def by (intro quiet) simp
qed

lemma keeps_check_recorded_config [quiet]:
  "redis_ok env kv \<Longrightarrow> ssh_frame env kv \<Longrightarrow> keeps kv (check_recorded_config env cid)"
  unfolding check_recorded_config_def pool_get_def by (intro quiet)

lemma check_recorded_config_local:
  "map_of (pod_pool p) cid = Some en \<Longrightarrow> check_recorded_config env cid p = (Inr (), p)"
  by (simp add: check_recorded_config_def io_run)

lemma check_recorded_config_missing:
  assumes "redis_ok env kv" "stored env kv p cid = None"
  shows "check_recorded_config env cid p = (Inr (), p)"
  using repo_get_missing [OF assms] by (auto simp: check_recorded_config_def io_run split: option.splits)

definition killed_by :: "string \<Rightarrow> command_state \<Rightarrow> command_state" where
  "killed_by msg s = mark_killed msg (mark_killing msg s)"

lemma kill_with_conn:
  assumes "redis_ok env kv" "ssh_frame env kv" "ids_match env kv p" "0 < ttl" "stored env kv p cid = Some s"
    and run: "thenE (do_kill_via_connection env mc pgids) (repo_update env cid (mark_killed msg) ttl) p = (r, p')"
  shows "pod_pool p' = pod_pool p \<and> pod_tasks p' = pod_tasks p \<and> ids_match env kv p'
    \<and> (r = Inr () \<and> stored env kv p' = (stored env kv p)(cid \<mapsto> mark_killed msg s)
       \<or> r = Inl Cancelled \<and> stored env kv p' = stored env kv p)"
proof -
  obtain d p1 where d: "do_kill_via_connection env mc pgids p = (d, p1)" by fastforce
  have k: "keeps kv (do_kill_via_connection env mc pgids)" using assms(2) by (rule quiet)
  note p1 = keepsD [OF k d] keeps_stored [OF k d, of env] ids_match_keeps [OF k d, of env]
  show ?thesis
  proof (cases d)
    case (Inl e)
    with do_kill_raises [OF d [unfolded Inl]] d run p1 assms(3) show ?thesis by (auto simp: thenE_run)
  next
    case (Inr u)
    have "ids_match env kv p1" "stored env kv p1 cid = Some s" using p1 assms(3,5) by simp_all
    from repo_update_true [OF assms(1) this(1) assms(4) this(2), of "mark_killed msg"]
    obtain p2 where p2: "repo_update env cid (mark_killed msg) ttl p1 = (Inr (), p2)"
        "stored env kv p2 = (stored env kv p1)(cid \<mapsto> mark_killed msg s)"
        "pod_local p2 = pod_local p1" "ids_match env kv p2" by auto
    then have "r = Inr ()" "p' = p2" using d run Inr by (simp_all add: thenE_run)
    with p1 p2 show ?thesis by (simp add: pod_local_def)
  qed
qed

lemma catch_stranded:
  "catchE m (\<lambda>e. if is_exception e then ret () else raise e) p = (r, p') \<Longrightarrow>
     \<exists>r0. m p = (r0, p') \<and> (r = r0 \<or> r = Inr ())"
  by (auto simp: io_run split: prod.splits sum.splits if_splits)

lemma cross_pod_session:
  fixes env :: "('e, 'd) env" and cid msg ttl pgids
  defines "body \<equiv> \<lambda>cn. thenE (do_kill_via_connection env (Some cn) pgids) (repo_update env cid (mark_killed msg) ttl)"
  assumes "redis_ok env kv" "ssh_frame env kv" "ids_match env kv p" "0 < ttl" "stored env kv p cid = Some s"
    and run: "bindE (ssh_connect_within env ip port user kw secs) (\<lambda>cn. finallyE (body cn) (conn_close env cn)) p = (r, p')"
  shows "pod_pool p' = pod_pool p \<and> pod_tasks p' = pod_tasks p \<and> ids_match env kv p'
    \<and> (\<exists>s'. stored env kv p' = (stored env kv p)(cid \<mapsto> s') \<and> (s' = s \<or> s' = mark_killed msg s))"
proof -
  have same: "stored env kv p = (stored env kv p)(cid \<mapsto> s)" using assms(6) by (auto simp: fun_eq_iff)
  let ?conn = "ssh_connect_within env ip port user kw secs"
  obtain n p2 where n: "?conn p = (n, p2)" by fastforce
  have k2: "keeps kv ?conn" using assms(3) by (rule quiet)
  note p2 = keepsD [OF k2 n] keeps_stored [OF k2 n, of env] ids_match_keeps [OF k2 n, of env]
  show ?thesis
  proof (cases n)
    case (Inl e)
    then show ?thesis using run n p2 assms(4) same by (auto simp: bindE_run)
  next
    case (Inr cn)
    obtain b p3 where b: "body cn p2 = (b, p3)" by fastforce
    obtain z p4 where z: "conn_close env cn p3 = (z, p4)" by fastforce
    have "p' = p4" using run n Inr b z by (auto simp: bindE_run finallyE_run split: sum.splits)
    moreover have i2: "ids_match env kv p2" "stored env kv p2 cid = Some s" using p2 assms(4,6) by simp_all
    note kill_with_conn [OF assms(2,3) i2(1) assms(5) i2(2) b [unfolded body_def]]
    moreover have k3: "keeps kv (conn_close env cn)" using assms(3) by (rule quiet)
    ultimately show ?thesis
      using keepsD [OF k3 z] keeps_stored [OF k3 z, of env] ids_match_keeps [OF k3 z, of env] p2 same
      by auto
  qed
qed

lemma cross_pod_kill_spec:
  assumes "redis_ok env kv" "ssh_frame env kv" "ids_match env kv p" "0 < ttl" "stored env kv p cid = Some s"
    and run: "cross_pod_kill env cid msg ttl p = (r, p')"
  shows "pod_pool p' = pod_pool p \<and> pod_tasks p' = pod_tasks p \<and> ids_match env kv p'
    \<and> (\<exists>s'. stored env kv p' = (stored env kv p)(cid \<mapsto> s') \<and> (s' = s \<or> s' = mark_killed msg s)
         \<and> (cs_pgids s = [] \<longrightarrow> r = Inr () \<and> s' = mark_killed msg s))"
proof -
  have got: "repo_get env cid p = (Inr s, p)" by (rule repo_get_found [OF assms(1,5)])
  have same: "stored env kv p = (stored env kv p)(cid \<mapsto> s)" using assms(5) by (auto simp: fun_eq_iff)
  show ?thesis
  proof (cases "cs_pgids s = []")
    case True
    from repo_update_true [OF assms(1,3,4,5), of "mark_killed msg"]
    obtain p2 where "repo_update env cid (mark_killed msg) ttl p = (Inr (), p2)"
        "stored env kv p2 = (stored env kv p)(cid \<mapsto> mark_killed msg s)"
        "pod_local p2 = pod_local p" "ids_match env kv p2" by auto
    then show ?thesis using run
      by (auto simp: cross_pod_kill_def bindE_run catchE_run ret_run got True pod_local_def)
  next
    case False
    obtain c p1 where c: "load_ssh_config env (cs_ssh_config s) p = (c, p1)" by fastforce
    have k: "keeps kv (load_ssh_config env (cs_ssh_config s))" using assms(2) by (rule quiet)
    note p1 = keepsD [OF k c] keeps_stored [OF k c, of env] ids_match_keeps [OF k c, of env]
    show ?thesis
    proof (cases "\<exists>cfg kw. c = Inr cfg \<and> get_connect_kwargs env (create_authenticator cfg) = Inr kw")
      case False': False
      then have "p' = p1" using run c False
        by (auto simp: cross_pod_kill_def bindE_run catchE_run ret_run got liftE_run split: sum.splits)
      then show ?thesis using p1 assms(3) False same by auto
    next
      case True
      then obtain cfg kw where cfg: "c = Inr cfg" "get_connect_kwargs env (create_authenticator cfg) = Inr kw" by blast
      let ?conn = "ssh_connect_within env (cs_resolved_ip s) (cs_port s) (cs_username s) kw 10"
      let ?body = "\<lambda>cn. thenE (do_kill_via_connection env (Some cn) (cs_pgids s)) (repo_update env cid (mark_killed msg) ttl)"
      have "catchE (bindE ?conn (\<lambda>cn. finallyE (?body cn) (conn_close env cn)))
          (\<lambda>e. if is_exception e then ret () else raise e) p1 = (r, p')"
        using run c cfg False by (simp add: cross_pod_kill_def bindE_run [of "catchE _ _"] bindE_run [of "load_ssh_config _ _"]
            bindE_run [of "liftE _"] catchE_run [of "bindE _ _" "\<lambda>exc. if is_command_execution exc then _ exc else _ exc"]
            bindE_run [of "repo_get _ _"] ret_run got liftE_run)
      from catch_stranded [OF this] obtain r0 where
        r0: "bindE ?conn (\<lambda>cn. finallyE (?body cn) (conn_close env cn)) p1 = (r0, p')" by blast
      have i1: "ids_match env kv p1" "stored env kv p1 cid = Some s" using p1 assms(3,5) by simp_all
      from cross_pod_session [OF assms(1,2) i1(1) assms(4) i1(2) r0] p1 False show ?thesis by auto
    qed
  qed
qed

section \<open>Properties\<close>

text \<open>An unforced kill of a run that is not killable now.\<close>

lemma kill_refused_run:
  assumes "redis_ok env kv" "\<not> killable_now env kv p cid"
  shows "kill_command env cid msg False p = (Inr (), p)"
  by (simp add: kill_command_def Let_def bindE_run ret_run kill_permitted_run [OF assms(1)] assms(2))

text \<open>
  A kill the system must not make has no effect. When no human forced it and the pool entry says the
  run is not killable, or there is no entry and the record is missing or says so, \<^verbatim>\<open>kill_command\<close>
  returns at once and the whole state of the process, Redis included, is as before.
\<close>

theorem kill_refused:
  assumes "redis_ok env kv" "\<not> killable_now env kv p cid"
  shows "kill_command env cid msg False p = (Inr (), p)"
  using assms by (rule kill_refused_run)

lemma kill_refused_witness:
  "kill_command (demo_env (demo_settings False) demo_whitelist demo_answer) ''c1'' ''stop'' False
     (demo_pod [demo_state ''c1'' RUNNING None False])
   = (Inr (), demo_pod [demo_state ''c1'' RUNNING None False])"
  by (rule kill_refused [OF redis_ok_demo]) (simp add: killable_now_def stored_demo)

lemma kill_body:
  assumes "force \<or> killable_now env kv p cid" "redis_ok env kv"
  shows "kill_command env cid msg force p =
    thenE (check_recorded_config env cid)
      (bindE (repo_update_if env cid is_running (mark_killing msg) (COMMAND_RESULT_TTL_SECONDS (env_settings env)))
        (\<lambda>success. if \<not> success then ret ()
           else bindE (pool_get cid) (\<lambda>entry. case entry of
                Some en \<Rightarrow> thenE (do_kill_via_connection env (en_conn en) (en_pgids en))
                    (repo_update env cid (mark_killed msg) (COMMAND_RESULT_TTL_SECONDS (env_settings env)))
              | None \<Rightarrow> cross_pod_kill env cid msg (COMMAND_RESULT_TTL_SECONDS (env_settings env))))) p"
  using assms(1) kill_permitted_run [OF assms(2), of cid p]
  by (cases force) (simp_all add: kill_command_def Let_def bindE_run [of "ret True"] bindE_run [of "kill_permitted env cid"] ret_run)

text \<open>The kill once the record says \<^verbatim>\<open>KILLING\<close>.\<close>

lemma flipped_kill:
  assumes "redis_ok env kv" "ssh_frame env kv" "ids_match env kv p" "0 < ttl" "stored env kv p cid = Some s"
    and run: "bindE (pool_get cid) (\<lambda>entry. case entry of
          Some en \<Rightarrow> thenE (do_kill_via_connection env (en_conn en) (en_pgids en)) (repo_update env cid (mark_killed msg) ttl)
        | None \<Rightarrow> cross_pod_kill env cid msg ttl) p = (r, p')"
  shows "pod_pool p' = pod_pool p \<and> pod_tasks p' = pod_tasks p \<and> ids_match env kv p'
    \<and> (\<exists>s'. stored env kv p' = (stored env kv p)(cid \<mapsto> s')
         \<and> (case map_of (pod_pool p) cid of
              Some en \<Rightarrow> r = Inr () \<and> s' = mark_killed msg s \<or> r = Inl Cancelled \<and> s' = s
            | None \<Rightarrow> s' = mark_killed msg s \<or> s' = s \<and> cs_pgids s \<noteq> []))"
proof (cases "map_of (pod_pool p) cid")
  case (Some en)
  then have "thenE (do_kill_via_connection env (en_conn en) (en_pgids en)) (repo_update env cid (mark_killed msg) ttl) p = (r, p')"
    using run by (simp add: bindE_run pool_get_def getS_run)
  moreover have "stored env kv p = (stored env kv p)(cid \<mapsto> s)" using assms(5) by (auto simp: fun_eq_iff)
  ultimately show ?thesis using kill_with_conn [OF assms(1-5)] Some by (metis option.simps(5))
next
  case None
  then have "cross_pod_kill env cid msg ttl p = (r, p')" using run by (simp add: bindE_run pool_get_def getS_run)
  from cross_pod_kill_spec [OF assms(1-5) this] None show ?thesis by auto
qed

lemma kill_effect:
  assumes "redis_ok env kv" "ssh_frame env kv" "ids_match env kv p"
    and "0 < COMMAND_RESULT_TTL_SECONDS (env_settings env)"
    and "force \<or> killable_now env kv p cid" "stored env kv p cid = Some s"
    and "kill_command env cid msg force p = (r, p')"
  shows "pod_pool p' = pod_pool p \<and> pod_tasks p' = pod_tasks p \<and> ids_match env kv p'
    \<and> (\<exists>s'. stored env kv p' = (stored env kv p)(cid \<mapsto> s')
         \<and> (if cs_status s \<noteq> RUNNING then s' = s
            else case map_of (pod_pool p) cid of
              Some en \<Rightarrow> r = Inr () \<and> s' = killed_by msg s \<or> r = Inl Cancelled \<and> s' = mark_killing msg s
            | None \<Rightarrow> s' = s \<and> (\<exists>e. r = Inl e \<and> fst (load_ssh_config env (cs_ssh_config s) p) = Inl e)
                \<or> s' = killed_by msg s
                \<or> s' = mark_killing msg s \<and> cs_pgids s \<noteq> []))"
proof -
  let ?ttl = "COMMAND_RESULT_TTL_SECONDS (env_settings env)"
  have same: "stored env kv p = (stored env kv p)(cid \<mapsto> s)" using assms(6) by (auto simp: fun_eq_iff)
  obtain c p1 where c: "check_recorded_config env cid p = (c, p1)" by fastforce
  have k: "keeps kv (check_recorded_config env cid)" using assms(1,2) by (rule quiet)
  note p1 = keepsD [OF k c] keeps_stored [OF k c, of env] ids_match_keeps [OF k c, of env]
  note body = assms(7) [unfolded kill_body [OF assms(5,1)]]
  show ?thesis
  proof (cases c)
    case (Inl e)
    then have "map_of (pod_pool p) cid = None"
      using c check_recorded_config_local [of p cid _ env] by (cases "map_of (pod_pool p) cid") auto
    moreover from this have "fst (load_ssh_config env (cs_ssh_config s) p) = Inl e" using c Inl
      by (auto simp: check_recorded_config_def bindE_run pool_get_def getS_run catchE_run thenE_run ret_run
          repo_get_found [OF assms(1,6)] split: prod.splits sum.splits)
    moreover have "r = Inl e" "p' = p1" using body c Inl by (simp_all add: thenE_run)
    ultimately show ?thesis using p1 assms(3) same by auto
  next
    case (Inr u)
    have i1: "ids_match env kv p1" "stored env kv p1 cid = Some s" using p1 assms(3,6) by simp_all
    show ?thesis
    proof (cases "is_running s")
      case False
      from repo_update_if_false [where C = is_running, OF assms(1) i1(2) False]
      have "p' = p1" using body c Inr by (simp add: thenE_run bindE_run ret_run)
      then show ?thesis using p1 assms(3) False same by (auto simp: is_running_def)
    next
      case True
      from repo_update_if_true [where C = is_running and f = "mark_killing msg", OF assms(1) i1(1) assms(4) i1(2) True]
      obtain p2 where p2: "repo_update_if env cid is_running (mark_killing msg) ?ttl p1 = (Inr True, p2)"
          "stored env kv p2 = (stored env kv p1)(cid \<mapsto> mark_killing msg s)"
          "pod_local p2 = pod_local p1" "ids_match env kv p2" by auto
      then have i2: "stored env kv p2 cid = Some (mark_killing msg s)" by simp
      have pool: "pod_pool p2 = pod_pool p" "pod_tasks p2 = pod_tasks p" using p1 p2(3) by (simp_all add: pod_local_def)
      have "bindE (pool_get cid) (\<lambda>entry. case entry of
                Some en \<Rightarrow> thenE (do_kill_via_connection env (en_conn en) (en_pgids en))
                    (repo_update env cid (mark_killed msg) ?ttl)
              | None \<Rightarrow> cross_pod_kill env cid msg ?ttl) p2 = (r, p')"
        using body c Inr p2(1) by (simp add: thenE_run [of "check_recorded_config _ _"] bindE_run [of "repo_update_if _ _ _ _ _"])
      from flipped_kill [OF assms(1,2) p2(4) assms(4) i2 this] p1 p2(2) pool True
      show ?thesis by (auto simp: killed_by_def is_running_def mark_defs split: option.splits)
    qed
  qed
qed

text \<open>
  Property C6. The effect of a kill that is permitted (forced, or killable). No other record, pool entry or task
  changes. A record that is not \<^verbatim>\<open>RUNNING\<close> is left as it is. A run of this process ends \<^verbatim>\<open>KILLED\<close>
  with the message, or the kill was cancelled and it stays \<^verbatim>\<open>KILLING\<close>. A run of another process
  stays \<^verbatim>\<open>RUNNING\<close> only when the recorded SSH configuration could not be loaded, which is raised;
  otherwise it ends \<^verbatim>\<open>KILLING\<close> or \<^verbatim>\<open>KILLED\<close>, and \<^verbatim>\<open>KILLED\<close> whenever it has no process group yet.
\<close>

theorem kill_command_spec:
  assumes "redis_ok env kv" "ssh_frame env kv" "ids_match env kv p"
    and "0 < COMMAND_RESULT_TTL_SECONDS (env_settings env)"
    and "force \<or> killable_now env kv p cid" "stored env kv p cid = Some s"
    and "kill_command env cid msg force p = (r, p')"
  shows "pod_pool p' = pod_pool p \<and> pod_tasks p' = pod_tasks p \<and> ids_match env kv p'
    \<and> (\<exists>s'. stored env kv p' = (stored env kv p)(cid \<mapsto> s')
         \<and> (if cs_status s \<noteq> RUNNING then s' = s
            else case map_of (pod_pool p) cid of
              Some en \<Rightarrow> r = Inr () \<and> s' = killed_by msg s \<or> r = Inl Cancelled \<and> s' = mark_killing msg s
            | None \<Rightarrow> s' = s \<and> (\<exists>e. r = Inl e \<and> fst (load_ssh_config env (cs_ssh_config s) p) = Inl e)
                \<or> s' = killed_by msg s
                \<or> s' = mark_killing msg s \<and> cs_pgids s \<noteq> []))"
  using assms by (rule kill_effect)

lemma kill_command_spec_witness:
  "\<exists>p'. kill_command (demo_env (demo_settings False) demo_whitelist demo_answer) ''c1'' ''stop'' True
       ((demo_pod [demo_state ''c1'' RUNNING None False])
          \<lparr>pod_pool := [(''c1'', \<lparr>en_host_ip = ''10.0.0.7'', en_killable = False, en_conn = None,
             en_processes = [], en_pgids = []\<rparr>)]\<rparr>) = (Inr (), p')
     \<and> map_option cs_status (map_of (pod_world p') (state_key ''c1'')) = Some KILLED"
proof -
  let ?env = "demo_env (demo_settings False) demo_whitelist demo_answer"
  let ?p = "(demo_pod [demo_state ''c1'' RUNNING None False])
          \<lparr>pod_pool := [(''c1'', \<lparr>en_host_ip = ''10.0.0.7'', en_killable = False, en_conn = None,
             en_processes = [], en_pgids = []\<rparr>)]\<rparr>"
  obtain r p' where run: "kill_command ?env ''c1'' ''stop'' True ?p = (r, p')" by fastforce
  have ids: "ids_match ?env map_of ?p"
    using ids_match_demo [of "demo_settings False" demo_whitelist demo_answer "[demo_state ''c1'' RUNNING None False]"]
    by (simp add: ids_match_def stored_demo)
  have s: "stored ?env map_of ?p ''c1'' = Some (demo_state ''c1'' RUNNING None False)"
    by (simp add: stored_demo)
  have ttl: "0 < COMMAND_RESULT_TTL_SECONDS (env_settings ?env)"
    by (simp add: demo_env_def demo_settings_def)
  have "r \<noteq> Inl Cancelled"
  proof -
    have "do_kill_via_connection ?env None [] q = (Inr (), q)" for q :: "demo_world pod"
      by (simp add: do_kill_via_connection_def ret_run)
    with run show ?thesis
      by (auto simp: kill_command_def check_recorded_config_def pool_get_def io_run repo_update_def update_with_def
          repo_update_if_def update_if_with_def repo_get_def repo_save_def demo_env_def demo_setex_def demo_settings_def
          is_running_def split: if_splits)
  qed
  with kill_command_spec [OF redis_ok_demo ssh_frame_demo ids ttl _ s run] run
  show ?thesis by (auto simp: stored_demo killed_by_def fun_eq_iff)
qed

lemma kill_unforced_step:
  assumes "redis_ok env kv" "ssh_frame env kv" "ids_match env kv p"
    and "0 < COMMAND_RESULT_TTL_SECONDS (env_settings env)"
    and "kill_command env cid msg False p = (r, p')"
  shows "pod_pool p' = pod_pool p \<and> pod_tasks p' = pod_tasks p \<and> ids_match env kv p'
    \<and> (\<forall>c. c \<noteq> cid \<or> \<not> killable_now env kv p c \<longrightarrow> stored env kv p' c = stored env kv p c)"
proof (cases "killable_now env kv p cid")
  case False
  have "kill_command env cid msg False p = (Inr (), p)"
    by (simp add: kill_command_def Let_def bindE_run ret_run kill_permitted_run [OF assms(1)] False)
  then show ?thesis using assms(3,5) by simp
next
  case True
  show ?thesis
  proof (cases "stored env kv p cid")
    case None
    have "check_recorded_config env cid p = (Inr (), p)" by (rule check_recorded_config_missing [OF assms(1) None])
    moreover obtain m where "repo_update_if env cid is_running (mark_killing msg)
        (COMMAND_RESULT_TTL_SECONDS (env_settings env)) p = (Inl (AppExc CommandExecution m), p)"
      by (rule repo_update_if_none [OF assms(1) None])
    ultimately have "p' = p"
      using assms(5) kill_body [of False env kv p cid msg] True assms(1) by (simp add: thenE_run bindE_run)
    then show ?thesis using assms(3) by simp
  next
    case (Some s)
    from kill_effect [OF assms(1-4) _ Some assms(5)] True show ?thesis by auto
  qed
qed

text \<open>
  Shutdown spares what it must not kill: on every schedule position, a run of this pool that is not
  killable keeps its record, and the pool and the tasks are unchanged.
\<close>

theorem shutdown_spares_unkillable:
  assumes "redis_ok env kv" "ssh_frame env kv" "ids_match env kv p"
    and "0 < COMMAND_RESULT_TTL_SECONDS (env_settings env)"
    and "map_of (pod_pool p) cid = Some en" "\<not> en_killable en"
    and "shutdown_gracefully env p = (r, p')"
  shows "stored env kv p' cid = stored env kv p cid \<and> pod_pool p' = pod_pool p \<and> pod_tasks p' = pod_tasks p"
proof -
  define I where "I q \<longleftrightarrow> pod_pool q = pod_pool p \<and> pod_tasks q = pod_tasks p \<and> ids_match env kv q
    \<and> stored env kv q cid = stored env kv p cid" for q
  have kill: "I q'" if "I q" "kill_command env c ''Killed'' False q = (x, q')" for c q x q'
  proof -
    have q: "ids_match env kv q" "\<not> killable_now env kv q cid" using that(1) assms(5,6) by (simp_all add: I_def killable_now_def)
    from kill_unforced_step [OF assms(1,2) q(1) assms(4) that(2)] q(2) that(1) show ?thesis unfolding I_def by metis
  qed
  have init: "I p" using assms(3) by (simp add: I_def)
  have run: "gather (map (\<lambda>c. kill_command env c ''Killed'' False) (map fst (pod_pool p))) p = (r, p')"
    using assms(7) by (simp add: shutdown_gracefully_def bindE_run pool_command_ids_def getS_run del: map_map)
  have "I p'" by (rule all_tasks.keeps_all [where I = I and s = p, OF _ init run]) (rule kill)
  then show ?thesis by (simp add: I_def)
qed

definition demo_busy_pod :: "demo_world pod" where
  "demo_busy_pod = (demo_pod [demo_state ''c1'' RUNNING None False, demo_state ''c2'' RUNNING None True])
     \<lparr>pod_pool := [(''c1'', \<lparr>en_host_ip = ''10.0.0.7'', en_killable = False, en_conn = None,
                     en_processes = [], en_pgids = []\<rparr>),
                  (''c2'', \<lparr>en_host_ip = ''10.0.0.7'', en_killable = True, en_conn = None,
                     en_processes = [], en_pgids = []\<rparr>)]\<rparr>"

lemma ids_match_pool [simp]: "ids_match env kv (p\<lparr>pod_pool := xs\<rparr>) = ids_match env kv p"
  by (simp add: ids_match_def stored_def)

lemma demo_busy_ids: "ids_match (demo_env cfg wl answer) map_of demo_busy_pod"
  by (simp only: demo_busy_pod_def ids_match_pool ids_match_demo)

lemma shutdown_spares_unkillable_witness:
  "\<exists>r p'. shutdown_gracefully (demo_env (demo_settings False) demo_whitelist demo_answer) demo_busy_pod = (r, p')
     \<and> map_of (pod_world p') (state_key ''c1'') = Some (demo_state ''c1'' RUNNING None False)"
proof -
  let ?env = "demo_env (demo_settings False) demo_whitelist demo_answer"
  obtain r p' where run: "shutdown_gracefully ?env demo_busy_pod = (r, p')" by fastforce
  have ttl: "0 < COMMAND_RESULT_TTL_SECONDS (env_settings ?env)"
    by (simp add: demo_env_def demo_settings_def)
  from shutdown_spares_unkillable [OF redis_ok_demo ssh_frame_demo demo_busy_ids ttl _ _ run, of "''c1''"]
  have "stored ?env map_of p' ''c1'' = stored ?env map_of demo_busy_pod ''c1''"
    by (simp add: demo_busy_pod_def)
  with run show ?thesis by (simp add: stored_demo) (simp add: demo_busy_pod_def)
qed

text \<open>
  Property C32. A cross-pod kill can strand the run. When the run belongs to another process, is \<^verbatim>\<open>RUNNING\<close> with process groups, and
  its SSH configuration loads but the credentials in it cannot be built (in dry-run they are built from an empty key),
  the kill raises that error after the flip: the record is left \<^verbatim>\<open>KILLING\<close> and no signal is sent.
\<close>

theorem cross_pod_kill_strands:
  assumes "redis_ok env kv" "ids_match env kv p" "0 < COMMAND_RESULT_TTL_SECONDS (env_settings env)"
    and "force \<or> killable_now env kv p cid" "map_of (pod_pool p) cid = None"
    and "stored env kv p cid = Some s" "cs_status s = RUNNING" "cs_pgids s \<noteq> []"
    and "\<And>q. load_ssh_config env (cs_ssh_config s) q = (Inr cfg, q)"
    and "get_connect_kwargs env (create_authenticator cfg) = Inl e"
  shows "\<exists>p'. kill_command env cid msg force p = (Inl e, p')
    \<and> stored env kv p' = (stored env kv p)(cid \<mapsto> mark_killing msg s)"
proof -
  let ?ttl = "COMMAND_RESULT_TTL_SECONDS (env_settings env)"
  have run: "is_running s" using assms(7) by (simp add: is_running_def)
  from repo_update_if_true [where C = is_running and f = "mark_killing msg", OF assms(1,2,3,6) run]
  obtain p2 where p2: "repo_update_if env cid is_running (mark_killing msg) ?ttl p = (Inr True, p2)"
      "stored env kv p2 = (stored env kv p)(cid \<mapsto> mark_killing msg s)" "pod_local p2 = pod_local p" by auto
  have check: "check_recorded_config env cid p = (Inr (), p)"
    by (simp add: check_recorded_config_def bindE_run pool_get_def getS_run assms(5) catchE_run ret_run
        repo_get_found [OF assms(1,6)] thenE_run assms(9))
  have pool: "map_of (pod_pool p2) cid = None" using p2(3) assms(5) by (simp add: pod_local_def)
  have got: "repo_get env cid p2 = (Inr (mark_killing msg s), p2)"
    by (rule repo_get_found [OF assms(1)]) (simp add: p2(2))
  have "cross_pod_kill env cid msg ?ttl p2 = (Inl e, p2)"
    using assms(8) by (simp add: cross_pod_kill_def bindE_run catchE_run ret_run got assms(9,10) liftE_run mark_killing_def [of msg s])
  then have "kill_command env cid msg force p = (Inl e, p2)"
    by (simp add: kill_body [OF assms(4,1)] thenE_run check bindE_run p2(1) pool_get_def getS_run pool)
  with p2(2) show ?thesis by blast
qed

definition keyless_env :: "(demo_world, command_state) env" where
  "keyless_env = (demo_env (demo_settings True) demo_whitelist demo_answer)
     \<lparr>import_private_key := (\<lambda>k. if k = [] then Inl (PyValueError ''Invalid private key'') else Inr k)\<rparr>"

lemma cross_pod_kill_strands_witness:
  "\<exists>p'. kill_command keyless_env ''c1'' ''stop'' True (demo_pod [demo_state ''c1'' RUNNING None True])
       = (Inl (PyValueError ''Invalid private key''), p')
     \<and> map_option cs_status (stored keyless_env map_of p' ''c1'') = Some KILLING"
proof -
  let ?p = "demo_pod [demo_state ''c1'' RUNNING None True]"
  have ok: "redis_ok keyless_env map_of"
    using redis_ok_demo [of "demo_settings True" demo_whitelist demo_answer] by (simp add: redis_ok_def keyless_env_def)
  have st: "stored keyless_env map_of q c = map_of (pod_world q) (state_key c)" for q c
    by (simp add: stored_def decoded_def keyless_env_def demo_env_def split: option.splits)
  have ids: "ids_match keyless_env map_of ?p"
  proof -
    have "stored keyless_env map_of = stored (demo_env (demo_settings True) demo_whitelist demo_answer) map_of"
      by (simp add: fun_eq_iff st stored_demo)
    then show ?thesis
      using ids_match_demo [of "demo_settings True" demo_whitelist demo_answer] unfolding ids_match_def by (simp only:)
  qed
  have cfg: "load_ssh_config keyless_env n q = (Inr \<lparr>sc_auth_method = ''key'', sc_key_base64 = [], sc_cert_base64 = None\<rparr>, q)" for n q
    by (simp add: load_ssh_config_def keyless_env_def demo_env_def demo_settings_def ret_run)
  have key: "get_connect_kwargs keyless_env (create_authenticator \<lparr>sc_auth_method = ''key'', sc_key_base64 = [], sc_cert_base64 = None\<rparr>)
      = Inl (PyValueError ''Invalid private key'')"
    by (simp add: create_authenticator_def keyless_env_def demo_env_def)
  have ttl: "0 < COMMAND_RESULT_TTL_SECONDS (env_settings keyless_env)"
    by (simp add: keyless_env_def demo_env_def demo_settings_def)
  have s: "stored keyless_env map_of ?p ''c1'' = Some (demo_state ''c1'' RUNNING None True)" by (simp add: st)
  from cross_pod_kill_strands [where force = True and msg = "''stop''", OF ok ids ttl _ _ s _ _ cfg key] show ?thesis by auto
qed

end
