(* ===== verification/Run.thy ===== *)
theory Run
  imports Launch Lifecycle
begin

text \<open>
  The background half of \<^verbatim>\<open>app/services/command_executor.py\<close>: the pipeline on the remote host, the output,
  the stored result, and the wrapper that bounds the run in time and cleans up. A timer that fires inside
  \<^verbatim>\<open>asyncio.wait_for\<close> cancels the task at the call it is waiting in: that call answers \<open>Cancelled\<close>.
  The wait for a slot of the semaphore, before the body, is in the theory \<^verbatim>\<open>Dispatch\<close>.
\<close>

section \<open>The pipeline\<close>

definition first_pgid :: "string \<Rightarrow> int list" where
  "first_pgid pgid_str =
     (if pgid_str \<noteq> [] then (case py_int (strip pgid_str) of None \<Rightarrow> [] | Some i \<Rightarrow> [i]) else [])"

definition await_ready :: "('e, 'd) env \<Rightarrow> proc \<Rightarrow> ('e pod, unit) io" where
  "await_ready env p =
     bindE (stderr_readline env p) (\<lambda>ready.
       if strip ready \<noteq> READY
       then raise (AppExc CommandExecution ''Run failed to start on the control_node (no READY handshake; check the run script path and log dir).'')
       else ret ())"

fun spawn_steps ::
  "('e, 'd) env \<Rightarrow> conn \<Rightarrow> string option \<Rightarrow> bool \<Rightarrow> proc option \<Rightarrow> string list list
   \<Rightarrow> ('e pod, proc list \<times> int list) io" where
  "spawn_steps env c log_path detached prev_stdout [] = ret ([], [])"
| "spawn_steps env c log_path detached prev_stdout (cmd_args # rest) =
     (let full_cmd = build_step_wrapper (if detached then log_path else None) @ cmd_args in
      bindE (conn_create_process env c (shlex_join full_cmd) prev_stdout) (\<lambda>p.
      bindE (stderr_readline env p) (\<lambda>pgid_str.
      thenE (if detached then await_ready env p else ret ())
      (bindE (spawn_steps env c log_path detached (Some p) rest) (\<lambda>(ps, gs).
         ret (p # ps, first_pgid pgid_str @ gs))))))"

definition entry_set_processes :: "string \<Rightarrow> proc list \<Rightarrow> int list \<Rightarrow> ('e pod, unit) io" where
  "entry_set_processes cid ps gs = modifyS (\<lambda>p. p\<lparr>pod_pool :=
     map (\<lambda>(k, en). (k, if k = cid then en\<lparr>en_processes := ps, en_pgids := gs\<rparr> else en)) (pod_pool p)\<rparr>)"

text \<open>
  \<^verbatim>\<open>_execute_pipeline\<close>. \<open>None\<close> is the tuple \<^verbatim>\<open>(1, "")\<close> it returns without an entry; with the last
  process comes the list of process groups the caller reads off the shared entry.
\<close>

definition execute_pipeline ::
  "('e, 'd) env \<Rightarrow> execution_context \<Rightarrow> string \<Rightarrow> ('e pod, (proc \<times> int list) option) io" where
  "execute_pipeline env cx cid =
     bindE (pool_get cid) (\<lambda>entry. case entry of
       None \<Rightarrow> ret None
     | Some en \<Rightarrow>
         (let detached = (text_of (cx_run_log_path cx) \<noteq> []) in
          bindE
            (case cx_conn cx of
               None \<Rightarrow> if cx_pipeline_cmds cx = [] then ret ([], []) else raise (PyAttributeError ''create_process'')
             | Some c \<Rightarrow> spawn_steps env c (cx_run_log_path cx) detached None (cx_pipeline_cmds cx))
            (\<lambda>(processes, pgids).
              thenE (entry_set_processes cid processes pgids)
              (thenE (for_each (butlast processes) (process_wait env))
                (case processes of
                   [] \<Rightarrow> raise (PyOther ''list index out of range'')
                 | _ \<Rightarrow> ret (Some (last processes, pgids)))))))"

definition collect_output :: "('e, 'd) env \<Rightarrow> proc \<Rightarrow> ('e pod, int option \<times> string) io" where
  "collect_output env p =
     bindE (communicate env p) (\<lambda>(stdout_data, stderr_data).
     bindE (returncode env p) (\<lambda>rc.
       ret (rc, merge_output (text_of stdout_data) (text_of stderr_data))))"

section \<open>The result\<close>

definition take_last :: "nat \<Rightarrow> 'a list \<Rightarrow> 'a list" where
  "take_last n xs = drop (length xs - n) xs"

definition apply_output_policy :: "settings \<Rightarrow> bool \<Rightarrow> bool \<Rightarrow> string \<Rightarrow> string option" where
  "apply_output_policy cfg logged success output =
     (if \<not> logged then Some output
      else if success then None
      else let tail_lines = COMMAND_LOG_FAILURE_TAIL_LINES cfg in
        if tail_lines \<le> 0 then None
        else if output = [] then None
        else Some (join nl (take_last (nat tail_lines) (split_on (CHR 0x0A) output))))"

definition maybe_backfill_output ::
  "('e, 'd) env \<Rightarrow> command_state option \<Rightarrow> bool \<Rightarrow> bool \<Rightarrow> string \<Rightarrow> ('e pod, string) io" where
  "maybe_backfill_output env st logged success output = (case st of
     None \<Rightarrow> ret output
   | Some s \<Rightarrow>
       if \<not> (logged \<and> \<not> success \<and> output = []) then ret output
       else bindE (read_log_tail env s (COMMAND_LOG_FAILURE_TAIL_LINES (env_settings env))) (\<lambda>tail.
              ret (if text_of tail = [] then output else text_of tail)))"

definition store_updater :: "command_response \<Rightarrow> command_state \<Rightarrow> command_state" where
  "store_updater resp s =
     (if rs_status resp = status_value SUCCESS
      then mark_success (case rs_exit_status resp of None \<Rightarrow> 0 | Some c \<Rightarrow> c) (text_of (rs_output resp)) s
      else mark_failed (rs_message resp) (rs_exit_status resp) (rs_output resp) s)"

definition store_result :: "('e, 'd) env \<Rightarrow> string \<Rightarrow> command_response \<Rightarrow> ('e pod, unit) io" where
  "store_result env cid resp =
     thenE (repo_update_if env cid is_running (store_updater resp) (COMMAND_RESULT_TTL_SECONDS (env_settings env)))
       (ret ())"

section \<open>The task\<close>

definition finished_response :: "settings \<Rightarrow> string \<Rightarrow> bool \<Rightarrow> int option \<Rightarrow> string \<Rightarrow> command_response" where
  "finished_response cfg cid logged rc output =
     (let stored_output = apply_output_policy cfg logged (rc = Some 0) output in
      if rc = Some 0 then response_success cid 0 (text_of stored_output)
      else response_failed [] rc stored_output (Some cid))"

definition record_pgids :: "('e, 'd) env \<Rightarrow> string \<Rightarrow> int list \<Rightarrow> int \<Rightarrow> ('e pod, unit) io" where
  "record_pgids env cid pgids timeout_seconds =
     (if pgids \<noteq> [] then repo_update env cid (set_pgids pgids) (timeout_seconds + 30) else ret ())"

text \<open>The exit code and the output, backfilled from the run log for a failed logged run that printed nothing.\<close>

definition gather_result ::
  "('e, 'd) env \<Rightarrow> bool \<Rightarrow> string \<Rightarrow> (proc \<times> int list) option \<Rightarrow> ('e pod, int option \<times> string) io" where
  "gather_result env logged cid final =
     bindE (case final of None \<Rightarrow> raise (PyAttributeError ''communicate'') | Some (p, _) \<Rightarrow> collect_output env p)
       (\<lambda>(rc, output).
         if logged \<and> rc \<noteq> Some 0 \<and> output = []
         then bindE (repo_get env cid) (\<lambda>st.
                bindE (maybe_backfill_output env (Some st) True False output) (\<lambda>output. ret (rc, output)))
         else ret (rc, output))"

definition execution_task ::
  "('e, 'd) env \<Rightarrow> execution_context \<Rightarrow> string \<Rightarrow> int \<Rightarrow> ('e pod, unit) io" where
  "execution_task env cx cid timeout_seconds =
     bindE (execute_pipeline env cx cid) (\<lambda>final.
       thenE (record_pgids env cid (case final of None \<Rightarrow> [] | Some (_, gs) \<Rightarrow> gs) timeout_seconds)
       (bindE (gather_result env (cc_logged (cx_cmd_config cx)) cid final) (\<lambda>(rc, output).
          store_result env cid (finished_response (env_settings env) cid (cc_logged (cx_cmd_config cx)) rc output))))"

definition wait_for :: "('s, 'a) io \<Rightarrow> ('s, 'a) io" where
  "wait_for m = catchE m (\<lambda>e. if e = Cancelled then raise PyTimeoutError else raise e)"

definition timeout_wrapper ::
  "('e, 'd) env \<Rightarrow> execution_context \<Rightarrow> string \<Rightarrow> int \<Rightarrow> ('e pod, unit) io" where
  "timeout_wrapper env cx cid timeout_seconds =
     finallyE
       (catchE (wait_for (execution_task env cx cid timeout_seconds))
          (\<lambda>e. if e = PyTimeoutError
               then kill_command env cid ''Command timed out and was killed.'' False
               else if is_exception e
               then store_result env cid (response_failed (exn_str e) None None (Some cid))
               else raise e))
       (thenE (case cx_conn cx of None \<Rightarrow> raise (PyAttributeError ''close'') | Some c \<Rightarrow> conn_close env c)
          (pool_remove cid))"

section \<open>Frames\<close>

lemma keeps_create_process [quiet]: "ssh_frame env kv \<Longrightarrow> keeps kv (conn_create_process env c cmd pi)"
proof (cases c)
  case (RealConn n)
  moreover assume "ssh_frame env kv"
  ultimately show ?thesis by (simp add: keeps_bindE keeps_ext keeps_ret ssh_frameD)
next
  case (DryConn i)
  then show ?thesis by (simp add: keeps_def)
qed

lemma keeps_stderr_readline [quiet]: "ssh_frame env kv \<Longrightarrow> keeps kv (stderr_readline env p)"
proof (cases p)
  case (RealProc n)
  moreover assume "ssh_frame env kv"
  ultimately show ?thesis by (simp add: keeps_ext ssh_frameD)
next
  case (DryProc i)
  then show ?thesis by (simp add: keeps_def split: prod.splits)
qed

lemma keeps_process_wait [quiet]: "ssh_frame env kv \<Longrightarrow> keeps kv (process_wait env p)"
  by (cases p) (simp_all add: keeps_ext ssh_frameD keeps_ret)

lemma keeps_communicate [quiet]: "ssh_frame env kv \<Longrightarrow> keeps kv (communicate env p)"
proof (cases p)
  case (RealProc n)
  moreover assume "ssh_frame env kv"
  ultimately show ?thesis by (simp add: keeps_ext ssh_frameD)
next
  case (DryProc i)
  assume f: "ssh_frame env kv"
  have "keeps kv (thenE (if b then ext (sleep env t) else ret ()) (ret x))" for b t and x :: "string option \<times> string option"
    by (intro quiet) (rule ssh_frameD [OF f])
  then show ?thesis by (simp add: DryProc keeps_def Let_def)
qed

lemma keeps_returncode [quiet]: "ssh_frame env kv \<Longrightarrow> keeps kv (returncode env p)"
proof (cases p)
  case (RealProc n)
  moreover assume "ssh_frame env kv"
  ultimately show ?thesis by (simp add: keeps_ext ssh_frameD)
next
  case (DryProc i)
  then show ?thesis by (simp add: keeps_def)
qed

lemma keeps_await_ready [quiet]: "ssh_frame env kv \<Longrightarrow> keeps kv (await_ready env p)"
  unfolding await_ready_def by (intro quiet)

lemma keeps_spawn_steps [quiet]: "ssh_frame env kv \<Longrightarrow> keeps kv (spawn_steps env c lp d prev cmds)"
proof (induction cmds arbitrary: prev)
  case Nil
  then show ?case by (simp add: keeps_ret)
next
  case (Cons cmd cmds)
  then show ?case unfolding spawn_steps.simps by (intro quiet)
qed

lemma keeps_collect_output [quiet]: "ssh_frame env kv \<Longrightarrow> keeps kv (collect_output env p)"
  unfolding collect_output_def by (intro quiet)

lemma keeps_maybe_backfill [quiet]: "ssh_frame env kv \<Longrightarrow> keeps kv (maybe_backfill_output env st l s out)"
  unfolding maybe_backfill_output_def by (intro quiet)

section \<open>The output policy\<close>

lemma join_append: "xs \<noteq> [] \<Longrightarrow> ys \<noteq> [] \<Longrightarrow> join sep (xs @ ys) = join sep xs @ sep @ join sep ys"
proof (induction xs)
  case (Cons x xs)
  then show ?case by (cases "xs = []") (simp_all add: join_Cons)
qed simp

lemma suffix_join_drop: "n < length xs \<Longrightarrow> suffix (join sep (drop n xs)) (join sep xs)"
proof (cases "n = 0")
  case False
  assume "n < length xs"
  with False have "take n xs \<noteq> []" "drop n xs \<noteq> []" by auto
  then have "join sep (take n xs @ drop n xs) = join sep (take n xs) @ sep @ join sep (drop n xs)"
    by (rule join_append)
  then show ?thesis by (simp add: suffix_def)
qed simp

text \<open>
  The persisted output of a finished run. A run that is not logged keeps its output; a logged run keeps nothing on
  success, and on failure, when a tail is configured and there is output, exactly the last
  \<^verbatim>\<open>COMMAND_LOG_FAILURE_TAIL_LINES\<close> lines: a suffix of the output with that many lines, or all of it if it has fewer.
\<close>

theorem output_policy_spec:
  "(case apply_output_policy cfg logged success output of
      None \<Rightarrow> logged \<and> (success \<or> COMMAND_LOG_FAILURE_TAIL_LINES cfg \<le> 0 \<or> output = [])
    | Some kept \<Rightarrow> if \<not> logged then kept = output
        else \<not> success \<and> suffix kept output
          \<and> length (split_on (CHR 0x0A) kept)
              = min (nat (COMMAND_LOG_FAILURE_TAIL_LINES cfg)) (length (split_on (CHR 0x0A) output)))"
proof (cases "logged \<and> \<not> success \<and> 0 < COMMAND_LOG_FAILURE_TAIL_LINES cfg \<and> output \<noteq> []")
  case True
  let ?c = "CHR 0x0A" and ?n = "nat (COMMAND_LOG_FAILURE_TAIL_LINES cfg)"
  let ?ls = "split_on ?c output"
  let ?kept = "join nl (take_last ?n ?ls)"
  have n: "length ?ls - ?n < length ?ls" using True by (simp add: diff_less)
  have ls: "split_on ?c ?kept = take_last ?n ?ls"
    unfolding nl_def take_last_def
  proof (rule split_on_join)
    show "drop (length ?ls - ?n) ?ls \<noteq> []" using n by simp
    show "\<forall>l \<in> set (drop (length ?ls - ?n) ?ls). ?c \<notin> set l"
      using split_on_pieces [where c = "?c" and s = "output"] by (blast dest: in_set_dropD)
  qed
  have "suffix ?kept (join nl ?ls)" unfolding take_last_def using n by (rule suffix_join_drop)
  then have "suffix ?kept output" by (simp add: nl_def join_split_on)
  with True ls show ?thesis by (simp add: apply_output_policy_def Let_def take_last_def)
next
  case False
  then show ?thesis by (auto simp: apply_output_policy_def Let_def)
qed

section \<open>The stored result\<close>

lemma store_updater_id [simp]: "cs_command_id (store_updater resp s) = cs_command_id s"
  by (simp add: store_updater_def)

lemma store_updater_status [simp]:
  "cs_status (store_updater resp s) = (if rs_status resp = ''success'' then SUCCESS else FAILED)"
  by (simp add: store_updater_def)

lemma store_result_effect:
  assumes "redis_ok env kv" "ids_match env kv p" "0 < COMMAND_RESULT_TTL_SECONDS (env_settings env)"
    and "store_result env cid resp p = (r, p')"
  shows "pod_local p' = pod_local p \<and> ids_match env kv p'
    \<and> (case stored env kv p cid of
         None \<Rightarrow> stored env kv p' = stored env kv p \<and> (\<exists>m. r = Inl (AppExc CommandExecution m))
       | Some s \<Rightarrow> r = Inr ()
           \<and> stored env kv p' = (if cs_status s = RUNNING then (stored env kv p)(cid \<mapsto> store_updater resp s)
                                  else stored env kv p))"
proof (cases "stored env kv p cid")
  case None
  obtain m where "repo_update_if env cid is_running (store_updater resp)
      (COMMAND_RESULT_TTL_SECONDS (env_settings env)) p = (Inl (AppExc CommandExecution m), p)"
    by (rule repo_update_if_none [OF assms(1) None])
  then show ?thesis using assms(2,4) None by (auto simp: store_result_def thenE_run)
next
  case (Some s)
  show ?thesis
  proof (cases "is_running s")
    case True
    from repo_update_if_true [where C = is_running and f = "store_updater resp", OF assms(1,2,3) Some True]
    obtain q where "repo_update_if env cid is_running (store_updater resp)
        (COMMAND_RESULT_TTL_SECONDS (env_settings env)) p = (Inr True, q)"
      "stored env kv q = (stored env kv p)(cid \<mapsto> store_updater resp s)" "pod_local q = pod_local p" "ids_match env kv q"
      by auto
    then show ?thesis using assms(4) Some True by (auto simp: store_result_def thenE_run ret_run is_running_def)
  next
    case False
    with repo_update_if_false [where C = is_running, OF assms(1) Some False] assms(2,4) Some
    show ?thesis by (auto simp: store_result_def thenE_run ret_run is_running_def)
  qed
qed



section \<open>One execution\<close>

text \<open>The pool as seen without the process bookkeeping.\<close>

definition pool_view :: "'e pod \<Rightarrow> (string \<times> string \<times> bool \<times> conn option) list" where
  "pool_view p = map (\<lambda>(k, en). (k, en_host_ip en, en_killable en, en_conn en)) (pod_pool p)"

lemma pool_view_eq: "pod_pool p' = pod_pool p \<Longrightarrow> pool_view p' = pool_view p"
  by (simp add: pool_view_def)

lemma pool_view_lookup:
  "map_of (pool_view p) cid = map_option (\<lambda>en. (en_host_ip en, en_killable en, en_conn en)) (map_of (pod_pool p) cid)"
proof -
  have "map_of (map (\<lambda>(k, en). (k, en_host_ip en, en_killable en, en_conn en)) xs) cid
      = map_option (\<lambda>en. (en_host_ip en, en_killable en, en_conn en)) (map_of xs cid)" for xs
    by (induction xs) auto
  then show ?thesis by (simp add: pool_view_def)
qed

definition gently :: "('e \<Rightarrow> string \<Rightarrow> 'd option) \<Rightarrow> ('e pod, 'a) io \<Rightarrow> bool" where
  "gently kv m \<longleftrightarrow> (\<forall>p. pool_view (snd (m p)) = pool_view p \<and> pod_tasks (snd (m p)) = pod_tasks p
     \<and> kv (pod_world (snd (m p))) = kv (pod_world p))"

named_theorems gentle \<open>computations that keep the records and the view of the pool\<close>

lemma gently_keeps [gentle]: "keeps kv m \<Longrightarrow> gently kv m"
  by (simp add: gently_def keeps_def pool_view_def)

lemma gently_bindE: "gently kv m \<Longrightarrow> (\<And>x. gently kv (f x)) \<Longrightarrow> gently kv (bindE m f)"
  by (simp add: gently_def io_run split: prod.splits sum.splits) (metis snd_conv)

lemma gently_entry_set: "gently kv (entry_set_processes cid ps gs)"
  by (simp add: gently_def entry_set_processes_def modifyS_run pool_view_def case_prod_beta)

lemma gently_execute_pipeline:
  assumes "ssh_frame env kv"
  shows "gently kv (execute_pipeline env cx cid)"
proof -
  have tail: "gently kv (thenE (entry_set_processes cid ps gs) (thenE (for_each (butlast ps) (process_wait env))
      (case ps of [] \<Rightarrow> raise e | _ \<Rightarrow> ret x)))" for ps gs e and x :: "(proc \<times> int list) option"
  proof -
    have "keeps kv (case ps of [] \<Rightarrow> raise e | _ \<Rightarrow> ret x)" by (cases ps) (simp_all add: keeps_ret keeps_raise)
    then have "keeps kv (thenE (for_each (butlast ps) (process_wait env)) (case ps of [] \<Rightarrow> raise e | _ \<Rightarrow> ret x))"
      using assms by (intro keeps_thenE keeps_for_each keeps_process_wait)
    then show ?thesis unfolding thenE_def [of "entry_set_processes _ _ _"]
      by (intro gently_bindE gently_entry_set gently_keeps)
  qed
  have spawn: "keeps kv (case cx_conn cx of None \<Rightarrow> if cx_pipeline_cmds cx = [] then ret ([], [])
        else raise (PyAttributeError ''create_process'')
      | Some c \<Rightarrow> spawn_steps env c (cx_run_log_path cx) d None (cx_pipeline_cmds cx))" for d
    using assms by (intro quiet)
  have "gently kv (case entry of None \<Rightarrow> ret None | Some en \<Rightarrow> h)" if "gently kv h"
    for entry :: "running_entry option" and h :: "('a pod, (proc \<times> int list) option) io"
    using that by (cases entry) (simp_all add: gently_keeps keeps_ret)
  note h = this
  show ?thesis unfolding execute_pipeline_def pool_get_def Let_def
    by (rule gently_bindE [OF gently_keeps [OF keeps_getS]], rule h, rule gently_bindE [OF gently_keeps [OF spawn]])
       (auto intro: tail split: prod.splits)
qed

lemma gentlyD:
  assumes "gently kv m" "m p = (r, p')"
  shows "pool_view p' = pool_view p" "pod_tasks p' = pod_tasks p" "kv (pod_world p') = kv (pod_world p)"
  using assms unfolding gently_def by (metis snd_conv)+

lemma same_records:
  "kv (pod_world p') = kv (pod_world p) \<Longrightarrow> stored env kv p' = stored env kv p"
  by (simp add: fun_eq_iff stored_def)

lemma same_ids: "stored env kv p' = stored env kv p \<Longrightarrow> ids_match env kv p' = ids_match env kv p"
  by (simp add: ids_match_def)

definition with_pgids :: "int list \<Rightarrow> command_state \<Rightarrow> command_state" where
  "with_pgids gs s = (if gs = [] then s else set_pgids gs s)"

lemma with_pgids_fields [simp]:
  "cs_status (with_pgids gs s) = cs_status s" "cs_command_id (with_pgids gs s) = cs_command_id s"
  "cs_killable (with_pgids gs s) = cs_killable s"
  by (simp_all add: with_pgids_def set_pgids_def)

lemma pgids_update:
  assumes "redis_ok env kv" "ids_match env kv p" "0 < ttl" "stored env kv p cid = Some s"
    and "(if gs \<noteq> [] then repo_update env cid (set_pgids gs) ttl else ret ()) p = (r, p')"
  shows "r = Inr () \<and> pod_local p' = pod_local p \<and> ids_match env kv p'
    \<and> stored env kv p' = (stored env kv p)(cid \<mapsto> with_pgids gs s)"
proof (cases "gs = []")
  case True
  then show ?thesis using assms by (auto simp: ret_run with_pgids_def fun_eq_iff)
next
  case False
  from repo_update_true [where f = "set_pgids gs", OF assms(1-4)]
  obtain q where "repo_update env cid (set_pgids gs) ttl p = (Inr (), q)"
      "stored env kv q = (stored env kv p)(cid \<mapsto> set_pgids gs s)" "pod_local q = pod_local p" "ids_match env kv q"
    by auto
  then show ?thesis using assms(5) False by (auto simp: with_pgids_def)
qed

lemma pod_local_view: "pod_local p' = pod_local p \<Longrightarrow> pool_view p' = pool_view p \<and> pod_tasks p' = pod_tasks p"
  by (simp add: pod_local_def pool_view_def)

text \<open>Gathering the result of a run and storing it.\<close>

lemma delivery_effect:
  fixes env :: "('e, 'd) env" and cid logged
  defines "finished s rc out \<equiv> if cs_status s = RUNNING
      then store_updater (finished_response (env_settings env) cid logged rc out) s else s"
  assumes "redis_ok env kv" "ssh_frame env kv" "ids_match env kv p" "0 < COMMAND_RESULT_TTL_SECONDS (env_settings env)"
    and "stored env kv p cid = Some s"
    and run: "bindE (gather_result env logged cid final)
      (\<lambda>(rc, output). store_result env cid (finished_response (env_settings env) cid logged rc output)) p = (r, p')"
  shows "pool_view p' = pool_view p \<and> pod_tasks p' = pod_tasks p \<and> ids_match env kv p'
    \<and> (\<exists>s'. stored env kv p' = (stored env kv p)(cid \<mapsto> s')
        \<and> (case r of Inl e \<Rightarrow> s' = s | Inr _ \<Rightarrow> \<exists>rc out. s' = finished s rc out))"
proof -
  let ?gather = "gather_result env logged cid final"
  obtain x q where x: "?gather p = (x, q)" by fastforce
  have k: "keeps kv ?gather" unfolding gather_result_def using assms(2,3) by (intro quiet)
  note q = keepsD [OF k x] keeps_stored [OF k x, of env] ids_match_keeps [OF k x, of env]
  show ?thesis
  proof (cases x)
    case (Inl e)
    then have "r = Inl e" "p' = q" using run x by (simp_all add: bindE_run [of ?gather])
    then show ?thesis using q assms(4,6) by (intro conjI exI [of _ s]) (simp_all add: pool_view_eq [OF q(1)] fun_upd_idem)
  next
    case (Inr y)
    obtain rc out where y: "y = (rc, out)" by fastforce
    have sr: "store_result env cid (finished_response (env_settings env) cid logged rc out) q = (r, p')"
      using run x Inr y by (simp add: bindE_run [of ?gather])
    have i: "ids_match env kv q" "stored env kv q cid = Some s" using q assms(4,6) by simp_all
    from store_result_effect [OF assms(2) i(1) assms(5) sr] i(2)
    have "pod_local p' = pod_local q" "ids_match env kv p'" "r = Inr ()"
      "stored env kv p' = (stored env kv q)(cid \<mapsto> finished s rc out)" by (auto simp: fun_eq_iff finished_def)
    moreover from this have "pool_view p' = pool_view p" "pod_tasks p' = pod_tasks p"
      using q pod_local_view [of p' q] pool_view_eq [of q p] by simp_all
    ultimately show ?thesis using q(4) by (intro conjI exI [of _ "finished s rc out"]) (simp_all, blast)
  qed
qed

lemma execution_effect:
  assumes "redis_ok env kv" "ssh_frame env kv" "ids_match env kv p" "0 < COMMAND_RESULT_TTL_SECONDS (env_settings env)"
    and "0 < t + 30" "stored env kv p cid = Some s"
    and run: "execution_task env cx cid t p = (r, p')"
  shows "pool_view p' = pool_view p \<and> pod_tasks p' = pod_tasks p \<and> ids_match env kv p'
    \<and> (\<exists>gs s'. stored env kv p' = (stored env kv p)(cid \<mapsto> s')
        \<and> (case r of Inl e \<Rightarrow> s' = with_pgids gs s
           | Inr _ \<Rightarrow> \<exists>rc out. s' = (if cs_status s = RUNNING then store_updater (finished_response (env_settings env) cid
                                     (cc_logged (cx_cmd_config cx)) rc out) (with_pgids gs s) else with_pgids gs s)))"
proof -
  obtain f p1 where f: "execute_pipeline env cx cid p = (f, p1)" by fastforce
  note g1 = gentlyD [OF gently_execute_pipeline [OF assms(2)] f]
  have s1: "stored env kv p1 = stored env kv p" by (rule same_records [OF g1(3)])
  have i1: "ids_match env kv p1" using same_ids [OF s1] assms(3) by simp
  have c1: "stored env kv p1 cid = Some s" using s1 assms(6) by simp
  show ?thesis
  proof (cases f)
    case (Inl e)
    then have "r = Inl e" "p' = p1" using run f by (simp_all add: execution_task_def bindE_run [of "execute_pipeline env cx cid"])
    then show ?thesis using g1 s1 i1 c1
      by (intro conjI exI [of _ "[]"] exI [of _ s]) (auto simp: with_pgids_def fun_eq_iff)
  next
    case (Inr final)
    define gs where "gs = (case final of None \<Rightarrow> [] | Some (_, gs) \<Rightarrow> gs)"
    let ?rest = "gather_result env (cc_logged (cx_cmd_config cx)) cid final"
    obtain u p2 where u: "record_pgids env cid gs t p1 = (u, p2)" by fastforce
    from pgids_update [OF assms(1) i1 assms(5) c1 u [unfolded record_pgids_def]]
    have u2: "u = Inr ()" "pod_local p2 = pod_local p1" "ids_match env kv p2"
        "stored env kv p2 = (stored env kv p)(cid \<mapsto> with_pgids gs s)" by (simp_all add: s1)
    have run2: "bindE ?rest (\<lambda>(rc, output). store_result env cid (finished_response (env_settings env) cid
        (cc_logged (cx_cmd_config cx)) rc output)) p2 = (r, p')"
      using run f Inr u u2(1)
      by (simp add: execution_task_def bindE_run [of "execute_pipeline env cx cid"] gs_def [symmetric]
          thenE_run [of "record_pgids _ _ _ _"])
    have c2: "stored env kv p2 cid = Some (with_pgids gs s)" using u2(4) by simp
    have sts: "cs_status (with_pgids gs s) = cs_status s" by (simp add: with_pgids_def)
    from delivery_effect [OF assms(1,2) u2(3) assms(4) c2 run2, unfolded sts] obtain s' where
      d: "pool_view p' = pool_view p2" "pod_tasks p' = pod_tasks p2" "ids_match env kv p'"
        "stored env kv p' = (stored env kv p2)(cid \<mapsto> s')" and o: "case r of Inl e \<Rightarrow> s' = with_pgids gs s
           | Inr _ \<Rightarrow> \<exists>rc out. s' = (if cs_status s = RUNNING then store_updater (finished_response (env_settings env) cid
               (cc_logged (cx_cmd_config cx)) rc out) (with_pgids gs s) else with_pgids gs s)" by blast
    from d u2(4) pod_local_view [OF u2(2)] g1 o show ?thesis by (intro conjI exI [of _ gs] exI [of _ s']) simp_all
  qed
qed

section \<open>The whole task\<close>

text \<open>The body of the wrapper, without its \<^verbatim>\<open>finally\<close>.\<close>

definition guarded_task :: "('e, 'd) env \<Rightarrow> execution_context \<Rightarrow> string \<Rightarrow> int \<Rightarrow> ('e pod, unit) io" where
  "guarded_task env cx cid t =
     catchE (wait_for (execution_task env cx cid t))
       (\<lambda>e. if e = PyTimeoutError then kill_command env cid ''Command timed out and was killed.'' False
            else if is_exception e then store_result env cid (response_failed (exn_str e) None None (Some cid))
            else raise e)"

lemma guarded_task_run:
  "guarded_task env cx cid t p = (case execution_task env cx cid t p of
     (Inr u, p1) \<Rightarrow> (Inr u, p1)
   | (Inl e, p1) \<Rightarrow>
       if e = Cancelled \<or> e = PyTimeoutError
       then kill_command env cid ''Command timed out and was killed.'' False p1
       else store_result env cid (response_failed (exn_str e) None None (Some cid)) p1)"
  by (cases "execution_task env cx cid t p"; cases "fst (execution_task env cx cid t p)")
     (auto simp: guarded_task_def wait_for_def catchE_run raise_run elim: is_exception.elims)

lemma view_killable:
  assumes "pool_view p' = pool_view p" "map_of (pod_pool p) cid = Some en"
  shows "\<exists>en'. map_of (pod_pool p') cid = Some en' \<and> en_killable en' = en_killable en"
  using assms pool_view_lookup [of p cid] pool_view_lookup [of p' cid]
  by (cases "map_of (pod_pool p') cid") auto

lemma upd_upd: "f = g(k \<mapsto> x) \<Longrightarrow> h = f(k \<mapsto> y) \<Longrightarrow> h = g(k \<mapsto> y)"
  by simp

text \<open>The kill of a run that timed out.\<close>

lemma timeout_kill_effect:
  assumes "redis_ok env kv" "ssh_frame env kv" "ids_match env kv p" "0 < COMMAND_RESULT_TTL_SECONDS (env_settings env)"
    and "stored env kv p cid = Some s" "cs_status s = RUNNING" "map_of (pod_pool p) cid = Some en"
    and k: "kill_command env cid msg False p = (r, p')"
  shows "pool_view p' = pool_view p \<and> pod_tasks p' = pod_tasks p \<and> ids_match env kv p'
    \<and> (\<exists>s'. stored env kv p' = (stored env kv p)(cid \<mapsto> s')
        \<and> (case r of Inl e \<Rightarrow> e = Cancelled \<and> cs_status s' = KILLING
           | Inr _ \<Rightarrow> cs_status s' = KILLED \<or> cs_status s' = RUNNING \<and> \<not> en_killable en))"
proof (cases "en_killable en")
  case False
  then have "\<not> killable_now env kv p cid" using assms(7) by (simp add: killable_now_def)
  then have "r = Inr ()" "p' = p" using k
    by (simp_all add: kill_command_def Let_def bindE_run ret_run kill_permitted_run [OF assms(1)])
  then show ?thesis using assms(3,5,6) False by (intro conjI exI [of _ s]) (auto simp: fun_eq_iff)
next
  case True
  then have kn: "False \<or> killable_now env kv p cid" using assms(7) by (simp add: killable_now_def)
  from kill_effect [OF assms(1-4) kn assms(5) k] assms(6,7) obtain s2 where
    "pod_pool p' = pod_pool p" "pod_tasks p' = pod_tasks p" "ids_match env kv p'"
    "stored env kv p' = (stored env kv p)(cid \<mapsto> s2)"
    "r = Inr () \<and> s2 = killed_by msg s \<or> r = Inl Cancelled \<and> s2 = mark_killing msg s" by auto
  then show ?thesis using pool_view_eq [of p' p] by (intro conjI exI [of _ s2]) (auto simp: killed_by_def)
qed

lemma guarded_task_effect:
  assumes "redis_ok env kv" "ssh_frame env kv" "ids_match env kv p" "0 < COMMAND_RESULT_TTL_SECONDS (env_settings env)"
    and "0 < t + 30" "stored env kv p cid = Some s" "cs_status s = RUNNING"
    and en: "map_of (pod_pool p) cid = Some en"
    and run: "guarded_task env cx cid t p = (r, p')"
  shows "pool_view p' = pool_view p \<and> pod_tasks p' = pod_tasks p \<and> ids_match env kv p'
    \<and> (\<exists>s'. stored env kv p' = (stored env kv p)(cid \<mapsto> s')
        \<and> (case r of Inl e \<Rightarrow> e = Cancelled \<and> cs_status s' = KILLING
           | Inr _ \<Rightarrow> cs_status s' \<in> {SUCCESS, FAILED, KILLED} \<or> cs_status s' = RUNNING \<and> \<not> en_killable en))"
proof -
  obtain x p1 where x: "execution_task env cx cid t p = (x, p1)" by fastforce
  from execution_effect [OF assms(1-6) x] obtain gs s1 where
    e: "pool_view p1 = pool_view p" "pod_tasks p1 = pod_tasks p" "ids_match env kv p1"
      "stored env kv p1 = (stored env kv p)(cid \<mapsto> s1)"
    and any: "case x of Inl e \<Rightarrow> s1 = with_pgids gs s
           | Inr _ \<Rightarrow> \<exists>rc out. s1 = (if cs_status s = RUNNING then store_updater (finished_response (env_settings env) cid
                                     (cc_logged (cx_cmd_config cx)) rc out) (with_pgids gs s) else with_pgids gs s)" by blast
  have s1: "case x of Inl e \<Rightarrow> s1 = with_pgids gs s
           | Inr _ \<Rightarrow> \<exists>rc out. s1 = store_updater (finished_response (env_settings env) cid
                                     (cc_logged (cx_cmd_config cx)) rc out) (with_pgids gs s)"
    using any assms(7) by (simp split: sum.splits)
  have c1: "stored env kv p1 cid = Some s1" using e(4) by simp
  obtain en1 where en1: "map_of (pod_pool p1) cid = Some en1" "en_killable en1 = en_killable en"
    using view_killable [OF e(1) en] by blast
  show ?thesis
  proof (cases x)
    case (Inr u)
    then have "r = Inr u" "p' = p1" using run x by (simp_all add: guarded_task_run)
    then show ?thesis using e s1 Inr by (intro conjI exI [of _ s1]) (auto split: if_splits)
  next
    case (Inl exc)
    then have st: "cs_status s1 = RUNNING" using s1 assms(7) by simp
    show ?thesis
    proof (cases "exc = Cancelled \<or> exc = PyTimeoutError")
      case True
      then have "kill_command env cid ''Command timed out and was killed.'' False p1 = (r, p')"
        using run x Inl by (simp add: guarded_task_run)
      from timeout_kill_effect [OF assms(1,2) e(3) assms(4) c1 st en1(1) this] obtain s2 where
        "pool_view p' = pool_view p1" "pod_tasks p' = pod_tasks p1" "ids_match env kv p'"
        "stored env kv p' = (stored env kv p1)(cid \<mapsto> s2)"
        "case r of Inl e \<Rightarrow> e = Cancelled \<and> cs_status s2 = KILLING
           | Inr _ \<Rightarrow> cs_status s2 = KILLED \<or> cs_status s2 = RUNNING \<and> \<not> en_killable en1" by blast
      then show ?thesis using e en1(2) by (intro conjI exI [of _ s2]) (auto split: sum.splits)
    next
      case False
      then have k: "store_result env cid (response_failed (exn_str exc) None None (Some cid)) p1 = (r, p')"
        using run x Inl by (simp add: guarded_task_run)
      from store_result_effect [OF assms(1) e(3) assms(4) k] c1 st
      show ?thesis using e pod_local_view [of p' p1]
        by (intro conjI exI [of _ "store_updater (response_failed (exn_str exc) None None (Some cid)) s1"])
           (auto simp: response_failed_def response_def)
    qed
  qed
qed

lemma view_filter:
  "map (\<lambda>(k, en). (k, en_host_ip en, en_killable en, en_conn en)) (filter (\<lambda>(k, _). k \<noteq> cid) xs)
     = filter (\<lambda>(k, _). k \<noteq> cid) (map (\<lambda>(k, en). (k, en_host_ip en, en_killable en, en_conn en)) xs)"
  by (induction xs) auto

lemma pool_remove_view: "pool_remove cid p = (r, p') \<Longrightarrow>
   r = Inr () \<and> pool_view p' = filter (\<lambda>(k, _). k \<noteq> cid) (pool_view p) \<and> pod_tasks p' = pod_tasks p
   \<and> pod_world p' = pod_world p"
  by (auto simp: pool_remove_def modifyS_run pool_view_def view_filter)

text \<open>The \<^verbatim>\<open>finally\<close> of the wrapper: the connection is closed and the slot freed; the records stay.\<close>

lemma wrapper_finally:
  assumes "ssh_frame env kv" "cx_conn cx = Some (RealConn n)" "\<And>e. fst (ssh_close env n e) = Inr ()"
    and "guarded_task env cx cid t p = (x, p1)" "timeout_wrapper env cx cid t p = (r, p')"
  shows "r = x" "stored env kv p' = stored env kv p1" "pod_tasks p' = pod_tasks p1"
    "pool_view p' = filter (\<lambda>(k, _). k \<noteq> cid) (pool_view p1)"
proof -
  obtain p2 where p2: "conn_close env (RealConn n) p1 = (Inr (), p2)"
    using assms(3) [of "pod_world p1"] by (cases "ssh_close env n (pod_world p1)") (simp add: ext_run)
  have k: "keeps kv (conn_close env (RealConn n))" using assms(1) by (rule quiet)
  note k2 = keepsD [OF k p2] keeps_stored [OF k p2, of env]
  obtain y p3 where y: "pool_remove cid p2 = (y, p3)" by fastforce
  note v = pool_remove_view [OF y]
  have same: "r = x" "p' = p3"
    using assms(2,4,5) p2 y v unfolding timeout_wrapper_def guarded_task_def [symmetric]
    by (auto simp: finallyE_run thenE_run)
  then show "r = x" by simp
  show "stored env kv p' = stored env kv p1" using v k2 same_records [of kv p3 p2 env] same by simp
  show "pod_tasks p' = pod_tasks p1" using v k2 same by simp
  show "pool_view p' = filter (\<lambda>(k, _). k \<noteq> cid) (pool_view p1)"
    using v same pool_view_eq [OF k2(1)] by simp
qed

text \<open>The effect of the whole task on a registered run over a connection whose close does not raise.\<close>

lemma settled:
  assumes "redis_ok env kv" "ssh_frame env kv" "ids_match env kv p" "0 < COMMAND_RESULT_TTL_SECONDS (env_settings env)"
    and "0 < t + 30" "stored env kv p cid = Some s" "cs_status s = RUNNING"
    and "map_of (pod_pool p) cid = Some en"
    and "cx_conn cx = Some (RealConn n)" "\<And>e. fst (ssh_close env n e) = Inr ()"
    and "timeout_wrapper env cx cid t p = (r, p')"
  shows "pool_view p' = filter (\<lambda>(k, _). k \<noteq> cid) (pool_view p) \<and> pod_tasks p' = pod_tasks p \<and> ids_match env kv p'
    \<and> (\<exists>s'. stored env kv p' = (stored env kv p)(cid \<mapsto> s')
        \<and> (case r of Inl e \<Rightarrow> e = Cancelled \<and> cs_status s' = KILLING
           | Inr _ \<Rightarrow> cs_status s' \<in> {SUCCESS, FAILED, KILLED} \<or> cs_status s' = RUNNING \<and> \<not> en_killable en))"
proof -
  obtain x p1 where x: "guarded_task env cx cid t p = (x, p1)" by fastforce
  from guarded_task_effect [OF assms(1-8) x] wrapper_finally [OF assms(2,9,10) x assms(11)]
  show ?thesis using same_ids [of env kv p' p1] by auto
qed



end
