(* ===== verification/LogRender.thy ===== *)
theory LogRender
  imports Regex
begin

text \<open>
  \<^verbatim>\<open>app/core/log_renderer.py\<close>: raw log text to numbered HTML lines. The conversion of ANSI colours to
  HTML (\<^verbatim>\<open>ansi2html\<close>, a library) is a parameter; the cleaning of a line is transcribed. The groups
  of the patterns are left out, since a substitution by a constant does not read them.
\<close>

section \<open>Substitution\<close>

text \<open>\<^verbatim>\<open>re.sub\<close> with a constant replacement; the fuel is the number of characters left plus one.\<close>

fun sub_run :: "nat \<Rightarrow> rx \<Rightarrow> string \<Rightarrow> string \<Rightarrow> string \<Rightarrow> string" where
  "sub_run 0 r repl bef aft = aft"
| "sub_run (Suc n) r repl bef aft =
     (case rx_run r ([], bef, aft) of
        [] \<Rightarrow> (case aft of [] \<Rightarrow> [] | c # cs \<Rightarrow> c # sub_run n r repl (c # bef) cs)
      | st # _ \<Rightarrow>
          if length (after st) = length aft
          then repl @ (case aft of [] \<Rightarrow> [] | c # cs \<Rightarrow> c # sub_run n r repl (c # bef) cs)
          else repl @ sub_run n r repl (before st) (after st))"

definition re_sub :: "rx \<Rightarrow> string \<Rightarrow> string \<Rightarrow> string" where
  "re_sub r repl s = sub_run (Suc (length s)) r repl [] s"

section \<open>The patterns\<close>

definition ropt :: "rx \<Rightarrow> rx" where
  "ropt r = RAlt r REps"

definition lits :: "string \<Rightarrow> rx" where
  "lits s = rseq (map lit s)"

definition d1 :: rx where "d1 = RChr is_digit"
definition d2 :: rx where "d2 = RSeq d1 d1"
definition spaces :: rx where "spaces = RStar (RChr is_space)"
definition esc0K :: rx where "esc0K = lits (CHR 0x1B # ''[0K'')"

definition TS_REGEX :: rx where
  "TS_REGEX = rseq [RBol, ropt (lit (CHR ''['')), d2, d2, lit (CHR ''-''), d2, lit (CHR ''-''), d2,
     lit (CHR ''T''), d2, lit (CHR '':''), d2, lit (CHR '':''), d2,
     ropt (RSeq (lit (CHR ''.'')) (rplus d1)), lit (CHR ''Z''), ropt (lit (CHR '']'')), spaces]"

text \<open>\<^verbatim>\<open>[^\r\n\u001b\[]+\<close>.\<close>

definition marker_name :: rx where
  "marker_name = rplus (RChr (\<lambda>c. c \<notin> {CHR 0x0D, CHR 0x0A, CHR 0x1B, CHR ''[''}))"

definition section_marker :: "string \<Rightarrow> rx" where
  "section_marker kind = rseq [lits (''section_'' @ kind @ '':''), rplus d1, lit (CHR '':''), marker_name]"

definition MARKER_REGEX :: rx where
  "MARKER_REGEX = RAlt
     (rseq [lits (CHR 0x1B # ''[''), RStar (RChr (\<lambda>c. is_digit c \<or> c = CHR '';'')),
            RChr (\<lambda>c. c = CHR ''G'' \<or> c = CHR ''K'')])
     (RAlt (section_marker ''start'') (section_marker ''end''))"

definition MULTIPLEXER_REGEX :: rx where
  "MULTIPLEXER_REGEX = rseq [RBol, spaces, d1, ropt d1,
     RChr (\<lambda>c. let n = of_char c :: nat in (65 \<le> n \<and> n \<le> 90) \<or> (97 \<le> n \<and> n \<le> 122)),
     ropt (RChr (\<lambda>c. c = CHR ''+'' \<or> c = CHR ''-'')), ropt (RChr is_space)]"

definition SECTION_REGEX :: "string \<Rightarrow> rx" where
  "SECTION_REGEX kind = RSeq (section_marker kind) (ropt (RAlt (lit (CHR 0x0D)) esc0K))"

section \<open>Rendering\<close>

text \<open>A carriage return starts the line again: what follows overwrites what was there.\<close>

definition overwrite :: "string \<Rightarrow> string \<Rightarrow> string" where
  "overwrite p res = (if p = [] then res else if length res \<le> length p then p else p @ drop (length p) res)"

definition simulate_cr :: "string \<Rightarrow> string" where
  "simulate_cr line = (if CHR 0x0D \<in> set line
     then (case split_on (CHR 0x0D) line of [] \<Rightarrow> [] | p # ps \<Rightarrow> fold overwrite ps p) else line)"

definition clean_line :: "string \<Rightarrow> string" where
  "clean_line raw_line =
     (let line = re_sub TS_REGEX [] raw_line;
          line = re_sub (RSeq RBol (RSeq spaces esc0K)) [] line;
          line = re_sub MULTIPLEXER_REGEX [] line;
          line = re_sub (SECTION_REGEX ''start'') [] line;
          line = re_sub (SECTION_REGEX ''end'') [] line;
          line = simulate_cr line;
          line = rstrip line;
          line = re_sub MARKER_REGEX [] line;
          line = re_sub (RSeq RBol (RSeq (lits ''+ '') esc0K)) ''+ '' line;
          line = re_sub (rseq [RBol, esc0K, lits (CHR 0x1B # ''[''), rplus d1, lit (CHR '';''), rplus d1, lit (CHR ''m'')]) [] line;
          line = re_sub (RSeq RBol esc0K) [] line
      in re_sub (RSeq RBol (lits ''+ '')) [] line)"

record log_line =
  ln_num :: int
  ln_html :: string

definition log_lines :: "string \<Rightarrow> string list" where
  "log_lines raw_text =
     split_on (CHR 0x0A) (if endswith raw_text [CHR 0x0A] then butlast raw_text else raw_text)"

fun number_lines :: "int \<Rightarrow> string list \<Rightarrow> log_line list" where
  "number_lines n [] = []"
| "number_lines n (h # hs) = (if strip h = [] then number_lines n hs
     else \<lparr>ln_num = n, ln_html = h\<rparr> # number_lines (n + 1) hs)"

definition render :: "(string \<Rightarrow> string) \<Rightarrow> string \<Rightarrow> int \<Rightarrow> log_line list" where
  "render conv raw_text start_line_num = number_lines start_line_num (map (\<lambda>l. conv (clean_line l)) (log_lines raw_text))"

section \<open>Rendering in slices\<close>

lemma split_on_append: "split_on c (s @ c # t) = split_on c s @ split_on c t"
proof (induction s)
  case (Cons x s)
  show ?case
  proof (cases "x = c")
    case False
    obtain y ys where "split_on c s = y # ys" by (cases "split_on c s") auto
    with Cons False show ?thesis by simp
  qed (use Cons in simp)
qed simp

lemma log_lines_append:
  assumes "u \<noteq> []" "last u = CHR 0x0A" "v \<noteq> []" "last v = CHR 0x0A"
  shows "log_lines (u @ v) = log_lines u @ log_lines v"
proof -
  obtain u' v' where "u = u' @ [CHR 0x0A]" "v = v' @ [CHR 0x0A]"
    using assms by (metis append_butlast_last_id)
  then show ?thesis
    by (simp add: log_lines_def endswith_def suffix_def butlast_append split_on_append)
qed

lemma number_lines_append:
  "number_lines n (xs @ ys) = number_lines n xs @ number_lines (n + int (length (number_lines n xs))) ys"
  by (induction xs arbitrary: n) (simp_all add: algebra_simps)

lemma render_append:
  assumes "u \<noteq> []" "last u = CHR 0x0A" "v \<noteq> []" "last v = CHR 0x0A"
  shows "render conv (u @ v) n = render conv u n @ render conv v (n + int (length (render conv u n)))"
  by (simp add: render_def log_lines_append [OF assms] number_lines_append)

lemma number_lines_nums: "map ln_num (number_lines n hs) = map (\<lambda>i. n + int i) [0..<length (number_lines n hs)]"
proof (induction hs arbitrary: n)
  case (Cons h hs)
  show ?case
  proof (cases "strip h = []")
    case True
    with Cons show ?thesis by simp
  next
    case False
    let ?k = "length (number_lines (n + 1) hs)"
    have "map (\<lambda>i. n + int i) [0..<Suc ?k] = n # map (\<lambda>i. n + int i) [Suc 0..<Suc ?k]"
      by (simp add: upt_conv_Cons del: upt_Suc)
    also have "map (\<lambda>i. n + int i) [Suc 0..<Suc ?k] = map (\<lambda>i. n + 1 + int i) [0..<?k]"
      by (rule nth_equalityI) (simp_all del: upt_Suc)
    finally show ?thesis using Cons [of "n + 1"] False by simp
  qed
qed simp

text \<open>
  Line numbers of a rendered log. The lines are numbered consecutively from the number the caller gave, no line is
  blank, and the text of a slice that ends at a line boundary followed by another such slice renders, with the numbering
  continued, to exactly the lines of both slices together.
\<close>

theorem render_numbers_and_slices:
  "map ln_num (render conv t n) = map (\<lambda>i. n + int i) [0..<length (render conv t n)]
   \<and> list_all (\<lambda>l. strip (ln_html l) \<noteq> []) (render conv t n)
   \<and> render conv (u @ [CHR 0x0A] @ v @ [CHR 0x0A]) n
       = render conv (u @ [CHR 0x0A]) n
         @ render conv (v @ [CHR 0x0A]) (n + int (length (render conv (u @ [CHR 0x0A]) n)))"
proof (intro conjI)
  show "map ln_num (render conv t n) = map (\<lambda>i. n + int i) [0..<length (render conv t n)]"
    unfolding render_def by (rule number_lines_nums)
  have "list_all (\<lambda>l. strip (ln_html l) \<noteq> []) (number_lines m hs)" for m hs
    by (induction hs arbitrary: m) auto
  then show "list_all (\<lambda>l. strip (ln_html l) \<noteq> []) (render conv t n)" by (simp add: render_def)
  show "render conv (u @ [CHR 0x0A] @ v @ [CHR 0x0A]) n = render conv (u @ [CHR 0x0A]) n
      @ render conv (v @ [CHR 0x0A]) (n + int (length (render conv (u @ [CHR 0x0A]) n)))"
    using render_append [of "u @ [CHR 0x0A]" "v @ [CHR 0x0A]" conv n] by simp
qed

end
