(* ===== verification/Trace.thy ===== *)
theory Trace
  imports Heal LogRender
begin

text \<open>
  \<^verbatim>\<open>app/services/command_trace.py\<close>: one poll of the log viewer. \<open>trace_slice\<close> is the part of the handler
  after the remote read: it decides from the size of the file, the offset of the client and the new text what is
  shown and where the next poll starts. Sizes and offsets are bytes of the file; the text is what the
  channel decoded.
\<close>

section \<open>Operations\<close>

record trace_response =
  tr_command_id :: string
  tr_status :: string
  tr_next_byte_offset :: int
  tr_next_line_num :: int
  tr_lines :: "log_line list"
  tr_total_size :: int
  tr_size_warning :: bool
  tr_too_large :: bool
  tr_not_logged :: bool
  tr_log_host :: "string option"
  tr_log_port :: "int option"
  tr_log_user :: "string option"
  tr_log_file_path :: "string option"

definition trace_response_of :: "string \<Rightarrow> string \<Rightarrow> int \<Rightarrow> int \<Rightarrow> log_line list \<Rightarrow> trace_response" where
  "trace_response_of cid status off num ls = \<lparr>tr_command_id = cid, tr_status = status,
     tr_next_byte_offset = off, tr_next_line_num = num, tr_lines = ls, tr_total_size = 0,
     tr_size_warning = False, tr_too_large = False, tr_not_logged = False, tr_log_host = None,
     tr_log_port = None, tr_log_user = None, tr_log_file_path = None\<rparr>"

definition read_remote_log ::
  "('e, 'd) env \<Rightarrow> command_state \<Rightarrow> int \<Rightarrow> ('e pod, int \<times> string) io" where
  "read_remote_log env st byte_offset =
     (let path = text_of (cs_run_log_path st) in
      bindE (connect_to_control_node env st) (\<lambda>c.
        finallyE
          (bindE (conn_run env c (''stat -c %s '' @ shlex_quote path)) (\<lambda>size_res.
             if cp_exit_status size_res \<noteq> Some 0 then ret (0, [])
             else
               (let size_text = strip (case cp_stdout size_res of None \<Rightarrow> ''None'' | Some s \<Rightarrow> s) in
                case py_int (if size_text = [] then ''0'' else size_text) of
                  None \<Rightarrow> raise (PyValueError ''invalid literal for int()'')
                | Some total_size \<Rightarrow>
                    if total_size > COMMAND_LOG_HARD_CAP_BYTES (env_settings env) then ret (total_size, [])
                    else bindE (conn_run env c (''tail -c +'' @ int_str (byte_offset + 1) @ '' '' @ shlex_quote path))
                           (\<lambda>tail_res. ret (total_size, text_of (cp_stdout tail_res))))))
          (conn_close env c)))"

text \<open>\<^verbatim>\<open>s.rfind("\n")\<close>; \<open>None\<close> is -1.\<close>

definition rfind_nl :: "string \<Rightarrow> nat option" where
  "rfind_nl s = (if CHR 0x0A \<in> set s
     then Some (length s - 1 - length (takeWhile (\<lambda>c. c \<noteq> CHR 0x0A) (rev s))) else None)"

definition trace_slice ::
  "settings \<Rightarrow> (string \<Rightarrow> string) \<Rightarrow> command_state \<Rightarrow> int \<Rightarrow> int \<Rightarrow> int \<Rightarrow> string \<Rightarrow> trace_response" where
  "trace_slice cfg conv st byte_offset line_num total_size new_text =
     (let cid = cs_command_id st; status = status_value (cs_status st) in
      if total_size > COMMAND_LOG_HARD_CAP_BYTES cfg
      then (trace_response_of cid status byte_offset line_num [])
             \<lparr>tr_total_size := total_size, tr_too_large := True, tr_log_host := Some (cs_resolved_ip st),
              tr_log_port := Some (cs_port st), tr_log_user := Some (cs_username st),
              tr_log_file_path := cs_run_log_path st\<rparr>
      else
        (let size_warning = (total_size > COMMAND_LOG_SOFT_CAP_BYTES cfg);
             sized = (\<lambda>resp. resp\<lparr>tr_total_size := total_size, tr_size_warning := size_warning\<rparr>);
             finish = (\<lambda>next_byte_offset text.
               if text = [] then sized (trace_response_of cid status next_byte_offset line_num [])
               else (let lines = render conv text line_num in
                     sized (trace_response_of cid status next_byte_offset (line_num + int (length lines)) lines)))
         in if new_text \<noteq> [] \<and> \<not> endswith new_text [CHR 0x0A]
            then (case rfind_nl new_text of
                    None \<Rightarrow> sized (trace_response_of cid status byte_offset line_num [])
                  | Some last_nl \<Rightarrow>
                      (let held_back = int (length new_text) - int (last_nl + 1) in
                       finish (total_size - held_back) (take (last_nl + 1) new_text)))
            else finish total_size new_text))"

definition get_command_trace ::
  "('e, 'd) env \<Rightarrow> (string \<Rightarrow> string) \<Rightarrow> string \<Rightarrow> int \<Rightarrow> int \<Rightarrow> ('e pod, trace_response) io" where
  "get_command_trace env conv command_id byte_offset line_num =
     bindE (get_state_or_404 env command_id) (\<lambda>st.
       if text_of (cs_run_log_path st) = []
       then ret ((trace_response_of command_id (status_value (cs_status st)) byte_offset line_num [])
                   \<lparr>tr_not_logged := True\<rparr>)
       else bindE (read_remote_log env st byte_offset) (\<lambda>(total_size, new_text).
         ret ((trace_slice (env_settings env) conv st byte_offset line_num total_size new_text)
                \<lparr>tr_command_id := command_id\<rparr>)))"

section \<open>Complete lines\<close>

text \<open>The part of a text up to and including its last newline.\<close>

definition complete :: "string \<Rightarrow> string" where
  "complete s = rev (dropWhile (\<lambda>c. c \<noteq> CHR 0x0A) (rev s))"

lemma complete_last:
  assumes "complete s \<noteq> []"
  shows "last (complete s) = CHR 0x0A"
proof -
  let ?d = "dropWhile (\<lambda>c. c \<noteq> CHR 0x0A) (rev s)"
  have ne: "?d \<noteq> []" using assms unfolding complete_def by (cases ?d) simp_all
  have "hd ?d = CHR 0x0A" using hd_dropWhile [OF ne] by blast
  with ne show ?thesis unfolding complete_def by (simp only: last_rev)
qed

lemma complete_append: "u = [] \<or> last u = CHR 0x0A \<Longrightarrow> complete (u @ v) = u @ complete v"
proof (cases "u = []")
  case False
  assume "u = [] \<or> last u = CHR 0x0A"
  then obtain u' where u: "u = u' @ [CHR 0x0A]" using False by (metis append_butlast_last_id)
  let ?P = "\<lambda>c. c \<noteq> CHR 0x0A"
  have "dropWhile ?P (rev v @ CHR 0x0A # rev u') = dropWhile ?P (rev v) @ CHR 0x0A # rev u'"
  proof (cases "\<forall>c \<in> set (rev v). ?P c")
    case True
    then have "dropWhile ?P (rev v) = []" by (simp only: dropWhile_eq_Nil_conv)
    then show ?thesis unfolding dropWhile_append if_P [OF True] by simp
  next
    case False
    show ?thesis unfolding dropWhile_append if_not_P [OF False] by (rule refl)
  qed
  then show ?thesis unfolding u complete_def by simp
qed simp

lemma complete_prefix: "\<exists>rest. s = complete s @ rest \<and> CHR 0x0A \<notin> set rest"
proof -
  have "rev s = takeWhile (\<lambda>c. c \<noteq> CHR 0x0A) (rev s) @ dropWhile (\<lambda>c. c \<noteq> CHR 0x0A) (rev s)"
    by simp
  then have "s = complete s @ rev (takeWhile (\<lambda>c. c \<noteq> CHR 0x0A) (rev s))"
    unfolding complete_def by (metis rev_append rev_rev_ident)
  then show ?thesis by (auto dest: set_takeWhileD intro!: exI [of _ "rev (takeWhile (\<lambda>c. c \<noteq> CHR 0x0A) (rev s))"])
qed

lemma complete_endswith: "endswith s [CHR 0x0A] \<Longrightarrow> complete s = s"
  by (auto simp: endswith_def suffix_def complete_def)

lemma complete_no_nl: "CHR 0x0A \<notin> set s \<Longrightarrow> complete s = []"
  by (simp add: complete_def dropWhile_eq_Nil_conv) auto

lemma rfind_nl_complete:
  "rfind_nl s = (if CHR 0x0A \<in> set s then Some (length (complete s) - 1) else None)"
proof -
  have "length (takeWhile (\<lambda>c. c \<noteq> CHR 0x0A) (rev s)) + length (complete s) = length s"
    unfolding complete_def length_rev
    by (metis length_append length_rev takeWhile_dropWhile_id)
  then have "length s - 1 - length (takeWhile (\<lambda>c. c \<noteq> CHR 0x0A) (rev s)) = length (complete s) - 1" by linarith
  then show ?thesis by (simp only: rfind_nl_def)
qed

text \<open>What a poll of a file below the hard cap shows, and how far it moves.\<close>

lemma trace_slice_small:
  assumes "tot \<le> COMMAND_LOG_HARD_CAP_BYTES cfg"
  shows "tr_lines (trace_slice cfg conv st off num tot s)
      = (if complete s = [] then [] else render conv (complete s) num)"
    and "tr_next_line_num (trace_slice cfg conv st off num tot s)
      = num + int (length (tr_lines (trace_slice cfg conv st off num tot s)))"
    and "tr_next_byte_offset (trace_slice cfg conv st off num tot s)
      = (if s \<noteq> [] \<and> complete s = [] then off else tot - int (length s - length (complete s)))"
proof -
  have le: "length (complete s) \<le> length s" using complete_prefix [of s] by (metis length_append le_add1)
  have cs: "CHR 0x0A \<in> set s \<Longrightarrow> complete s \<noteq> []"
    using complete_prefix [of s] by auto
  have tk: "take (length (complete s)) s = complete s" using complete_prefix [of s] by (metis append_eq_conv_conj)
  have len: "CHR 0x0A \<in> set s \<Longrightarrow> Suc (length (complete s) - 1) = length (complete s)"
    using cs by simp
  note defs = trace_slice_def Let_def trace_response_of_def
  show 1: "tr_lines (trace_slice cfg conv st off num tot s)
      = (if complete s = [] then [] else render conv (complete s) num)"
    using assms cs tk len complete_no_nl [of s] complete_endswith [of s]
    by (auto simp: defs rfind_nl_complete)
  show "tr_next_line_num (trace_slice cfg conv st off num tot s)
      = num + int (length (tr_lines (trace_slice cfg conv st off num tot s)))"
    using assms by (auto simp: defs split: option.splits)
  show "tr_next_byte_offset (trace_slice cfg conv st off num tot s)
      = (if s \<noteq> [] \<and> complete s = [] then off else tot - int (length s - length (complete s)))"
    using assms cs tk len le complete_no_nl [of s] complete_endswith [of s]
    by (auto simp: defs rfind_nl_complete of_nat_diff)
qed

section \<open>A viewer that keeps polling\<close>

text \<open>
  One poll of a log file whose bytes are \<open>f\<close>: \<open>stat\<close> gives its size and \<open>tail -c +K\<close> prints it from its
  \<open>K\<close>-th byte. \<open>follow\<close> is the viewer: each poll starts from the cursors of the last one.
\<close>

definition log_poll ::
  "settings \<Rightarrow> (string \<Rightarrow> string) \<Rightarrow> command_state \<Rightarrow> int \<Rightarrow> int \<Rightarrow> string \<Rightarrow> trace_response" where
  "log_poll cfg conv st off num f = trace_slice cfg conv st off num (int (length f)) (drop (nat off) f)"

fun follow ::
  "settings \<Rightarrow> (string \<Rightarrow> string) \<Rightarrow> command_state \<Rightarrow> int \<Rightarrow> int \<Rightarrow> string list \<Rightarrow> log_line list" where
  "follow cfg conv st off num [] = []"
| "follow cfg conv st off num (f # fs) =
     (let r = log_poll cfg conv st off num f
      in tr_lines r @ follow cfg conv st (tr_next_byte_offset r) (tr_next_line_num r) fs)"

definition shown :: "(string \<Rightarrow> string) \<Rightarrow> string \<Rightarrow> int \<Rightarrow> log_line list" where
  "shown conv s num = (if complete s = [] then [] else render conv (complete s) num)"

definition at_line_start :: "string \<Rightarrow> bool" where
  "at_line_start p \<longleftrightarrow> p = [] \<or> last p = CHR 0x0A"

lemma complete_at_line_start [simp]: "at_line_start (complete s)"
  using complete_last [of s] by (auto simp: at_line_start_def)

lemma complete_id: "at_line_start p \<Longrightarrow> complete p = p"
  using complete_append [of p "[]"] by (simp add: at_line_start_def complete_def)

lemma at_line_start_append: "at_line_start p \<Longrightarrow> at_line_start q \<Longrightarrow> at_line_start (p @ q)"
  by (cases "q = []") (auto simp: at_line_start_def)

lemma shown_append:
  assumes "at_line_start p"
  shows "shown conv (p @ s) num = shown conv p num @ shown conv s (num + int (length (shown conv p num)))"
proof (cases "p = [] \<or> complete s = []")
  case True
  with assms show ?thesis
    by (auto simp: shown_def complete_id complete_append at_line_start_def)
next
  case False
  with assms have p: "p \<noteq> []" "last p = CHR 0x0A" by (auto simp: at_line_start_def)
  show ?thesis using False render_append [OF p _ complete_last, of s conv num]
    by (simp add: shown_def complete_id [OF assms] complete_append p(2))
qed

lemma log_poll_lines:
  assumes "int (length (p @ r)) \<le> COMMAND_LOG_HARD_CAP_BYTES cfg"
  shows "tr_lines (log_poll cfg conv st (int (length p)) num (p @ r)) = shown conv r num"
    and "tr_next_line_num (log_poll cfg conv st (int (length p)) num (p @ r)) = num + int (length (shown conv r num))"
    and "tr_next_byte_offset (log_poll cfg conv st (int (length p)) num (p @ r)) = int (length (p @ complete r))"
proof -
  from assms have cap: "int (length p) + int (length r) \<le> COMMAND_LOG_HARD_CAP_BYTES cfg" by simp
  have le: "length (complete r) \<le> length r" using complete_prefix [of r] by (metis length_append le_add1)
  show lines: "tr_lines (log_poll cfg conv st (int (length p)) num (p @ r)) = shown conv r num"
    by (simp add: log_poll_def shown_def trace_slice_small(1) [OF cap])
  then show "tr_next_line_num (log_poll cfg conv st (int (length p)) num (p @ r)) = num + int (length (shown conv r num))"
    by (simp add: log_poll_def trace_slice_small(2) [OF cap])
  show "tr_next_byte_offset (log_poll cfg conv st (int (length p)) num (p @ r)) = int (length (p @ complete r))"
    using le by (simp add: log_poll_def trace_slice_small(3) [OF cap] of_nat_diff)
qed

lemma follow_from:
  assumes "fs \<noteq> []" "at_line_start p"
    and "\<forall>f \<in> set fs. prefix p f \<and> int (length f) \<le> COMMAND_LOG_HARD_CAP_BYTES cfg"
    and "successively prefix fs"
  shows "follow cfg conv st (int (length p)) num fs = shown conv (drop (length p) (last fs)) num"
  using assms
proof (induction fs arbitrary: p num)
  case (Cons f fs)
  from Cons.prems(3) obtain r where r: "f = p @ r" by (auto simp: prefix_def)
  have cap: "int (length (p @ r)) \<le> COMMAND_LOG_HARD_CAP_BYTES cfg" using Cons.prems(3) r by simp
  note poll = log_poll_lines [OF cap, of conv st num]
  show ?case
  proof (cases "fs = []")
    case True
    then show ?thesis by (simp add: Let_def r poll)
  next
    case False
    let ?p = "p @ complete r"
    from complete_prefix [of r] have pre: "prefix ?p f" by (auto simp: r prefix_def)
    have sorted: "sorted_wrt prefix (f # fs)"
      using Cons.prems(4) successively_conv_sorted_wrt [OF prefix_order.transp_on_le] by blast
    then have "\<forall>f \<in> set fs. prefix ?p f" using pre by (auto intro: prefix_order.trans)
    moreover have "successively prefix fs" using Cons.prems(4) by (cases fs) auto
    ultimately have "follow cfg conv st (int (length ?p)) (num + int (length (shown conv r num))) fs
        = shown conv (drop (length ?p) (last fs)) (num + int (length (shown conv r num)))"
      using Cons.prems False by (intro Cons.IH) (auto simp: at_line_start_append)
    moreover obtain z where "last fs = ?p @ z"
      using \<open>\<forall>f \<in> set fs. prefix ?p f\<close> False by (auto simp: prefix_def dest!: bspec [OF _ last_in_set])
    moreover have "shown conv (complete r) num = shown conv r num" by (simp add: shown_def complete_id)
    ultimately show ?thesis using False
      by (simp add: Let_def r poll shown_append)
  qed
qed simp

section \<open>Properties\<close>

lemma demo_hard_cap [simp]: "COMMAND_LOG_HARD_CAP_BYTES (demo_settings dry) = 2000"
  by (simp add: demo_settings_def)

lemma keeps_read_remote_log [quiet]: "ssh_frame env kv \<Longrightarrow> keeps kv (read_remote_log env st off)"
  unfolding read_remote_log_def by (intro quiet)

lemma trace_slice_numbers:
  "tr_next_line_num (trace_slice cfg conv st off num tot s) = num + int (length (tr_lines (trace_slice cfg conv st off num tot s)))
   \<and> map ln_num (tr_lines (trace_slice cfg conv st off num tot s))
      = map (\<lambda>i. num + int i) [0..<length (tr_lines (trace_slice cfg conv st off num tot s))]"
proof (cases "tot \<le> COMMAND_LOG_HARD_CAP_BYTES cfg")
  case True
  have "tr_lines (trace_slice cfg conv st off num tot s) = [] \<or>
      (\<exists>t. tr_lines (trace_slice cfg conv st off num tot s) = render conv t num)"
    unfolding trace_slice_small(1) [OF True] by auto
  with trace_slice_small(2) [OF True] number_lines_nums show ?thesis
    by (auto simp: render_def simp del: upt_Suc)
qed (simp add: trace_slice_def trace_response_of_def Let_def)



text \<open>
  What a poll can do. It writes no record, no pool entry and no task. An unknown run is a
  404, a run without a log path answers \<^verbatim>\<open>not_logged\<close> with the cursors of the request, both without
  any SSH; and whatever answer is given carries the run's id, consecutive line numbers from the
  one asked for, and as next number the one after the last line.
\<close>

theorem trace_poll_spec:
  assumes "redis_ok env kv" and "ssh_frame env kv"
    and "get_command_trace env conv cid off num p = (r, p')"
  shows "pod_pool p' = pod_pool p \<and> pod_tasks p' = pod_tasks p \<and> stored env kv p' = stored env kv p
    \<and> (case stored env kv p cid of
         None \<Rightarrow> r = Inl (AppExc NotFound (''Command '' @ cid @ '' not found.'')) \<and> p' = p
       | Some st \<Rightarrow> text_of (cs_run_log_path st) = [] \<longrightarrow> p' = p
           \<and> r = Inr ((trace_response_of cid (status_value (cs_status st)) off num [])\<lparr>tr_not_logged := True\<rparr>))
    \<and> (\<forall>resp. r = Inr resp \<longrightarrow> tr_command_id resp = cid
         \<and> map ln_num (tr_lines resp) = map (\<lambda>i. num + int i) [0..<length (tr_lines resp)]
         \<and> tr_next_line_num resp = num + int (length (tr_lines resp)))"
proof (cases "stored env kv p cid")
  case None
  from repo_get_missing [OF assms(1) None] obtain m where "repo_get env cid p = (Inl (AppExc CommandExecution m), p)" by blast
  with assms(3) have "r = Inl (AppExc NotFound (''Command '' @ cid @ '' not found.''))" "p' = p"
    by (simp_all add: get_command_trace_def get_state_or_404_def io_run)
  with None show ?thesis by simp
next
  case (Some st)
  have get: "get_state_or_404 env cid p = (Inr st, p)"
    by (simp add: get_state_or_404_def io_run repo_get_found [OF assms(1) Some])
  show ?thesis
  proof (cases "text_of (cs_run_log_path st) = []")
    case True
    with assms(3) get have "r = Inr ((trace_response_of cid (status_value (cs_status st)) off num [])\<lparr>tr_not_logged := True\<rparr>)" "p' = p"
      by (simp_all add: get_command_trace_def io_run)
    with Some show ?thesis by (simp add: trace_response_of_def)
  next
    case False
    obtain q p2 where read: "read_remote_log env st off p = (q, p2)" by fastforce
    note same = keepsD [OF keeps_read_remote_log [OF assms(2)] read]
      keeps_stored [OF keeps_read_remote_log [OF assms(2)] read, of env]
    show ?thesis
    proof (cases q)
      case (Inl e)
      with assms(3) get False read have "r = Inl e" "p' = p2" by (simp_all add: get_command_trace_def io_run)
      with Some False same show ?thesis by simp
    next
      case (Inr x)
      obtain tot s where "x = (tot, s)" by fastforce
      with Inr assms(3) get False read
      have "r = Inr ((trace_slice (env_settings env) conv st off num tot s)\<lparr>tr_command_id := cid\<rparr>)" "p' = p2"
        by (simp_all add: get_command_trace_def io_run)
      with Some False same trace_slice_numbers show ?thesis by simp
    qed
  qed
qed

lemma trace_poll_spec_witness:
  "\<exists>resp. fst (get_command_trace (demo_env (demo_settings False) demo_whitelist (\<lambda>_. Inl PyTimeoutError)) (\<lambda>l. l) ''c1'' 7 3
       (demo_pod [demo_state ''c1'' RUNNING None True])) = Inr resp \<and> tr_not_logged resp \<and> tr_next_byte_offset resp = 7"
proof -
  let ?env = "demo_env (demo_settings False) demo_whitelist (\<lambda>_. Inl PyTimeoutError)"
  let ?p = "demo_pod [demo_state ''c1'' RUNNING None True]"
  have st: "stored ?env map_of ?p ''c1'' = Some (demo_state ''c1'' RUNNING None True)" by (simp add: stored_demo)
  obtain r p' where run: "get_command_trace ?env (\<lambda>l. l) ''c1'' 7 3 ?p = (r, p')" by fastforce
  from trace_poll_spec [OF redis_ok_demo ssh_frame_demo run] st run
  show ?thesis by (auto simp: text_of_def trace_response_of_def)
qed

text \<open>
  Lines written between \<^verbatim>\<open>stat\<close> and \<^verbatim>\<open>tail\<close> are shown twice. If the log was \<open>p\<close> when its
  size was taken and \<open>p @ x\<close> when its text was read, both ending at a line boundary, the first poll shows the lines
  of \<open>x\<close> but moves the client only to the end of \<open>p\<close>, and the next poll of the unchanged log shows \<open>x\<close> again.
\<close>

theorem trace_stat_race:
  assumes "p \<noteq> []" "last p = CHR 0x0A" "x \<noteq> []" "last x = CHR 0x0A"
    and "int (length (p @ x)) \<le> COMMAND_LOG_HARD_CAP_BYTES cfg"
  shows "let r = trace_slice cfg conv st 0 1 (int (length p)) (p @ x);
             n = 1 + int (length (render conv p 1));
             m = tr_next_line_num r
    in tr_lines r = render conv p 1 @ render conv x n
      \<and> tr_next_byte_offset r = int (length p)
      \<and> tr_lines (log_poll cfg conv st (tr_next_byte_offset r) m (p @ x)) = render conv x m"
proof -
  have px: "at_line_start p" "at_line_start x" "at_line_start (p @ x)" using assms by (auto simp: at_line_start_def)
  have cap: "int (length p) \<le> COMMAND_LOG_HARD_CAP_BYTES cfg" using assms(5) by simp
  note r = trace_slice_small [OF cap, of conv st 0 1 "p @ x"]
  have "tr_lines (trace_slice cfg conv st 0 1 (int (length p)) (p @ x))
      = render conv p 1 @ render conv x (1 + int (length (render conv p 1)))"
    using render_append [OF assms(1-4), of conv 1] assms(1) by (simp add: r(1) complete_id [OF px(3)])
  moreover have "tr_next_byte_offset (trace_slice cfg conv st 0 1 (int (length p)) (p @ x)) = int (length p)"
    using assms(1) by (simp add: r(3) complete_id [OF px(3)])
  moreover have "tr_lines (log_poll cfg conv st (int (length p)) m (p @ x)) = render conv x m" for m
    using assms(3) by (simp add: log_poll_lines [OF assms(5)] shown_def complete_id [OF px(2)])
  ultimately show ?thesis by (simp add: Let_def)
qed

lemma trace_stat_race_witness:
  "let p = ''one'' @ nl; x = ''two'' @ nl; cfg = demo_settings False; st = demo_state ''c1'' RUNNING (Some ''x.log'') True;
       r = trace_slice cfg (\<lambda>l. l) st 0 1 (int (length p)) (p @ x)
   in tr_next_byte_offset r = 4 \<and> tr_lines (log_poll cfg (\<lambda>l. l) st 4 (tr_next_line_num r) (p @ x))
         = render (\<lambda>l. l) x (tr_next_line_num r)"
  using trace_stat_race [of "''one'' @ nl" "''two'' @ nl" "demo_settings False" "\<lambda>l. l"
      "demo_state ''c1'' RUNNING (Some ''x.log'') True"]
  by (auto simp: nl_def Let_def)

text \<open>The bytes a decoded text stood for in a UTF-8 file, for characters below 256.\<close>

definition utf8_size :: "string \<Rightarrow> nat" where
  "utf8_size s = sum_list (map (\<lambda>c. if (of_char c :: nat) < 128 then 1 else 2) s)"

text \<open>
  A half-written line with accented characters. The client's offset counts bytes, but the
  held-back part is measured in characters. For a UTF-8 log that consists of complete lines \<open>p\<close> and a non-empty
  partial line \<open>rest\<close>, the next offset is past the end of \<open>p\<close> by the difference of the two measures of \<open>rest\<close>: it
  is the line boundary exactly when the partial line is ASCII, otherwise the next poll starts inside
  the line.
\<close>

theorem trace_offset_multibyte:
  assumes "p \<noteq> []" "last p = CHR 0x0A" "rest \<noteq> []" "CHR 0x0A \<notin> set rest"
    and "int (utf8_size (p @ rest)) \<le> COMMAND_LOG_HARD_CAP_BYTES cfg"
  shows "tr_next_byte_offset (trace_slice cfg conv st 0 n (int (utf8_size (p @ rest))) (p @ rest))
      = int (utf8_size p) + (int (utf8_size rest) - int (length rest))
    \<and> (tr_next_byte_offset (trace_slice cfg conv st 0 n (int (utf8_size (p @ rest))) (p @ rest)) = int (utf8_size p)
        \<longleftrightarrow> (\<forall>c \<in> set rest. (of_char c :: nat) < 128))"
proof -
  have c: "complete (p @ rest) = p"
    using complete_append [of p rest] complete_no_nl [OF assms(4)] assms(2) by simp
  have "tr_next_byte_offset (trace_slice cfg conv st 0 n (int (utf8_size (p @ rest))) (p @ rest))
      = int (utf8_size p) + (int (utf8_size rest) - int (length rest))"
    using assms(1) by (simp add: trace_slice_small(3) [OF assms(5)] c) (simp add: utf8_size_def)
  moreover have "length rest \<le> utf8_size rest \<and> (utf8_size rest = length rest \<longleftrightarrow> (\<forall>c \<in> set rest. (of_char c :: nat) < 128))"
    by (induction rest) (auto simp: utf8_size_def)
  ultimately show ?thesis by auto
qed

lemma trace_offset_multibyte_witness:
  "tr_next_byte_offset (trace_slice (demo_settings False) (\<lambda>l. l) (demo_state ''c1'' RUNNING (Some ''x.log'') True) 0 1 4
     (''a'' @ nl @ [CHR 0xE9])) = 3"
  using trace_offset_multibyte [of "''a'' @ nl" "[CHR 0xE9]" "demo_settings False" "\<lambda>l. l"
      "demo_state ''c1'' RUNNING (Some ''x.log'') True" 1]
  by (simp add: nl_def utf8_size_def)

end
