(* ===== verification/Service.thy ===== *)
theory Service
  imports Run Trace
begin

text \<open>
  \<^verbatim>\<open>app/services/command_output_format.py\<close> and \<^verbatim>\<open>app/services/command_service.py\<close>: the poll of a run, with the
  policy that decides when its output is parsed as JSON, and the lookups of the whitelist. The parser
  \<^verbatim>\<open>json.loads\<close> is a parameter: the document, or the exception it raises (\<open>PyValueError\<close> for
  \<^verbatim>\<open>JSONDecodeError\<close>, a subclass of \<^verbatim>\<open>ValueError\<close>).
\<close>

section \<open>The output format\<close>

definition output_format_value :: "output_format \<Rightarrow> string" where
  "output_format_value f = (case f of OF_RAW \<Rightarrow> ''raw'' | OF_JSON \<Rightarrow> ''json'')"

definition command_output_format_value :: "command_output_format \<Rightarrow> string" where
  "command_output_format_value f = (case f of COF_TEXT \<Rightarrow> ''text'' | COF_JSON \<Rightarrow> ''json'')"

definition ensure_format_allowed :: "command_state \<Rightarrow> output_format \<Rightarrow> exn option" where
  "ensure_format_allowed st fmt =
     (if fmt \<noteq> OF_JSON then None
      else if cs_output_format st = COF_JSON then None
      else Some (AppExc CommandExecution (''Command does not emit JSON (output_format=''
             @ command_output_format_value (cs_output_format st) @ ''); ?format=json is not available for it.'')))"

text \<open>A parsed \<^verbatim>\<open>null\<close> is Python's \<^verbatim>\<open>None\<close>.\<close>

definition py_value :: "json \<Rightarrow> json option" where
  "py_value j = (if j = JNull then None else Some j)"

definition parse_output ::
  "(string \<Rightarrow> exn + json) \<Rightarrow> command_state \<Rightarrow> exn + json option \<times> output_json_error option" where
  "parse_output loads st =
     (if cs_status st \<noteq> SUCCESS then Inr (None, Some NOT_APPLICABLE)
      else if text_of (cs_output st) = [] then Inr (None, Some OUTPUT_UNAVAILABLE)
      else (case loads (text_of (cs_output st)) of
              Inr j \<Rightarrow> Inr (py_value j, None)
            | Inl (PyValueError m) \<Rightarrow> Inr (None, Some PARSE_FAILED)
            | Inl e \<Rightarrow> Inl e))"

section \<open>The service\<close>

definition poll_response ::
  "command_state \<Rightarrow> json option \<times> output_json_error option \<Rightarrow> command_response" where
  "poll_response st parsed = \<lparr>rs_command_id = Some (cs_command_id st), rs_status = status_value (cs_status st),
     rs_message = text_of (cs_message st), rs_exit_status = cs_exit_code st, rs_output = cs_output st,
     rs_exec_command = Some (cs_exec_command st), rs_host_type = Some (cs_host_type st),
     rs_resolved_ip = Some (cs_resolved_ip st), rs_ssh_config = Some (cs_ssh_config st),
     rs_pgids = cs_pgids st, rs_output_json = fst parsed, rs_output_json_error = snd parsed\<rparr>"

definition get_command_execution_result ::
  "('e, 'd) env \<Rightarrow> (string \<Rightarrow> exn + json) \<Rightarrow> string \<Rightarrow> output_format \<Rightarrow> ('e pod, command_response) io" where
  "get_command_execution_result env loads command_id fmt =
     bindE (get_state_or_404 env command_id) (\<lambda>st.
       case ensure_format_allowed st fmt of
         Some e \<Rightarrow> raise e
       | None \<Rightarrow>
           bindE (if in_transit st \<and> text_of (cs_run_log_path st) \<noteq> [] then heal_from_marker env st else ret st) (\<lambda>st.
           bindE (liftE (if fmt = OF_JSON then parse_output loads st else Inr (None, None))) (\<lambda>parsed.
           ret (poll_response st parsed))))"

definition get_user_commands :: "('e, 'd) env \<Rightarrow> string \<Rightarrow> ('e pod, user_command_whitelist) io" where
  "get_user_commands env username = load_user_whitelist env username"

definition get_command_info :: "('e, 'd) env \<Rightarrow> string \<Rightarrow> string \<Rightarrow> ('e pod, command_whitelist_config) io" where
  "get_command_info env username command_name =
     bindE (load_user_whitelist env username) (\<lambda>whitelist.
       case find_command whitelist command_name of
         None \<Rightarrow> raise (AppExc CommandExecution (''Command '' @ squoted command_name @ '' not found.''))
       | Some c \<Rightarrow> ret c)"

section \<open>Lemmas\<close>

lemma get_state_found:
  "redis_ok env kv \<Longrightarrow> stored env kv p cid = Some st \<Longrightarrow> get_state_or_404 env cid p = (Inr st, p)"
  by (simp add: get_state_or_404_def io_run repo_get_found)

lemma get_state_missing:
  assumes "redis_ok env kv" "stored env kv p cid = None"
  shows "get_state_or_404 env cid p = (Inl (AppExc NotFound (''Command '' @ cid @ '' not found.'')), p)"
  using repo_get_missing [OF assms] by (auto simp: get_state_or_404_def io_run)

text \<open>The parsed part of a response.\<close>

definition parsed_for ::
  "(string \<Rightarrow> exn + json) \<Rightarrow> output_format \<Rightarrow> command_state \<Rightarrow> exn + json option \<times> output_json_error option" where
  "parsed_for loads fmt st = (if fmt = OF_JSON then parse_output loads st else Inr (None, None))"

lemma poll_run:
  assumes "redis_ok env kv" "stored env kv p cid = Some st" "ensure_format_allowed st fmt = None"
  shows "get_command_execution_result env loads cid fmt p =
    (case (if in_transit st \<and> text_of (cs_run_log_path st) \<noteq> [] then heal_from_marker env st p else (Inr st, p)) of
       (Inl e, q) \<Rightarrow> (Inl e, q)
     | (Inr s, q) \<Rightarrow> (case parsed_for loads fmt s of Inl e \<Rightarrow> (Inl e, q) | Inr x \<Rightarrow> (Inr (poll_response s x), q)))"
  by (simp add: get_command_execution_result_def parsed_for_def io_run get_state_found [OF assms(1,2)] assms(3)
      split: prod.splits sum.splits)

text \<open>The branch that heals.\<close>

lemma poll_heals:
  assumes "redis_ok env kv" "ssh_frame env kv" "ids_match env kv p" "0 < COMMAND_RESULT_TTL_SECONDS (env_settings env)"
    and "stored env kv p cid = Some st" "in_transit st"
    and run: "(case heal_from_marker env st p of (Inl e, q) \<Rightarrow> (Inl e, q)
      | (Inr s, q) \<Rightarrow> (case parsed_for loads fmt s of Inl e \<Rightarrow> (Inl e, q) | Inr x \<Rightarrow> (Inr (poll_response s x), q))) = (r, p')"
  shows "pod_pool p' = pod_pool p \<and> pod_tasks p' = pod_tasks p \<and> ids_match env kv p'
    \<and> (\<exists>s'. stored env kv p' = (stored env kv p)(cid \<mapsto> s') \<and> (s' = st \<or> (\<exists>code tail. s' = heal_updater code tail st))
        \<and> (\<forall>resp. r = Inr resp \<longrightarrow> (\<exists>x. parsed_for loads fmt s' = Inr x \<and> resp = poll_response s' x)))"
proof -
  have id: "cs_command_id st = cid" using assms(3,5) by (simp add: ids_match_def)
  obtain h q where heal: "heal_from_marker env st p = (h, q)" by fastforce
  note h = heal_effect [OF assms(1-4) heal]
  have q: "p' = q" using run heal by (auto split: sum.splits)
  have resp: "r = Inr resp \<Longrightarrow> \<exists>s x. h = Inr s \<and> parsed_for loads fmt s = Inr x \<and> resp = poll_response s x" for resp
    using run heal by (auto split: sum.splits)
  have same: "(stored env kv p)(cid \<mapsto> st) = stored env kv p" using assms(5) by (simp add: fun_upd_idem)
  have "\<exists>s'. stored env kv q = (stored env kv p)(cid \<mapsto> s') \<and> (s' = st \<or> (\<exists>code tail. s' = heal_updater code tail st))
      \<and> (\<forall>s. h = Inr s \<longrightarrow> s = s')"
    using h assms(5,6)
    by (simp add: id Let_def split: sum.splits option.splits if_splits) (auto simp: same intro: exI [of _ st])
  then obtain s' where s': "stored env kv q = (stored env kv p)(cid \<mapsto> s')"
      "s' = st \<or> (\<exists>code tail. s' = heal_updater code tail st)" "\<And>s. h = Inr s \<Longrightarrow> s = s'" by blast
  have "\<forall>resp. r = Inr resp \<longrightarrow> (\<exists>x. parsed_for loads fmt s' = Inr x \<and> resp = poll_response s' x)"
    using resp s'(3) by blast
  with s'(1,2) h show ?thesis unfolding q by blast
qed

section \<open>Properties\<close>

text \<open>
  Property C10. Polling a run. With a healthy Redis and records under their ids: an unknown run is a 404; asking for JSON of a
  command that does not promise it is refused before anything else; a run that is finished, or
  has no log, is answered from its record without any effect. Otherwise the record may be healed: at most this one
  record changes, only by a recovery from its exit marker, and the answer describes the record that is stored when the
  poll ends. The pool and the tasks never change.
\<close>

theorem poll_spec:
  assumes "redis_ok env kv" "ssh_frame env kv" "ids_match env kv p"
    and "0 < COMMAND_RESULT_TTL_SECONDS (env_settings env)"
    and "get_command_execution_result env loads cid fmt p = (r, p')"
  shows "pod_pool p' = pod_pool p \<and> pod_tasks p' = pod_tasks p \<and> ids_match env kv p'
    \<and> (case stored env kv p cid of
         None \<Rightarrow> r = Inl (AppExc NotFound (''Command '' @ cid @ '' not found.'')) \<and> p' = p
       | Some st \<Rightarrow>
           if fmt = OF_JSON \<and> cs_output_format st \<noteq> COF_JSON
           then (\<exists>m. r = Inl (AppExc CommandExecution m)) \<and> p' = p
           else if \<not> in_transit st \<or> text_of (cs_run_log_path st) = []
           then p' = p \<and> r = (case parsed_for loads fmt st of Inl e \<Rightarrow> Inl e | Inr x \<Rightarrow> Inr (poll_response st x))
           else (\<exists>s'. stored env kv p' = (stored env kv p)(cid \<mapsto> s')
                  \<and> (s' = st \<or> (\<exists>code tail. s' = heal_updater code tail st))
                  \<and> (\<forall>resp. r = Inr resp \<longrightarrow> (\<exists>x. parsed_for loads fmt s' = Inr x \<and> resp = poll_response s' x))))"
proof (cases "stored env kv p cid")
  case None
  with assms(3,5) get_state_missing [OF assms(1) None] show ?thesis
    by (simp add: get_command_execution_result_def io_run)
next
  case (Some st)
  show ?thesis
  proof (cases "ensure_format_allowed st fmt")
    case (Some e)
    then have "fmt = OF_JSON \<and> cs_output_format st \<noteq> COF_JSON \<and> (\<exists>m. e = AppExc CommandExecution m)"
      by (auto simp: ensure_format_allowed_def split: if_splits)
    moreover have "r = Inl e" "p' = p" using assms(5) get_state_found [OF assms(1) \<open>stored env kv p cid = Some st\<close>] Some
      by (simp_all add: get_command_execution_result_def io_run)
    ultimately show ?thesis using assms(3) \<open>stored env kv p cid = Some st\<close> by simp
  next
    case None
    then have fmt: "\<not> (fmt = OF_JSON \<and> cs_output_format st \<noteq> COF_JSON)"
      by (auto simp: ensure_format_allowed_def split: if_splits)
    note run = assms(5) [unfolded poll_run [OF assms(1) Some None]]
    show ?thesis
    proof (cases "in_transit st \<and> text_of (cs_run_log_path st) \<noteq> []")
      case False
      then show ?thesis using run fmt Some assms(3) by (auto split: sum.splits)
    next
      case True
      then have "(case heal_from_marker env st p of (Inl e, q) \<Rightarrow> (Inl e, q)
          | (Inr s, q) \<Rightarrow> (case parsed_for loads fmt s of Inl e \<Rightarrow> (Inl e, q) | Inr x \<Rightarrow> (Inr (poll_response s x), q))) = (r, p')"
        using run by simp
      from poll_heals [OF assms(1-4) Some _ this] True
      show ?thesis unfolding Some option.case if_not_P [OF fmt] by simp
    qed
  qed
qed

lemma poll_spec_witness:
  "\<exists>resp. fst (get_command_execution_result (demo_env (demo_settings False) demo_whitelist demo_answer)
       (\<lambda>_. Inl (PyValueError [])) ''c1'' OF_RAW (demo_pod [demo_state ''c1'' SUCCESS (Some ''/l/c1.log'') True])) = Inr resp
     \<and> rs_status resp = ''success'' \<and> rs_output_json_error resp = None"
proof -
  let ?env = "demo_env (demo_settings False) demo_whitelist demo_answer"
  let ?st = "demo_state ''c1'' SUCCESS (Some ''/l/c1.log'') True"
  obtain r p' where run: "get_command_execution_result ?env (\<lambda>_. Inl (PyValueError [])) ''c1'' OF_RAW (demo_pod [?st]) = (r, p')"
    by fastforce
  have ttl: "0 < COMMAND_RESULT_TTL_SECONDS (env_settings ?env)" by (simp add: demo_env_def demo_settings_def)
  have st: "stored ?env map_of (demo_pod [?st]) ''c1'' = Some ?st" by (simp add: stored_demo)
  from poll_spec [OF redis_ok_demo ssh_frame_demo ids_match_demo ttl run] st run
  show ?thesis by (simp add: in_transit_def parsed_for_def poll_response_def)
qed

text \<open>
  Property C26. The JSON contract, across launch, background run and poll. For a command whose configuration passes the
  load-time check and promises JSON, the launch assigns no run log (so no heal can ever lose its output) and no
  fire-and-forget; when its run ends with code 0, what the poll parses is exactly the text the run printed, or \<^verbatim>\<open>output_unavailable\<close>
  when it printed nothing; when the run fails, is killed or still runs, the reason is \<^verbatim>\<open>not_applicable\<close>.
\<close>

theorem json_contract:
  assumes "validate_output_format c = None" "cc_output_format c = COF_JSON"
  shows "\<not> cc_disconnects_ssh c
    \<and> (cx_cmd_config cx = c \<longrightarrow> assign_run_id env cx p = (Inr (None, cx), p)
         \<and> cs_output_format (initial_state cx cid) = COF_JSON)
    \<and> parse_output loads (store_updater (finished_response cfg cid (cc_logged c) rc out) s)
        = (if rc \<noteq> Some 0 then Inr (None, Some NOT_APPLICABLE)
           else if out = [] then Inr (None, Some OUTPUT_UNAVAILABLE)
           else (case loads out of Inr j \<Rightarrow> Inr (py_value j, None)
                 | Inl e \<Rightarrow> if \<exists>m. e = PyValueError m then Inr (None, Some PARSE_FAILED) else Inl e))
    \<and> (cs_status s \<noteq> SUCCESS \<longrightarrow> parse_output loads s = Inr (None, Some NOT_APPLICABLE))"
proof (intro conjI impI)
  have c: "\<not> cc_logged c" "\<not> cc_disconnects_ssh c"
    using assms by (auto simp: validate_output_format_def split: if_splits)
  show "\<not> cc_disconnects_ssh c" by (rule c)
  show "assign_run_id env cx p = (Inr (None, cx), p)" if "cx_cmd_config cx = c"
    using c that by (simp add: assign_run_id_def io_run)
  show "cs_output_format (initial_state cx cid) = COF_JSON" if "cx_cmd_config cx = c"
    using assms that by (simp add: initial_state_def)
  have status: "rs_status (finished_response cfg cid False rc out) = (if rc = Some 0 then ''success'' else ''failed'')"
    by (simp add: finished_response_def response_success_def response_failed_def response_def)
  have outp: "cs_output (store_updater (finished_response cfg cid False (Some 0) out) s) = Some out"
    by (simp add: store_updater_def status)
       (simp add: finished_response_def apply_output_policy_def response_success_def response_def mark_success_def text_of_def)
  show "parse_output loads (store_updater (finished_response cfg cid (cc_logged c) rc out) s)
      = (if rc \<noteq> Some 0 then Inr (None, Some NOT_APPLICABLE)
         else if out = [] then Inr (None, Some OUTPUT_UNAVAILABLE)
         else (case loads out of Inr j \<Rightarrow> Inr (py_value j, None)
               | Inl e \<Rightarrow> if \<exists>m. e = PyValueError m then Inr (None, Some PARSE_FAILED) else Inl e))"
    using outp by (auto simp: parse_output_def c status text_of_def split: sum.splits exn.splits)
qed (simp add: parse_output_def)

lemma json_contract_witness:
  "parse_output (\<lambda>_. Inr (JNum 7)) (store_updater (finished_response (demo_settings False) ''c1'' False (Some 0) ''7'')
     (demo_state ''c1'' RUNNING None True)) = Inr (Some (JNum 7), None)"
proof -
  define c where "c = \<lparr>cc_command_name = ''facts'', cc_description = [], cc_disconnects_ssh = False, cc_killable = True,
     cc_logged = False, cc_checks_script_version = False, cc_min_script_version = None, cc_output_format = COF_JSON,
     cc_pipeline = [], cc_arguments = []\<rparr>"
  have "validate_output_format c = None" "cc_output_format c = COF_JSON" "cc_logged c = False"
    by (simp_all add: c_def validate_output_format_def)
  note c = this
  note contract = json_contract [OF c(1,2), THEN conjunct2, THEN conjunct2, THEN conjunct1]
  show ?thesis using contract [of "\<lambda>_. Inr (JNum 7)" "demo_settings False" "''c1''" "Some 0" "''7''"
      "demo_state ''c1'' RUNNING None True"] c(3) by (simp add: py_value_def)
qed

end
