(* ===== verification/Race.thy ===== *)
theory Race
  imports Service
begin

text \<open>
  The writers of one record, on any schedule. \<^verbatim>\<open>update\<close> and \<^verbatim>\<open>update_if\<close> of
  \<^verbatim>\<open>app/repositories/command_state_repository.py\<close> are a \<^verbatim>\<open>GET\<close>, a test and an update in memory, and a
  \<^verbatim>\<open>SETEX\<close>: other coroutines and other pods may run between the two. \<open>write\<close> lists the updates the
  service makes of a record, \<open>race_step\<close> lets any number of clients interleave them, \<open>serial_step\<close> is the
  behaviour if the pair were atomic. The record is taken not to expire meanwhile.
\<close>

section \<open>The order of the states of a run\<close>

instantiation command_status :: linorder
begin

definition status_rank :: "command_status \<Rightarrow> nat" where
  "status_rank st = (case st of RUNNING \<Rightarrow> 0 | KILLING \<Rightarrow> 1 | SUCCESS \<Rightarrow> 2 | FAILED \<Rightarrow> 3 | KILLED \<Rightarrow> 4)"

definition less_eq_command_status :: "command_status \<Rightarrow> command_status \<Rightarrow> bool" where
  "less_eq_command_status a b \<longleftrightarrow> status_rank a \<le> status_rank b"

definition less_command_status :: "command_status \<Rightarrow> command_status \<Rightarrow> bool" where
  "less_command_status a b \<longleftrightarrow> status_rank a < status_rank b"

instance
  by standard (auto simp: less_eq_command_status_def less_command_status_def status_rank_def split: command_status.splits)

end

lemmas status_order = less_eq_command_status_def less_command_status_def status_rank_def

section \<open>The writers\<close>

text \<open>
  \<open>WStore\<close>: the background task stores a result (\<^verbatim>\<open>_store_result\<close>); \<open>WHeal\<close>: a poll recovers it from the exit
  marker (\<^verbatim>\<open>_heal_from_marker\<close>); \<open>WKilling\<close> and \<open>WKilled\<close>: the two writes of a kill; \<open>WPgids\<close>: the task
  records the process groups.
\<close>

datatype state_write =
    WStore command_response | WHeal int "string option" | WKilling string | WKilled string | WPgids "int list"

fun write_guard :: "state_write \<Rightarrow> command_state \<Rightarrow> bool" where
  "write_guard (WStore resp) = is_running"
| "write_guard (WHeal code tail) = in_transit"
| "write_guard (WKilling m) = is_running"
| "write_guard (WKilled m) = (\<lambda>_. True)"
| "write_guard (WPgids ps) = (\<lambda>_. True)"

fun write_update :: "state_write \<Rightarrow> command_state \<Rightarrow> command_state" where
  "write_update (WStore resp) = store_updater resp"
| "write_update (WHeal code tail) = heal_updater code tail"
| "write_update (WKilling m) = mark_killing m"
| "write_update (WKilled m) = mark_killed m"
| "write_update (WPgids ps) = set_pgids ps"

text \<open>A client is idle, has read the record for a write, or has flipped it to \<^verbatim>\<open>KILLING\<close> and may finish the
  kill.\<close>

datatype phase = Idle | Holds state_write command_state | Flipped string

record race =
  rc_record :: command_state
  rc_phase :: "nat \<Rightarrow> phase"

fun after_write :: "state_write \<Rightarrow> phase" where
  "after_write (WKilling m) = Flipped m"
| "after_write _ = Idle"

fun first_write :: "state_write \<Rightarrow> bool" where
  "first_write (WKilled m) = False"
| "first_write _ = True"

inductive race_step :: "race \<Rightarrow> race \<Rightarrow> bool" where
  get: "rc_phase s i = Idle \<Longrightarrow> first_write w \<Longrightarrow> write_guard w (rc_record s) \<Longrightarrow>
     race_step s (s\<lparr>rc_phase := (rc_phase s)(i := Holds w (rc_record s))\<rparr>)"
| set: "rc_phase s i = Holds w seen \<Longrightarrow>
     race_step s (s\<lparr>rc_record := write_update w seen, rc_phase := (rc_phase s)(i := after_write w)\<rparr>)"
| finish: "rc_phase s i = Flipped m \<Longrightarrow>
     race_step s (s\<lparr>rc_phase := (rc_phase s)(i := Holds (WKilled m) (rc_record s))\<rparr>)"
| give_up: "rc_phase s i = Flipped m \<Longrightarrow> race_step s (s\<lparr>rc_phase := (rc_phase s)(i := Idle)\<rparr>)"

inductive serial_step :: "race \<Rightarrow> race \<Rightarrow> bool" where
  update: "rc_phase s i = Idle \<Longrightarrow> first_write w \<Longrightarrow> write_guard w (rc_record s) \<Longrightarrow>
     serial_step s (s\<lparr>rc_record := write_update w (rc_record s), rc_phase := (rc_phase s)(i := after_write w)\<rparr>)"
| kill: "rc_phase s i = Flipped m \<Longrightarrow>
     serial_step s (s\<lparr>rc_record := mark_killed m (rc_record s), rc_phase := (rc_phase s)(i := Idle)\<rparr>)"
| leave: "rc_phase s i = Flipped m \<Longrightarrow> serial_step s (s\<lparr>rc_phase := (rc_phase s)(i := Idle)\<rparr>)"

inductive_cases race_stepE: "race_step s t"
inductive_cases serial_stepE: "serial_step s t"

definition race_init :: "command_state \<Rightarrow> race" where
  "race_init st = \<lparr>rc_record = st, rc_phase = (\<lambda>_. Idle)\<rparr>"

section \<open>Where the writes are made\<close>

lemma store_result_write:
  "store_result env cid resp = thenE (repo_update_if env cid (write_guard (WStore resp)) (write_update (WStore resp))
     (COMMAND_RESULT_TTL_SECONDS (env_settings env))) (ret ())"
  by (simp add: store_result_def)

lemma record_pgids_write:
  "record_pgids env cid ps secs = (if ps \<noteq> [] then repo_update env cid (write_update (WPgids ps)) (secs + 30) else ret ())"
  by (simp add: record_pgids_def)

lemma update_if_is_get_then_set:
  "repo_update_if env cid C f ttl = bindE (repo_get env cid) (\<lambda>seen.
     if C seen then thenE (repo_save env (f seen) ttl) (ret True) else ret False)"
  unfolding repo_update_if_def update_if_with_def by (rule arg_cong [where f = "bindE _"]) auto

section \<open>Invariants\<close>

lemma write_status:
  "write_guard w st \<Longrightarrow> first_write w \<Longrightarrow> cs_status st \<le> cs_status (write_update w st)"
  by (cases w) (auto simp: is_running_def in_transit_def store_updater_def heal_updater_def status_order)

lemma write_terminal:
  "write_guard w st \<Longrightarrow> first_write w \<Longrightarrow> KILLING < cs_status st \<Longrightarrow>
     cs_status (write_update w st) = cs_status st \<and> after_write w = Idle"
  by (cases w) (auto simp: is_running_def in_transit_def status_order)

lemma killed_top: "st \<le> KILLED"
  by (cases st) (simp_all add: status_order)

text \<open>The fields that say what the run is; a write changes none of them.\<close>

definition run_identity where
  "run_identity s = (cs_command_id s, cs_run_log_path s, cs_host s, cs_host_type s, cs_resolved_ip s, cs_port s,
     cs_username s, cs_ssh_config s, cs_request_id s, cs_exec_command s, cs_output_format s, cs_killable s)"

lemma write_identity [simp]: "run_identity (write_update w st) = run_identity st"
  by (cases w) (simp_all add: run_identity_def store_updater_def heal_updater_def mark_defs Let_def)

definition no_flip :: "race \<Rightarrow> bool" where
  "no_flip s \<longleftrightarrow> (\<forall>i m. rc_phase s i \<noteq> Flipped m)"

lemma serial_step_mono: "serial_step s t \<Longrightarrow> cs_status (rc_record s) \<le> cs_status (rc_record t)"
  by (erule serial_stepE) (auto simp: write_status killed_top)

lemma serial_step_final:
  assumes "serial_step s t" "KILLING < cs_status (rc_record s)" "no_flip s"
  shows "cs_status (rc_record t) = cs_status (rc_record s) \<and> no_flip t"
  using assms(1)
proof (cases rule: serial_step.cases)
  case (update i w)
  with write_terminal [OF update(4,3) assms(2)] assms(3) show ?thesis by (auto simp: no_flip_def)
next
  case (kill i m)
  with assms(3) show ?thesis by (auto simp: no_flip_def)
next
  case (leave i m)
  with assms(3) show ?thesis by (auto simp: no_flip_def)
qed

text \<open>What a client holds was once the record of this run.\<close>

definition race_same_run :: "command_state \<Rightarrow> race \<Rightarrow> bool" where
  "race_same_run st s \<longleftrightarrow> run_identity (rc_record s) = run_identity st
     \<and> (\<forall>i w seen. rc_phase s i = Holds w seen \<longrightarrow> run_identity seen = run_identity st)"

lemma race_step_same_run: "race_step s t \<Longrightarrow> race_same_run st s \<Longrightarrow> race_same_run st t"
proof (induction rule: race_step.induct)
  case (set s i w seen)
  moreover have "after_write w \<noteq> Holds w' seen'" for w' seen' by (cases w) auto
  ultimately show ?case by (auto simp: race_same_run_def)
qed (auto simp: race_same_run_def)

text \<open>Which of the outcome fields a record has in which state.\<close>

definition record_ok :: "command_state \<Rightarrow> bool" where
  "record_ok s \<longleftrightarrow> (case cs_status s of
     RUNNING \<Rightarrow> cs_message s = None \<and> cs_exit_code s = None \<and> cs_output s = None
   | KILLING \<Rightarrow> cs_message s \<noteq> None \<and> cs_exit_code s = None \<and> cs_output s = None
   | SUCCESS \<Rightarrow> cs_exit_code s \<noteq> None \<and> cs_output s \<noteq> None
   | _ \<Rightarrow> cs_message s \<noteq> None)"

lemma write_record_ok: "record_ok s \<Longrightarrow> write_guard w s \<Longrightarrow> record_ok (write_update w s)"
  by (cases w) (auto simp: record_ok_def store_updater_def heal_updater_def mark_defs Let_def is_running_def in_transit_def
      split: command_status.splits)

definition race_ok :: "race \<Rightarrow> bool" where
  "race_ok s \<longleftrightarrow> record_ok (rc_record s) \<and> (\<forall>i w seen. rc_phase s i = Holds w seen \<longrightarrow> record_ok seen \<and> write_guard w seen)"

lemma race_step_ok: "race_step s t \<Longrightarrow> race_ok s \<Longrightarrow> race_ok t"
proof (induction rule: race_step.induct)
  case (set s i w seen)
  moreover have "after_write w \<noteq> Holds w' seen'" for w' seen' by (cases w) auto
  ultimately show ?case by (auto simp: race_ok_def write_record_ok)
qed (auto simp: race_ok_def)

section \<open>Properties\<close>



text \<open>
  Property C15. With the pair of Redis calls the code makes, a completed kill can be undone. Whatever update of a running
  record is between its \<^verbatim>\<open>GET\<close> and its \<^verbatim>\<open>SETEX\<close> when a kill goes through, a result, a recovery or the
  process groups, it then replaces the killed record by one computed from the state before the kill; with
  the process groups the run is shown as running again.
\<close>

theorem lost_update_reachable:
  assumes "cs_status st = RUNNING" "first_write w" "write_guard w st"
  shows "\<exists>s t. race_step\<^sup>*\<^sup>* (race_init st) s \<and> cs_status (rc_record s) = KILLED
      \<and> race_step\<^sup>*\<^sup>* s t \<and> rc_record t = write_update w st \<and> cs_status (rc_record t) < KILLED"
proof -
  let ?a = "(race_init st)\<lparr>rc_phase := (\<lambda>_. Idle)(0 := Holds w st)\<rparr>"
  let ?b = "?a\<lparr>rc_phase := (rc_phase ?a)(1 := Holds (WKilling []) st)\<rparr>"
  let ?c = "?b\<lparr>rc_record := mark_killing [] st, rc_phase := (rc_phase ?b)(1 := Flipped [])\<rparr>"
  let ?d = "?c\<lparr>rc_phase := (rc_phase ?c)(1 := Holds (WKilled []) (mark_killing [] st))\<rparr>"
  let ?e = "?d\<lparr>rc_record := mark_killed [] (mark_killing [] st), rc_phase := (rc_phase ?d)(1 := Idle)\<rparr>"
  let ?f = "?e\<lparr>rc_record := write_update w st, rc_phase := (rc_phase ?e)(0 := after_write w)\<rparr>"
  have 1: "race_step (race_init st) ?a"
    using race_step.get [of "race_init st" 0 w] assms by (simp add: race_init_def)
  have 2: "race_step ?a ?b"
    using race_step.get [of ?a 1 "WKilling []"] assms(1) by (simp add: race_init_def is_running_def)
  have 3: "race_step ?b ?c" using race_step.set [of ?b 1 "WKilling []" st] by simp
  have 4: "race_step ?c ?d" using race_step.finish [of ?c 1 "[]"] by simp
  have 5: "race_step ?d ?e" using race_step.set [of ?d 1 "WKilled []" "mark_killing [] st"] by simp
  have 6: "race_step ?e ?f" using race_step.set [of ?e 0 w st] by simp
  note extend = rtranclp.rtrancl_into_rtrancl [where r = race_step]
  have "race_step\<^sup>*\<^sup>* (race_init st) ?a" by (rule extend [OF rtranclp.rtrancl_refl 1])
  then have "race_step\<^sup>*\<^sup>* (race_init st) ?b" by (rule extend) (rule 2)
  then have "race_step\<^sup>*\<^sup>* (race_init st) ?c" by (rule extend) (rule 3)
  then have "race_step\<^sup>*\<^sup>* (race_init st) ?d" by (rule extend) (rule 4)
  then have "race_step\<^sup>*\<^sup>* (race_init st) ?e" by (rule extend) (rule 5)
  moreover have "cs_status (rc_record ?e) = KILLED" by simp
  moreover have "race_step\<^sup>*\<^sup>* ?e ?f" using 6 by blast
  moreover have rec: "rc_record ?f = write_update w st" by simp
  moreover have "cs_status (rc_record ?f) < KILLED" unfolding rec
    using assms by (cases w) (auto simp: status_order)
  ultimately show ?thesis by (intro exI conjI) assumption+
qed

lemma lost_update_reachable_witness:
  "\<exists>s t. race_step\<^sup>*\<^sup>* (race_init (demo_state ''c1'' RUNNING None True)) s \<and> cs_status (rc_record s) = KILLED
      \<and> race_step\<^sup>*\<^sup>* s t \<and> cs_status (rc_record t) = RUNNING"
proof -
  let ?st = "demo_state ''c1'' RUNNING None True"
  have "cs_status ?st = RUNNING" "first_write (WPgids [7])" "write_guard (WPgids [7]) ?st" by simp_all
  from lost_update_reachable [OF this] obtain s t where
    "race_step\<^sup>*\<^sup>* (race_init ?st) s" "cs_status (rc_record s) = KILLED" "race_step\<^sup>*\<^sup>* s t"
    "rc_record t = write_update (WPgids [7]) ?st" by blast
  then show ?thesis by (intro exI [of _ s] exI [of _ t]) simp
qed

text \<open>
  On every schedule, the fields that say what a run is (id, target, account, log path, configuration, format,
  killability) stay those it was registered with, in the record and in every copy a client
  holds.
\<close>

lemma race_keeps_identity:
  assumes "race_step\<^sup>*\<^sup>* (race_init st) t"
  shows "run_identity (rc_record t) = run_identity st
    \<and> (\<forall>i w seen. rc_phase t i = Holds w seen \<longrightarrow> run_identity seen = run_identity st)"
proof -
  have "race_same_run st t" using assms
    by (induction rule: rtranclp_induct) (auto simp: race_same_run_def race_init_def dest: race_step_same_run [of _ _ st])
  then show ?thesis by (simp add: race_same_run_def)
qed

lemma race_keeps_ok:
  assumes "race_step\<^sup>*\<^sup>* (race_init st) t" "record_ok st"
  shows "race_ok t"
  using assms(1)
proof (induction rule: rtranclp_induct)
  case base
  show ?case using assms(2) by (simp add: race_ok_def race_init_def)
next
  case (step t u)
  then show ?case by (blast intro: race_step_ok)
qed

text \<open>
  Property C16. Records and answers are well formed. From the record a launch registers, on every schedule of the writers, the
  fields that say what the run is (id, target, account, log path, configuration, format, killability) stay as
  registered, and the outcome fields fit the status: so every poll answers with the id asked for and one of the five states, with
  no exit code and no output while the run is under way, no message before a kill, and both exit code and output when it
  has succeeded.
\<close>

theorem records_well_formed:
  assumes "race_step\<^sup>*\<^sup>* (race_init (initial_state cx cid)) t"
  shows "run_identity (rc_record t) = run_identity (initial_state cx cid) \<and> record_ok (rc_record t)
    \<and> rs_command_id (poll_response (rc_record t) x) = Some cid
    \<and> (case rs_status (poll_response (rc_record t) x) of st \<Rightarrow>
          st \<in> {''running'', ''killing'', ''success'', ''failed'', ''killed''}
        \<and> (st \<in> {''running'', ''killing''} \<longrightarrow>
             rs_exit_status (poll_response (rc_record t) x) = None \<and> rs_output (poll_response (rc_record t) x) = None)
        \<and> (st = ''running'' \<longrightarrow> rs_message (poll_response (rc_record t) x) = [])
        \<and> (st = ''success'' \<longrightarrow>
             rs_exit_status (poll_response (rc_record t) x) \<noteq> None \<and> rs_output (poll_response (rc_record t) x) \<noteq> None))"
proof -
  have "record_ok (initial_state cx cid)" by (simp add: record_ok_def initial_state_def)
  from race_keeps_ok [OF assms this] race_keeps_identity [OF assms]
  have ok: "run_identity (rc_record t) = run_identity (initial_state cx cid)" "record_ok (rc_record t)"
    by (simp_all add: race_ok_def)
  then have "cs_command_id (rc_record t) = cid" by (simp add: run_identity_def initial_state_def)
  with ok show ?thesis
    by (cases "cs_status (rc_record t)") (simp_all add: poll_response_def record_ok_def text_of_def)
qed

lemma records_well_formed_witness:
  "\<exists>t. race_step\<^sup>*\<^sup>* (race_init (initial_state demo_context ''u1'')) t \<and> cs_status (rc_record t) = KILLING
     \<and> rs_exit_status (poll_response (rc_record t) (None, None)) = None"
proof -
  let ?st = "initial_state demo_context ''u1''"
  let ?a = "(race_init ?st)\<lparr>rc_phase := (\<lambda>_. Idle)(0 := Holds (WKilling ''stop'') ?st)\<rparr>"
  let ?b = "?a\<lparr>rc_record := mark_killing ''stop'' ?st, rc_phase := (rc_phase ?a)(0 := Flipped ''stop'')\<rparr>"
  have "race_step (race_init ?st) ?a"
    using race_step.get [of "race_init ?st" 0 "WKilling ''stop''"] by (simp add: race_init_def is_running_def initial_state_def)
  moreover have "race_step ?a ?b" using race_step.set [of ?a 0 "WKilling ''stop''" ?st] by simp
  ultimately have run: "race_step\<^sup>*\<^sup>* (race_init ?st) ?b" by (meson rtranclp.rtrancl_into_rtrancl rtranclp.rtrancl_refl)
  from records_well_formed [OF run, of "(None, None)"] run show ?thesis
    by (intro exI [of _ ?b]) (simp add: poll_response_def)
qed

end
