(* ===== verification/Viewer.thy ===== *)
theory Viewer
  imports Service
begin

text \<open>
  The polling loop of the log viewer: the script of \<^verbatim>\<open>app/core/log_viewer_template.py\<close>, which the \<^verbatim>\<open>view\<close> endpoints
  serve. \<open>refresh\<close> is one run of its timer callback on the answer of \<^verbatim>\<open>fetch\<close>; a viewer whose timer is
  not set does nothing any more. Colours, badges and scrolling are left out.
\<close>

section \<open>The script\<close>

datatype stop_reason = PollFailed | TooLarge | NotLogged | LoginRedirect

record viewer =
  vw_offset :: int
  vw_line :: int
  vw_timer :: bool
  vw_interval :: int
  vw_failures :: nat
  vw_banner :: bool
  vw_table :: "log_line list"
  vw_panel :: "stop_reason option"

definition MAX_INTERVAL :: int where "MAX_INTERVAL = 30000"
definition MAX_FAILURES :: nat where "MAX_FAILURES = 5"

definition viewer_init :: viewer where
  "viewer_init = \<lparr>vw_offset = 0, vw_line = 1, vw_timer = True, vw_interval = 5000, vw_failures = 0,
     vw_banner = False, vw_table = [], vw_panel = None\<rparr>"

text \<open>What \<^verbatim>\<open>fetch\<close> gives: no answer, or a status with the \<^verbatim>\<open>data\<close> of the body, if it has one with \<^verbatim>\<open>lines\<close>.\<close>

datatype fetched = NoAnswer | Answer int "trace_response option"

definition show_fatal_error :: "stop_reason \<Rightarrow> viewer \<Rightarrow> viewer" where
  "show_fatal_error reason v = v\<lparr>vw_timer := False, vw_panel := Some reason\<rparr>"

definition poll_failed :: "viewer \<Rightarrow> viewer" where
  "poll_failed v =
     (let v = v\<lparr>vw_failures := Suc (vw_failures v)\<rparr>
      in if vw_failures v \<ge> MAX_FAILURES then show_fatal_error PollFailed v else v)"

definition accept_data :: "string list \<Rightarrow> viewer \<Rightarrow> trace_response \<Rightarrow> viewer" where
  "accept_data terminal_statuses v d =
     (let v = v\<lparr>vw_failures := 0\<rparr>;
          status = (if tr_status d = [] then ''unknown'' else tr_status d) in
      if tr_not_logged d then show_fatal_error NotLogged v
      else if tr_too_large d then show_fatal_error TooLarge v
      else
        (let v = (if tr_size_warning d then v\<lparr>vw_banner := True\<rparr> else v);
             v = (if status \<in> set terminal_statuses then v\<lparr>vw_timer := False\<rparr> else v);
             v = v\<lparr>vw_offset := tr_next_byte_offset d, vw_line := tr_next_line_num d\<rparr>
         in if tr_lines d = [] then v\<lparr>vw_interval := min (vw_interval v + 5000) MAX_INTERVAL\<rparr>
            else v\<lparr>vw_interval := 5000, vw_table := vw_table v @ tr_lines d\<rparr>))"

definition refresh :: "string list \<Rightarrow> viewer \<Rightarrow> fetched \<Rightarrow> viewer" where
  "refresh terminal_statuses v answer = (case answer of
       NoAnswer \<Rightarrow> poll_failed v
     | Answer code body \<Rightarrow>
         if code = 401 \<or> code = 403 then v\<lparr>vw_timer := False, vw_panel := Some LoginRedirect\<rparr>
         else if \<not> (200 \<le> code \<and> code \<le> 299) then poll_failed v
         else (case body of None \<Rightarrow> poll_failed v | Some d \<Rightarrow> accept_data terminal_statuses v d))"

text \<open>The page over a sequence of answers: the timer decides whether the next request is made.\<close>

fun view_run :: "string list \<Rightarrow> viewer \<Rightarrow> fetched list \<Rightarrow> viewer" where
  "view_run terms v [] = v"
| "view_run terms v (a # as) = (if vw_timer v then view_run terms (refresh terms v a) as else v)"

fun requests :: "string list \<Rightarrow> viewer \<Rightarrow> fetched list \<Rightarrow> nat" where
  "requests terms v [] = 0"
| "requests terms v (a # as) = (if vw_timer v then Suc (requests terms (refresh terms v a) as) else 0)"

text \<open>The page against the server: the log and the record of each request are those of its moment.\<close>

fun view_session ::
  "settings \<Rightarrow> (string \<Rightarrow> string) \<Rightarrow> string list \<Rightarrow> viewer \<Rightarrow> (command_state \<times> string) list \<Rightarrow> viewer" where
  "view_session cfg conv terms v [] = v"
| "view_session cfg conv terms v ((st, f) # rest) =
     (if vw_timer v
      then view_session cfg conv terms
             (refresh terms v (Answer 200 (Some (log_poll cfg conv st (vw_offset v) (vw_line v) f)))) rest
      else v)"

section \<open>Lemmas\<close>

lemmas refresh_defs = refresh_def accept_data_def poll_failed_def show_fatal_error_def Let_def

definition failing :: "fetched \<Rightarrow> bool" where
  "failing a = (case a of NoAnswer \<Rightarrow> True
     | Answer code body \<Rightarrow> code \<noteq> 401 \<and> code \<noteq> 403 \<and> (\<not> (200 \<le> code \<and> code \<le> 299) \<or> body = None))"

lemma refresh_failing: "failing a \<Longrightarrow> refresh terms v a = poll_failed v"
  by (auto simp: failing_def refresh_def split: fetched.splits option.splits)

lemma view_run_stopped [simp]: "\<not> vw_timer v \<Longrightarrow> view_run terms v as = v"
  by (cases as) auto

lemma view_run_append: "view_run terms v (as @ bs) = view_run terms (view_run terms v as) bs"
  by (induction as arbitrary: v) auto

definition interval_ok :: "viewer \<Rightarrow> bool" where
  "interval_ok v \<longleftrightarrow> 5000 \<le> vw_interval v \<and> vw_interval v \<le> MAX_INTERVAL \<and> 5000 dvd vw_interval v"

lemma refresh_interval_ok: "interval_ok v \<Longrightarrow> interval_ok (refresh terms v a)"
  by (auto simp: interval_ok_def refresh_defs MAX_INTERVAL_def min_def split: fetched.splits option.splits)

lemma refresh_panel:
  assumes "vw_timer v" "vw_panel v = None"
  shows "vw_panel (refresh terms v a) \<noteq> None \<longrightarrow> \<not> vw_timer (refresh terms v a)"
  using assms by (auto simp: refresh_defs split: fetched.splits option.splits)

lemma refresh_failures: "vw_timer (refresh terms v a) \<Longrightarrow> vw_failures v < MAX_FAILURES \<Longrightarrow> vw_failures (refresh terms v a) < MAX_FAILURES"
  by (auto simp: refresh_defs MAX_FAILURES_def split: fetched.splits option.splits if_splits)

lemma refresh_prefix: "\<exists>new. vw_table (refresh terms v a) = vw_table v @ new"
  by (auto simp: refresh_defs split: fetched.splits option.splits)

lemma failing_requests:
  assumes "vw_timer v" "vw_failures v + k = MAX_FAILURES" "0 < k" "k \<le> length as" "\<forall>a \<in> set as. failing a"
  shows "requests terms v as = k \<and> vw_panel (view_run terms v as) = Some PollFailed \<and> \<not> vw_timer (view_run terms v as)"
  using assms
proof (induction as arbitrary: v k)
  case (Cons a as)
  then have r: "refresh terms v a = poll_failed v" by (simp add: refresh_failing)
  show ?case
  proof (cases "k = 1")
    case True
    with Cons.prems r have "\<not> vw_timer (refresh terms v a)" "vw_panel (refresh terms v a) = Some PollFailed"
      by (simp_all add: poll_failed_def show_fatal_error_def)
    moreover from this(1) have "requests terms (refresh terms v a) as = 0" by (cases as) auto
    ultimately show ?thesis using True Cons.prems(1) by simp
  next
    case False
    with Cons.prems r have "vw_timer (refresh terms v a)" "vw_failures (refresh terms v a) + (k - 1) = MAX_FAILURES"
      by (simp_all add: poll_failed_def Let_def)
    from Cons.IH [OF this] Cons.prems False show ?thesis by auto
  qed
qed simp

lemma log_poll_state:
  assumes "int (length f) \<le> COMMAND_LOG_HARD_CAP_BYTES cfg"
  shows "tr_lines (log_poll cfg conv st off num f) = tr_lines (log_poll cfg conv st' off num f)"
    and "tr_next_byte_offset (log_poll cfg conv st off num f) = tr_next_byte_offset (log_poll cfg conv st' off num f)"
    and "tr_next_line_num (log_poll cfg conv st off num f) = tr_next_line_num (log_poll cfg conv st' off num f)"
  using trace_slice_small [OF assms] by (simp_all add: log_poll_def)

lemma log_poll_flags:
  assumes "int (length f) \<le> COMMAND_LOG_HARD_CAP_BYTES cfg"
  shows "\<not> tr_not_logged (log_poll cfg conv st off num f)" "\<not> tr_too_large (log_poll cfg conv st off num f)"
    "tr_status (log_poll cfg conv st off num f) = status_value (cs_status st)"
  using assms by (auto simp: log_poll_def trace_slice_def trace_response_of_def Let_def split: option.splits)

lemma status_value_nonempty [simp]: "status_value s \<noteq> []"
  by (cases s) simp_all

lemma refresh_poll:
  fixes v :: viewer and st :: command_state and conv :: "string \<Rightarrow> string" and terms :: "string list"
  assumes "int (length f) \<le> COMMAND_LOG_HARD_CAP_BYTES cfg"
  defines "d \<equiv> log_poll cfg conv st (vw_offset v) (vw_line v) f"
  defines "v' \<equiv> refresh terms v (Answer 200 (Some d))"
  shows "vw_table v' = vw_table v @ tr_lines d" "vw_offset v' = tr_next_byte_offset d"
    "vw_line v' = tr_next_line_num d" "vw_panel v' = vw_panel v"
    "vw_timer v' = (vw_timer v \<and> status_value (cs_status st) \<notin> set terms)"
  using log_poll_flags [OF assms(1)] by (auto simp: v'_def d_def refresh_def accept_data_def Let_def)

lemma view_session_follow:
  assumes "sess \<noteq> []" "vw_timer v"
    and "\<forall>(st, f) \<in> set sess. int (length f) \<le> COMMAND_LOG_HARD_CAP_BYTES cfg"
    and "\<forall>(st, f) \<in> set (butlast sess). status_value (cs_status st) \<notin> set terms"
  shows "vw_table (view_session cfg conv terms v sess)
      = vw_table v @ follow cfg conv st0 (vw_offset v) (vw_line v) (map snd sess)
    \<and> vw_panel (view_session cfg conv terms v sess) = vw_panel v
    \<and> vw_timer (view_session cfg conv terms v sess) = (status_value (cs_status (fst (last sess))) \<notin> set terms)"
  using assms
proof (induction sess arbitrary: v)
  case (Cons x sess)
  obtain st f where x: "x = (st, f)" by fastforce
  have cap: "int (length f) \<le> COMMAND_LOG_HARD_CAP_BYTES cfg" using Cons.prems(3) x by simp
  let ?v = "refresh terms v (Answer 200 (Some (log_poll cfg conv st (vw_offset v) (vw_line v) f)))"
  note r = refresh_poll [OF cap, of terms v conv st]
  note same = log_poll_state [OF cap, of conv st "vw_offset v" "vw_line v" st0]
  show ?case
  proof (cases "sess = []")
    case True
    then show ?thesis using Cons.prems(2) r same by (simp add: x Let_def)
  next
    case False
    then have "vw_timer ?v" using Cons.prems(2,4) r(5) x by simp
    from Cons.IH [OF False this] Cons.prems False x r same show ?thesis by (simp add: Let_def)
  qed
qed simp

section \<open>Properties\<close>



text \<open>
  Property C31. The viewer does not hammer a service that fails. Whatever it has seen, from the moment on which every request
  fails it makes exactly as many further requests as are left of its five consecutive failures, then
  stops for good with the error panel; and after any answers its interval is a multiple of five seconds between five and thirty.
\<close>

theorem viewer_gives_up:
  assumes "vw_timer v" "vw_failures v < MAX_FAILURES" "MAX_FAILURES \<le> length as" "\<forall>a \<in> set as. failing a" "interval_ok v"
  shows "requests terms v as = MAX_FAILURES - vw_failures v
    \<and> vw_panel (view_run terms v as) = Some PollFailed
    \<and> view_run terms v (as @ bs) = view_run terms v as
    \<and> interval_ok (view_run terms v (as @ bs))"
proof -
  have "interval_ok (view_run terms v cs)" if "interval_ok v" for v cs
    using that by (induction cs arbitrary: v) (auto simp: refresh_interval_ok)
  with failing_requests [of v "MAX_FAILURES - vw_failures v" as terms] assms
  show ?thesis by (simp add: view_run_append)
qed

lemma viewer_gives_up_witness:
  "requests [''success''] viewer_init (replicate 7 NoAnswer) = 5"
  using viewer_gives_up [of viewer_init "replicate 7 NoAnswer" "[''success'']" "[]"]
  by (simp add: viewer_init_def MAX_FAILURES_def MAX_INTERVAL_def interval_ok_def failing_def)

end
