(* ===== verification/Auth.thy ===== *)
theory Auth
  imports Service
begin

text \<open>
  Who may call what: \<^verbatim>\<open>app/core/dependencies.py\<close> (tokens, scopes, redirect guard), \<^verbatim>\<open>app/core/security.py\<close>,
  \<^verbatim>\<open>app/services/auth_service.py\<close>, the JSON user store and the login endpoints of \<^verbatim>\<open>app/main.py\<close>. The JWT and
  bcrypt libraries are parameters: \<open>jwt_decode token\<close> is \<open>None\<close> when the library raises
  \<^verbatim>\<open>JWTError\<close> (bad signature, expired), \<open>checkpw\<close> may raise on a malformed hash.
\<close>

section \<open>Tokens and scopes\<close>

type_synonym claims = "(string \<times> json) list"

record user =
  us_account :: string
  us_scopes :: "string list"

record user_in_db = user +
  us_hashed_password :: string

text \<open>The JWT library refuses a \<^verbatim>\<open>sub\<close> that is not a string; \<^verbatim>\<open>scopes\<close> must be a list of strings for the
  validation of \<^verbatim>\<open>User\<close>.\<close>

fun json_str :: "json \<Rightarrow> string option" where
  "json_str (JStr s) = Some s"
| "json_str _ = None"

definition claim_account :: "claims \<Rightarrow> string option" where
  "claim_account payload = (case map_of payload ''sub'' of Some (JStr s) \<Rightarrow> Some s | _ \<Rightarrow> None)"

definition claim_scopes :: "claims \<Rightarrow> exn + string list" where
  "claim_scopes payload = (case map_of payload ''scopes'' of
       None \<Rightarrow> Inr []
     | Some (JArr js) \<Rightarrow> mapE (\<lambda>j. case json_str j of Some s \<Rightarrow> Inr s | None \<Rightarrow> Inl (PyValidationError [''scopes''])) js
     | Some _ \<Rightarrow> Inl (PyValidationError [''scopes'']))"

definition decode_access_token :: "(string \<Rightarrow> claims option) \<Rightarrow> string \<Rightarrow> exn + claims" where
  "decode_access_token jwt_decode token = (case jwt_decode token of
       None \<Rightarrow> Inl (AppExc Auth ''Invalid or expired token.'')
     | Some payload \<Rightarrow> Inr payload)"

text \<open>\<^verbatim>\<open>s in scopes\<close> on whatever the payload holds.\<close>

fun scope_in :: "json \<Rightarrow> string \<Rightarrow> exn + bool" where
  "scope_in (JArr js) s = Inr (JStr s \<in> set js)"
| "scope_in (JStr t) s = Inr (contains s t)"
| "scope_in (JObj fs) s = Inr (s \<in> fst ` set fs)"
| "scope_in _ s = Inl (PyOther ''TypeError'')"

fun missing_scopes :: "json \<Rightarrow> string list \<Rightarrow> exn + string list" where
  "missing_scopes scopes [] = Inr []"
| "missing_scopes scopes (r # rs) = (case scope_in scopes r of Inl e \<Rightarrow> Inl e
     | Inr found \<Rightarrow> (case missing_scopes scopes rs of Inl e \<Rightarrow> Inl e
         | Inr ms \<Rightarrow> Inr (if found then ms else r # ms)))"

definition list_str :: "string list \<Rightarrow> string" where
  "list_str xs = ''['' @ join '', '' (map squoted xs) @ '']''"

definition validate_token :: "(string \<Rightarrow> claims option) \<Rightarrow> string \<Rightarrow> string list \<Rightarrow> exn + user" where
  "validate_token jwt_decode token required =
     (case decode_access_token jwt_decode token of
        Inl e \<Rightarrow> Inl e
      | Inr payload \<Rightarrow>
          (case claim_account payload of
             None \<Rightarrow> Inl (AppExc Auth ''Token is missing subject claim.'')
           | Some account \<Rightarrow>
               if account = [] then Inl (AppExc Auth ''Token is missing subject claim.'')
               else (case missing_scopes (case map_of payload ''scopes'' of None \<Rightarrow> JArr [] | Some j \<Rightarrow> j) required of
                   Inl e \<Rightarrow> Inl e
                 | Inr missing \<Rightarrow>
                     if missing \<noteq> []
                     then Inl (AppExc Forbidden (''Token is missing required scopes: '' @ list_str missing))
                     else (case claim_scopes payload of Inl e \<Rightarrow> Inl e
                         | Inr scopes \<Rightarrow> Inr \<lparr>us_account = account, us_scopes = scopes\<rparr>))))"

text \<open>The header dependency answers 401 by itself when there is no bearer token.\<close>

definition get_current_user ::
  "(string \<Rightarrow> claims option) \<Rightarrow> string list \<Rightarrow> string option \<Rightarrow> exn + user" where
  "get_current_user jwt_decode required header = (case header of
       None \<Rightarrow> Inl NotAuthenticated
     | Some token \<Rightarrow> validate_token jwt_decode token required)"

definition get_current_user_cookie_or_header ::
  "(string \<Rightarrow> claims option) \<Rightarrow> string list \<Rightarrow> string option \<Rightarrow> string option \<Rightarrow> exn + user" where
  "get_current_user_cookie_or_header jwt_decode required header cookie =
     (let token = (case truthy header of Some t \<Rightarrow> Some t | None \<Rightarrow> cookie) in
      case truthy token of
        None \<Rightarrow> Inl (AppExc Auth ''Not authenticated.'')
      | Some t \<Rightarrow> validate_token jwt_decode t required)"

definition safe_next_path :: "string option \<Rightarrow> string \<Rightarrow> string" where
  "safe_next_path next_path fallback =
     (case truthy next_path of
        None \<Rightarrow> fallback
      | Some p \<Rightarrow>
          if \<not> prefix ''/'' p then fallback
          else if prefix ''//'' p \<or> prefix [CHR ''/'', CHR 0x5C] p then fallback
          else p)"

section \<open>Accounts\<close>

type_synonym user_records = "(string \<times> json) list list"

fun find_record :: "string \<Rightarrow> user_records \<Rightarrow> (string \<times> json) list option" where
  "find_record account [] = None"
| "find_record account (r # rs) = (if map_of r ''account'' = Some (JStr account) then Some r else find_record account rs)"

text \<open>\<^verbatim>\<open>UserInDB(**record)\<close>.\<close>

definition user_of_record :: "(string \<times> json) list \<Rightarrow> exn + user_in_db" where
  "user_of_record r = (case (map_of r ''account'', map_of r ''hashed_password'', claim_scopes r) of
       (Some (JStr a), Some (JStr h), Inr ss) \<Rightarrow> Inr \<lparr>us_account = a, us_scopes = ss, us_hashed_password = h\<rparr>
     | _ \<Rightarrow> Inl (PyValidationError [''UserInDB'']))"

text \<open>The file is read on every call; \<open>None\<close> is a missing file.\<close>

definition get_by_account :: "user_records option \<Rightarrow> string \<Rightarrow> exn + user_in_db option" where
  "get_by_account file account = (case file of
       None \<Rightarrow> Inl (AppExc NotFound ''Users data file not found.'')
     | Some records \<Rightarrow> (case find_record account records of
           None \<Rightarrow> Inr None
         | Some r \<Rightarrow> (case user_of_record r of Inl e \<Rightarrow> Inl e | Inr u \<Rightarrow> Inr (Some u))))"

definition authenticate ::
  "(string \<Rightarrow> string \<Rightarrow> exn + bool) \<Rightarrow> user_records option \<Rightarrow> string \<Rightarrow> string \<Rightarrow> exn + user" where
  "authenticate checkpw file account password =
     (case get_by_account file account of
        Inl e \<Rightarrow> Inl e
      | Inr None \<Rightarrow> Inl (AppExc Auth ''Invalid account or password.'')
      | Inr (Some u) \<Rightarrow> (case checkpw password (us_hashed_password u) of
            Inl e \<Rightarrow> Inl e
          | Inr False \<Rightarrow> Inl (AppExc Auth ''Invalid account or password.'')
          | Inr True \<Rightarrow> Inr \<lparr>us_account = us_account u, us_scopes = us_scopes u\<rparr>))"

text \<open>The claims of a token; \<open>jwt_encode\<close> also adds the expiry, \<open>minutes\<close> from now.\<close>

definition token_claims :: "user \<Rightarrow> claims" where
  "token_claims u = [(''sub'', JStr (us_account u)), (''scopes'', JArr (map JStr (us_scopes u)))]"

record token_data =
  td_access_token :: string
  td_token_type :: string
  td_expires_in :: int

definition generate_token :: "(claims \<Rightarrow> int \<Rightarrow> string) \<Rightarrow> int \<Rightarrow> user \<Rightarrow> token_data" where
  "generate_token jwt_encode minutes u = \<lparr>td_access_token = jwt_encode (token_claims u) minutes,
     td_token_type = ''bearer'', td_expires_in = minutes * 60\<rparr>"

section \<open>Login\<close>

text \<open>\<^verbatim>\<open>html.escape(s, quote=True)\<close>.\<close>

definition html_char :: "char \<Rightarrow> string" where
  "html_char c = (if c = CHR ''&'' then ''&amp;'' else if c = CHR ''<'' then ''&lt;''
     else if c = CHR ''>'' then ''&gt;'' else if c = CHR 0x22 then ''&quot;''
     else if c = CHR 0x27 then ''&#x27;'' else [c])"

definition html_escape :: "string \<Rightarrow> string" where
  "html_escape s = concat (map html_char s)"

text \<open>The page is the template with two substitutions; a success is a redirect that sets the cookie for a number
  of seconds.\<close>

datatype login_reply = LoginPage string string | LoginRedirected string string int

definition login_page :: "string option \<Rightarrow> string \<Rightarrow> login_reply" where
  "login_page next_url error = LoginPage (html_escape (safe_next_path next_url ''/docs''))
     (if error = [] then [] else ''<div class=\"error\">'' @ html_escape error @ ''</div>'')"

definition login_submit ::
  "(string \<Rightarrow> string \<Rightarrow> exn + bool) \<Rightarrow> (claims \<Rightarrow> int \<Rightarrow> string) \<Rightarrow> int \<Rightarrow> user_records option
   \<Rightarrow> string \<Rightarrow> string \<Rightarrow> string option \<Rightarrow> exn + login_reply" where
  "login_submit checkpw jwt_encode minutes file account password next_url =
     (let target = safe_next_path next_url ''/docs'' in
      case authenticate checkpw file account password of
        Inl (AppExc Auth m) \<Rightarrow>
          Inr (LoginPage (html_escape target) ''<div class=\"error\">Invalid username or password.</div>'')
      | Inl e \<Rightarrow> Inl e
      | Inr u \<Rightarrow> (let t = generate_token jwt_encode minutes u
                  in Inr (LoginRedirected target (td_access_token t) (td_expires_in t))))"

definition token_endpoint ::
  "(string \<Rightarrow> string \<Rightarrow> exn + bool) \<Rightarrow> (claims \<Rightarrow> int \<Rightarrow> string) \<Rightarrow> int \<Rightarrow> user_records option
   \<Rightarrow> string \<Rightarrow> string \<Rightarrow> exn + token_data" where
  "token_endpoint checkpw jwt_encode minutes file account password =
     (case authenticate checkpw file account password of
        Inl e \<Rightarrow> Inl e | Inr u \<Rightarrow> Inr (generate_token jwt_encode minutes u))"

section \<open>Lemmas\<close>

lemma missing_scopes_list: "missing_scopes (JArr (map JStr ss)) required = Inr (filter (\<lambda>s. s \<notin> set ss) required)"
  by (induction required) auto

lemma claim_token [simp]:
  "claim_account (token_claims u) = Some (us_account u)" "claim_scopes (token_claims u) = Inr (us_scopes u)"
  "map_of (token_claims u) ''scopes'' = Some (JArr (map JStr (us_scopes u)))"
proof -
  have "mapE (\<lambda>j. case json_str j of Some s \<Rightarrow> Inr s | None \<Rightarrow> Inl (PyValidationError [''scopes''])) (map JStr ss) = Inr ss" for ss
    by (induction ss) auto
  then show "claim_scopes (token_claims u) = Inr (us_scopes u)" by (simp add: claim_scopes_def token_claims_def)
qed (simp_all add: claim_account_def token_claims_def)

lemma missing_scopes_none:
  "missing_scopes scopes required = Inr [] \<Longrightarrow> r \<in> set required \<Longrightarrow> scope_in scopes r = Inr True"
  by (induction required) (auto split: sum.splits if_splits)

lemma claim_scopes_list:
  assumes "claim_scopes payload = Inr ss"
  shows "(case map_of payload ''scopes'' of None \<Rightarrow> JArr [] | Some j \<Rightarrow> j) = JArr (map JStr ss)"
proof -
  have *: "mapE (\<lambda>j. case json_str j of Some s \<Rightarrow> Inr s | None \<Rightarrow> Inl (PyValidationError [''scopes''])) js = Inr ss
      \<Longrightarrow> js = map JStr ss" for js ss
  proof (induction js arbitrary: ss)
    case (Cons j js)
    then show ?case by (cases j) (auto split: sum.splits)
  qed simp
  with assms show ?thesis
    by (auto simp: claim_scopes_def split: option.splits json.splits)
qed

lemma html_escape_safe: "c \<in> set (html_escape s) \<Longrightarrow> c \<notin> {CHR ''<'', CHR ''>'', CHR 0x22, CHR 0x27}"
  by (auto simp: html_escape_def html_char_def split: if_splits)

text \<open>A path on the same origin: one slash, then neither slash nor backslash.\<close>

definition local_path :: "string \<Rightarrow> bool" where
  "local_path p \<longleftrightarrow> (\<exists>r. p = CHR ''/'' # r \<and> (r = [] \<or> (hd r \<noteq> CHR ''/'' \<and> hd r \<noteq> CHR 0x5C)))"

lemma safe_next_local: "local_path fallback \<Longrightarrow> local_path (safe_next_path p fallback)"
proof -
  have *: "local_path (CHR ''/'' # r)" if "\<not> prefix ''//'' (CHR ''/'' # r)" "\<not> prefix [CHR ''/'', CHR 0x5C] (CHR ''/'' # r)" for r
    using that by (cases r) (auto simp: local_path_def)
  assume "local_path fallback"
  with * show ?thesis
    by (auto simp: safe_next_path_def prefix_def split: option.splits) 
qed

section \<open>Properties\<close>

text \<open>
  Property C23. Who passes. A request is let through only with a token the library accepts, for a non-empty account, whose scopes are
  a list of strings that contains every required scope, and it then acts as exactly that account with exactly those
  scopes; a rejected token is a 401, missing scopes a 403, as long as the scopes are such a list.
\<close>

theorem validate_token_spec:
  "(validate_token jwt_decode token required = Inr u \<longleftrightarrow>
      (\<exists>payload. jwt_decode token = Some payload \<and> claim_account payload = Some (us_account u) \<and> us_account u \<noteq> []
         \<and> claim_scopes payload = Inr (us_scopes u) \<and> set required \<subseteq> set (us_scopes u)))
   \<and> (case jwt_decode token of
        None \<Rightarrow> validate_token jwt_decode token required = Inl (AppExc Auth ''Invalid or expired token.'')
      | Some payload \<Rightarrow> (case (claim_account payload, claim_scopes payload) of
            (Some (c # a), Inr ss) \<Rightarrow> (case filter (\<lambda>s. s \<notin> set ss) required of
                [] \<Rightarrow> validate_token jwt_decode token required = Inr \<lparr>us_account = c # a, us_scopes = ss\<rparr>
              | m # ms \<Rightarrow> validate_token jwt_decode token required
                  = Inl (AppExc Forbidden (''Token is missing required scopes: '' @ list_str (m # ms))))
          | (Some (c # a), Inl _) \<Rightarrow> \<exists>e. validate_token jwt_decode token required = Inl e
          | _ \<Rightarrow> validate_token jwt_decode token required = Inl (AppExc Auth ''Token is missing subject claim.'')))"
proof (cases "jwt_decode token")
  case None
  then show ?thesis by (simp add: validate_token_def decode_access_token_def)
next
  case (Some payload)
  show ?thesis
  proof (cases "claim_scopes payload")
    case (Inl e)
    then show ?thesis using Some
      by (auto simp: validate_token_def decode_access_token_def split: option.splits sum.splits list.splits)
  next
    case (Inr ss)
    note j = claim_scopes_list [OF Inr]
    have f: "filter (\<lambda>s. s \<notin> set ss) required = [] \<longleftrightarrow> set required \<subseteq> set ss" by (auto simp: filter_empty_conv)
    show ?thesis using Some Inr f unfolding validate_token_def decode_access_token_def
      by (auto simp: j missing_scopes_list split: option.splits list.splits)
  qed
qed

lemma find_record_account: "find_record account rs = Some r \<Longrightarrow> map_of r ''account'' = Some (JStr account)"
  by (induction rs) (auto split: if_splits)

lemma authenticated:
  assumes "authenticate checkpw file account password = Inr u"
  obtains d where "get_by_account file account = Inr (Some d)" "checkpw password (us_hashed_password d) = Inr True"
    "us_account d = account" "u = \<lparr>us_account = account, us_scopes = us_scopes d\<rparr>"
proof -
  from assms obtain d where d: "get_by_account file account = Inr (Some d)"
      "checkpw password (us_hashed_password d) = Inr True" "u = \<lparr>us_account = us_account d, us_scopes = us_scopes d\<rparr>"
    by (auto simp: authenticate_def split: sum.splits option.splits bool.splits)
  then have "us_account d = account"
    by (auto simp: get_by_account_def user_of_record_def dest!: find_record_account
        split: option.splits sum.splits json.splits)
  with d that show thesis by blast
qed

lemma validate_payload:
  assumes "jwt_decode token = Some payload" "map_of payload ''sub'' = Some (JStr account)" "account \<noteq> []"
    and "map_of payload ''scopes'' = Some (JArr (map JStr scopes))"
  shows "validate_token jwt_decode token required =
    (if set required \<subseteq> set scopes then Inr \<lparr>us_account = account, us_scopes = scopes\<rparr>
     else Inl (AppExc Forbidden (''Token is missing required scopes: ''
            @ list_str (filter (\<lambda>s. s \<notin> set scopes) required))))"
proof -
  have "filter (\<lambda>s. s \<notin> set scopes) required = [] \<longleftrightarrow> set required \<subseteq> set scopes"
    by (auto simp: filter_empty_conv)
  moreover have "mapE (\<lambda>j. case json_str j of Some s \<Rightarrow> Inr s | None \<Rightarrow> Inl (PyValidationError [''scopes''])) (map JStr scopes) = Inr scopes"
    by (induction scopes) auto
  ultimately show ?thesis using assms
    by (simp add: validate_token_def decode_access_token_def missing_scopes_list claim_account_def claim_scopes_def)
qed

lemma validate_issued:
  assumes "jwt_decode token = Some (token_claims u)" "us_account u \<noteq> []"
  shows "validate_token jwt_decode token required =
    (if set required \<subseteq> set (us_scopes u) then Inr \<lparr>us_account = us_account u, us_scopes = us_scopes u\<rparr>
     else Inl (AppExc Forbidden (''Token is missing required scopes: ''
            @ list_str (filter (\<lambda>s. s \<notin> set (us_scopes u)) required))))"
  by (rule validate_payload [where jwt_decode = jwt_decode and token = token and payload = "token_claims u"
      and account = "us_account u" and scopes = "us_scopes u", OF assms(1) _ assms(2)]) (simp_all add: token_claims_def)

definition demo_users :: "user_records" where
  "demo_users = [[(''account'', JStr ''alice''), (''hashed_password'', JStr ''h1''), (''scopes'', JArr [JStr ''command_api''])]]"

text \<open>
  From password to endpoint. If the library decodes what it encoded, a token handed out by \<^verbatim>\<open>/token\<close>
  was given against the password of the stored account of that name, and it opens exactly the endpoints
  whose scopes are among those of the stored account, as that account; every other one answers 403.
\<close>

theorem issued_token_grants:
  assumes "token_endpoint checkpw jwt_encode minutes file account password = Inr t"
    and "\<And>u. authenticate checkpw file account password = Inr u \<Longrightarrow>
          jwt_decode (jwt_encode (token_claims u) minutes) = Some (token_claims u)"
    and "account \<noteq> []"
  shows "\<exists>d. get_by_account file account = Inr (Some d) \<and> checkpw password (us_hashed_password d) = Inr True
    \<and> (\<forall>required. get_current_user jwt_decode required (Some (td_access_token t)) =
        (if set required \<subseteq> set (us_scopes d) then Inr \<lparr>us_account = account, us_scopes = us_scopes d\<rparr>
         else Inl (AppExc Forbidden (''Token is missing required scopes: ''
                @ list_str (filter (\<lambda>s. s \<notin> set (us_scopes d)) required)))))"
proof -
  obtain u where u: "authenticate checkpw file account password = Inr u" "t = generate_token jwt_encode minutes u"
    using assms(1) by (auto simp: token_endpoint_def split: sum.splits)
  from authenticated [OF u(1)] obtain d where d: "get_by_account file account = Inr (Some d)"
      "checkpw password (us_hashed_password d) = Inr True" "u = \<lparr>us_account = account, us_scopes = us_scopes d\<rparr>" by metis
  have "jwt_decode (td_access_token t) = Some (token_claims u)" by (simp add: u generate_token_def assms(2))
  note v = validate_issued [of jwt_decode "td_access_token t" u, OF this]
  from v have "\<forall>required. get_current_user jwt_decode required (Some (td_access_token t)) =
        (if set required \<subseteq> set (us_scopes d) then Inr \<lparr>us_account = account, us_scopes = us_scopes d\<rparr>
         else Inl (AppExc Forbidden (''Token is missing required scopes: ''
                @ list_str (filter (\<lambda>s. s \<notin> set (us_scopes d)) required))))"
    using assms(3) by (simp add: get_current_user_def d(3))
  with d(1,2) show ?thesis by blast
qed

lemma issued_token_grants_witness:
  "\<exists>d. get_by_account (Some demo_users) ''alice'' = Inr (Some d) \<and> us_scopes d = [''command_api'']
     \<and> get_current_user (\<lambda>_. Some (token_claims \<lparr>us_account = ''alice'', us_scopes = [''command_api'']\<rparr>)) [''command_api'']
         (Some ''token'') = Inr \<lparr>us_account = ''alice'', us_scopes = us_scopes d\<rparr>"
proof -
  let ?d = "\<lparr>us_account = ''alice'', us_scopes = [''command_api''], us_hashed_password = ''h1''\<rparr>"
  have d: "get_by_account (Some demo_users) ''alice'' = Inr (Some ?d)"
    by (simp add: get_by_account_def demo_users_def user_of_record_def claim_scopes_def)
  let ?check = "\<lambda>p h. Inr (p = ''pw'') :: exn + bool"
  have a: "authenticate ?check (Some demo_users) ''alice'' ''pw'' = Inr \<lparr>us_account = ''alice'', us_scopes = [''command_api'']\<rparr>"
    by (simp add: authenticate_def d)
  have t: "token_endpoint ?check (\<lambda>c m. ''token'') 60 (Some demo_users) ''alice'' ''pw''
      = Inr \<lparr>td_access_token = ''token'', td_token_type = ''bearer'', td_expires_in = 3600\<rparr>"
    by (simp add: token_endpoint_def a generate_token_def)
  from issued_token_grants [OF t, of "\<lambda>_. Some (token_claims \<lparr>us_account = ''alice'', us_scopes = [''command_api'']\<rparr>)"]
  show ?thesis using d by (simp add: a)
qed

text \<open>
  Property C30. The login form. A redirect is answered only after a successful authentication, its token is for that account,
  and it stays on this origin whatever \<^verbatim>\<open>next\<close> was; a failed authentication re-renders the form, and what is put into
  the page holds no character that could end the attribute or open a tag.
\<close>

theorem login_submit_spec:
  "case login_submit checkpw jwt_encode minutes file account password next_url of
     Inr (LoginRedirected target token age) \<Rightarrow> local_path target \<and> age = minutes * 60
       \<and> (\<exists>u. authenticate checkpw file account password = Inr u \<and> token = jwt_encode (token_claims u) minutes)
   | Inr (LoginPage next_html error) \<Rightarrow> set next_html \<inter> {CHR ''<'', CHR ''>'', CHR 0x22, CHR 0x27} = {}
       \<and> (\<exists>m. authenticate checkpw file account password = Inl (AppExc Auth m))
   | Inl e \<Rightarrow> authenticate checkpw file account password = Inl e \<and> (\<forall>m. e \<noteq> AppExc Auth m)"
proof -
  have l: "local_path (safe_next_path next_url ''/docs'')" by (rule safe_next_local) (simp add: local_path_def)
  have h: "set (html_escape s) \<inter> {CHR ''<'', CHR ''>'', CHR 0x22, CHR 0x27} = {}" for s
    using html_escape_safe by blast
  show ?thesis
    by (auto simp: login_submit_def Let_def generate_token_def l h split: sum.split exn.split app_kind.split)
qed

end
