(* ===== verification/Api.thy ===== *)
theory Api
  imports Race Viewer Auth
begin

text \<open>
  The HTTP endpoints of \<^verbatim>\<open>app/api/v1/command.py\<close> and the start-up guard of \<^verbatim>\<open>app/main.py\<close>. \<open>serve\<close> is the router: the framework first
  resolves the user of the request, then validates its parameters (422), then calls the endpoint.
\<close>

section \<open>Requests and replies\<close>

datatype command_call =
    CommandsInfo
  | CommandInfo string
  | RunningCommands "command_status option"
  | Execute command_request
  | PollExecution string output_format
  | TraceUi string int int
  | ViewPage string
  | KillExecution string bool

record http_auth =
  ha_header :: "string option"
  ha_cookie :: "string option"

record view_page =
  vp_title :: string
  vp_heading :: string
  vp_trace_url :: string
  vp_terminal :: "string list"
  vp_meta_html :: string

datatype command_reply =
    RWhitelist user_command_whitelist
  | RCommand command_whitelist_config
  | RRunning nat "command_state list"
  | RExecution command_response
  | RTrace trace_response
  | RPage view_page
  | RUnprocessable

text \<open>\<^verbatim>\<open>view_command\<close>: the fields of the viewer template.\<close>

definition view_command :: "string \<Rightarrow> view_page" where
  "view_command command_id = \<lparr>vp_title = ''Command Log Viewer | '' @ command_id, vp_heading = ''Command: '' @ command_id,
     vp_trace_url = ''/api/v1/command/execution/'' @ command_id @ ''/trace/ui'',
     vp_terminal = [''success'', ''failed'', ''killed''],
     vp_meta_html = ''<div><span class=\"label\">Command ID</span><code>'' @ command_id @ ''</code></div>''\<rparr>"

section \<open>Endpoints\<close>

definition list_running_endpoint :: "('e, 'd) env \<Rightarrow> command_status option \<Rightarrow> ('e pod, command_reply) io" where
  "list_running_endpoint env status =
     bindE (list_running_commands env (case status of None \<Rightarrow> None | Some s \<Rightarrow> Some [s])) (\<lambda>states.
       ret (RRunning (length states) states))"

definition kill_endpoint :: "('e, 'd) env \<Rightarrow> string \<Rightarrow> bool \<Rightarrow> ('e pod, command_reply) io" where
  "kill_endpoint env command_id force =
     bindE (catchE (repo_get env command_id)
              (\<lambda>exc. if is_command_execution exc
                     then raise (AppExc NotFound (''Command '' @ command_id @ '' not found.'')) else raise exc)) (\<lambda>state.
       if cs_status state \<noteq> RUNNING
       then raise (AppExc Conflict (''Cannot kill command in '' @ status_format (cs_status state) @ '' state.''))
       else if \<not> cs_killable state \<and> \<not> force
       then raise (AppExc Conflict ''Command is not killable. Retry with ?force=true to override.'')
       else thenE (kill_command env command_id ''Killed by user request.'' force)
              (ret (RExecution ((response ''accepted'')\<lparr>rs_command_id := Some command_id,
                      rs_message := ''Kill request accepted''\<rparr>))))"

definition required_scope :: "command_call \<Rightarrow> string list" where
  "required_scope c = (case c of RunningCommands _ \<Rightarrow> [''admin_api''] | _ \<Rightarrow> [''command_api''])"

text \<open>The page itself carries no user; only the polled endpoint also accepts the cookie.\<close>

definition authorise :: "(string \<Rightarrow> claims option) \<Rightarrow> command_call \<Rightarrow> http_auth \<Rightarrow> exn + user option" where
  "authorise jwt_decode c auth = (case c of
       ViewPage _ \<Rightarrow> Inr None
     | TraceUi _ _ _ \<Rightarrow> map_sum id Some
         (get_current_user_cookie_or_header jwt_decode (required_scope c) (ha_header auth) (ha_cookie auth))
     | _ \<Rightarrow> map_sum id Some (get_current_user jwt_decode (required_scope c) (ha_header auth)))"

definition unprocessable :: "command_call \<Rightarrow> bool" where
  "unprocessable c = (case c of
       Execute req \<Rightarrow> request_error req \<noteq> None
     | TraceUi _ off num \<Rightarrow> off < 0 \<or> num < 1
     | _ \<Rightarrow> False)"

definition handle_call ::
  "('e, 'd) env \<Rightarrow> 'e pod inventory option \<Rightarrow> (string \<Rightarrow> exn + json) \<Rightarrow> (string \<Rightarrow> string)
   \<Rightarrow> string \<Rightarrow> string \<Rightarrow> command_call \<Rightarrow> ('e pod, command_reply) io" where
  "handle_call env inven loads conv request_id account c = (case c of
       CommandsInfo \<Rightarrow> bindE (get_user_commands env account) (\<lambda>w. ret (RWhitelist w))
     | CommandInfo name \<Rightarrow> bindE (get_command_info env account name) (\<lambda>cfg. ret (RCommand cfg))
     | RunningCommands st \<Rightarrow> list_running_endpoint env st
     | Execute req \<Rightarrow> bindE (execute_command env inven account request_id req) (\<lambda>r. ret (RExecution r))
     | PollExecution cid fmt \<Rightarrow> bindE (get_command_execution_result env loads cid fmt) (\<lambda>r. ret (RExecution r))
     | TraceUi cid off num \<Rightarrow> bindE (get_command_trace env conv cid off num) (\<lambda>r. ret (RTrace r))
     | ViewPage cid \<Rightarrow> ret (RPage (view_command cid))
     | KillExecution cid force \<Rightarrow> kill_endpoint env cid force)"

definition serve ::
  "('e, 'd) env \<Rightarrow> 'e pod inventory option \<Rightarrow> (string \<Rightarrow> exn + json) \<Rightarrow> (string \<Rightarrow> string) \<Rightarrow> (string \<Rightarrow> claims option)
   \<Rightarrow> string \<Rightarrow> http_auth \<Rightarrow> command_call \<Rightarrow> ('e pod, command_reply) io" where
  "serve env inven loads conv jwt_decode request_id auth c =
     bindE (liftE (authorise jwt_decode c auth)) (\<lambda>u.
       if unprocessable c then ret RUnprocessable
       else handle_call env inven loads conv request_id (case u of None \<Rightarrow> [] | Some x \<Rightarrow> us_account x) c)"

section \<open>Start-up\<close>

definition guard_dry_run :: "bool \<Rightarrow> string \<Rightarrow> exn option" where
  "guard_dry_run dry_run_mode app_env =
     (if \<not> dry_run_mode then None
      else if app_env = ''prod'' then Some (PyRuntimeError ''DRY_RUN_MODE=true is refused when APP_ENV=prod'')
      else None)"

section \<open>Lemmas\<close>

lemma map_some [simp]: "map_sum id Some x = Inr (Some u) \<longleftrightarrow> x = Inr u" "map_sum id Some x \<noteq> Inr None"
  by (cases x; simp)+

lemma header_token: "get_current_user dec req header = Inr u \<Longrightarrow> \<exists>t. header = Some t \<and> validate_token dec t req = Inr u"
  by (auto simp: get_current_user_def split: option.splits)

lemma cookie_token:
  "get_current_user_cookie_or_header dec req header cookie = Inr u
   \<Longrightarrow> \<exists>t. (header = Some t \<or> cookie = Some t) \<and> validate_token dec t req = Inr u"
  by (auto simp: get_current_user_cookie_or_header_def truthy_def Let_def split: option.splits if_splits)

lemma authorised_token:
  assumes "authorise dec c auth = Inr (Some u)"
  shows "\<exists>t. (ha_header auth = Some t \<or> (\<exists>cid off num. c = TraceUi cid off num) \<and> ha_cookie auth = Some t)
    \<and> validate_token dec t (required_scope c) = Inr u"
  using assms by (cases c) (auto simp: authorise_def dest!: header_token cookie_token)

lemma authorise_none: "authorise dec c auth = Inr None \<Longrightarrow> \<exists>cid. c = ViewPage cid"
  by (cases c) (auto simp: authorise_def)

lemma validated_scopes:
  assumes "validate_token dec t required = Inr u"
  shows "\<exists>payload. dec t = Some payload \<and> set required \<subseteq> set (us_scopes u) \<and> us_account u \<noteq> []
    \<and> claim_account payload = Some (us_account u) \<and> claim_scopes payload = Inr (us_scopes u)"
proof -
  from assms obtain payload ss where p: "dec t = Some payload" "claim_scopes payload = Inr ss"
      "u = \<lparr>us_account = the (claim_account payload), us_scopes = ss\<rparr>" "claim_account payload \<noteq> None"
      "the (claim_account payload) \<noteq> []"
      "missing_scopes (case map_of payload ''scopes'' of None \<Rightarrow> JArr [] | Some j \<Rightarrow> j) required = Inr []"
    by (auto simp: validate_token_def decode_access_token_def split: option.splits sum.splits if_splits)
  from p(6) have "filter (\<lambda>s. s \<notin> set ss) required = []"
    unfolding claim_scopes_list [OF p(2)] missing_scopes_list by simp
  with p show ?thesis by (auto simp: filter_empty_conv)
qed

text \<open>No endpoint but the bare page answers or acts without a token that carries its scope.\<close>

lemma command_requires_scope:
  assumes "serve env inven loads conv dec request_id auth c p = (r, p')"
    and "(\<exists>reply. r = Inr reply) \<or> p' \<noteq> p" and "\<And>cid. c \<noteq> ViewPage cid"
  shows "\<exists>t u. (ha_header auth = Some t \<or> (\<exists>cid off num. c = TraceUi cid off num) \<and> ha_cookie auth = Some t)
    \<and> validate_token dec t (required_scope c) = Inr u
    \<and> (r, p') = (if unprocessable c then (Inr RUnprocessable, p)
                 else handle_call env inven loads conv request_id (us_account u) c p)"
proof (cases "authorise dec c auth")
  case (Inl e)
  with assms(1,2) show ?thesis by (auto simp: serve_def io_run)
next
  case (Inr x)
  with authorise_none assms(3) obtain u where u: "x = Some u" by (cases x) auto
  have "(r, p') = (if unprocessable c then (Inr RUnprocessable, p)
      else handle_call env inven loads conv request_id (us_account u) c p)"
    using assms(1) Inr u by (auto simp: serve_def io_run split: if_splits)
  with authorised_token Inr u show ?thesis by blast
qed

section \<open>Properties\<close>

text \<open>
  The kill endpoint. On a healthy Redis an unknown run is a 404, one that is not running a 409, one that is not
  killable a 409 unless forced, each without any effect; otherwise the kill is attempted, and whatever its
  outcome the record of the run, and no other record, is changed at most into killing or killed. It answers \<^verbatim>\<open>accepted\<close> only
  when the kill did not raise.
\<close>

theorem kill_endpoint_spec:
  assumes "redis_ok env kv" "ssh_frame env kv" "ids_match env kv p"
    and "0 < COMMAND_RESULT_TTL_SECONDS (env_settings env)"
    and "\<And>en s. map_of (pod_pool p) cid = Some en \<Longrightarrow> stored env kv p cid = Some s \<Longrightarrow> en_killable en = cs_killable s"
    and "kill_endpoint env cid force p = (r, p')"
  shows "case stored env kv p cid of
      None \<Rightarrow> r = Inl (AppExc NotFound (''Command '' @ cid @ '' not found.'')) \<and> p' = p
    | Some s \<Rightarrow>
        if cs_status s \<noteq> RUNNING \<or> \<not> cs_killable s \<and> \<not> force
        then (\<exists>m. r = Inl (AppExc Conflict m)) \<and> p' = p
        else pod_pool p' = pod_pool p \<and> pod_tasks p' = pod_tasks p
          \<and> (\<exists>s'. stored env kv p' = (stored env kv p)(cid \<mapsto> s')
               \<and> (cs_status s' = KILLING \<or> cs_status s' = KILLED \<or> s' = s \<and> (\<exists>e. r = Inl e)))
          \<and> (\<forall>reply. r = Inr reply \<longrightarrow> reply = RExecution ((response ''accepted'')\<lparr>rs_command_id := Some cid,
                  rs_message := ''Kill request accepted''\<rparr>))"
proof (cases "stored env kv p cid")
  case None
  from repo_get_missing [OF assms(1) None] obtain m where "repo_get env cid p = (Inl (AppExc CommandExecution m), p)" by blast
  with assms(6) None show ?thesis by (simp add: kill_endpoint_def io_run)
next
  case (Some s)
  note get = repo_get_found [OF assms(1) Some]
  show ?thesis
  proof (cases "cs_status s \<noteq> RUNNING \<or> \<not> cs_killable s \<and> \<not> force")
    case True
    then have "\<exists>m. kill_endpoint env cid force p = (Inl (AppExc Conflict m), p)"
      by (cases "cs_status s = RUNNING") (simp_all add: kill_endpoint_def io_run get)
    with assms(6) Some True show ?thesis by auto
  next
    case False
    then have ok: "force \<or> killable_now env kv p cid" 
      using assms(5) Some by (auto simp: killable_now_def split: option.splits)
    obtain k q where k: "kill_command env cid ''Killed by user request.'' force p = (k, q)" by fastforce
    have guards: "cs_status s = RUNNING" "(\<not> cs_killable s \<and> \<not> force) = False" using False by auto
    have r: "p' = q" "r = (case k of Inl e \<Rightarrow> Inl e | Inr _ \<Rightarrow> Inr (RExecution ((response ''accepted'')\<lparr>rs_command_id := Some cid,
                  rs_message := ''Kill request accepted''\<rparr>)))"
      using assms(6) by (simp_all add: kill_endpoint_def bindE_run catchE_run thenE_run ret_run get k guards split: sum.splits)
    from kill_effect [OF assms(1-4) ok Some k] False
    have "pod_pool q = pod_pool p \<and> pod_tasks q = pod_tasks p
        \<and> (\<exists>s'. stored env kv q = (stored env kv p)(cid \<mapsto> s')
             \<and> (cs_status s' = KILLING \<or> cs_status s' = KILLED \<or> s' = s \<and> (\<exists>e. k = Inl e)))"
      by (auto simp: killed_by_def split: option.splits)
    with r False Some show ?thesis by (auto split: sum.splits)
  qed
qed

lemma kill_endpoint_spec_witness:
  "\<exists>m. kill_endpoint (demo_env (demo_settings False) demo_whitelist demo_answer) ''c1'' False
       (demo_pod [demo_state ''c1'' RUNNING None False])
     = (Inl (AppExc Conflict m), demo_pod [demo_state ''c1'' RUNNING None False])"
proof -
  let ?env = "demo_env (demo_settings False) demo_whitelist demo_answer"
  let ?p = "demo_pod [demo_state ''c1'' RUNNING None False]"
  obtain r p' where run: "kill_endpoint ?env ''c1'' False ?p = (r, p')" by fastforce
  have s: "stored ?env map_of ?p ''c1'' = Some (demo_state ''c1'' RUNNING None False)" by (simp add: stored_demo)
  have ttl: "0 < COMMAND_RESULT_TTL_SECONDS (env_settings ?env)" by (simp add: demo_env_def demo_settings_def)
  from kill_endpoint_spec [OF redis_ok_demo ssh_frame_demo ids_match_demo ttl _ run] s run
  show ?thesis by (auto simp del: demo_pod_fields(5))
qed

end
