(* ===== verification/Deploy.thy ===== *)
theory Deploy
  imports Viewer
begin

text \<open>
  Pipelines: \<^verbatim>\<open>app/services/deploy_service.py\<close> over the interface \<^verbatim>\<open>app/repositories/pipeline_repository.py\<close>, with its
  two implementations, GitLab (\<^verbatim>\<open>gitlab_pipeline_repository.py\<close>, with the cache of finished traces in
  \<^verbatim>\<open>trace_cache_repository.py\<close>) and dry-run. The GitLab SDK, gzip and the binary Redis client are parameters.
  Messages that contain a dash outside Latin-1 have a hyphen here.
\<close>

section \<open>Data\<close>

record pipeline_variable =
  pv_key :: string
  pv_value :: string

record job_data =
  jd_id :: int
  jd_name :: string
  jd_status :: string

record downstream_ref =
  dr_id :: int
  dr_status :: string
  dr_project_id :: int
  dr_web_url :: string
  dr_bridge_name :: string

record pipeline_data =
  pd_id :: int
  pd_status :: string
  pd_created_at :: "string option"
  pd_updated_at :: "string option"
  pd_started_at :: "string option"
  pd_finished_at :: "string option"
  pd_tag_list :: "string list"
  pd_variables :: "pipeline_variable list"
  pd_jobs :: "job_data list"
  pd_downstream :: "downstream_ref list"
  pd_ref_name :: string
  pd_web_url :: string

record running_pipelines =
  rp_has_running :: bool
  rp_count :: nat
  rp_pipelines :: "pipeline_data list"

record formatted_log =
  fl_job_id :: int
  fl_status :: string
  fl_next_byte_offset :: int
  fl_next_line_num :: int
  fl_lines :: "log_line list"
  fl_total_size :: int
  fl_size_warning :: bool
  fl_too_large :: bool

text \<open>\<^verbatim>\<open>json.dumps(v, separators=(",", ":"))\<close>.\<close>

definition hex_digit :: "nat \<Rightarrow> char" where
  "hex_digit n = (if n < 10 then digit_char n else char_of (87 + n))"

definition json_char :: "char \<Rightarrow> string" where
  "json_char c = (let n = of_char c :: nat in
     if c = CHR 0x22 \<or> c = CHR 0x5C then [CHR 0x5C, c]
     else if n = 10 then [CHR 0x5C, CHR ''n''] else if n = 13 then [CHR 0x5C, CHR ''r'']
     else if n = 9 then [CHR 0x5C, CHR ''t''] else if n = 8 then [CHR 0x5C, CHR ''b'']
     else if n = 12 then [CHR 0x5C, CHR ''f'']
     else if 32 \<le> n \<and> n \<le> 126 then [c]
     else [CHR 0x5C, CHR ''u'', CHR ''0'', CHR ''0'', hex_digit (n div 16), hex_digit (n mod 16)])"

definition json_string :: "string \<Rightarrow> string" where
  "json_string s = CHR 0x22 # concat (map json_char s) @ [CHR 0x22]"

fun json_dumps :: "json \<Rightarrow> string" and dumps_items :: "json list \<Rightarrow> string list"
  and dumps_fields :: "(string \<times> json) list \<Rightarrow> string list" where
  "json_dumps JNull = ''null''"
| "json_dumps (JBool b) = (if b then ''true'' else ''false'')"
| "json_dumps (JNum n) = int_str n"
| "json_dumps (JFloat t) = t"
| "json_dumps (JStr s) = json_string s"
| "json_dumps (JArr js) = ''['' @ join '','' (dumps_items js) @ '']''"
| "json_dumps (JObj fs) = ''{'' @ join '','' (dumps_fields fs) @ ''}''"
| "dumps_items [] = []"
| "dumps_items (j # js) = json_dumps j # dumps_items js"
| "dumps_fields [] = []"
| "dumps_fields ((k, j) # fs) = (json_string k @ '':'' @ json_dumps j) # dumps_fields fs"

text \<open>\<^verbatim>\<open>PipelineVariable.stringify_complex_types\<close>.\<close>

fun stringify :: "json \<Rightarrow> string" where
  "stringify (JStr s) = s"
| "stringify JNull = ''None''"
| "stringify (JBool b) = (if b then ''True'' else ''False'')"
| "stringify (JNum n) = int_str n"
| "stringify (JFloat t) = t"
| "stringify j = json_dumps j"

definition pipeline_variable_of :: "string \<times> json \<Rightarrow> pipeline_variable" where
  "pipeline_variable_of kv = \<lparr>pv_key = fst kv, pv_value = stringify (snd kv)\<rparr>"

section \<open>The repository interface\<close>

record 's pipeline_repo =
  pr_trigger :: "string \<Rightarrow> (string \<times> string) list \<Rightarrow> ('s, pipeline_data) io"
  pr_get :: "int \<Rightarrow> ('s, pipeline_data) io"
  pr_cancel :: "int \<Rightarrow> ('s, pipeline_data) io"
  pr_retry :: "int \<Rightarrow> ('s, pipeline_data) io"
  pr_list_running :: "string \<Rightarrow> ('s, pipeline_data list) io"
  pr_job_web_url :: "int \<Rightarrow> ('s, string) io"
  pr_trace_range :: "int \<Rightarrow> int \<Rightarrow> ('s, string \<times> string \<times> int) io"

section \<open>The service\<close>

definition build_variables :: "string \<Rightarrow> pipeline_variable list \<Rightarrow> (string \<times> string) list" where
  "build_variables action extra = fold (\<lambda>v d. alist_set (pv_key v) (pv_value v) d) extra [(''EXECUTION'', action)]"

definition EXCLUDE_FROM_MATCH :: "string list" where
  "EXCLUDE_FROM_MATCH = [''SERVICE_FROM'']"

definition dict_eq :: "(string \<times> string) list \<Rightarrow> (string \<times> string) list \<Rightarrow> bool" where
  "dict_eq a b \<longleftrightarrow> list_all (\<lambda>(k, v). map_of a k = map_of b k) (a @ b)"

definition variables_match :: "pipeline_data \<Rightarrow> (string \<times> string) list \<Rightarrow> bool" where
  "variables_match p expected =
     (let actual = fold (\<lambda>v d. if pv_key v \<notin> set EXCLUDE_FROM_MATCH then alist_set (pv_key v) (pv_value v) d else d)
                     (pd_variables p) [];
          filtered_expected = filter (\<lambda>(k, v). k \<notin> set EXCLUDE_FROM_MATCH) expected
      in dict_eq actual filtered_expected)"

definition find_duplicate_pipelines ::
  "'s pipeline_repo \<Rightarrow> string \<Rightarrow> string \<Rightarrow> pipeline_variable list \<Rightarrow> ('s, running_pipelines) io" where
  "find_duplicate_pipelines repo action ref extra =
     bindE (pr_list_running repo ref) (\<lambda>running.
       let duplicates = filter (\<lambda>p. variables_match p (build_variables action extra)) running
       in ret \<lparr>rp_has_running = (duplicates \<noteq> []), rp_count = length duplicates, rp_pipelines = duplicates\<rparr>)"

definition trigger_pipeline ::
  "'s pipeline_repo \<Rightarrow> string \<Rightarrow> string \<Rightarrow> pipeline_variable list \<Rightarrow> ('s, pipeline_data) io" where
  "trigger_pipeline repo action ref extra =
     bindE (find_duplicate_pipelines repo action ref extra) (\<lambda>result.
       if rp_has_running result
       then (let existing = hd (rp_pipelines result) in
             raise (AppExc Conflict (''A pipeline with identical parameters is already running (id=''
               @ int_str (pd_id existing) @ '', status='' @ pd_status existing @ '').'')))
       else pr_trigger repo ref (build_variables action extra))"

definition formatted_log_of :: "int \<Rightarrow> string \<Rightarrow> int \<Rightarrow> int \<Rightarrow> log_line list \<Rightarrow> int \<Rightarrow> bool \<Rightarrow> bool \<Rightarrow> formatted_log" where
  "formatted_log_of job status off num ls total_size warn large = \<lparr>fl_job_id = job, fl_status = status,
     fl_next_byte_offset = off, fl_next_line_num = num, fl_lines = ls, fl_total_size = total_size,
     fl_size_warning = warn, fl_too_large = large\<rparr>"

definition job_trace_slice ::
  "int \<Rightarrow> int \<Rightarrow> (string \<Rightarrow> string) \<Rightarrow> int \<Rightarrow> string \<Rightarrow> int \<Rightarrow> int \<Rightarrow> int \<Rightarrow> string \<Rightarrow> formatted_log" where
  "job_trace_slice soft_cap hard_cap conv job_id status byte_offset line_num total_size new_text =
     (if total_size > hard_cap
      then formatted_log_of job_id status byte_offset line_num [] total_size False True
      else
        (let size_warning = (total_size > soft_cap);
             finish = (\<lambda>next_byte_offset text.
               if text = [] then formatted_log_of job_id status next_byte_offset line_num [] total_size size_warning False
               else (let lines = render conv text line_num in
                     formatted_log_of job_id status next_byte_offset (line_num + int (length lines)) lines
                       total_size size_warning False))
         in if new_text \<noteq> [] \<and> \<not> endswith new_text [CHR 0x0A]
            then (case rfind_nl new_text of
                    None \<Rightarrow> formatted_log_of job_id status byte_offset line_num [] total_size size_warning False
                  | Some last_nl \<Rightarrow>
                      (let held_back = int (length new_text) - int (last_nl + 1) in
                       finish (total_size - held_back) (take (last_nl + 1) new_text)))
            else finish total_size new_text))"

definition get_formatted_job_trace ::
  "'s pipeline_repo \<Rightarrow> int \<Rightarrow> int \<Rightarrow> (string \<Rightarrow> string) \<Rightarrow> int \<Rightarrow> int \<Rightarrow> int \<Rightarrow> ('s, formatted_log) io" where
  "get_formatted_job_trace repo soft_cap hard_cap conv job_id byte_offset line_num =
     bindE (pr_trace_range repo job_id byte_offset) (\<lambda>(status, new_text, total_size).
       ret (job_trace_slice soft_cap hard_cap conv job_id status byte_offset line_num total_size new_text))"

definition get_pipeline :: "'s pipeline_repo \<Rightarrow> int \<Rightarrow> ('s, pipeline_data) io" where
  "get_pipeline repo pipeline_id = pr_get repo pipeline_id"

definition cancel_pipeline :: "'s pipeline_repo \<Rightarrow> int \<Rightarrow> ('s, pipeline_data) io" where
  "cancel_pipeline repo pipeline_id = pr_cancel repo pipeline_id"

definition retry_pipeline :: "'s pipeline_repo \<Rightarrow> int \<Rightarrow> ('s, pipeline_data) io" where
  "retry_pipeline repo pipeline_id = pr_retry repo pipeline_id"

definition get_job_web_url :: "'s pipeline_repo \<Rightarrow> int \<Rightarrow> ('s, string) io" where
  "get_job_web_url repo job_id = pr_job_web_url repo job_id"

section \<open>Endpoints\<close>

text \<open>\<^verbatim>\<open>POST /deploy/stage\<close>: the account is put in front of the variables of the body.\<close>

definition stage_variables :: "string \<Rightarrow> pipeline_variable list \<Rightarrow> pipeline_variable list" where
  "stage_variables account body = \<lparr>pv_key = ''SERVICE_FROM'', pv_value = account\<rparr> # body"

definition trigger_endpoint ::
  "'s pipeline_repo \<Rightarrow> string \<Rightarrow> string \<Rightarrow> string \<Rightarrow> pipeline_variable list \<Rightarrow> ('s, pipeline_data) io" where
  "trigger_endpoint repo account action ref body = trigger_pipeline repo action ref (stage_variables account body)"

definition check_running_endpoint ::
  "'s pipeline_repo \<Rightarrow> string \<Rightarrow> string \<Rightarrow> pipeline_variable list \<Rightarrow> ('s, running_pipelines) io" where
  "check_running_endpoint repo action ref body = find_duplicate_pipelines repo action ref body"

text \<open>\<^verbatim>\<open>GitlabAuthRepository.get_token_by_project_id\<close>; \<open>str\<close> of a JSON value, and a missing file is an empty list.\<close>

fun get_token_by_project_id :: "(string \<times> json) list list \<Rightarrow> int \<Rightarrow> json option" where
  "get_token_by_project_id [] pid = None"
| "get_token_by_project_id (r # rs) pid =
     (if (case map_of r ''project_id'' of None \<Rightarrow> [] | Some j \<Rightarrow> stringify j) = int_str pid
      then map_of r ''token'' else get_token_by_project_id rs pid)"

definition chosen_project :: "int option \<Rightarrow> int \<Rightarrow> int" where
  "chosen_project project_id default_id =
     (case project_id of None \<Rightarrow> default_id | Some i \<Rightarrow> if i = 0 then default_id else i)"

definition chosen_token :: "(string \<times> json) list list \<Rightarrow> int option \<Rightarrow> int \<Rightarrow> json \<Rightarrow> json" where
  "chosen_token auth project_id default_id default_token =
     (case project_id of
        None \<Rightarrow> default_token
      | Some i \<Rightarrow> if i \<noteq> 0 \<and> i \<noteq> default_id
          then (case get_token_by_project_id auth i of
                  Some t \<Rightarrow> if t = JNull \<or> t = JStr [] then default_token else t
                | None \<Rightarrow> default_token)
          else default_token)"

section \<open>Lemmas\<close>

text \<open>A list of variables as a dictionary: the last one of a key counts.\<close>

definition vars_map :: "pipeline_variable list \<Rightarrow> string \<Rightarrow> string option" where
  "vars_map vs = map_of (rev (map (\<lambda>v. (pv_key v, pv_value v)) vs))"

lemma vars_map_simps [simp]:
  "vars_map [] k = None"
  "vars_map (v # vs) k = (case vars_map vs k of Some x \<Rightarrow> Some x | None \<Rightarrow> if pv_key v = k then Some (pv_value v) else None)"
  by (auto simp: vars_map_def map_add_def split: option.splits)

lemma fold_alist_set:
  "map_of (fold (\<lambda>v d. if P v then alist_set (pv_key v) (pv_value v) d else d) vs d) k
   = (case vars_map (filter P vs) k of Some x \<Rightarrow> Some x | None \<Rightarrow> map_of d k)"
  by (induction vs arbitrary: d) (auto split: option.splits)

lemma build_variables_lookup:
  "map_of (build_variables action vs) k
   = (case vars_map vs k of Some x \<Rightarrow> Some x | None \<Rightarrow> if k = ''EXECUTION'' then Some action else None)"
  using fold_alist_set [of "\<lambda>_. True" vs "[(''EXECUTION'', action)]" k]
  by (auto simp: build_variables_def split: option.splits)

lemma dict_eq_iff: "dict_eq a b \<longleftrightarrow> map_of a = map_of b"
proof
  assume *: "dict_eq a b"
  show "map_of a = map_of b"
  proof
    fix k
    show "map_of a k = map_of b k"
    proof (cases "map_of a k")
      case None
      show ?thesis
      proof (cases "map_of b k")
        case (Some v)
        with * have "(k, v) \<in> set b" by (simp add: map_of_SomeD)
        with * show ?thesis by (auto simp: dict_eq_def list_all_iff)
      qed (simp add: None)
    next
      case (Some v)
      then have "(k, v) \<in> set a" by (simp add: map_of_SomeD)
      with * show ?thesis by (auto simp: dict_eq_def list_all_iff)
    qed
  qed
qed (auto simp: dict_eq_def list_all_iff)

lemma vars_map_filter: "vars_map (filter (\<lambda>v. pv_key v \<notin> X) vs) k = (if k \<in> X then None else vars_map vs k)"
  by (induction vs) (auto split: option.splits)

lemma map_of_filter_keys: "map_of (filter (\<lambda>(k, v). k \<notin> X) xs) k = (if k \<in> X then None else map_of xs k)"
  by (induction xs) auto

text \<open>What the trigger asks for, apart from the caller.\<close>

definition wanted :: "string \<Rightarrow> pipeline_variable list \<Rightarrow> string \<Rightarrow> string option" where
  "wanted action body k = (case vars_map body k of Some x \<Rightarrow> Some x | None \<Rightarrow> if k = ''EXECUTION'' then Some action else None)"

lemma variables_match_iff:
  "variables_match p (build_variables action vs)
   \<longleftrightarrow> (\<forall>k. k \<noteq> ''SERVICE_FROM'' \<longrightarrow> vars_map (pd_variables p) k = wanted action vs k)"
proof -
  have actual: "map_of (fold (\<lambda>v d. if pv_key v \<notin> set EXCLUDE_FROM_MATCH then alist_set (pv_key v) (pv_value v) d else d) vs' []) k
      = (if k = ''SERVICE_FROM'' then None else vars_map vs' k)" for k vs'
    unfolding fold_alist_set vars_map_filter by (simp add: EXCLUDE_FROM_MATCH_def split: option.splits)
  have expected: "map_of (filter (\<lambda>(k, v). k \<notin> set EXCLUDE_FROM_MATCH) (build_variables action vs)) k
      = (if k = ''SERVICE_FROM'' then None else wanted action vs k)" for k
    unfolding map_of_filter_keys build_variables_lookup wanted_def by (simp add: EXCLUDE_FROM_MATCH_def)
  show ?thesis unfolding variables_match_def Let_def dict_eq_iff fun_eq_iff actual expected by auto
qed

definition same_request :: "string \<Rightarrow> pipeline_variable list \<Rightarrow> pipeline_data \<Rightarrow> bool" where
  "same_request action body p \<longleftrightarrow> (\<forall>k. k \<noteq> ''SERVICE_FROM'' \<longrightarrow> vars_map (pd_variables p) k = wanted action body k)"

lemma wanted_stage: "k \<noteq> ''SERVICE_FROM'' \<Longrightarrow> wanted action (stage_variables account body) k = wanted action body k"
  by (simp add: wanted_def stage_variables_def split: option.splits)

definition same_slice :: "formatted_log \<Rightarrow> trace_response \<Rightarrow> bool" where
  "same_slice a b \<longleftrightarrow> fl_lines a = tr_lines b \<and> fl_next_byte_offset a = tr_next_byte_offset b
    \<and> fl_next_line_num a = tr_next_line_num b \<and> fl_total_size a = tr_total_size b
    \<and> fl_size_warning a = tr_size_warning b \<and> fl_too_large a = tr_too_large b"

lemma slices_agree:
  "same_slice (job_trace_slice (COMMAND_LOG_SOFT_CAP_BYTES cfg) (COMMAND_LOG_HARD_CAP_BYTES cfg) conv job status off num tot text)
     (trace_slice cfg conv st off num tot text)"
  unfolding same_slice_def
  by (auto simp: job_trace_slice_def trace_slice_def Let_def formatted_log_of_def trace_response_of_def split: option.splits)

section \<open>Properties\<close>

text \<open>
  Property C38. The duplicate guard of a trigger. When GitLab lists the active pipelines of the branch, the trigger is refused,
  with nothing created, exactly when one of them has, apart from \<^verbatim>\<open>SERVICE_FROM\<close>, the variables that this request
  would set, whoever started it and in whatever order; otherwise exactly one pipeline is requested, on that branch, whose
  variables are those of the body and the account. The answer of \<^verbatim>\<open>check-running\<close> for the same body predicts which.
\<close>

theorem duplicate_guard:
  assumes "pr_list_running repo ref s = (Inr running, s')"
  shows "((\<exists>p \<in> set running. same_request action body p) \<longrightarrow>
        (\<exists>m. trigger_endpoint repo account action ref body s = (Inl (AppExc Conflict m), s')))
    \<and> (\<not> (\<exists>p \<in> set running. same_request action body p) \<longrightarrow>
        trigger_endpoint repo account action ref body s
          = pr_trigger repo ref (build_variables action (stage_variables account body)) s')
    \<and> (\<exists>d. check_running_endpoint repo action ref body s = (Inr d, s')
         \<and> rp_has_running d = (\<exists>p \<in> set running. same_request action body p) \<and> rp_count d = length (rp_pipelines d)
         \<and> set (rp_pipelines d) = {p \<in> set running. same_request action body p})"
proof -
  have m: "variables_match p (build_variables action (stage_variables account body)) = same_request action body p"
    "variables_match p (build_variables action body) = same_request action body p" for p account
    unfolding variables_match_iff same_request_def using wanted_stage by auto
  show ?thesis
    by (auto simp: trigger_endpoint_def trigger_pipeline_def check_running_endpoint_def find_duplicate_pipelines_def io_run
        assms(1) m Let_def filter_empty_conv)
qed

definition demo_pipeline :: "int \<Rightarrow> pipeline_variable list \<Rightarrow> pipeline_data" where
  "demo_pipeline i vars = \<lparr>pd_id = i, pd_status = ''running'', pd_created_at = None, pd_updated_at = None, pd_started_at = None,
     pd_finished_at = None, pd_tag_list = [], pd_variables = vars, pd_jobs = [], pd_downstream = [], pd_ref_name = ''main'',
     pd_web_url = []\<rparr>"

definition demo_repo :: "nat pipeline_repo" where
  "demo_repo = \<lparr>pr_trigger = (\<lambda>ref vars n. (Inr (demo_pipeline 8 []), Suc n)), pr_get = (\<lambda>i. ret (demo_pipeline i [])),
     pr_cancel = (\<lambda>i. ret (demo_pipeline i [])), pr_retry = (\<lambda>i. ret (demo_pipeline i [])),
     pr_list_running = (\<lambda>ref. ret [demo_pipeline 7 [\<lparr>pv_key = ''SERVICE_FROM'', pv_value = ''bob''\<rparr>,
        \<lparr>pv_key = ''EXECUTION'', pv_value = ''go''\<rparr>]]),
     pr_job_web_url = (\<lambda>_. ret []), pr_trace_range = (\<lambda>_ _. ret ([], [], 0))\<rparr>"

lemma duplicate_guard_witness:
  "\<exists>m. trigger_endpoint demo_repo ''alice'' ''go'' ''main'' [] 0 = (Inl (AppExc Conflict m), 0)"
proof -
  let ?p = "demo_pipeline 7 [\<lparr>pv_key = ''SERVICE_FROM'', pv_value = ''bob''\<rparr>, \<lparr>pv_key = ''EXECUTION'', pv_value = ''go''\<rparr>]"
  have l: "pr_list_running demo_repo ''main'' (0::nat) = (Inr [?p], 0)" by (simp add: demo_repo_def io_run)
  have "same_request ''go'' [] ?p" by (simp add: same_request_def demo_pipeline_def wanted_def)
  with duplicate_guard [OF l, of "''go''" "[]" "''alice''"] show ?thesis by simp
qed

text \<open>
  The action is not protected. A body variable named \<^verbatim>\<open>EXECUTION\<close> replaces the action of the query in the
  variables of the pipeline (the last one, if there are several), and one named \<^verbatim>\<open>SERVICE_FROM\<close> the account; every other
  variable of the body is passed on, and nothing else is set.
\<close>

theorem execution_overridden:
  "map_of (build_variables action (stage_variables account body)) k =
     (case vars_map body k of
        Some v \<Rightarrow> Some v
      | None \<Rightarrow> if k = ''SERVICE_FROM'' then Some account else if k = ''EXECUTION'' then Some action else None)"
  unfolding build_variables_lookup by (auto simp: stage_variables_def split: option.splits)

end
