(* ===== verification/Gitlab.thy ===== *)
theory Gitlab
  imports Deploy
begin

text \<open>
  The implementations of the pipeline repository: \<^verbatim>\<open>app/repositories/gitlab_pipeline_repository.py\<close> over the
  python-gitlab SDK (a record of its calls, each on an external state), the Redis cache of finished traces of
  \<^verbatim>\<open>trace_cache_repository.py\<close>, and \<^verbatim>\<open>dry_run_pipeline_repository.py\<close>. Bytes are lists of \<open>char\<close>; the
  decoding of UTF-8 with replacement, whose results may lie outside Latin-1, is a parameter.
\<close>

section \<open>The SDK\<close>

text \<open>The classes an \<^verbatim>\<open>except\<close> clause names; \<open>NotGitlab\<close> is an exception that is no \<^verbatim>\<open>GitlabError\<close>.\<close>

datatype gl_error = GlAuth string | GlGet string | GlCreate string | GlOther string | NotGitlab exn

type_synonym ('e, 'a) gl = "'e \<Rightarrow> (gl_error + 'a) \<times> 'e"

record gl_pipeline =
  gp_id :: int
  gp_status :: string
  gp_created_at :: "string option"
  gp_updated_at :: "string option"
  gp_started_at :: "string option"
  gp_finished_at :: "string option"
  gp_ref :: string
  gp_web_url :: string

record gl_job =
  gj_id :: int
  gj_name :: string
  gj_status :: string
  gj_tags :: "string list"

text \<open>A bridge without downstream pipeline, or with one, which may lack a field the code indexes (\<open>Some None\<close>).\<close>

record gl_bridge =
  gb_name :: string
  gb_downstream :: "downstream_ref option option"

record 'e gitlab =
  gl_get_project :: "('e, unit) gl"
  gl_create :: "string \<Rightarrow> (string \<times> string) list \<Rightarrow> ('e, gl_pipeline) gl"
  gl_get :: "int \<Rightarrow> ('e, gl_pipeline) gl"
  gl_cancel :: "int \<Rightarrow> ('e, unit) gl"
  gl_retry :: "int \<Rightarrow> ('e, unit) gl"
  gl_list :: "string \<Rightarrow> string \<Rightarrow> nat \<Rightarrow> ('e, gl_pipeline list) gl"
  gl_variables :: "int \<Rightarrow> ('e, pipeline_variable list) gl"
  gl_jobs :: "int \<Rightarrow> ('e, gl_job list) gl"
  gl_bridges :: "int \<Rightarrow> ('e, gl_bridge list) gl"
  gl_job_status :: "int \<Rightarrow> ('e, string) gl"
  gl_job_web_url :: "int \<Rightarrow> ('e, string) gl"
  gl_trace :: "int \<Rightarrow> ('e, string) gl"

fun raw_exn :: "gl_error \<Rightarrow> exn" where
  "raw_exn (NotGitlab e) = e"
| "raw_exn (GlAuth m) = PyOther m"
| "raw_exn (GlGet m) = PyOther m"
| "raw_exn (GlCreate m) = PyOther m"
| "raw_exn (GlOther m) = PyOther m"

fun is_gl :: "gl_error \<Rightarrow> bool" where
  "is_gl (NotGitlab e) = False"
| "is_gl _ = True"

fun gl_text :: "gl_error \<Rightarrow> string" where
  "gl_text (NotGitlab e) = exn_str e"
| "gl_text (GlAuth m) = m"
| "gl_text (GlGet m) = m"
| "gl_text (GlCreate m) = m"
| "gl_text (GlOther m) = m"

text \<open>\<^verbatim>\<open>try: m; except ...: raise ... from exc\<close>, and \<^verbatim>\<open>except ...: return default\<close>.\<close>

definition try_gl :: "('e, 'a) gl \<Rightarrow> (gl_error \<Rightarrow> exn) \<Rightarrow> ('e, 'a) io" where
  "try_gl m h = (\<lambda>s. case m s of (Inl e, s') \<Rightarrow> (Inl (h e), s') | (Inr x, s') \<Rightarrow> (Inr x, s'))"

definition else_gl :: "('e, 'a) gl \<Rightarrow> 'a \<Rightarrow> ('e, 'a) io" where
  "else_gl m d = (\<lambda>s. case m s of
     (Inl e, s') \<Rightarrow> (if is_gl e then (Inr d, s') else (Inl (raw_exn e), s')) | (Inr x, s') \<Rightarrow> (Inr x, s'))"

definition bindG :: "('e, 'a) gl \<Rightarrow> ('a \<Rightarrow> ('e, 'b) gl) \<Rightarrow> ('e, 'b) gl" where
  "bindG m f = (\<lambda>s. case m s of (Inl e, s') \<Rightarrow> (Inl e, s') | (Inr x, s') \<Rightarrow> f x s')"

text \<open>Which errors become a \<^verbatim>\<open>GitlabOperationException\<close>; the others pass.\<close>

definition operation_error :: "(gl_error \<Rightarrow> bool) \<Rightarrow> string \<Rightarrow> gl_error \<Rightarrow> exn" where
  "operation_error caught msg e = (if caught e then AppExc GitlabOperation msg else raw_exn e)"

definition get_error :: "string \<Rightarrow> string \<Rightarrow> gl_error \<Rightarrow> exn" where
  "get_error missing failed e = (case e of
     GlGet m \<Rightarrow> if contains ''404'' m then AppExc NotFound missing else AppExc GitlabOperation failed
   | _ \<Rightarrow> raw_exn e)"

section \<open>The repository\<close>

definition ACTIVE_STATUSES :: "string list" where
  "ACTIVE_STATUSES = [''created'', ''waiting_for_resource'', ''preparing'', ''pending'', ''running'']"

definition TERMINAL_JOB_STATUSES :: "string list" where
  "TERMINAL_JOB_STATUSES = [''success'', ''failed'', ''canceled'', ''skipped'']"

definition get_project :: "'e gitlab \<Rightarrow> int \<Rightarrow> ('e, unit) io" where
  "get_project gl pid = try_gl (gl_get_project gl) (\<lambda>e. case e of
     GlAuth m \<Rightarrow> AppExc GitlabOperation ''GitLab authentication failed - GITLAB_TOKEN is invalid or expired.''
   | GlGet m \<Rightarrow> AppExc GitlabOperation (''GitLab project '' @ int_str pid @ '' not accessible.'')
   | _ \<Rightarrow> raw_exn e)"

definition to_pipeline_data_minimal :: "gl_pipeline \<Rightarrow> pipeline_data" where
  "to_pipeline_data_minimal p = \<lparr>pd_id = gp_id p, pd_status = gp_status p, pd_created_at = gp_created_at p,
     pd_updated_at = gp_updated_at p, pd_started_at = gp_started_at p, pd_finished_at = gp_finished_at p,
     pd_tag_list = [], pd_variables = [], pd_jobs = [], pd_downstream = [], pd_ref_name = gp_ref p,
     pd_web_url = gp_web_url p\<rparr>"

text \<open>\<^verbatim>\<open>sorted(tags)\<close> of a set.\<close>

fun string_less_eq :: "string \<Rightarrow> string \<Rightarrow> bool" where
  "string_less_eq [] t = True"
| "string_less_eq (c # s) [] = False"
| "string_less_eq (c # s) (d # t) =
     ((of_char c :: nat) < of_char d \<or> c = d \<and> string_less_eq s t)"

fun insert_tag :: "string \<Rightarrow> string list \<Rightarrow> string list" where
  "insert_tag t [] = [t]"
| "insert_tag t (x # xs) = (if t = x then x # xs else if string_less_eq t x then t # x # xs else x # insert_tag t xs)"

definition sorted_tags :: "string list \<Rightarrow> string list" where
  "sorted_tags ts = fold insert_tag ts []"

definition collect_jobs_and_tags :: "'e gitlab \<Rightarrow> int \<Rightarrow> ('e, job_data list \<times> string list) io" where
  "collect_jobs_and_tags gl pid =
     bindE (else_gl (gl_jobs gl pid) []) (\<lambda>raw.
       ret (map (\<lambda>j. \<lparr>jd_id = gj_id j, jd_name = gj_name j, jd_status = gj_status j\<rparr>) raw,
            sorted_tags (concat (map gj_tags raw))))"

definition collect_variables :: "'e gitlab \<Rightarrow> int \<Rightarrow> ('e, pipeline_variable list) io" where
  "collect_variables gl pid = else_gl (gl_variables gl pid) []"

fun downstream_refs :: "gl_bridge list \<Rightarrow> downstream_ref list option" where
  "downstream_refs [] = Some []"
| "downstream_refs (b # bs) = (case gb_downstream b of
     None \<Rightarrow> downstream_refs bs
   | Some None \<Rightarrow> None
   | Some (Some d) \<Rightarrow> (case downstream_refs bs of None \<Rightarrow> None
       | Some ds \<Rightarrow> Some (d\<lparr>dr_bridge_name := gb_name b\<rparr> # ds)))"

definition collect_downstream_pipelines :: "'e gitlab \<Rightarrow> int \<Rightarrow> ('e, downstream_ref list) io" where
  "collect_downstream_pipelines gl pid =
     bindE (else_gl (gl_bridges gl pid) []) (\<lambda>bs. ret (case downstream_refs bs of None \<Rightarrow> [] | Some ds \<Rightarrow> ds))"

definition to_pipeline_data :: "'e gitlab \<Rightarrow> gl_pipeline \<Rightarrow> ('e, pipeline_data) io" where
  "to_pipeline_data gl p =
     bindE (collect_jobs_and_tags gl (gp_id p)) (\<lambda>(jobs, tags).
     bindE (collect_variables gl (gp_id p)) (\<lambda>vars.
     bindE (collect_downstream_pipelines gl (gp_id p)) (\<lambda>down.
       ret ((to_pipeline_data_minimal p)\<lparr>pd_tag_list := tags, pd_variables := vars, pd_jobs := jobs,
              pd_downstream := down\<rparr>))))"

definition gitlab_trigger :: "'e gitlab \<Rightarrow> int \<Rightarrow> string \<Rightarrow> (string \<times> string) list \<Rightarrow> ('e, pipeline_data) io" where
  "gitlab_trigger gl pid ref variables =
     thenE (get_project gl pid)
       (bindE (try_gl (gl_create gl ref variables)
                 (operation_error (\<lambda>e. case e of GlCreate m \<Rightarrow> True | _ \<Rightarrow> False) ''Failed to trigger GitLab pipeline.''))
          (\<lambda>p. ret (to_pipeline_data_minimal p)))"

definition gitlab_get :: "'e gitlab \<Rightarrow> int \<Rightarrow> int \<Rightarrow> ('e, pipeline_data) io" where
  "gitlab_get gl pid i =
     thenE (get_project gl pid)
       (bindE (try_gl (gl_get gl i) (get_error (''Pipeline '' @ int_str i @ '' not found.'')
                                        (''Failed to fetch pipeline '' @ int_str i @ ''.'')))
          (to_pipeline_data gl))"

text \<open>Cancel and retry: act on the pipeline, then read it again.\<close>

definition gitlab_act :: "'e gitlab \<Rightarrow> int \<Rightarrow> (int \<Rightarrow> ('e, unit) gl) \<Rightarrow> string \<Rightarrow> int \<Rightarrow> ('e, pipeline_data) io" where
  "gitlab_act gl pid act verb i =
     thenE (get_project gl pid)
       (bindE (try_gl (bindG (gl_get gl i) (\<lambda>_. bindG (act i) (\<lambda>_. gl_get gl i)))
                 (operation_error is_gl (''Failed to '' @ verb @ '' pipeline '' @ int_str i @ ''.'')))
          (\<lambda>p. ret (to_pipeline_data_minimal p)))"

definition PER_PAGE :: nat where "PER_PAGE = 50"

fun list_page :: "'e gitlab \<Rightarrow> gl_pipeline list \<Rightarrow> pipeline_data list \<Rightarrow> ('e, pipeline_data list) io" where
  "list_page gl [] result = ret result"
| "list_page gl (p # ps) result =
     (if gp_id p \<in> set (map pd_id result) then list_page gl ps result
      else bindE (else_gl (bindG (gl_get gl (gp_id p)) (\<lambda>_. gl_variables gl (gp_id p))) []) (\<lambda>variables.
             list_page gl ps (result @ [(to_pipeline_data_minimal p)\<lparr>pd_variables := variables\<rparr>])))"

fun list_statuses :: "'e gitlab \<Rightarrow> string \<Rightarrow> string list \<Rightarrow> pipeline_data list \<Rightarrow> ('e, pipeline_data list) io" where
  "list_statuses gl ref [] result = ret result"
| "list_statuses gl ref (st # sts) result =
     bindE (try_gl (gl_list gl st ref PER_PAGE)
              (operation_error is_gl (''Failed to list running pipelines on ref='' @ squoted ref @ ''.''))) (\<lambda>page.
     bindE (list_page gl page result) (list_statuses gl ref sts))"

definition gitlab_list_running :: "'e gitlab \<Rightarrow> int \<Rightarrow> string \<Rightarrow> ('e, pipeline_data list) io" where
  "gitlab_list_running gl pid ref = thenE (get_project gl pid) (list_statuses gl ref ACTIVE_STATUSES [])"

definition gitlab_job_web_url :: "'e gitlab \<Rightarrow> int \<Rightarrow> int \<Rightarrow> ('e, string) io" where
  "gitlab_job_web_url gl pid job =
     thenE (get_project gl pid)
       (try_gl (gl_job_web_url gl job) (\<lambda>e.
          case get_error (''Job '' @ int_str job @ '' not found.'') (''Failed to fetch web URL for job '' @ int_str job @ ''.'') e of
            AppExc k m \<Rightarrow> AppExc k m
          | x \<Rightarrow> operation_error is_gl (''Failed to fetch web URL for job '' @ int_str job @ ''.'') e))"

section \<open>The cache of finished traces\<close>

record 'e trace_redis =
  bin_get :: "string \<Rightarrow> ('e, string option) io"
  bin_setex :: "string \<Rightarrow> int \<Rightarrow> string \<Rightarrow> ('e, unit) io"
  gz_compress :: "string \<Rightarrow> string"
  gz_decompress :: "string \<Rightarrow> exn + string"

definition cache_key :: "int \<Rightarrow> int \<Rightarrow> string" where
  "cache_key pid job = ''gitlab:trace:'' @ int_str pid @ '':'' @ int_str job"

text \<open>\<^verbatim>\<open>errors="replace"\<close>: encoding gives a question mark; so does decoding here (U+FFFD in Python), for foreign
  blobs only.\<close>

definition ascii_replace :: "string \<Rightarrow> string" where
  "ascii_replace s = map (\<lambda>c. if (of_char c :: nat) < 128 then c else CHR ''?'') s"

definition parse_payload :: "string \<Rightarrow> (string \<times> string) option" where
  "parse_payload d = (if CHR 0x0A \<in> set d
     then Some (ascii_replace (takeWhile (\<lambda>c. c \<noteq> CHR 0x0A) d), tl (dropWhile (\<lambda>c. c \<noteq> CHR 0x0A) d)) else None)"

fun is_os_error :: "exn \<Rightarrow> bool" where
  "is_os_error (PyOSError m) = True"
| "is_os_error PyTimeoutError = True"
| "is_os_error _ = False"

definition cache_get :: "'e trace_redis \<Rightarrow> int \<Rightarrow> int \<Rightarrow> ('e, (string \<times> string) option) io" where
  "cache_get tr pid job =
     bindE (bin_get tr (cache_key pid job)) (\<lambda>blob. case blob of
         None \<Rightarrow> ret None
       | Some b \<Rightarrow> (case gz_decompress tr b of
             Inl e \<Rightarrow> if is_os_error e then ret None else raise e
           | Inr d \<Rightarrow> ret (parse_payload d)))"

definition cache_set :: "'e trace_redis \<Rightarrow> int \<Rightarrow> int \<Rightarrow> string \<Rightarrow> string \<Rightarrow> int \<Rightarrow> ('e, unit) io" where
  "cache_set tr pid job status raw ttl =
     bin_setex tr (cache_key pid job) ttl (gz_compress tr (ascii_replace status @ [CHR 0x0A] @ raw))"

definition gitlab_fetch_trace :: "'e gitlab \<Rightarrow> int \<Rightarrow> int \<Rightarrow> int \<Rightarrow> ('e, string \<times> string) io" where
  "gitlab_fetch_trace gl pid timeout job =
     thenE (get_project gl pid)
       (try_gl (bindG (gl_job_status gl job) (\<lambda>st. bindG (gl_trace gl job) (\<lambda>full. (\<lambda>s. (Inr (st, full), s)))))
          (\<lambda>e. case e of
             NotGitlab PyTimeoutError \<Rightarrow> AppExc UpstreamTimeout
               (''GitLab trace fetch for job '' @ int_str job @ '' exceeded '' @ int_str timeout @ ''s.'')
           | GlGet m \<Rightarrow> get_error (''Job '' @ int_str job @ '' not found.'')
               (''Failed to fetch trace range for job '' @ int_str job @ ''.'') e
           | _ \<Rightarrow> operation_error is_gl (''Failed to fetch trace range for job '' @ int_str job @ ''.'') e))"

definition gitlab_trace_range ::
  "'e gitlab \<Rightarrow> (string \<Rightarrow> string) \<Rightarrow> 'e trace_redis option \<Rightarrow> int \<Rightarrow> int \<Rightarrow> int
   \<Rightarrow> int \<Rightarrow> int \<Rightarrow> ('e, string \<times> string \<times> int) io" where
  "gitlab_trace_range gl decode cache timeout ttl pid job off =
     bindE (case cache of None \<Rightarrow> ret None | Some tr \<Rightarrow> cache_get tr pid job) (\<lambda>cached. case cached of
         Some (status, raw) \<Rightarrow> ret (status, decode (drop (nat off) raw), int (length raw))
       | None \<Rightarrow>
           bindE (gitlab_fetch_trace gl pid timeout job) (\<lambda>(status, full).
           thenE (case cache of
                    None \<Rightarrow> ret ()
                  | Some tr \<Rightarrow>
                      if status \<in> set TERMINAL_JOB_STATUSES \<and> full \<noteq> []
                      then catchE (cache_set tr pid job status full ttl)
                             (\<lambda>e. if is_exception e then ret () else raise e)
                      else ret ())
             (ret (status, decode (drop (nat off) full), int (length full)))))"

definition gitlab_repo ::
  "'e gitlab \<Rightarrow> (string \<Rightarrow> string) \<Rightarrow> 'e trace_redis option \<Rightarrow> int \<Rightarrow> int \<Rightarrow> int \<Rightarrow> 'e pipeline_repo" where
  "gitlab_repo gl decode cache timeout ttl pid = \<lparr>pr_trigger = gitlab_trigger gl pid, pr_get = gitlab_get gl pid,
     pr_cancel = gitlab_act gl pid (gl_cancel gl) ''cancel'', pr_retry = gitlab_act gl pid (gl_retry gl) ''retry'',
     pr_list_running = gitlab_list_running gl pid, pr_job_web_url = gitlab_job_web_url gl pid,
     pr_trace_range = gitlab_trace_range gl decode cache timeout ttl pid\<rparr>"

section \<open>Dry run\<close>

definition dry_pipeline ::
  "string \<Rightarrow> string \<Rightarrow> string \<Rightarrow> (string \<times> string) list \<Rightarrow> int \<Rightarrow> bool \<Rightarrow> pipeline_data" where
  "dry_pipeline now status ref variables i with_jobs = \<lparr>pd_id = i, pd_status = status, pd_created_at = Some now,
     pd_updated_at = Some now, pd_started_at = (if status \<noteq> ''created'' then Some now else None), pd_finished_at = None,
     pd_tag_list = (if with_jobs then [''dry-run''] else []),
     pd_variables = map (\<lambda>(k, v). \<lparr>pv_key = k, pv_value = v\<rparr>) variables,
     pd_jobs = (if with_jobs then [\<lparr>jd_id = 999101, jd_name = ''dry-run-job'', jd_status = status\<rparr>] else []),
     pd_downstream = [], pd_ref_name = (if ref = [] then ''main'' else ref),
     pd_web_url = ''https://dry-run.invalid/pipelines/999001''\<rparr>"

definition dry_trace :: string where
  "dry_trace = ''[dry-run] This is a synthetic job trace.'' @ nl @ ''[dry-run] No GitLab job was executed.'' @ nl"

definition dry_pipeline_repo :: "string \<Rightarrow> 'e pipeline_repo" where
  "dry_pipeline_repo now = \<lparr>
     pr_trigger = (\<lambda>ref vars. ret (dry_pipeline now ''created'' ref vars 999001 False)),
     pr_get = (\<lambda>i. ret (dry_pipeline now ''running'' [] [] i True)),
     pr_cancel = (\<lambda>i. ret (dry_pipeline now ''canceled'' [] [] i False)),
     pr_retry = (\<lambda>i. ret (dry_pipeline now ''pending'' [] [] i False)),
     pr_list_running = (\<lambda>ref. ret []),
     pr_job_web_url = (\<lambda>job. ret (''https://dry-run.invalid/jobs/'' @ int_str job)),
     pr_trace_range = (\<lambda>job off. let tot = int (length dry_trace) in
       ret (if off \<ge> tot then (''success'', [], tot) else (''success'', drop (nat off) dry_trace, tot)))\<rparr>"

text \<open>\<^verbatim>\<open>_get_deploy_service\<close>: the repository of a request; \<open>sdk\<close> makes the client for a token and a project.\<close>

definition deploy_repo ::
  "bool \<Rightarrow> string \<Rightarrow> (json \<Rightarrow> int \<Rightarrow> 'e gitlab) \<Rightarrow> (string \<Rightarrow> string) \<Rightarrow> int \<Rightarrow> int \<Rightarrow> (string \<times> json) list list
   \<Rightarrow> int \<Rightarrow> json \<Rightarrow> 'e trace_redis option \<Rightarrow> int option \<Rightarrow> 'e pipeline_repo" where
  "deploy_repo dry_run_mode now sdk decode timeout ttl auth default_id default_token cache project_id =
     (if dry_run_mode then dry_pipeline_repo now
      else (let pid = chosen_project project_id default_id
            in gitlab_repo (sdk (chosen_token auth project_id default_id default_token) pid) decode cache timeout ttl pid))"

section \<open>What every repository promises about a trace\<close>

text \<open>An answer is the decoded rest of some log, with the size of that log.\<close>

locale trace_source =
  fixes repo :: "'s pipeline_repo" and decode :: "string \<Rightarrow> string"
  assumes suffix: "0 \<le> off \<Longrightarrow> pr_trace_range repo job off s = (Inr (status, tail, tot), s') \<Longrightarrow>
    \<exists>raw. tail = decode (drop (nat off) raw) \<and> tot = int (length raw)"
begin

lemma poll:
  assumes "0 \<le> off" "get_formatted_job_trace repo soft hard conv job off num s = (Inr resp, s')"
  shows "\<exists>raw status. resp = job_trace_slice soft hard conv job status off num (int (length raw)) (decode (drop (nat off) raw))"
proof -
  from assms(2) obtain status tail tot where
    t: "pr_trace_range repo job off s = (Inr (status, tail, tot), s')"
      "resp = job_trace_slice soft hard conv job status off num tot tail"
    by (auto simp: get_formatted_job_trace_def io_run split: prod.splits sum.splits)
  from suffix [OF assms(1) t(1)] t(2) show ?thesis by blast
qed

end

lemma gitlab_suffix:
  "gitlab_trace_range gl decode cache timeout ttl pid job off s = (Inr (status, tail, tot), s') \<Longrightarrow>
    \<exists>raw. tail = decode (drop (nat off) raw) \<and> tot = int (length raw)"
  by (auto simp: gitlab_trace_range_def io_run split: prod.splits sum.splits option.splits)

interpretation gitlab_source: trace_source "gitlab_repo gl decode cache timeout ttl pid" decode
  for gl decode cache timeout ttl pid
  by unfold_locales (simp add: gitlab_repo_def gitlab_suffix)

interpretation dry_source: trace_source "dry_pipeline_repo now" "\<lambda>s. s" for now
proof unfold_locales
  fix off :: int and job :: int and s s' :: 'a and status tail :: string and tot :: int
  assume "0 \<le> off" and run: "pr_trace_range (dry_pipeline_repo now) job off s = (Inr (status, tail, tot), s')"
  then have "tail = drop (nat off) dry_trace \<and> tot = int (length dry_trace)"
    by (auto simp: dry_pipeline_repo_def Let_def io_run split: if_splits)
  then show "\<exists>raw. tail = drop (nat off) raw \<and> tot = int (length raw)" by blast
qed

section \<open>Lemmas\<close>

lemma ascii_replace_terminal:
  "status \<in> set TERMINAL_JOB_STATUSES \<Longrightarrow> ascii_replace status = status \<and> CHR 0x0A \<notin> set status"
  by (auto simp: TERMINAL_JOB_STATUSES_def ascii_replace_def)

lemma parse_payload_of:
  assumes "CHR 0x0A \<notin> set status" "ascii_replace status = status"
  shows "parse_payload (status @ [CHR 0x0A] @ raw) = Some (status, raw)"
proof -
  have "takeWhile (\<lambda>c. c \<noteq> CHR 0x0A) (status @ [CHR 0x0A] @ raw) = status"
    "dropWhile (\<lambda>c. c \<noteq> CHR 0x0A) (status @ [CHR 0x0A] @ raw) = CHR 0x0A # raw"
    using assms(1) by (induction status) auto
  with assms(2) show ?thesis by (simp add: parse_payload_def)
qed

text \<open>What the code relies on of gzip and of Redis: decompression undoes compression, and a value set with a positive
  expiry is read back.\<close>

definition trace_redis_ok :: "'e trace_redis \<Rightarrow> bool" where
  "trace_redis_ok tr \<longleftrightarrow> (\<forall>d. gz_decompress tr (gz_compress tr d) = Inr d)
    \<and> (\<forall>k ttl d s. 0 < ttl \<longrightarrow> (\<exists>s'. bin_setex tr k ttl d s = (Inr (), s') \<and> bin_get tr k s' = (Inr (Some d), s')))"

lemma cache_roundtrip:
  assumes "trace_redis_ok tr" "0 < ttl" "CHR 0x0A \<notin> set status" "ascii_replace status = status"
  obtains s' where "cache_set tr pid job status raw ttl s = (Inr (), s')"
    "cache_get tr pid job s' = (Inr (Some (status, raw)), s')"
proof -
  obtain s' where "bin_setex tr (cache_key pid job) ttl (gz_compress tr (status @ [CHR 0x0A] @ raw)) s = (Inr (), s')"
      "bin_get tr (cache_key pid job) s' = (Inr (Some (gz_compress tr (status @ [CHR 0x0A] @ raw))), s')"
    using assms(1,2) unfolding trace_redis_ok_def by blast
  moreover have "gz_decompress tr (gz_compress tr d) = Inr d" for d using assms(1) by (simp add: trace_redis_ok_def)
  ultimately have "cache_set tr pid job status raw ttl s = (Inr (), s')" "cache_get tr pid job s' = (Inr (Some (status, raw)), s')"
    using parse_payload_of [OF assms(3,4), of raw] by (simp_all add: cache_set_def cache_get_def io_run assms(4))
  then show thesis by (rule that)
qed

section \<open>Properties\<close>

text \<open>
  Property C39. The cache of finished traces. When a poll that finds nothing in the cache fetches a non-empty trace of a finished job, the
  trace is stored, and from then on every poll of that job, from any offset, is answered with exactly what GitLab
  had given, cut at that offset, without any request to GitLab and without changing anything.
\<close>

theorem cached_trace_transparent:
  assumes "trace_redis_ok tr" and "0 < ttl"
    and "cache_get tr pid job s = (Inr None, s0)" and "gitlab_fetch_trace gl pid timeout job s0 = (Inr (status, full), s1)"
    and "status \<in> set TERMINAL_JOB_STATUSES" and "full \<noteq> []"
  shows "\<exists>s2. gitlab_trace_range gl decode (Some tr) timeout ttl pid job off s
        = (Inr (status, decode (drop (nat off) full), int (length full)), s2)
    \<and> (\<forall>gl' timeout' off'. gitlab_trace_range gl' decode (Some tr) timeout' ttl pid job off' s2
        = (Inr (status, decode (drop (nat off') full), int (length full)), s2))"
proof -
  from ascii_replace_terminal [OF assms(5)] have st: "CHR 0x0A \<notin> set status" "ascii_replace status = status" by simp_all
  obtain s2 where set2: "cache_set tr pid job status full ttl s1 = (Inr (), s2)"
    and get2: "cache_get tr pid job s2 = (Inr (Some (status, full)), s2)"
    by (rule cache_roundtrip [OF assms(1,2) st])
  have "gitlab_trace_range gl decode (Some tr) timeout ttl pid job off s
        = (Inr (status, decode (drop (nat off) full), int (length full)), s2)"
    by (simp add: gitlab_trace_range_def bindE_run thenE_run catchE_run ret_run assms(3-6) set2)
  moreover have "gitlab_trace_range gl' decode (Some tr) timeout' ttl pid job off' s2
        = (Inr (status, decode (drop (nat off') full), int (length full)), s2)" for gl' timeout' off'
    by (simp add: gitlab_trace_range_def bindE_run ret_run get2)
  ultimately show ?thesis by blast
qed

definition demo_gitlab :: "'e gitlab" where
  "demo_gitlab = \<lparr>gl_get_project = (\<lambda>s. (Inr (), s)), gl_create = (\<lambda>_ _ s. (Inl (GlCreate []), s)),
     gl_get = (\<lambda>_ s. (Inl (GlGet ''404''), s)), gl_cancel = (\<lambda>_ s. (Inr (), s)), gl_retry = (\<lambda>_ s. (Inr (), s)),
     gl_list = (\<lambda>_ _ _ s. (Inr [], s)), gl_variables = (\<lambda>_ s. (Inr [], s)), gl_jobs = (\<lambda>_ s. (Inr [], s)),
     gl_bridges = (\<lambda>_ s. (Inr [], s)), gl_job_status = (\<lambda>_ s. (Inr ''success'', s)),
     gl_job_web_url = (\<lambda>_ s. (Inr [], s)), gl_trace = (\<lambda>_ s. (Inr ''done'', s))\<rparr>"

definition demo_trace_redis :: "(string \<times> string) list trace_redis" where
  "demo_trace_redis = \<lparr>bin_get = (\<lambda>k s. (Inr (map_of s k), s)), bin_setex = (\<lambda>k ttl d s. (Inr (), (k, d) # s)),
     gz_compress = (\<lambda>d. d), gz_decompress = Inr\<rparr>"

lemma cached_trace_transparent_witness:
  "\<exists>s2. \<forall>gl'. gitlab_trace_range gl' (\<lambda>b. b) (Some demo_trace_redis) 45 60 1 5 2 s2 = (Inr (''success'', ''ne'', 4), s2)"
proof -
  have ok: "trace_redis_ok demo_trace_redis" by (simp add: trace_redis_ok_def demo_trace_redis_def)
  have miss: "cache_get demo_trace_redis 1 5 [] = (Inr None, [])" by (simp add: cache_get_def demo_trace_redis_def io_run)
  have fetch: "gitlab_fetch_trace demo_gitlab 1 45 5 [] = (Inr (''success'', ''done''), [])"
    by (simp add: gitlab_fetch_trace_def get_project_def try_gl_def bindG_def demo_gitlab_def io_run)
  from cached_trace_transparent [OF ok, of 60, OF _ miss fetch, of "\<lambda>b. b" 0]
  obtain s2 where "\<forall>gl' timeout' off'. gitlab_trace_range gl' (\<lambda>b. b) (Some demo_trace_redis) timeout' 60 1 5 off' s2
        = (Inr (''success'', drop (nat off') ''done'', int (length ''done'')), s2)"
    by (auto simp: TERMINAL_JOB_STATUSES_def)
  then have "\<forall>gl'. gitlab_trace_range gl' (\<lambda>b. b) (Some demo_trace_redis) 45 60 1 5 2 s2
        = (Inr (''success'', drop (nat 2) ''done'', int (length ''done'')), s2)" by blast
  then show ?thesis by (intro exI [of _ s2]) simp
qed

text \<open>
  One viewer, two services. Every answer of the job-trace endpoint, from GitLab, from the cache or in dry-run, is for some log
  what the command trace endpoint answers for a log of that size whose text from the offset on decodes to the same: the same lines and numbers, the
  same next offset, the same caps and flags.
\<close>

theorem job_trace_agrees:
  assumes "0 \<le> off"
    and "get_formatted_job_trace (deploy_repo dry now sdk decode timeout ttl auth default_id default_token cache project)
           (COMMAND_LOG_SOFT_CAP_BYTES cfg) (COMMAND_LOG_HARD_CAP_BYTES cfg) conv job off num s = (Inr resp, s')"
  shows "\<exists>raw. same_slice resp (trace_slice cfg conv st off num (int (length raw))
           ((if dry then (\<lambda>b. b) else decode) (drop (nat off) raw)))"
proof (cases dry)
  case True
  with assms(2) have "get_formatted_job_trace (dry_pipeline_repo now) (COMMAND_LOG_SOFT_CAP_BYTES cfg)
      (COMMAND_LOG_HARD_CAP_BYTES cfg) conv job off num s = (Inr resp, s')" by (simp add: deploy_repo_def)
  from dry_source.poll [OF assms(1) this] slices_agree True show ?thesis by fastforce
next
  case False
  with assms(2) have "get_formatted_job_trace (gitlab_repo (sdk (chosen_token auth project default_id default_token)
      (chosen_project project default_id)) decode cache timeout ttl (chosen_project project default_id))
      (COMMAND_LOG_SOFT_CAP_BYTES cfg) (COMMAND_LOG_HARD_CAP_BYTES cfg) conv job off num s = (Inr resp, s')"
    by (simp add: deploy_repo_def Let_def)
  from gitlab_source.poll [OF assms(1) this] slices_agree False show ?thesis by fastforce
qed

lemma job_trace_agrees_witness:
  "\<exists>resp raw. fst (get_formatted_job_trace (deploy_repo True ''t'' (\<lambda>_ _. demo_gitlab) (\<lambda>b. b) 45 60 [] 0 JNull None None)
       1000 2000 (\<lambda>l. l) 5 0 1 ([] :: (string \<times> string) list)) = Inr resp
     \<and> same_slice resp (trace_slice (demo_settings True) (\<lambda>l. l) (demo_state ''c1'' RUNNING None True) 0 1 (int (length raw)) raw)"
proof -
  let ?repo = "deploy_repo True ''t'' (\<lambda>_ _. demo_gitlab) (\<lambda>b. b) 45 60 [] 0 JNull None None :: (string \<times> string) list pipeline_repo"
  have ne: "dry_trace \<noteq> []" by (simp add: dry_trace_def)
  obtain resp where run: "get_formatted_job_trace ?repo 1000 2000 (\<lambda>l. l) 5 0 1 [] = (Inr resp, [])"
    by (auto simp: deploy_repo_def dry_pipeline_repo_def get_formatted_job_trace_def Let_def io_run ne)
  have caps: "COMMAND_LOG_SOFT_CAP_BYTES (demo_settings True) = 1000" "COMMAND_LOG_HARD_CAP_BYTES (demo_settings True) = 2000"
    by (simp_all add: demo_settings_def)
  from job_trace_agrees [of 0 True "''t''" "\<lambda>_ _. demo_gitlab" "\<lambda>b. b" 45 60 "[]" 0 JNull None None "demo_settings True"
      "\<lambda>l. l" 5 1 "[]" resp "[]" "demo_state ''c1'' RUNNING None True"] run
  show ?thesis by (auto simp: caps)
qed

end
