(* ===== verification/DeployApi.thy ===== *)
theory DeployApi
  imports Api Gitlab
begin

text \<open>
  The endpoints of \<^verbatim>\<open>app/api/v1/deploy.py\<close> over the repository that \<^verbatim>\<open>_get_deploy_service\<close> picks for a request, with
  the user of the token, as \<open>Api\<close> does for the command endpoints.
\<close>

datatype deploy_call =
    Trigger string string "int option" "(string \<times> json) list"
  | CheckRunning string string "int option" "(string \<times> json) list"
  | GetPipeline int "int option"
  | CancelPipeline int "int option"
  | RetryPipeline int "int option"
  | JobTraceUi int int int "int option"
  | ViewJob int "int option"

datatype deploy_reply =
    RPipeline pipeline_data | RRunningPipelines running_pipelines | RFormattedLog formatted_log | RJobPage view_page
  | RDeployUnprocessable

record 'e deploy_env =
  de_dry_run :: bool
  de_now :: string
  de_sdk :: "json \<Rightarrow> int \<Rightarrow> 'e gitlab"
  de_decode :: "string \<Rightarrow> string"
  de_auth :: "(string \<times> json) list list"
  de_cache :: "'e trace_redis"
  GITLAB_URL :: string
  GITLAB_PROJECT_ID :: int
  GITLAB_TOKEN :: json
  GITLAB_TRACE_TIMEOUT_SECONDS :: int
  GITLAB_TRACE_CACHE_TTL_SECONDS :: int
  GITLAB_TRACE_SOFT_CAP_BYTES :: int
  GITLAB_TRACE_HARD_CAP_BYTES :: int

definition get_deploy_service :: "'e deploy_env \<Rightarrow> 'e trace_redis option \<Rightarrow> int option \<Rightarrow> 'e pipeline_repo" where
  "get_deploy_service de cache project_id =
     deploy_repo (de_dry_run de) (de_now de) (de_sdk de) (de_decode de) (GITLAB_TRACE_TIMEOUT_SECONDS de)
       (GITLAB_TRACE_CACHE_TTL_SECONDS de) (de_auth de) (GITLAB_PROJECT_ID de) (GITLAB_TOKEN de) cache project_id"

definition rstrip_slash :: "string \<Rightarrow> string" where
  "rstrip_slash s = rev (dropWhile (\<lambda>c. c = CHR ''/'') (rev s))"

definition view_job_page :: "int \<Rightarrow> int \<Rightarrow> string \<Rightarrow> view_page" where
  "view_job_page job_id target job_web_url = \<lparr>vp_title = ''Job Log Viewer | '' @ int_str job_id,
     vp_heading = ''Job: '' @ int_str job_id,
     vp_trace_url = ''/api/v1/deploy/jobs/'' @ int_str job_id @ ''/trace/ui?project_id='' @ int_str target,
     vp_terminal = [''success'', ''failed'', ''canceled'', ''skipped'', ''manual''],
     vp_meta_html = ''<div><span class=\"label\">Project ID</span><code>'' @ int_str target @ ''</code></div>''
       @ ''<div><span class=\"label\">Job ID</span><code>'' @ int_str job_id @ ''</code></div>''
       @ ''<div><a class=\"error-link\" href=\"'' @ job_web_url @ ''\" target=\"_blank\" rel=\"noopener\">Open in GitLab</a></div>''\<rparr>"

definition view_job :: "'e deploy_env \<Rightarrow> int \<Rightarrow> int option \<Rightarrow> ('e, deploy_reply) io" where
  "view_job de job_id project_id =
     bindE (catchE (get_job_web_url (get_deploy_service de None project_id) job_id)
              (\<lambda>e. if is_exception e then ret (rstrip_slash (GITLAB_URL de)) else raise e)) (\<lambda>job_web_url.
       ret (RJobPage (view_job_page job_id (chosen_project project_id (GITLAB_PROJECT_ID de)) job_web_url)))"

definition authorise_deploy :: "(string \<Rightarrow> claims option) \<Rightarrow> deploy_call \<Rightarrow> http_auth \<Rightarrow> exn + user option" where
  "authorise_deploy jwt_decode c auth = (case c of
       ViewJob _ _ \<Rightarrow> Inr None
     | JobTraceUi _ _ _ _ \<Rightarrow> map_sum id Some
         (get_current_user_cookie_or_header jwt_decode [''deploy_api''] (ha_header auth) (ha_cookie auth))
     | _ \<Rightarrow> map_sum id Some (get_current_user jwt_decode [''deploy_api''] (ha_header auth)))"

definition handle_deploy :: "'e deploy_env \<Rightarrow> (string \<Rightarrow> string) \<Rightarrow> string \<Rightarrow> deploy_call \<Rightarrow> ('e, deploy_reply) io" where
  "handle_deploy de conv account c = (case c of
       Trigger action ref pid body \<Rightarrow>
         bindE (trigger_endpoint (get_deploy_service de None pid) account action ref (map pipeline_variable_of body))
           (\<lambda>d. ret (RPipeline d))
     | CheckRunning action ref pid body \<Rightarrow>
         bindE (check_running_endpoint (get_deploy_service de None pid) action ref (map pipeline_variable_of body))
           (\<lambda>d. ret (RRunningPipelines d))
     | GetPipeline i pid \<Rightarrow> bindE (get_pipeline (get_deploy_service de None pid) i) (\<lambda>d. ret (RPipeline d))
     | CancelPipeline i pid \<Rightarrow> bindE (cancel_pipeline (get_deploy_service de None pid) i) (\<lambda>d. ret (RPipeline d))
     | RetryPipeline i pid \<Rightarrow> bindE (retry_pipeline (get_deploy_service de None pid) i) (\<lambda>d. ret (RPipeline d))
     | JobTraceUi job off num pid \<Rightarrow>
         if off < 0 \<or> num < 1 then ret RDeployUnprocessable
         else bindE (get_formatted_job_trace (get_deploy_service de (Some (de_cache de)) pid)
                (GITLAB_TRACE_SOFT_CAP_BYTES de) (GITLAB_TRACE_HARD_CAP_BYTES de) conv job off num)
              (\<lambda>d. ret (RFormattedLog d))
     | ViewJob job pid \<Rightarrow> view_job de job pid)"

definition serve_deploy ::
  "'e deploy_env \<Rightarrow> (string \<Rightarrow> string) \<Rightarrow> (string \<Rightarrow> claims option) \<Rightarrow> http_auth \<Rightarrow> deploy_call \<Rightarrow> ('e, deploy_reply) io" where
  "serve_deploy de conv jwt_decode auth c =
     bindE (liftE (authorise_deploy jwt_decode c auth)) (\<lambda>u.
       handle_deploy de conv (case u of None \<Rightarrow> [] | Some x \<Rightarrow> us_account x) c)"

section \<open>Lemmas\<close>

lemma authorised_deploy:
  assumes "authorise_deploy dec c auth = Inr (Some u)"
  shows "\<exists>t. (ha_header auth = Some t \<or> (\<exists>job off num pid. c = JobTraceUi job off num pid) \<and> ha_cookie auth = Some t)
    \<and> validate_token dec t [''deploy_api''] = Inr u"
  using assms by (cases c) (auto simp: authorise_deploy_def dest!: header_token cookie_token)

lemma authorise_deploy_none: "authorise_deploy dec c auth = Inr None \<Longrightarrow> \<exists>job pid. c = ViewJob job pid"
  by (cases c) (auto simp: authorise_deploy_def)

text \<open>No deploy endpoint but the bare page answers or acts without the scope.\<close>

lemma deploy_requires_scope:
  assumes "serve_deploy de conv dec auth c p = (r, p')"
    and "(\<exists>reply. r = Inr reply) \<or> p' \<noteq> p" and "\<And>job pid. c \<noteq> ViewJob job pid"
  shows "\<exists>t u. (ha_header auth = Some t \<or> (\<exists>job off num pid. c = JobTraceUi job off num pid) \<and> ha_cookie auth = Some t)
    \<and> validate_token dec t [''deploy_api''] = Inr u \<and> ''deploy_api'' \<in> set (us_scopes u) \<and> us_account u \<noteq> []
    \<and> (r, p') = handle_deploy de conv (us_account u) c p"
proof (cases "authorise_deploy dec c auth")
  case (Inl e)
  with assms(1,2) show ?thesis by (auto simp: serve_deploy_def io_run)
next
  case (Inr x)
  with assms(3) obtain u where u: "x = Some u" by (cases x) (auto dest!: authorise_deploy_none)
  with Inr assms(1) have "(r, p') = handle_deploy de conv (us_account u) c p"
    by (simp add: serve_deploy_def io_run)
  moreover from authorised_deploy Inr u obtain t where
    t: "ha_header auth = Some t \<or> (\<exists>job off num pid. c = JobTraceUi job off num pid) \<and> ha_cookie auth = Some t"
      "validate_token dec t [''deploy_api''] = Inr u" by blast
  moreover from validated_scopes [OF t(2)] have "''deploy_api'' \<in> set (us_scopes u)" "us_account u \<noteq> []" by auto
  ultimately show ?thesis by blast
qed

lemma dry_repo: "de_dry_run de \<Longrightarrow> get_deploy_service de cache pid = dry_pipeline_repo (de_now de)"
  by (simp add: get_deploy_service_def deploy_repo_def)

lemma inert_dry [intro]:
  "inert (pr_trigger (dry_pipeline_repo now) ref vars)" "inert (pr_get (dry_pipeline_repo now) i)"
  "inert (pr_cancel (dry_pipeline_repo now) i)" "inert (pr_retry (dry_pipeline_repo now) i)"
  "inert (pr_list_running (dry_pipeline_repo now) ref)" "inert (pr_job_web_url (dry_pipeline_repo now) job)"
  "inert (pr_trace_range (dry_pipeline_repo now) job off)"
  by (simp_all add: inert_def dry_pipeline_repo_def ret_def Let_def)

lemma inert_duplicates [intro]: "inert (find_duplicate_pipelines (dry_pipeline_repo now) action ref body)"
  unfolding find_duplicate_pipelines_def Let_def by (intro inert_intros inert_dry)

lemma inert_trigger [intro]: "inert (trigger_pipeline (dry_pipeline_repo now) action ref body)"
proof -
  have "inert (if b then raise e else m)" if "inert m" for b e and m :: "('a, pipeline_data) io" using that by auto
  then show ?thesis unfolding trigger_pipeline_def Let_def by (intro inert_intros inert_duplicates inert_dry) blast
qed

lemma inert_handle:
  assumes "de_dry_run de"
  shows "inert (handle_deploy de conv account c)"
proof -
  have pick: "inert (if b then ret x else m)" "inert (if b then ret y else raise e)" if "inert m"
    for b e and x :: deploy_reply and y :: string and m :: "('a, deploy_reply) io" using that by auto
  have trace: "inert (get_formatted_job_trace (dry_pipeline_repo now) soft hard conv job off num)" for now soft hard job off num
    unfolding get_formatted_job_trace_def by (intro inert_intros inert_dry) auto
  have view: "inert (view_job de job pid)" for job pid
    unfolding view_job_def Let_def dry_repo [OF assms] get_job_web_url_def
    by (intro inert_intros inert_dry) (auto simp: inert_def ret_def raise_def)
  show ?thesis
    by (cases c) (auto simp: handle_deploy_def dry_repo [OF assms] trigger_endpoint_def check_running_endpoint_def
        get_pipeline_def cancel_pipeline_def retry_pipeline_def view trace)
qed

definition demo_deploy_env :: "(string \<times> string) list deploy_env" where
  "demo_deploy_env = \<lparr>de_dry_run = True, de_now = ''t'', de_sdk = (\<lambda>_ _. demo_gitlab), de_decode = (\<lambda>b. b), de_auth = [],
     de_cache = demo_trace_redis, GITLAB_URL = ''https://gitlab.com/'', GITLAB_PROJECT_ID = 1, GITLAB_TOKEN = JStr [],
     GITLAB_TRACE_TIMEOUT_SECONDS = 45, GITLAB_TRACE_CACHE_TTL_SECONDS = 60, GITLAB_TRACE_SOFT_CAP_BYTES = 1000,
     GITLAB_TRACE_HARD_CAP_BYTES = 2000\<rparr>"

section \<open>Properties\<close>

text \<open>
  Property C40. A dry-run instance never touches GitLab. With \<^verbatim>\<open>DRY_RUN_MODE\<close> on, every deploy endpoint, whatever the request and
  the user, leaves the state outside as it was, and answers the same whatever the SDK client and the trace cache do.
\<close>

theorem dry_run_deploy_isolated:
  assumes "de_dry_run de"
  shows "snd (serve_deploy de conv dec auth c p) = p
    \<and> serve_deploy (de\<lparr>de_sdk := sdk, de_cache := cache\<rparr>) conv dec auth c = serve_deploy de conv dec auth c"
proof
  show "snd (serve_deploy de conv dec auth c p) = p"
    using inert_handle [OF assms] by (auto simp: serve_deploy_def io_run inert_def split: sum.splits)
  have same: "get_deploy_service (de\<lparr>de_sdk := sdk, de_cache := cache\<rparr>) ch pid = dry_pipeline_repo (de_now de)" for ch pid
    using assms by (simp add: dry_repo)
  have view: "view_job (de\<lparr>de_sdk := sdk, de_cache := cache\<rparr>) job pid = view_job de job pid" for job pid
    unfolding view_job_def same dry_repo [OF assms]
    by (simp cong: if_cong)
  have "handle_deploy (de\<lparr>de_sdk := sdk, de_cache := cache\<rparr>) conv account c = handle_deploy de conv account c" for account
    unfolding handle_deploy_def view same dry_repo [OF assms] by (cases c) simp_all
  then show "serve_deploy (de\<lparr>de_sdk := sdk, de_cache := cache\<rparr>) conv dec auth c = serve_deploy de conv dec auth c"
    by (simp add: serve_deploy_def)
qed

lemma dry_run_deploy_isolated_witness:
  "snd (serve_deploy demo_deploy_env (\<lambda>l. l) (\<lambda>_. None) \<lparr>ha_header = None, ha_cookie = None\<rparr> (ViewJob 5 None) []) = []"
  using dry_run_deploy_isolated [of demo_deploy_env] by (simp add: demo_deploy_env_def)

end
