(* ===== verification/Routes.thy ===== *)
theory Routes
  imports DeployApi
begin

text \<open>
  The route table of the application: the operations of \<^verbatim>\<open>app/main.py\<close> and of the four routers that
  \<^verbatim>\<open>app/api/router.py\<close> mounts, in the order of their registration. The framework takes the first route whose
  method and path pattern match; a parameter matches one non-empty path segment.
\<close>

section \<open>The table\<close>

datatype segment = Lit string | Param

datatype http_verb = GET | POST

type_synonym route = "http_verb \<times> segment list \<times> string"

definition auth_routes :: "route list" where
  "auth_routes =
    [(GET, [Lit ''verify''], ''verify''),
     (POST, [Lit ''hash-password''], ''hash_password_endpoint''),
     (GET, [Lit ''my-scopes''], ''my_scopes'')]"

definition deploy_routes :: "route list" where
  "deploy_routes =
    [(POST, [Lit ''stage''], ''trigger_pipeline''),
     (POST, [Lit ''stage'', Lit ''check-running''], ''check_running''),
     (GET, [Lit ''stage'', Param], ''get_pipeline''),
     (POST, [Lit ''stage'', Param, Lit ''cancel''], ''cancel_pipeline''),
     (POST, [Lit ''stage'', Param, Lit ''retry''], ''retry_pipeline''),
     (GET, [Lit ''jobs'', Param, Lit ''trace'', Lit ''ui''], ''get_formatted_job_trace''),
     (GET, [Lit ''jobs'', Param, Lit ''view''], ''view_job'')]"

definition command_routes :: "route list" where
  "command_routes =
    [(GET, [Lit ''info''], ''get_all_commands_info''),
     (GET, [Param, Lit ''info''], ''get_specific_command_info''),
     (GET, [Lit ''running''], ''list_running_commands_endpoint''),
     (POST, [Lit ''execution''], ''execute_command_endpoint''),
     (GET, [Lit ''execution'', Param], ''get_command_execution_status''),
     (GET, [Lit ''execution'', Param, Lit ''trace'', Lit ''ui''], ''get_command_trace_ui''),
     (GET, [Lit ''execution'', Param, Lit ''view''], ''view_command''),
     (POST, [Lit ''execution'', Param, Lit ''kill''], ''kill_command_endpoint'')]"

definition inventory_routes :: "route list" where
  "inventory_routes =
    [(GET, [Lit ''nodes'', Param], ''get_node''),
     (GET, [Lit ''mappings''], ''get_mappings''),
     (GET, [Lit ''nodes'', Param, Lit ''bastion-resolution''], ''get_node_bastion_resolution''),
     (GET, [Lit ''cluster'', Lit ''bastion-resolution''], ''get_cluster_bastion_resolution'')]"

definition include_router :: "string list \<Rightarrow> route list \<Rightarrow> route list" where
  "include_router pre rs = map (\<lambda>(m, pat, f). (m, map Lit pre @ pat, f)) rs"

definition v1_routes :: "route list" where
  "v1_routes = include_router [''auth''] auth_routes @ include_router [''deploy''] deploy_routes
     @ include_router [''command''] command_routes @ include_router [''inventory''] inventory_routes"

definition app_routes :: "bool \<Rightarrow> route list" where
  "app_routes debug =
     [(GET, [Lit ''health''], ''health_check'')]
     @ (if debug then [(GET, [Lit ''docs''], ''custom_swagger_ui_html''), (GET, [Lit ''redoc''], ''redoc_html'')] else [])
     @ [(POST, [Lit ''token''], ''token_endpoint''), (GET, [Lit ''login''], ''login_page''), (POST, [Lit ''login''], ''login_submit'')]
     @ include_router [''api'', ''v1''] v1_routes"

section \<open>Dispatch\<close>

fun match_path :: "segment list \<Rightarrow> string list \<Rightarrow> string list option" where
  "match_path [] [] = Some []"
| "match_path (Lit l # pat) (s # path) = (if s = l then match_path pat path else None)"
| "match_path (Param # pat) (s # path) = (if s = [] then None else map_option (\<lambda>ps. s # ps) (match_path pat path))"
| "match_path _ _ = None"

fun find_route :: "route list \<Rightarrow> http_verb \<Rightarrow> string list \<Rightarrow> (string \<times> string list) option" where
  "find_route [] m path = None"
| "find_route ((m', pat, f) # rs) m path =
     (if m' = m then (case match_path pat path of Some ps \<Rightarrow> Some (f, ps) | None \<Rightarrow> find_route rs m path)
      else find_route rs m path)"

text \<open>The segments of the path of a URL, without its query.\<close>

definition url_path :: "string \<Rightarrow> string list" where
  "url_path url = tl (split_on (CHR ''/'') (takeWhile (\<lambda>c. c \<noteq> CHR ''?'') url))"

text \<open>The path of a route with its parameters filled in.\<close>

fun fill :: "segment list \<Rightarrow> string list \<Rightarrow> string list" where
  "fill (Lit l # pat) ps = l # fill pat ps"
| "fill (Param # pat) (p # ps) = p # fill pat ps"
| "fill _ _ = []"

definition arity :: "segment list \<Rightarrow> nat" where
  "arity pat = length (filter (\<lambda>s. s = Param) pat)"

section \<open>First match\<close>

text \<open>Two patterns that no path matches both.\<close>

fun apart :: "segment list \<Rightarrow> segment list \<Rightarrow> bool" where
  "apart [] [] = False"
| "apart (Lit k # as) (Lit l # bs) = (k \<noteq> l \<or> apart as bs)"
| "apart (_ # as) (_ # bs) = apart as bs"
| "apart _ _ = True"

text \<open>The pairs of routes that share a path, an earlier one first.\<close>

fun clashes :: "route list \<Rightarrow> (string \<times> string) list" where
  "clashes [] = []"
| "clashes ((m, pat, f) # rs) =
     map (\<lambda>(_, _, g). (f, g)) (filter (\<lambda>(m', pat', _). m = m' \<and> \<not> apart pat pat') rs) @ clashes rs"

lemma match_fill: "length ps = arity pat \<Longrightarrow> [] \<notin> set ps \<Longrightarrow> match_path pat (fill pat ps) = Some ps"
proof (induction pat arbitrary: ps)
  case Nil
  then show ?case by (simp add: arity_def)
next
  case (Cons s pat)
  show ?case
  proof (cases s)
    case (Lit l)
    with Cons show ?thesis by (simp add: arity_def)
  next
    case Param
    with Cons show ?thesis by (cases ps) (auto simp: arity_def)
  qed
qed

lemma match_Nil [simp]: "match_path [] path = (if path = [] then Some [] else None)"
  by (cases path) simp_all

lemma match_Cons:
  "match_path (s # pat) path = Some ps \<longleftrightarrow>
     (\<exists>x xs qs. path = x # xs \<and> match_path pat xs = Some qs
        \<and> (case s of Lit l \<Rightarrow> x = l \<and> ps = qs | Param \<Rightarrow> x \<noteq> [] \<and> ps = x # qs))"
  by (cases s; cases path) auto

lemma apart_both: "match_path pat path = Some ps \<Longrightarrow> match_path pat' path = Some ps' \<Longrightarrow> \<not> apart pat pat'"
proof (induction pat arbitrary: pat' path ps ps')
  case Nil
  then show ?case by (cases pat') (auto simp: match_Cons split: if_splits)
next
  case (Cons s pat)
  from Cons.prems(1) obtain x xs qs where path: "path = x # xs" and pat: "match_path pat xs = Some qs"
    and s: "case s of Lit l \<Rightarrow> x = l \<and> ps = qs | Param \<Rightarrow> x \<noteq> [] \<and> ps = x # qs"
    unfolding match_Cons by blast
  from Cons.prems(2) path obtain s' bs where pat': "pat' = s' # bs" by (cases pat') auto
  from Cons.prems(2) path pat' obtain qs' where bs: "match_path bs xs = Some qs'"
    and s': "case s' of Lit l \<Rightarrow> x = l \<and> ps' = qs' | Param \<Rightarrow> x \<noteq> [] \<and> ps' = x # qs'"
    unfolding pat' match_Cons by blast
  from Cons.IH [OF pat bs] s s' pat' show ?case by (cases s; cases s') auto
qed

lemma find_route_first:
  assumes "\<And>g. (g, f) \<notin> set (clashes rs)" "(m, pat, f) \<in> set rs" "match_path pat path = Some ps"
  shows "find_route rs m path = Some (f, ps)"
  using assms(1,2)
proof (induction rs)
  case (Cons r rs)
  obtain m' pat' f' where r: "r = (m', pat', f')" by (cases r)
  show ?case
  proof (cases "r = (m, pat, f)")
    case True
    with assms(3) show ?thesis by simp
  next
    case False
    with Cons.prems have mem: "(m, pat, f) \<in> set rs" by simp
    from Cons.prems(1) r have "\<And>g. (g, f) \<notin> set (clashes rs)" by auto
    note later = Cons.IH [OF this mem]
    from Cons.prems(1) [of f'] r mem have "m' = m \<longrightarrow> apart pat' pat" by force
    with apart_both assms(3) have "m' = m \<longrightarrow> match_path pat' path = None"
      by (metis option.exhaust)
    with later r show ?thesis by simp
  qed
qed simp

lemmas route_tables = app_routes_def v1_routes_def include_router_def auth_routes_def deploy_routes_def
  command_routes_def inventory_routes_def

lemma app_clashes: "clashes (app_routes debug) = [(''get_specific_command_info'', ''get_command_execution_status'')]"
  by (cases debug) (simp_all add: route_tables)

lemma poll_route:
  assumes "cid \<noteq> []" "cid \<noteq> ''info''"
  shows "find_route (app_routes debug) GET [''api'', ''v1'', ''command'', ''execution'', cid]
    = Some (''get_command_execution_status'', [cid])"
  using assms by (simp add: route_tables)

lemma poll_pattern:
  "(m, pat, ''get_command_execution_status'') \<in> set (app_routes debug)
   \<Longrightarrow> m = GET \<and> pat = [Lit ''api'', Lit ''v1'', Lit ''command'', Lit ''execution'', Param]"
  by (simp add: route_tables split: if_splits)

lemma url_path_slash:
  "CHR ''/'' \<notin> set s \<Longrightarrow> CHR ''?'' \<notin> set s \<Longrightarrow> url_path (CHR ''/'' # s @ CHR ''/'' # t) = s # url_path (CHR ''/'' # t)"
  "CHR ''/'' \<notin> set s \<Longrightarrow> CHR ''?'' \<notin> set s \<Longrightarrow> url_path (CHR ''/'' # s) = [s]"
  "CHR ''/'' \<notin> set s \<Longrightarrow> CHR ''?'' \<notin> set s \<Longrightarrow> url_path (CHR ''/'' # s @ CHR ''?'' # t) = [s]"
proof -
  assume s: "CHR ''/'' \<notin> set s" "CHR ''?'' \<notin> set s"
  then have t: "takeWhile (\<lambda>c. c \<noteq> CHR ''?'') s = s" unfolding takeWhile_eq_all_conv by blast
  show "url_path (CHR ''/'' # s @ CHR ''/'' # t) = s # url_path (CHR ''/'' # t)" "url_path (CHR ''/'' # s) = [s]"
      "url_path (CHR ''/'' # s @ CHR ''?'' # t) = [s]"
    using s by (simp_all add: t url_path_def takeWhile_append split_on_append_sep split_on_no_sep)
qed

lemma trace_url_path:
  assumes "CHR ''/'' \<notin> set x" "CHR ''?'' \<notin> set x"
  shows "url_path (''/api/v1/command/execution/'' @ x @ ''/trace/ui'')
    = [''api'', ''v1'', ''command'', ''execution'', x, ''trace'', ''ui'']"
    and "url_path (''/api/v1/deploy/jobs/'' @ x @ ''/trace/ui?project_id='' @ y)
    = [''api'', ''v1'', ''deploy'', ''jobs'', x, ''trace'', ''ui'']"
  using url_path_slash(1) [of "''api''"] url_path_slash(1) [of "''v1''"] url_path_slash(1) [of "''command''"]
    url_path_slash(1) [of "''execution''"] url_path_slash(1) [of "''deploy''"] url_path_slash(1) [of "''jobs''"]
    url_path_slash(1) [of x, OF assms] url_path_slash(1) [of "''trace''"] url_path_slash(2) [of "''ui''"]
    url_path_slash(3) [of "''ui''" "''project_id='' @ y"] by simp_all

lemma int_str_chars: "set (int_str n) \<subseteq> insert (CHR ''-'') {c. is_digit c}"
  using nat_str_digits by (auto simp: int_str_def)

section \<open>Properties\<close>

text \<open>
  Property C34. Every route is reachable, with the parameters of its path and no other. Filling the parameters of a route with any
  non-empty segments gives a path that the first-match search resolves to this route and these parameters. The one overlap of the table
  is the poll of a run named \<^verbatim>\<open>info\<close>, which the earlier \<^verbatim>\<open>/{command_name}/info\<close> takes; run ids are UUIDs.
\<close>

theorem routes_resolve:
  assumes "(m, pat, f) \<in> set (app_routes debug)" "length ps = arity pat" "[] \<notin> set ps"
    and "f = ''get_command_execution_status'' \<longrightarrow> ps \<noteq> [''info'']"
  shows "find_route (app_routes debug) m (fill pat ps) = Some (f, ps)"
proof (cases "f = ''get_command_execution_status''")
  case True
  with poll_pattern assms(1) have pat: "m = GET" "pat = [Lit ''api'', Lit ''v1'', Lit ''command'', Lit ''execution'', Param]"
    by auto
  with assms(2) obtain cid where "ps = [cid]" by (auto simp: arity_def length_Suc_conv)
  with assms(3,4) pat True show ?thesis by (simp add: poll_route)
next
  case False
  then have "(g, f) \<notin> set (clashes (app_routes debug))" for g by (simp add: app_clashes)
  from find_route_first [OF this assms(1) match_fill [OF assms(2,3)]] show ?thesis .
qed

lemma routes_resolve_witness:
  "find_route (app_routes True) POST (fill [Lit ''api'', Lit ''v1'', Lit ''command'', Lit ''execution'', Param, Lit ''kill''] [''c1''])
     = Some (''kill_command_endpoint'', [''c1''])"
  by (rule routes_resolve) (simp_all add: route_tables arity_def)

text \<open>
  The links of the viewer pages. The URL a page polls resolves to the log endpoint of the same run or job, for every id that
  is one path segment, and the page's own address survives the login redirect unchanged.
\<close>

theorem viewer_links_resolve:
  assumes "cid \<noteq> []" "CHR ''/'' \<notin> set cid" "CHR ''?'' \<notin> set cid"
  shows "find_route (app_routes debug) GET (url_path (vp_trace_url (view_command cid))) = Some (''get_command_trace_ui'', [cid])
    \<and> find_route (app_routes debug) GET (url_path (vp_trace_url (view_job_page job target web_url)))
       = Some (''get_formatted_job_trace'', [int_str job])
    \<and> safe_next_path (Some (''/api/v1/command/execution/'' @ cid @ ''/view'')) ''/docs''
       = ''/api/v1/command/execution/'' @ cid @ ''/view''"
proof (intro conjI)
  from int_str_chars [of job] have job: "CHR ''/'' \<notin> set (int_str job)" "CHR ''?'' \<notin> set (int_str job)" "int_str job \<noteq> []"
    by (auto simp: is_digit_def int_str_def)
  show "find_route (app_routes debug) GET (url_path (vp_trace_url (view_command cid))) = Some (''get_command_trace_ui'', [cid])"
    using assms trace_url_path(1) [of cid] by (simp add: view_command_def route_tables)
  show "find_route (app_routes debug) GET (url_path (vp_trace_url (view_job_page job target web_url)))
       = Some (''get_formatted_job_trace'', [int_str job])"
    using job trace_url_path(2) [of "int_str job"] by (simp add: view_job_page_def route_tables)
  show "safe_next_path (Some (''/api/v1/command/execution/'' @ cid @ ''/view'')) ''/docs''
       = ''/api/v1/command/execution/'' @ cid @ ''/view''"
    by (simp add: safe_next_path_def truthy_def)
qed

lemma viewer_links_resolve_witness:
  "find_route (app_routes False) GET (url_path (vp_trace_url (view_command ''c1''))) = Some (''get_command_trace_ui'', [''c1''])"
  using viewer_links_resolve [of "''c1''" False] by simp

end
