(* ===== verification/InventoryApi.thy ===== *)
theory InventoryApi
  imports Hosts Auth
begin

text \<open>
  The endpoints of \<^verbatim>\<open>app/api/v1/inventory.py\<close> and \<^verbatim>\<open>app/api/v1/auth.py\<close>, with the factories of
  \<^verbatim>\<open>app/core/dependencies.py\<close> that choose the inventory they read.
\<close>

section \<open>Inventory\<close>

datatype inventory_call =
    GetNode string
  | GetMappings string
  | GetNodeBastionResolution string "string option"
  | GetClusterBastionResolution string

datatype inventory_reply =
    RNode cluster_node_info
  | RMappings "bastion_mapping list"
  | RNodeResolution node_bastion_resolution
  | RClusterResolution cluster_bastion_resolution

text \<open>\<open>client\<close> is the \<^verbatim>\<open>InventoryClient\<close> that \<^verbatim>\<open>_build_inventory_client\<close> makes.\<close>

definition get_inventory_repository :: "settings \<Rightarrow> 's inventory \<Rightarrow> 's inventory" where
  "get_inventory_repository s client =
     (if DRY_RUN_MODE s then DryRunInventoryRepository ''baremetal'' ''dry-run-cluster'' (INVENTORY_IP_LABEL s)
      else client)"

definition handle_inventory ::
  "settings \<Rightarrow> (string \<Rightarrow> rx option) \<Rightarrow> 's inventory \<Rightarrow> inventory_call \<Rightarrow> ('s, inventory_reply) io" where
  "handle_inventory s cre client c = (let repo = get_inventory_repository s client in case c of
       GetNode node_name \<Rightarrow> bindE (lookup_by_name repo node_name) (\<lambda>d. ret (RNode d))
     | GetMappings type_name \<Rightarrow> bindE (list_mappings repo type_name) (\<lambda>d. ret (RMappings d))
     | GetNodeBastionResolution node_name bastion_type \<Rightarrow>
         bindE (resolve_node_bastion cre repo (BASTION_NODE_TYPE_MAP s) node_name bastion_type) (\<lambda>d. ret (RNodeResolution d))
     | GetClusterBastionResolution cluster_name \<Rightarrow>
         bindE (resolve_cluster_bastion cre repo (CLUSTER_SLASH_TYPE_MAP s) cluster_name) (\<lambda>d. ret (RClusterResolution d)))"

definition serve_inventory ::
  "settings \<Rightarrow> (string \<Rightarrow> rx option) \<Rightarrow> 's inventory \<Rightarrow> (string \<Rightarrow> claims option) \<Rightarrow> string option \<Rightarrow> inventory_call
   \<Rightarrow> ('s, inventory_reply) io" where
  "serve_inventory s cre client jwt_decode header c =
     bindE (liftE (get_current_user jwt_decode [''command_api''] header)) (\<lambda>_. handle_inventory s cre client c)"

section \<open>Accounts\<close>

datatype auth_call = Verify | HashPassword string | MyScopes

datatype auth_reply = RVerify string "string list" bool | RHash string | RScopes string "string list" | RAuthUnprocessable

definition verify_user :: "user \<Rightarrow> auth_reply" where
  "verify_user u = RVerify (us_account u) (us_scopes u) True"

definition get_my_scopes :: "user \<Rightarrow> auth_reply" where
  "get_my_scopes u = RScopes (us_account u) (us_scopes u)"

text \<open>\<^verbatim>\<open>HashPasswordRequest\<close> asks for eight characters; \<open>hashpw\<close> is bcrypt.\<close>

definition hash_password_endpoint :: "(string \<Rightarrow> exn + string) \<Rightarrow> string \<Rightarrow> exn + auth_reply" where
  "hash_password_endpoint hashpw password =
     (if length password < 8 then Inr RAuthUnprocessable else map_sum id RHash (hashpw password))"

definition serve_auth ::
  "(string \<Rightarrow> exn + string) \<Rightarrow> (string \<Rightarrow> claims option) \<Rightarrow> string option \<Rightarrow> auth_call \<Rightarrow> exn + auth_reply" where
  "serve_auth hashpw jwt_decode header c = (case c of
       Verify \<Rightarrow> map_sum id verify_user (get_current_user jwt_decode [] header)
     | HashPassword password \<Rightarrow> hash_password_endpoint hashpw password
     | MyScopes \<Rightarrow> map_sum id get_my_scopes (get_current_user jwt_decode [] header))"

section \<open>Lemmas\<close>

lemma serve_auth_reply:
  assumes "serve_auth hashpw jwt_decode header c = Inr reply" and "\<And>pw. c \<noteq> HashPassword pw"
  shows "\<exists>t u. header = Some t \<and> validate_token jwt_decode t [] = Inr u
    \<and> (c = Verify \<and> reply = RVerify (us_account u) (us_scopes u) True
      \<or> c = MyScopes \<and> reply = RScopes (us_account u) (us_scopes u))"
proof -
  have "c = Verify \<or> c = MyScopes" using assms(2) by (cases c) blast+
  with assms(1) show ?thesis
    by (cases header; cases "validate_token jwt_decode (the header) []")
      (auto simp: serve_auth_def get_current_user_def verify_user_def get_my_scopes_def)
qed

lemma serve_inventory_run:
  assumes "serve_inventory s cre client jwt_decode header c p = (r, p')" and "(\<exists>reply. r = Inr reply) \<or> p' \<noteq> p"
  shows "\<exists>t u. header = Some t \<and> validate_token jwt_decode t [''command_api''] = Inr u
    \<and> (r, p') = handle_inventory s cre client c p"
  using assms by (cases header; cases "validate_token jwt_decode (the header) [''command_api'']")
    (auto simp: serve_inventory_def get_current_user_def io_run)

text \<open>In dry-run the inventory client is never used: the answer does not depend on it and nothing changes.\<close>

lemma dry_run_inventory_isolated:
  assumes "DRY_RUN_MODE s"
  shows "snd (handle_inventory s cre client c p) = p" "handle_inventory s cre client' c p = handle_inventory s cre client c p"
proof -
  show "handle_inventory s cre client' c p = handle_inventory s cre client c p"
    using assms by (simp add: handle_inventory_def get_inventory_repository_def)
  let ?repo = "DryRunInventoryRepository ''baremetal'' ''dry-run-cluster'' (INVENTORY_IP_LABEL s) :: 'a inventory"
  have calls: "inert (lookup_by_name ?repo n)" "inert (list_mappings ?repo t)" for n t
    by (simp_all add: DryRunInventoryRepository_def dry_lookup_def dry_list_def inert_prims)
  have "inert (match_bastion cre ?repo bt cl)" for bt cl
    unfolding match_bastion_def by (intro inert_intros calls)
  then have found: "inert (require_bastion cre ?repo bt cl)" for bt cl
    unfolding require_bastion_def by (intro inert_intros) (auto split: option.split)
  have "inert (handle_inventory s cre client c)"
    by (cases c) (auto simp: assms handle_inventory_def get_inventory_repository_def Let_def
      resolve_node_bastion_def resolve_cluster_bastion_def split: prod.split intro!: inert_intros calls found)
  then show "snd (handle_inventory s cre client c p) = p" by (simp add: inert_def)
qed

end
