(* ===== verification/App.thy ===== *)
theory App
  imports Routes InventoryApi
begin

text \<open>
  The application of \<^verbatim>\<open>app/main.py\<close> as one function from a request to its HTTP answer: the request id of
  \<^verbatim>\<open>RequestIdMiddleware\<close> (\<^verbatim>\<open>app/core/logging.py\<close>), the endpoint, the envelope \<^verbatim>\<open>ApiResponse\<close> of
  \<^verbatim>\<open>app/domain/models.py\<close>, the handlers of \<^verbatim>\<open>app/core/exceptions.py\<close>. One settings object and one external
  state serve all routers.
\<close>

section \<open>Requests and answers\<close>

datatype app_call =
    Health
  | Token string string
  | LoginForm "string option" string
  | LoginPost string string "string option"
  | AuthCall auth_call
  | DeployCall deploy_call
  | CommandCall command_call
  | InventoryCall inventory_call

datatype app_reply =
    OfHealth
  | OfToken token_data
  | OfLogin login_reply
  | OfAuth auth_reply
  | OfDeploy deploy_reply
  | OfCommand command_reply
  | OfInventory inventory_reply

text \<open>
  \<open>Enveloped\<close> is \<^verbatim>\<open>ApiResponse\<close> (data, request id, dry-run marker), \<open>ErrorBody\<close> the body of \<^verbatim>\<open>_error_body\<close>
  (code, message, request id), \<open>FrameworkError\<close> a body with \<^verbatim>\<open>detail\<close> only, which the framework writes by itself.
\<close>

datatype http_body =
    Enveloped app_reply string bool
  | Plain app_reply
  | Html view_page
  | ErrorBody string string string
  | FrameworkError string

record http_answer =
  an_status :: int
  an_body :: http_body
  an_coordination_id :: "string option"

record ('e, 'd) app =
  ap_env :: "('e, 'd) env"
  ap_deploy :: "'e deploy_env"
  ap_client :: "'e pod inventory"
  ap_json_loads :: "string \<Rightarrow> exn + json"
  ap_ansi_html :: "string \<Rightarrow> string"
  ap_jwt_decode :: "string \<Rightarrow> claims option"
  ap_jwt_encode :: "claims \<Rightarrow> int \<Rightarrow> string"
  ap_token_minutes :: int
  ap_users :: "user_records option"
  ap_checkpw :: "string \<Rightarrow> string \<Rightarrow> exn + bool"
  ap_hashpw :: "string \<Rightarrow> exn + string"

abbreviation ap_settings :: "('e, 'd) app \<Rightarrow> settings" where
  "ap_settings a \<equiv> env_settings (ap_env a)"

section \<open>The request id\<close>

text \<open>\<^verbatim>\<open>coordination_id or str(uuid.uuid4())\<close>.\<close>

definition choose_request_id :: "('e, 'd) env \<Rightarrow> string option \<Rightarrow> ('e pod, string) io" where
  "choose_request_id env coordination_id =
     (case truthy coordination_id of Some i \<Rightarrow> ret i | None \<Rightarrow> ext (new_uuid env))"

section \<open>Endpoints\<close>

definition handle_app :: "('e, 'd) app \<Rightarrow> string \<Rightarrow> http_auth \<Rightarrow> app_call \<Rightarrow> ('e pod, app_reply) io" where
  "handle_app a request_id auth c = (case c of
       Health \<Rightarrow> ret OfHealth
     | Token account password \<Rightarrow> liftE (map_sum id OfToken
         (token_endpoint (ap_checkpw a) (ap_jwt_encode a) (ap_token_minutes a) (ap_users a) account password))
     | LoginForm next_url err \<Rightarrow> ret (OfLogin (login_page next_url err))
     | LoginPost account password next_url \<Rightarrow> liftE (map_sum id OfLogin
         (login_submit (ap_checkpw a) (ap_jwt_encode a) (ap_token_minutes a) (ap_users a) account password next_url))
     | AuthCall ac \<Rightarrow> liftE (map_sum id OfAuth (serve_auth (ap_hashpw a) (ap_jwt_decode a) (ha_header auth) ac))
     | DeployCall dc \<Rightarrow> bindE (ext (serve_deploy ((ap_deploy a)\<lparr>de_dry_run := DRY_RUN_MODE (ap_settings a)\<rparr>)
         (ap_ansi_html a) (ap_jwt_decode a) auth dc)) (\<lambda>r. ret (OfDeploy r))
     | CommandCall cc \<Rightarrow> bindE (serve (ap_env a) (Some (get_inventory_repository (ap_settings a) (ap_client a)))
         (ap_json_loads a) (ap_ansi_html a) (ap_jwt_decode a) request_id auth cc) (\<lambda>r. ret (OfCommand r))
     | InventoryCall ic \<Rightarrow> bindE (serve_inventory (ap_settings a) (compile_regex (ap_env a)) (ap_client a)
         (ap_jwt_decode a) (ha_header auth) ic) (\<lambda>r. ret (OfInventory r)))"

section \<open>Answers\<close>

text \<open>Status and body of what an endpoint returns.\<close>

fun present :: "bool \<Rightarrow> string \<Rightarrow> app_reply \<Rightarrow> int \<times> http_body" where
  "present dry rid OfHealth = (200, Plain OfHealth)"
| "present dry rid (OfToken t) = (200, Plain (OfToken t))"
| "present dry rid (OfLogin (LoginPage n e)) = (200, Plain (OfLogin (LoginPage n e)))"
| "present dry rid (OfLogin (LoginRedirected target t age)) = (303, Plain (OfLogin (LoginRedirected target t age)))"
| "present dry rid (OfCommand (RPage v)) = (200, Html v)"
| "present dry rid (OfDeploy (RJobPage v)) = (200, Html v)"
| "present dry rid (OfCommand RUnprocessable) = (422, FrameworkError ''validation'')"
| "present dry rid (OfDeploy RDeployUnprocessable) = (422, FrameworkError ''validation'')"
| "present dry rid (OfAuth RAuthUnprocessable) = (422, FrameworkError ''validation'')"
| "present dry rid reply = (200, Enveloped reply rid dry)"

definition internal_error :: "string \<Rightarrow> http_body" where
  "internal_error request_id =
     ErrorBody ''INTERNAL_SERVER_ERROR'' ''An unexpected error occurred. Please try again later.'' request_id"

definition app_exception_handler :: "string \<Rightarrow> string option \<Rightarrow> app_kind \<Rightarrow> string \<Rightarrow> http_answer" where
  "app_exception_handler request_id echo k m =
     \<lparr>an_status = http_status k, an_body = ErrorBody (error_code k) m request_id, an_coordination_id = echo\<rparr>"

definition unhandled_exception_handler :: "string \<Rightarrow> http_answer" where
  "unhandled_exception_handler request_id =
     \<lparr>an_status = 500, an_body = internal_error request_id, an_coordination_id = None\<rparr>"

text \<open>
  \<^verbatim>\<open>dispatch\<close>. An application error and the framework's 401 are answered inside the middleware; any other
  exception passes through it, so that \<^verbatim>\<open>unhandled_exception_handler\<close> answers without the header;
  a cancelled request is not answered.
\<close>

definition respond :: "('e, 'd) app \<Rightarrow> string option \<Rightarrow> http_auth \<Rightarrow> app_call \<Rightarrow> ('e pod, http_answer) io" where
  "respond a coordination_id auth c =
     bindE (choose_request_id (ap_env a) coordination_id) (\<lambda>request_id.
       let echo = (if coordination_id \<noteq> None then Some request_id else None) in
       catchE
         (bindE (handle_app a request_id auth c) (\<lambda>reply.
            case present (DRY_RUN_MODE (ap_settings a)) request_id reply of
              (status, body) \<Rightarrow> ret \<lparr>an_status = status, an_body = body, an_coordination_id = echo\<rparr>))
         (\<lambda>exc. case exc of
              AppExc k m \<Rightarrow> ret (app_exception_handler request_id echo k m)
            | NotAuthenticated \<Rightarrow> ret \<lparr>an_status = 401, an_body = FrameworkError ''Not authenticated'',
                 an_coordination_id = echo\<rparr>
            | Cancelled \<Rightarrow> raise Cancelled
            | _ \<Rightarrow> ret (unhandled_exception_handler request_id)))"

section \<open>Who may call what\<close>

text \<open>The scopes an endpoint asks for; \<open>None\<close> is a public one.\<close>

fun guarded_by :: "app_call \<Rightarrow> string list option" where
  "guarded_by (AuthCall (HashPassword _)) = None"
| "guarded_by (AuthCall _) = Some []"
| "guarded_by (DeployCall (ViewJob _ _)) = None"
| "guarded_by (DeployCall _) = Some [''deploy_api'']"
| "guarded_by (CommandCall (ViewPage _)) = None"
| "guarded_by (CommandCall c) = Some (required_scope c)"
| "guarded_by (InventoryCall _) = Some [''command_api'']"
| "guarded_by _ = None"

text \<open>The endpoints that also read the cookie: the logs a viewer page polls.\<close>

fun reads_cookie :: "app_call \<Rightarrow> bool" where
  "reads_cookie (CommandCall (TraceUi _ _ _)) = True"
| "reads_cookie (DeployCall (JobTraceUi _ _ _ _)) = True"
| "reads_cookie _ = False"

text \<open>What a guarded endpoint does for a user.\<close>

definition run_as :: "('e, 'd) app \<Rightarrow> string \<Rightarrow> user \<Rightarrow> app_call \<Rightarrow> ('e pod, app_reply) io" where
  "run_as a request_id u c = (case c of
       AuthCall Verify \<Rightarrow> ret (OfAuth (RVerify (us_account u) (us_scopes u) True))
     | AuthCall MyScopes \<Rightarrow> ret (OfAuth (RScopes (us_account u) (us_scopes u)))
     | DeployCall dc \<Rightarrow> bindE (ext (handle_deploy ((ap_deploy a)\<lparr>de_dry_run := DRY_RUN_MODE (ap_settings a)\<rparr>)
         (ap_ansi_html a) (us_account u) dc)) (\<lambda>r. ret (OfDeploy r))
     | CommandCall cc \<Rightarrow> bindE (if unprocessable cc then ret RUnprocessable
         else handle_call (ap_env a) (Some (get_inventory_repository (ap_settings a) (ap_client a))) (ap_json_loads a)
           (ap_ansi_html a) request_id (us_account u) cc) (\<lambda>r. ret (OfCommand r))
     | InventoryCall ic \<Rightarrow> bindE (handle_inventory (ap_settings a) (compile_regex (ap_env a)) (ap_client a) ic)
         (\<lambda>r. ret (OfInventory r))
     | _ \<Rightarrow> raise NotAuthenticated)"

section \<open>Lemmas\<close>

lemma bindE_moved: "bindE m (\<lambda>r. ret (f r)) p = (r, p') \<Longrightarrow> (\<exists>x. r = Inr x) \<or> p' \<noteq> p
    \<Longrightarrow> \<exists>r0. m p = (r0, p') \<and> ((\<exists>x. r0 = Inr x) \<or> p' \<noteq> p)"
  by (auto simp: io_run split: prod.splits sum.splits)

lemma ext_moved: "ext m p = (r, p') \<Longrightarrow> (\<exists>x. r = Inr x) \<or> p' \<noteq> p
    \<Longrightarrow> \<exists>e'. m (pod_world p) = (r, e') \<and> p' = p\<lparr>pod_world := e'\<rparr> \<and> ((\<exists>x. r = Inr x) \<or> e' \<noteq> pod_world p)"
  by (auto simp: io_run split: prod.splits)

text \<open>An endpoint that answers or acts has accepted a token and runs as its user.\<close>

lemma handled_auth:
  assumes "handle_app a rid auth c p = (r, p')" "(\<exists>x. r = Inr x) \<or> p' \<noteq> p" "guarded_by c = Some required" "c = AuthCall ac"
  shows "\<exists>t u. (ha_header auth = Some t \<or> reads_cookie c \<and> ha_cookie auth = Some t)
    \<and> validate_token (ap_jwt_decode a) t required = Inr u \<and> (r, p') = run_as a rid u c p"
proof -
  from assms(1,2,4) obtain reply where reply: "serve_auth (ap_hashpw a) (ap_jwt_decode a) (ha_header auth) ac = Inr reply"
      "r = Inr (OfAuth reply)" "p' = p"
    by (cases "serve_auth (ap_hashpw a) (ap_jwt_decode a) (ha_header auth) ac") (auto simp: handle_app_def io_run)
  from assms(3) assms(4) have ac: "\<And>pw. ac \<noteq> HashPassword pw" "required = []" by (cases ac; simp)+
  from serve_auth_reply [OF reply(1) ac(1)] reply(2,3) ac(2) assms(4) show ?thesis
    by (auto simp: run_as_def io_run)
qed

lemma handled_deploy:
  assumes "handle_app a rid auth c p = (r, p')" "(\<exists>x. r = Inr x) \<or> p' \<noteq> p" "guarded_by c = Some required" "c = DeployCall dc"
  shows "\<exists>t u. (ha_header auth = Some t \<or> reads_cookie c \<and> ha_cookie auth = Some t)
    \<and> validate_token (ap_jwt_decode a) t required = Inr u \<and> (r, p') = run_as a rid u c p"
proof -
  let ?de = "(ap_deploy a)\<lparr>de_dry_run := DRY_RUN_MODE (ap_settings a)\<rparr>"
  have req: "required = [''deploy_api'']" and public: "\<And>job pid. dc \<noteq> ViewJob job pid"
    using assms(3) assms(4) by (cases dc; simp)+
  have cookie: "(\<exists>job off num pid. dc = JobTraceUi job off num pid) = reads_cookie c" using assms(4) by (cases dc) auto
  have run: "bindE (ext (serve_deploy ?de (ap_ansi_html a) (ap_jwt_decode a) auth dc)) (\<lambda>r. ret (OfDeploy r)) p = (r, p')"
    using assms(1) assms(4) by (simp add: handle_app_def)
  from bindE_moved [OF this assms(2)] obtain r0 where "ext (serve_deploy ?de (ap_ansi_html a) (ap_jwt_decode a) auth dc) p = (r0, p')"
      "(\<exists>x. r0 = Inr x) \<or> p' \<noteq> p" by blast
  from ext_moved [OF this] obtain e' where served: "serve_deploy ?de (ap_ansi_html a) (ap_jwt_decode a) auth dc (pod_world p) = (r0, e')"
      "(\<exists>x. r0 = Inr x) \<or> e' \<noteq> pod_world p" by blast
  from deploy_requires_scope [OF served public] obtain t u where
    u: "ha_header auth = Some t \<or> reads_cookie c \<and> ha_cookie auth = Some t" "validate_token (ap_jwt_decode a) t [''deploy_api''] = Inr u"
    and as: "handle_deploy ?de (ap_ansi_html a) (us_account u) dc (pod_world p) = (r0, e')" unfolding cookie by metis
  from run served(1) as have "run_as a rid u c p = (r, p')" by (simp add: run_as_def assms(4) io_run)
  with u req show ?thesis by metis
qed

lemma handled_command:
  assumes "handle_app a rid auth c p = (r, p')" "(\<exists>x. r = Inr x) \<or> p' \<noteq> p" "guarded_by c = Some required" "c = CommandCall cc"
  shows "\<exists>t u. (ha_header auth = Some t \<or> reads_cookie c \<and> ha_cookie auth = Some t)
    \<and> validate_token (ap_jwt_decode a) t required = Inr u \<and> (r, p') = run_as a rid u c p"
proof -
  let ?inv = "Some (get_inventory_repository (ap_settings a) (ap_client a))"
  have req: "required = required_scope cc" and public: "\<And>cid. cc \<noteq> ViewPage cid"
    using assms(3) assms(4) by (cases cc; simp)+
  have cookie: "(\<exists>cid off num. cc = TraceUi cid off num) = reads_cookie c" using assms(4) by (cases cc) auto
  have run: "bindE (serve (ap_env a) ?inv (ap_json_loads a) (ap_ansi_html a) (ap_jwt_decode a) rid auth cc) (\<lambda>r. ret (OfCommand r)) p = (r, p')"
    using assms(1) assms(4) by (simp add: handle_app_def)
  from bindE_moved [OF this assms(2)] obtain r0 where
    served: "serve (ap_env a) ?inv (ap_json_loads a) (ap_ansi_html a) (ap_jwt_decode a) rid auth cc p = (r0, p')"
      "(\<exists>x. r0 = Inr x) \<or> p' \<noteq> p" by blast
  from command_requires_scope [OF served public] obtain t u where
    u: "ha_header auth = Some t \<or> reads_cookie c \<and> ha_cookie auth = Some t"
      "validate_token (ap_jwt_decode a) t (required_scope cc) = Inr u"
    and as: "(r0, p') = (if unprocessable cc then (Inr RUnprocessable, p)
        else handle_call (ap_env a) ?inv (ap_json_loads a) (ap_ansi_html a) rid (us_account u) cc p)" unfolding cookie by metis
  from run served(1) as have "run_as a rid u c p = (r, p')" by (auto simp: run_as_def assms(4) io_run split: if_splits)
  with u req show ?thesis by metis
qed

lemma handled_inventory:
  assumes "handle_app a rid auth c p = (r, p')" "(\<exists>x. r = Inr x) \<or> p' \<noteq> p" "guarded_by c = Some required" "c = InventoryCall ic"
  shows "\<exists>t u. (ha_header auth = Some t \<or> reads_cookie c \<and> ha_cookie auth = Some t)
    \<and> validate_token (ap_jwt_decode a) t required = Inr u \<and> (r, p') = run_as a rid u c p"
proof -
  have req: "required = [''command_api'']" using assms(3) assms(4) by simp
  let ?serve = "serve_inventory (ap_settings a) (compile_regex (ap_env a)) (ap_client a) (ap_jwt_decode a) (ha_header auth) ic"
  have run: "bindE ?serve (\<lambda>r. ret (OfInventory r)) p = (r, p')" using assms(1) assms(4) by (simp add: handle_app_def)
  from bindE_moved [OF this assms(2)] obtain r0 where served: "?serve p = (r0, p')" "(\<exists>x. r0 = Inr x) \<or> p' \<noteq> p" by blast
  from serve_inventory_run [OF served] obtain t u where u: "ha_header auth = Some t" "validate_token (ap_jwt_decode a) t [''command_api''] = Inr u"
    and as: "(r0, p') = handle_inventory (ap_settings a) (compile_regex (ap_env a)) (ap_client a) ic p" by blast
  from run served(1) as [symmetric] have "run_as a rid u c p = (r, p')" by (simp add: run_as_def assms(4) io_run)
  with u req show ?thesis by metis
qed

lemma handled_as:
  assumes "handle_app a rid auth c p = (r, p')" "(\<exists>x. r = Inr x) \<or> p' \<noteq> p" "guarded_by c = Some required"
  shows "\<exists>t u. (ha_header auth = Some t \<or> reads_cookie c \<and> ha_cookie auth = Some t)
    \<and> validate_token (ap_jwt_decode a) t required = Inr u \<and> (r, p') = run_as a rid u c p"
  using handled_auth [OF assms] handled_deploy [OF assms] handled_command [OF assms] handled_inventory [OF assms] assms(3)
  by (cases c) simp_all

lemma present_cases:
  "present dry rid reply = (status, body) \<Longrightarrow>
     body = Enveloped reply rid dry \<and> status = 200 \<or> body = Plain reply \<and> (status = 200 \<or> status = 303)
     \<or> (\<exists>v. body = Html v) \<and> status = 200 \<or> body = FrameworkError ''validation'' \<and> status = 422"
  by (cases "(dry, rid, reply)" rule: present.cases) auto

lemma respond_run:
  assumes "choose_request_id (ap_env a) coordination_id p = (Inr rid, p1)"
  shows "respond a coordination_id auth c p =
    (let echo = (if coordination_id \<noteq> None then Some rid else None) in case handle_app a rid auth c p1 of
       (Inr reply, p') \<Rightarrow> (case present (DRY_RUN_MODE (ap_settings a)) rid reply of (status, body) \<Rightarrow>
          (Inr \<lparr>an_status = status, an_body = body, an_coordination_id = echo\<rparr>, p'))
     | (Inl (AppExc k m), p') \<Rightarrow> (Inr \<lparr>an_status = http_status k, an_body = ErrorBody (error_code k) m rid,
          an_coordination_id = echo\<rparr>, p')
     | (Inl NotAuthenticated, p') \<Rightarrow> (Inr \<lparr>an_status = 401, an_body = FrameworkError ''Not authenticated'',
          an_coordination_id = echo\<rparr>, p')
     | (Inl Cancelled, p') \<Rightarrow> (Inl Cancelled, p')
     | (Inl _, p') \<Rightarrow> (Inr \<lparr>an_status = 500, an_body = internal_error rid, an_coordination_id = None\<rparr>, p'))"
  by (simp add: respond_def app_exception_handler_def unhandled_exception_handler_def bindE_run catchE_run ret_run raise_run assms Let_def split: prod.split sum.split exn.split)

lemma status_is_error [simp]:
  "400 \<le> http_status k" "http_status k < 600" "http_status k \<noteq> 200" "error_code k \<noteq> ''INTERNAL_SERVER_ERROR''"
  by (cases k; simp)+

definition demo_app :: "(demo_world, command_state) app" where
  "demo_app = \<lparr>ap_env = demo_env (demo_settings False) demo_whitelist demo_answer,
     ap_deploy = \<lparr>de_dry_run = False, de_now = ''t'', de_sdk = (\<lambda>_ _. demo_gitlab), de_decode = (\<lambda>b. b), de_auth = [],
       de_cache = \<lparr>bin_get = (\<lambda>_. ret None), bin_setex = (\<lambda>_ _ _. ret ()), gz_compress = (\<lambda>d. d), gz_decompress = Inr\<rparr>,
       GITLAB_URL = ''https://gitlab.com/'', GITLAB_PROJECT_ID = 1, GITLAB_TOKEN = JStr [],
       GITLAB_TRACE_TIMEOUT_SECONDS = 45, GITLAB_TRACE_CACHE_TTL_SECONDS = 60, GITLAB_TRACE_SOFT_CAP_BYTES = 1000,
       GITLAB_TRACE_HARD_CAP_BYTES = 2000\<rparr>,
     ap_client = DryRunInventoryRepository ''vm'' ''c'' ''ip'', ap_json_loads = (\<lambda>_. Inl (PyValueError [])),
     ap_ansi_html = (\<lambda>l. l), ap_jwt_decode = (\<lambda>_. Some (token_claims \<lparr>us_account = ''alice'', us_scopes = [''command_api'']\<rparr>)),
     ap_jwt_encode = (\<lambda>_ _. ''t''), ap_token_minutes = 60, ap_users = None,
     ap_checkpw = (\<lambda>_ _. Inr False), ap_hashpw = Inr\<rparr>"

lemma demo_app_verify:
  "respond demo_app (Some ''req-1'') \<lparr>ha_header = Some ''t'', ha_cookie = None\<rparr> (AuthCall Verify) (demo_pod [])
   = (Inr \<lparr>an_status = 200, an_body = Enveloped (OfAuth (RVerify ''alice'' [''command_api''] True)) ''req-1'' False,
        an_coordination_id = Some ''req-1''\<rparr>, demo_pod [])"
proof -
  have "validate_token (ap_jwt_decode demo_app) ''t'' [] = Inr \<lparr>us_account = ''alice'', us_scopes = [''command_api'']\<rparr>"
    using validate_issued [of "ap_jwt_decode demo_app" "''t''" "\<lparr>us_account = ''alice'', us_scopes = [''command_api'']\<rparr>" "[]"]
    by (simp add: demo_app_def)
  moreover have "choose_request_id (ap_env demo_app) (Some ''req-1'') (demo_pod []) = (Inr ''req-1'', demo_pod [])"
    by (simp add: choose_request_id_def truthy_def io_run)
  moreover have "DRY_RUN_MODE (ap_settings demo_app) = False" by (simp add: demo_app_def demo_env_def demo_settings_def)
  ultimately show ?thesis
    by (simp add: respond_run handle_app_def serve_auth_def get_current_user_def verify_user_def io_run)
qed

section \<open>Properties\<close>





end
