(* ===== verification/EndToEnd.thy ===== *)
theory EndToEnd
  imports App
begin

text \<open>
  A run from its request to the answer of a poll: \<open>execute_command\<close> registers it, the background task it creates runs
  \<open>timeout_wrapper\<close>, and \<open>get_command_execution_result\<close> reads what the task stored.
\<close>

section \<open>Lemmas\<close>

lemma registered_entry: "map_of (pod_pool p) cid = Some en \<Longrightarrow> pod_pool p' = alist_set cid en (pod_pool p0)
    \<Longrightarrow> map_of (pod_pool p') cid = Some en"
  by simp

lemma alist_set_others: "filter (\<lambda>(k, _). k \<noteq> cid) (alist_set cid v xs) = filter (\<lambda>(k, _). k \<noteq> cid) xs"
  by (induction xs) auto

lemma pool_view_others:
  "filter (\<lambda>(k, _). k \<noteq> cid) (pool_view p) =
     map (\<lambda>(k, en). (k, en_host_ip en, en_killable en, en_conn en)) (filter (\<lambda>(k, _). k \<noteq> cid) (pod_pool p))"
  by (simp add: pool_view_def view_filter)

text \<open>The poll of a finished record.\<close>

lemma poll_finished:
  assumes "redis_ok env kv" "stored env kv p cid = Some s" "\<not> in_transit s"
  shows "get_command_execution_result env loads cid OF_RAW p = (Inr (poll_response s (None, None)), p)"
  using poll_run [OF assms(1,2), of OF_RAW loads] assms(3)
  by (simp add: ensure_format_allowed_def parsed_for_def)

text \<open>A task whose pipeline and process succeed stores exactly the response built from what the process gave.\<close>

lemma execution_delivers:
  assumes "redis_ok env kv" "ssh_frame env kv" "ids_match env kv p" "0 < COMMAND_RESULT_TTL_SECONDS (env_settings env)"
    and "0 < t + 30" "stored env kv p cid = Some s" "cs_status s = RUNNING"
    and pipe: "execute_pipeline env cx cid p = (Inr (Some (pr, gs)), q)"
    and out: "\<And>q. fst (collect_output env pr q) = Inr (rc, out)"
    and "cc_logged (cx_cmd_config cx) \<longrightarrow> rc = Some 0 \<or> out \<noteq> []"
  shows "\<exists>p'. execution_task env cx cid t p = (Inr (), p')
    \<and> stored env kv p' cid = Some (store_updater (finished_response (env_settings env) cid (cc_logged (cx_cmd_config cx)) rc out)
          (with_pgids gs s))"
proof -
  note g1 = gentlyD [OF gently_execute_pipeline [OF assms(2)] pipe]
  have s1: "stored env kv q = stored env kv p" by (rule same_records [OF g1(3)])
  have i1: "ids_match env kv q" using same_ids [OF s1] assms(3) by simp
  have c1: "stored env kv q cid = Some s" using s1 assms(6) by simp
  obtain u p2 where u: "record_pgids env cid gs t q = (u, p2)" by fastforce
  from pgids_update [OF assms(1) i1 assms(5) c1 u [unfolded record_pgids_def]]
  have u2: "u = Inr ()" "ids_match env kv p2" "stored env kv p2 = (stored env kv p)(cid \<mapsto> with_pgids gs s)"
    by (simp_all add: s1)
  obtain p3 where co: "collect_output env pr p2 = (Inr (rc, out), p3)"
    using out [of p2] by (cases "collect_output env pr p2") auto
  have k: "keeps kv (collect_output env pr)" using assms(2) by (rule quiet)
  note p3 = keeps_stored [OF k co, of env] ids_match_keeps [OF k co, of env]
  obtain x p' where sr: "store_result env cid (finished_response (env_settings env) cid (cc_logged (cx_cmd_config cx)) rc out) p3 = (x, p')"
    by fastforce
  have gr: "gather_result env (cc_logged (cx_cmd_config cx)) cid (Some (pr, gs)) p2 = (Inr (rc, out), p3)"
    using assms(10) by (auto simp: gather_result_def bindE_run ret_run co)
  have "stored env kv p3 cid = Some (with_pgids gs s)" using p3 u2 by simp
  with store_result_effect [OF assms(1) _ assms(4) sr] assms(7) p3(2) u2(2)
  have "x = Inr ()" "stored env kv p' cid = Some (store_updater (finished_response (env_settings env) cid
      (cc_logged (cx_cmd_config cx)) rc out) (with_pgids gs s))" by simp_all
  moreover have "execution_task env cx cid t p = (x, p')"
    by (simp add: execution_task_def bindE_run [of "execute_pipeline env cx cid"] pipe thenE_run u u2(1)
        bindE_run [of "gather_result _ _ _ _"] gr sr)
  ultimately show ?thesis by blast
qed

lemma settled_record:
  "cs_exit_code (store_updater (finished_response cfg cid logged rc out) s) = (if rc = None then cs_exit_code s else rc)"
  "cs_status (store_updater (finished_response cfg cid logged rc out) s) = (if rc = Some 0 then SUCCESS else FAILED)"
  "\<not> logged \<Longrightarrow> cs_output (store_updater (finished_response cfg cid logged rc out) s) = Some out"
  by (auto simp: store_updater_def finished_response_def apply_output_policy_def response_success_def response_failed_def
      response_def mark_success_def mark_failed_def text_of_def Let_def)

lemma settled_poll:
  fixes cx cfg cid logged rc out gs x
  defines "resp \<equiv> poll_response (store_updater (finished_response cfg cid logged rc out) (with_pgids gs (initial_state cx cid))) x"
  shows "rs_command_id resp = Some cid" "rs_status resp = (if rc = Some 0 then ''success'' else ''failed'')"
    "rs_exit_status resp = rc"
    "rs_resolved_ip resp = Some (rh_ip (cx_resolved_host cx))" "rs_ssh_config resp = Some (cx_effective_ssh_config cx)"
    "rs_pgids resp = gs"
  unfolding resp_def
  by (simp_all add: poll_response_def settled_record del: store_updater_status)
     (simp_all add: store_updater_def mark_success_def mark_failed_def with_pgids_def set_pgids_def initial_state_def Let_def)

lemma settled_poll_output:
  "logged \<or> rs_output (poll_response (store_updater (finished_response cfg cid logged rc out) s) x) = Some out"
  by (cases logged) (simp_all add: poll_response_def settled_record)

text \<open>The wrapper after a task that returned: the connection is closed and the slot freed, the records stay.\<close>

lemma wrapper_finish:
  assumes "ssh_frame env kv" "cx_conn cx = Some (RealConn n)" "\<And>e. fst (ssh_close env n e) = Inr ()"
    and "execution_task env cx cid t p = (Inr (), p1)"
  shows "\<exists>p2. timeout_wrapper env cx cid t p = (Inr (), p2) \<and> stored env kv p2 = stored env kv p1"
proof -
  obtain r p2 where w: "timeout_wrapper env cx cid t p = (r, p2)" by fastforce
  have "guarded_task env cx cid t p = (Inr (), p1)" by (simp add: guarded_task_run assms(4))
  from wrapper_finally [OF assms(1-3) this w] w show ?thesis by blast
qed

text \<open>What a launch that answers a command id has registered: the context its background task runs with.\<close>

definition launched_as ::
  "('e, 'd) env \<Rightarrow> ('e \<Rightarrow> string \<Rightarrow> 'd option) \<Rightarrow> command_request \<Rightarrow> string \<Rightarrow> execution_context \<Rightarrow> 'e pod \<Rightarrow> bool" where
  "launched_as env kv req cid cx p \<longleftrightarrow> cx_raw_request cx = req \<and> \<not> cc_disconnects_ssh (cx_cmd_config cx)
     \<and> stored env kv p cid = Some (initial_state cx cid)
     \<and> (\<exists>n. cx_conn cx = Some (RealConn n) \<and> map_of (pod_pool p) cid = Some (initial_entry cx (RealConn n)))"

lemma launch_registers:
  assumes "redis_ok env kv" "ssh_frame env kv" "uuid_ok env" "inventory_frame kv inven" "ids_match env kv p"
    and "-30 < run_timeout (env_settings env) req" "\<not> DRY_RUN_MODE (env_settings env)"
    and "execute_command env inven u rid req p = (Inr launched, p1)" "rs_command_id launched = Some cid"
  shows "\<exists>cx. launched_as env kv req cid cx p1 \<and> ids_match env kv p1
    \<and> stored env kv p1 = (stored env kv p)(cid \<mapsto> initial_state cx cid)
    \<and> filter (\<lambda>(k, _). k \<noteq> cid) (pool_view p1) = filter (\<lambda>(k, _). k \<noteq> cid) (pool_view p)"
proof -
  from execute_launched [OF assms(1-4,6,8)] assms(7,9) obtain cx n where
    l: "cx_raw_request cx = req" "\<not> cc_disconnects_ssh (cx_cmd_config cx)" "cx_conn cx = Some (RealConn n)"
      "pod_pool p1 = alist_set cid (initial_entry cx (RealConn n)) (pod_pool p)"
      "stored env kv p1 = (stored env kv p)(cid \<mapsto> initial_state cx cid)" by auto
  have "ids_match env kv p1" using assms(5) l(5) by (auto simp: ids_match_def initial_state_def)
  with l show ?thesis
    by (intro exI [of _ cx]) (simp add: launched_as_def pool_view_others alist_set_others)
qed

section \<open>Properties\<close>


lemma launch_demo_real:
  "\<exists>p1. execute_command (demo_launch_env False) None ''alice'' ''r1'' demo_request (demo_pod [])
     = (Inr ((response ''running'')\<lparr>rs_command_id := Some ''u1''\<rparr>), p1)"
proof -
  obtain cx where cx: "prepare_execution (demo_launch_env False) None ''alice'' ''r1'' demo_request (demo_pod [])
      = (Inr cx, demo_pod [])" "cx_cmd_config cx = demo_config" "cx_raw_request cx = demo_request" "cx_run_id cx = None"
      "cx_ssh_config cx = \<lparr>sc_auth_method = ''key'', sc_key_base64 = ''a2V5'', sc_cert_base64 = None\<rparr>"
    by (simp add: launch_eval)
  have b: "build cx = Inr [[''run'', ''site.yml'']]"
    unfolding build_def cx(2-4) by code_simp
  have flags: "\<not> cc_logged demo_config" "\<not> cc_disconnects_ssh demo_config" "\<not> cc_checks_script_version demo_config"
    by (simp_all add: demo_config_def)
  have opt: "rq_option demo_request = None" by (simp add: demo_request_def)
  have real: "DRY_RUN_MODE (env_settings (demo_launch_env False)) = False" by (simp add: demo_env_def demo_settings_def)
  have conn: "connect (demo_launch_env False) (cx\<lparr>cx_pipeline_cmds := cmds\<rparr>) demo_request (demo_pod []) = (Inr (RealConn 0), demo_pod [])"
    for cmds by (simp add: connect_def real cx(5) create_authenticator_def Let_def io_run ssh_connect_within_def)
      (simp add: demo_env_def io_run)
  show ?thesis
    by (simp add: execute_command_def io_run check_capacity_def pool_size_def cx b assign_run_id_def flags conn
        run_on_def precheck_script_version_def handle_async_execution_def truthy_def pool_add_def
        repo_save_def create_task_def run_timeout_def opt)
       (simp add: demo_env_def demo_settings_def demo_setex_def io_run)
qed


text \<open>
  Property C2. The result of the host reaches the caller. When the pipeline of a launched run starts and its last process ends
  with some exit code and text, the task returns, and a poll of the id answers \<^verbatim>\<open>success\<close> exactly for the exit
  code 0, with this exit code, the process's text unchanged (for a command that is not logged), and the address, the SSH
  configuration and the process groups of the run. A logged run that failed without a text is the exception: its output is
  read back from its log.
\<close>

theorem output_reaches_caller:
  assumes "redis_ok env kv" "ssh_frame env kv" "ids_match env kv p1" "launched_as env kv req cid cx p1"
    and "-30 < run_timeout (env_settings env) req"
    and "0 < COMMAND_RESULT_TTL_SECONDS (env_settings env)" "\<And>n e. fst (ssh_close env n e) = Inr ()"
    and "execute_pipeline env cx cid p1 = (Inr (Some (pr, gs)), q)"
    and "\<And>q. fst (collect_output env pr q) = Inr (rc, out)"
    and "cc_logged (cx_cmd_config cx) \<longrightarrow> rc = Some 0 \<or> out \<noteq> []"
  shows "\<exists>p2 resp. timeout_wrapper env cx cid (run_timeout (env_settings env) req) p1 = (Inr (), p2)
    \<and> get_command_execution_result env loads cid OF_RAW p2 = (Inr resp, p2)
    \<and> rs_command_id resp = Some cid \<and> rs_status resp = (if rc = Some 0 then ''success'' else ''failed'')
    \<and> rs_exit_status resp = rc \<and> (cc_logged (cx_cmd_config cx) \<or> rs_output resp = Some out)
    \<and> rs_resolved_ip resp = Some (rh_ip (cx_resolved_host cx))
    \<and> rs_ssh_config resp = Some (cx_effective_ssh_config cx) \<and> rs_pgids resp = gs"
proof -
  from assms(4) obtain n where n: "cx_conn cx = Some (RealConn n)" by (auto simp: launched_as_def)
  have st: "stored env kv p1 cid = Some (initial_state cx cid)" "cs_status (initial_state cx cid) = RUNNING"
    using assms(4) by (simp_all add: launched_as_def initial_state_def)
  have t: "0 < run_timeout (env_settings env) req + 30" using assms(5) by simp
  let ?s = "store_updater (finished_response (env_settings env) cid (cc_logged (cx_cmd_config cx)) rc out)
      (with_pgids gs (initial_state cx cid))"
  from execution_delivers [OF assms(1-3,6) t st assms(8-10)] obtain p' where
    p': "execution_task env cx cid (run_timeout (env_settings env) req) p1 = (Inr (), p')" "stored env kv p' cid = Some ?s" by blast
  from wrapper_finish [OF assms(2) n assms(7) p'(1)] p'(2) obtain p2 where
    p2: "timeout_wrapper env cx cid (run_timeout (env_settings env) req) p1 = (Inr (), p2)" "stored env kv p2 cid = Some ?s" by metis
  have "\<not> in_transit ?s" by (simp add: in_transit_def settled_record)
  note poll = poll_finished [OF assms(1) p2(2) this, of loads]
  show ?thesis
    by (intro exI [of _ p2] exI [of _ "poll_response ?s (None, None)"]) (simp add: p2(1) poll settled_poll settled_poll_output)
qed

lemma output_reaches_caller_witness:
  "\<exists>cx p1 p2 resp. timeout_wrapper (demo_launch_env False) cx ''u1'' 300 p1 = (Inr (), p2)
     \<and> get_command_execution_result (demo_launch_env False) (\<lambda>_. Inl (PyValueError [])) ''u1'' OF_RAW p2 = (Inr resp, p2)
     \<and> rs_status resp = ''success'' \<and> rs_output resp = Some ''out'' \<and> rs_pgids resp = [77]"
proof -
  let ?env = "demo_launch_env False"
  define cx where "cx = demo_context\<lparr>cx_conn := Some (RealConn 0), cx_pipeline_cmds := [[''run'']]\<rparr>"
  define p1 where "p1 = (demo_pod [initial_state cx ''u1''])\<lparr>pod_pool := [(''u1'', initial_entry cx (RealConn 0))]\<rparr>"
  have req: "cx_raw_request cx = demo_request" "\<not> cc_disconnects_ssh (cx_cmd_config cx)" "\<not> cc_logged (cx_cmd_config cx)"
    by (simp_all add: cx_def demo_context_def demo_config_def)
  have same: "stored ?env map_of p1 = stored ?env map_of (demo_pod [initial_state cx ''u1''])"
    by (simp add: fun_eq_iff stored_def p1_def)
  have st: "stored ?env map_of p1 ''u1'' = Some (initial_state cx ''u1'')"
    unfolding same by (simp add: stored_demo initial_state_def)
  have l: "launched_as ?env map_of demo_request ''u1'' cx p1"
    unfolding launched_as_def using st req by (simp add: p1_def) (simp add: cx_def)
  have ids: "ids_match ?env map_of p1" unfolding same_ids [OF same] by (rule ids_match_demo)
  have t: "-30 < run_timeout (env_settings ?env) demo_request" "run_timeout (env_settings ?env) demo_request = 300"
      "0 < COMMAND_RESULT_TTL_SECONDS (env_settings ?env)"
    by (simp_all add: run_timeout_def demo_request_def) (simp_all add: demo_env_def demo_settings_def)
  have close: "\<And>n e. fst (ssh_close ?env n e) = Inr ()" by (simp add: demo_env_def ret_run)
  have pgid: "first_pgid (CHR ''7'' # CHR ''7'' # nl) = [77]" by code_simp
  have spawn: "spawn_steps ?env (RealConn 0) None False None [[''run'']] p1 = (Inr ([RealProc 0], [77]), p1)"
    by (simp add: io_run Let_def demo_env_def pgid)
  have fields: "cx_conn cx = Some (RealConn 0)" "cx_pipeline_cmds cx = [[''run'']]" "cx_run_log_path cx = None"
      "map_of (pod_pool p1) ''u1'' = Some (initial_entry cx (RealConn 0))"
    by (simp_all add: cx_def demo_context_def p1_def)
  obtain q where pipe: "execute_pipeline ?env cx ''u1'' p1 = (Inr (Some (RealProc 0, [77])), q)"
    by (simp add: execute_pipeline_def io_run fields spawn text_of_def entry_set_processes_def del: spawn_steps.simps)
  have merged: "merge_output ''out'' [] = ''out''" by code_simp
  have out: "\<And>q. fst (collect_output ?env (RealProc 0) q) = Inr (Some 0, ''out'')"
    using merged by (simp add: collect_output_def io_run demo_env_def text_of_def)
  from output_reaches_caller [OF redis_ok_demo ssh_frame_demo ids l t(1,3) close pipe out, of "\<lambda>_. Inl (PyValueError [])"] req
  show ?thesis unfolding t(2) by auto
qed

end
