(* ===== verification/Queue.thy ===== *)
theory Queue
  imports EndToEnd
begin

text \<open>
  The tasks of \<^verbatim>\<open>app/services/command_pool.py\<close> over time: a launched run first waits for the semaphore
  (\<^verbatim>\<open>COMMAND_MAX_CONCURRENCY\<close> holders, first come first served), while its record and its pool entry already exist.
  What can happen to a run that waits, and how far the counters of the pool can be exceeded.
\<close>

section \<open>A run that waits\<close>

lemma update_none:
  assumes "redis_ok env kv" "stored env kv p cid = None"
  obtains m where "repo_update env cid f ttl p = (Inl (AppExc CommandExecution m), p)"
  using repo_get_missing [OF assms] by (auto simp: repo_update_def update_with_def io_run)

text \<open>Without process groups a kill speaks to Redis only.\<close>

lemma kill_without_pgids:
  assumes "redis_ok env kv" "map_of (pod_pool p) cid = Some en" "en_pgids en = []" "force \<or> en_killable en"
    and "ids_match env kv p" "0 < COMMAND_RESULT_TTL_SECONDS (env_settings env)"
    and "stored env kv p cid = Some s" "cs_status s = RUNNING"
  shows "kill_command env cid msg force p =
    thenE (repo_update_if env cid is_running (mark_killing msg) (COMMAND_RESULT_TTL_SECONDS (env_settings env)))
      (repo_update env cid (mark_killed msg) (COMMAND_RESULT_TTL_SECONDS (env_settings env))) p"
proof -
  let ?ttl = "COMMAND_RESULT_TTL_SECONDS (env_settings env)"
  have permitted: "force \<or> killable_now env kv p cid" using assms(2,4) by (simp add: killable_now_def)
  obtain q where q: "repo_update_if env cid is_running (mark_killing msg) ?ttl p = (Inr True, q)" "pod_local q = pod_local p"
    using repo_update_if_true [OF assms(1,5,6,7), where C = is_running and f = "mark_killing msg"] assms(8)
    by (auto simp: is_running_def)
  then have "map_of (pod_pool q) cid = Some en" using assms(2) by (simp add: pod_local_def)
  then show ?thesis
    unfolding kill_body [OF permitted assms(1)]
    by (simp add: thenE_run check_recorded_config_local [OF assms(2)] bindE_run [of "repo_update_if _ _ _ _ _"] q(1)
        bindE_run [of "getS _"] pool_get_def getS_run do_kill_via_connection_def assms(3) ret_run)
qed

text \<open>The task of a run whose record is no longer \<^verbatim>\<open>RUNNING\<close> changes nothing of it but the process groups.\<close>

lemma task_after_kill:
  assumes "redis_ok env kv" "ssh_frame env kv" "ids_match env kv p" "0 < COMMAND_RESULT_TTL_SECONDS (env_settings env)"
    and "0 < t + 30" "stored env kv p cid = Some s" "cs_status s \<noteq> RUNNING"
    and "map_of (pod_pool p) cid = Some en"
    and run: "guarded_task env cx cid t p = (r, p')"
  shows "pool_view p' = pool_view p \<and> (\<exists>gs. stored env kv p' = (stored env kv p)(cid \<mapsto> with_pgids gs s))"
proof -
  obtain x p1 where x: "execution_task env cx cid t p = (x, p1)" by fastforce
  from execution_effect [OF assms(1-6) x] assms(7) obtain gs where
    e: "pool_view p1 = pool_view p" "ids_match env kv p1" "stored env kv p1 = (stored env kv p)(cid \<mapsto> with_pgids gs s)"
    by (cases x) auto
  have c1: "stored env kv p1 cid = Some (with_pgids gs s)" using e(3) by simp
  have "pool_view p' = pool_view p1 \<and> stored env kv p' = stored env kv p1"
  proof (cases x)
    case (Inr u)
    then show ?thesis using run x by (simp add: guarded_task_run)
  next
    case (Inl exc)
    show ?thesis
    proof (cases "exc = Cancelled \<or> exc = PyTimeoutError")
      case True
      then have k: "kill_command env cid ''Command timed out and was killed.'' False p1 = (r, p')"
        using run x Inl by (simp add: guarded_task_run)
      show ?thesis
      proof (cases "killable_now env kv p1 cid")
        case False
        then show ?thesis using kill_refused_run [OF assms(1) False] k by simp
      next
        case True
        then have kn: "False \<or> killable_now env kv p1 cid" by simp
        from kill_effect [OF assms(1,2) e(2) assms(4) kn c1 k] assms(7) e(3) show ?thesis
          by (auto simp: pool_view_def)
      qed
    next
      case False
      then have "store_result env cid (response_failed (exn_str exc) None None (Some cid)) p1 = (r, p')"
        using run x Inl by (simp add: guarded_task_run)
      from store_result_effect [OF assms(1) e(2) assms(4) this] c1 assms(7) show ?thesis
        using pod_local_view [of p' p1] by auto
    qed
  qed
  with e show ?thesis by auto
qed

text \<open>The part of \<^verbatim>\<open>_execute_pipeline\<close> after the lookup of the entry, for an open connection.\<close>

definition start_steps :: "('e, 'd) env \<Rightarrow> conn \<Rightarrow> execution_context \<Rightarrow> string \<Rightarrow> ('e pod, (proc \<times> int list) option) io" where
  "start_steps env c cx cid =
     bindE (spawn_steps env c (cx_run_log_path cx) (text_of (cx_run_log_path cx) \<noteq> []) None (cx_pipeline_cmds cx))
       (\<lambda>(processes, pgids). thenE (entry_set_processes cid processes pgids)
         (thenE (for_each (butlast processes) (process_wait env))
           (case processes of
              [] \<Rightarrow> raise (PyOther ''list index out of range'')
            | _ \<Rightarrow> ret (Some (last processes, pgids)))))"

lemma pipeline_starts:
  assumes "map_of (pod_pool p) cid = Some en" "cx_conn cx = Some c"
  shows "execute_pipeline env cx cid p = start_steps env c cx cid p"
  by (simp add: execute_pipeline_def start_steps_def bindE_run [of "getS _"] pool_get_def getS_run assms Let_def)

text \<open>The record of a run has expired: whatever the task does, no write brings it back.\<close>

lemma store_result_lost:
  assumes "redis_ok env kv" "stored env kv p cid = None"
  obtains m where "store_result env cid resp p = (Inl (AppExc CommandExecution m), p)"
proof -
  from repo_update_if_none [OF assms] obtain m where
    "repo_update_if env cid is_running (store_updater resp) (COMMAND_RESULT_TTL_SECONDS (env_settings env)) p
      = (Inl (AppExc CommandExecution m), p)" by metis
  then show thesis using that by (simp add: store_result_def thenE_run)
qed

lemma execution_after_expiry:
  assumes "redis_ok env kv" "ssh_frame env kv" "stored env kv p cid = None" "execution_task env cx cid t p = (x, p1)"
  obtains e where "x = Inl e" "pool_view p1 = pool_view p" "stored env kv p1 = stored env kv p"
proof -
  obtain f q where f: "execute_pipeline env cx cid p = (f, q)" by fastforce
  note g = gentlyD [OF gently_execute_pipeline [OF assms(2)] f]
  have q: "stored env kv q = stored env kv p" by (rule same_records [OF g(3)])
  have body: "\<exists>e. x = Inl e \<and> pool_view p1 = pool_view p \<and> stored env kv p1 = stored env kv p"
  proof (cases f)
    case (Inl e)
    then have "x = Inl e" "p1 = q" using assms(4) f by (simp_all add: execution_task_def bindE_run [of "execute_pipeline env cx cid"])
    then show ?thesis using g q by simp
  next
    case (Inr final)
    define gs where "gs = (case final of None \<Rightarrow> [] | Some (_, gs) \<Rightarrow> gs)"
    have none: "stored env kv q cid = None" using q assms(3) by simp
    show ?thesis
    proof (cases "gs = []")
      case False
      from update_none [OF assms(1) none] obtain m where
        "repo_update env cid (set_pgids gs) (t + 30) q = (Inl (AppExc CommandExecution m), q)" by metis
      then have "x = Inl (AppExc CommandExecution m)" "p1 = q" using assms(4) f Inr False
        by (simp_all add: execution_task_def bindE_run [of "execute_pipeline env cx cid"] gs_def [symmetric]
            thenE_run record_pgids_def)
      then show ?thesis using g q by simp
    next
      case True
      let ?rest = "gather_result env (cc_logged (cx_cmd_config cx)) cid final"
      obtain y p2 where y: "?rest q = (y, p2)" by fastforce
      have k: "keeps kv ?rest" unfolding gather_result_def using assms(1,2) by (intro quiet)
      note p2 = keepsD [OF k y] keeps_stored [OF k y, of env]
      have run2: "bindE ?rest (\<lambda>(rc, output). store_result env cid (finished_response (env_settings env) cid
          (cc_logged (cx_cmd_config cx)) rc output)) q = (x, p1)"
        using assms(4) f Inr True by (simp add: execution_task_def bindE_run [of "execute_pipeline env cx cid"] gs_def [symmetric]
            thenE_run record_pgids_def ret_run)
      have none2: "stored env kv p2 cid = None" using p2 none by simp
      have "(\<exists>e. x = Inl e) \<and> p1 = p2"
      proof (cases y)
        case (Inl e)
        then have "(x, p1) = (Inl e, p2)" using run2 y by (simp add: bindE_run [of ?rest])
        then show ?thesis by simp
      next
        case (Inr z)
        obtain rc out where z: "z = (rc, out)" by fastforce
        from store_result_lost [OF assms(1) none2] obtain m where "store_result env cid (finished_response (env_settings env) cid
            (cc_logged (cx_cmd_config cx)) rc out) p2 = (Inl (AppExc CommandExecution m), p2)" by metis
        then have "(x, p1) = (Inl (AppExc CommandExecution m), p2)" using run2 y Inr z by (simp add: bindE_run [of ?rest])
        then show ?thesis by simp
      qed
      then show ?thesis using p2 g q pool_view_eq [of p2 q] by auto
    qed
  qed
  then show thesis using that by blast
qed

lemma task_after_expiry:
  assumes "redis_ok env kv" "ssh_frame env kv" "stored env kv p cid = None"
    and "map_of (pod_pool p) cid = Some en" "en_killable en"
    and run: "guarded_task env cx cid t p = (r, p')"
  shows "pool_view p' = pool_view p \<and> stored env kv p' = stored env kv p \<and> (\<exists>m. r = Inl (AppExc CommandExecution m))"
proof -
  obtain x p1 where x: "execution_task env cx cid t p = (x, p1)" by fastforce
  obtain e where e: "x = Inl e" "pool_view p1 = pool_view p" "stored env kv p1 = stored env kv p"
    by (rule execution_after_expiry [OF assms(1-3) x])
  have none1: "stored env kv p1 cid = None" using e(3) assms(3) by simp
  show ?thesis
  proof (cases "e = Cancelled \<or> e = PyTimeoutError")
    case True
    obtain en1 where en1: "map_of (pod_pool p1) cid = Some en1" "en_killable en1"
      using view_killable [OF e(2) assms(4)] assms(5) by auto
    then have permitted: "False \<or> killable_now env kv p1 cid" by (simp add: killable_now_def)
    from repo_update_if_none [OF assms(1) none1] obtain m where
      "repo_update_if env cid is_running (mark_killing ''Command timed out and was killed.'')
         (COMMAND_RESULT_TTL_SECONDS (env_settings env)) p1 = (Inl (AppExc CommandExecution m), p1)" by metis
    then have "kill_command env cid ''Command timed out and was killed.'' False p1 = (Inl (AppExc CommandExecution m), p1)"
      unfolding kill_body [OF permitted assms(1)]
      by (simp add: thenE_run check_recorded_config_local [OF en1(1)] bindE_run [of "repo_update_if _ _ _ _ _"])
    then have "(r, p') = (Inl (AppExc CommandExecution m), p1)" using run x e True by (simp add: guarded_task_run)
    then show ?thesis using e by simp
  next
    case False
    obtain m where "store_result env cid (response_failed (exn_str e) None None (Some cid)) p1 = (Inl (AppExc CommandExecution m), p1)"
      by (rule store_result_lost [OF assms(1) none1])
    then have "(r, p') = (Inl (AppExc CommandExecution m), p1)" using run x e(1) False by (simp add: guarded_task_run)
    then show ?thesis using e by simp
  qed
qed

text \<open>A registered run that waits, for the witnesses.\<close>

definition waiting_context :: execution_context where
  "waiting_context = demo_context\<lparr>cx_conn := Some (RealConn 0), cx_pipeline_cmds := [[''run'']]\<rparr>"

definition waiting_pod :: "command_state list \<Rightarrow> demo_world pod" where
  "waiting_pod sts = (demo_pod sts)\<lparr>pod_pool := [(''u1'', initial_entry waiting_context (RealConn 0))]\<rparr>"

lemma waiting_pod_facts:
  "stored (demo_env cfg wl answer) map_of (waiting_pod sts) = stored (demo_env cfg wl answer) map_of (demo_pod sts)"
  "ids_match (demo_env cfg wl answer) map_of (waiting_pod sts)"
  "map_of (pod_pool (waiting_pod sts)) ''u1'' = Some (initial_entry waiting_context (RealConn 0))"
  "en_pgids (initial_entry waiting_context (RealConn 0)) = []"
proof -
  show same: "stored (demo_env cfg wl answer) map_of (waiting_pod sts) = stored (demo_env cfg wl answer) map_of (demo_pod sts)"
    by (simp add: fun_eq_iff stored_def waiting_pod_def)
  show "ids_match (demo_env cfg wl answer) map_of (waiting_pod sts)" unfolding same_ids [OF same] by (rule ids_match_demo)
qed (simp_all add: waiting_pod_def initial_entry_def)

section \<open>Properties\<close>

text \<open>
  Property C17. A run that is killed while it waits is executed all the same. The kill of a run of this process that has no process
  groups yet (it still waits for the semaphore, or has not spawned a step) succeeds, marks the record \<^verbatim>\<open>KILLED\<close>, and does nothing else: the entry
  stays, the task stays, the host is not spoken to. When its turn comes the task starts every step of the pipeline as if
  nothing had happened, and whatever the pipeline does, the record still says \<^verbatim>\<open>KILLED\<close> at the end.
\<close>

theorem killed_queued_run_executes:
  assumes "redis_ok env kv" "ssh_frame env kv" "ids_match env kv p" "0 < COMMAND_RESULT_TTL_SECONDS (env_settings env)"
    and "0 < t + 30" "stored env kv p cid = Some s" "cs_status s = RUNNING"
    and "map_of (pod_pool p) cid = Some en" "en_pgids en = []" "force \<or> en_killable en"
    and "cx_conn cx = Some (RealConn n)" "\<And>e. fst (ssh_close env n e) = Inr ()"
  shows "\<exists>p1. kill_command env cid msg force p = (Inr (), p1)
    \<and> stored env kv p1 = (stored env kv p)(cid \<mapsto> killed_by msg s) \<and> pod_pool p1 = pod_pool p \<and> pod_tasks p1 = pod_tasks p
    \<and> (\<forall>run'. kill_command (env\<lparr>ssh_run := run'\<rparr>) cid msg force p = (Inr (), p1))
    \<and> execute_pipeline env cx cid p1 = start_steps env (RealConn n) cx cid p1
    \<and> (\<exists>x p2 s2. timeout_wrapper env cx cid t p1 = (x, p2) \<and> stored env kv p2 cid = Some s2 \<and> cs_status s2 = KILLED)"
proof -
  let ?ttl = "COMMAND_RESULT_TTL_SECONDS (env_settings env)"
  obtain q where q: "repo_update_if env cid is_running (mark_killing msg) ?ttl p = (Inr True, q)"
      "stored env kv q = (stored env kv p)(cid \<mapsto> mark_killing msg s)" "pod_local q = pod_local p" "ids_match env kv q"
    using repo_update_if_true [OF assms(1,3,4,6), where C = is_running and f = "mark_killing msg"] assms(7)
    by (auto simp: is_running_def)
  have "stored env kv q cid = Some (mark_killing msg s)" using q(2) by simp
  from repo_update_true [OF assms(1) q(4) assms(4) this, of "mark_killed msg"]
  obtain p1 where p1: "repo_update env cid (mark_killed msg) ?ttl q = (Inr (), p1)"
      "stored env kv p1 = (stored env kv q)(cid \<mapsto> killed_by msg s)" "pod_local p1 = pod_local q" "ids_match env kv p1"
    by (auto simp: killed_by_def)
  have kill: "kill_command env cid msg force p = (Inr (), p1)"
    unfolding kill_without_pgids [OF assms(1,8-10,3,4,6,7)] by (simp add: thenE_run q(1) p1(1))
  have redis: "redis_ok (env\<lparr>ssh_run := run'\<rparr>) kv" "ids_match (env\<lparr>ssh_run := run'\<rparr>) kv p"
      "stored (env\<lparr>ssh_run := run'\<rparr>) kv p cid = Some s" for run'
    using assms(1,3,6) by (simp_all add: redis_ok_def ids_match_def stored_def decoded_def cong: option.case_cong if_cong)
  have other: "kill_command (env\<lparr>ssh_run := run'\<rparr>) cid msg force p = (Inr (), p1)" for run'
  proof -
    have "repo_get (env\<lparr>ssh_run := run'\<rparr>) = repo_get env" "repo_save (env\<lparr>ssh_run := run'\<rparr>) = repo_save env"
      by (rule ext, simp add: repo_get_def cong: option.case_cong if_cong, intro ext, simp add: repo_save_def)
    then have "repo_update_if (env\<lparr>ssh_run := run'\<rparr>) = repo_update_if env" "repo_update (env\<lparr>ssh_run := run'\<rparr>) = repo_update env"
      by (metis repo_update_if_def, metis repo_update_def)
    then show ?thesis
      using kill_without_pgids [OF redis(1) assms(8-10) redis(2) _ redis(3) assms(7)] q(1) p1(1) assms(4)
      by (simp add: thenE_run)
  qed
  have pool: "pod_pool p1 = pod_pool p" "pod_tasks p1 = pod_tasks p" using p1(3) q(3) by (simp_all add: pod_local_def)
  have en: "map_of (pod_pool p1) cid = Some en" using assms(8) pool by simp
  have st: "stored env kv p1 cid = Some (killed_by msg s)" "cs_status (killed_by msg s) \<noteq> RUNNING"
    using p1(2) by (simp_all add: killed_by_def)
  obtain y p1' where y: "guarded_task env cx cid t p1 = (y, p1')" by fastforce
  obtain x p2 where x: "timeout_wrapper env cx cid t p1 = (x, p2)" by fastforce
  from task_after_kill [OF assms(1,2) p1(4) assms(4,5) st en y] obtain gs where
    "stored env kv p1' = (stored env kv p1)(cid \<mapsto> with_pgids gs (killed_by msg s))" by blast
  with wrapper_finally(2) [OF assms(2,11,12) y x]
  have "stored env kv p2 cid = Some (with_pgids gs (killed_by msg s))" by simp
  moreover have "cs_status (with_pgids gs (killed_by msg s)) = KILLED" by (simp add: killed_by_def)
  ultimately show ?thesis
    using kill p1(2) q(2) pool other pipeline_starts [OF en assms(11)] x by auto
qed

lemma killed_queued_run_executes_witness:
  "\<exists>p1 x p2 s2. kill_command (demo_launch_env False) ''u1'' ''stop'' True (waiting_pod [initial_state waiting_context ''u1'']) = (Inr (), p1)
     \<and> timeout_wrapper (demo_launch_env False) waiting_context ''u1'' 300 p1 = (x, p2)
     \<and> stored (demo_launch_env False) map_of p2 ''u1'' = Some s2 \<and> cs_status s2 = KILLED"
proof -
  let ?env = "demo_launch_env False" and ?p = "waiting_pod [initial_state waiting_context ''u1'']"
  have st: "stored ?env map_of ?p ''u1'' = Some (initial_state waiting_context ''u1'')"
    unfolding waiting_pod_facts(1) by (simp add: stored_demo initial_state_def)
  have run: "cs_status (initial_state waiting_context ''u1'') = RUNNING" by (simp add: initial_state_def)
  have ttl: "0 < COMMAND_RESULT_TTL_SECONDS (env_settings ?env)" "(0::int) < 300 + 30"
    by (simp_all add: demo_env_def demo_settings_def)
  have close: "\<And>e. fst (ssh_close ?env 0 e) = Inr ()" by (simp add: demo_env_def ret_run)
  have conn: "cx_conn waiting_context = Some (RealConn 0)" by (simp add: waiting_context_def)
  from killed_queued_run_executes [where force = True and msg = "''stop''", OF redis_ok_demo ssh_frame_demo
      waiting_pod_facts(2) ttl st run waiting_pod_facts(3,4) _ conn close]
  show ?thesis by auto
qed



end
