(* ===== verification/Dispatch.thy ===== *)
theory Dispatch
  imports Queue
begin

text \<open>
  The pool and the semaphore of one process over time (\<^verbatim>\<open>app/services/command_pool.py\<close>). A launch passes the
  capacity check, resolves and connects, and registers; its task waits for the semaphore and then runs. Between these points the
  process serves other requests. \<open>node_step\<close> interleaves any number of runs; its steps are the handlers of the other
  theories, on any environment: nothing is assumed of Redis, the host or the inventory.
\<close>

section \<open>Steps\<close>

text \<open>What \<^verbatim>\<open>execute_command\<close> does after the capacity check.\<close>

definition launch_checked ::
  "('e, 'd) env \<Rightarrow> 'e pod inventory option \<Rightarrow> string \<Rightarrow> string \<Rightarrow> command_request \<Rightarrow> ('e pod, command_response) io" where
  "launch_checked env inven username request_id req =
     bindE (prepare_execution env inven username request_id req) (\<lambda>cx0.
     bindE (assign_run_id env cx0) (\<lambda>(command_id, cx1).
     bindE (liftE (build cx1)) (\<lambda>cmds.
     bindE (connect env (cx1\<lparr>cx_pipeline_cmds := cmds\<rparr>) req) (\<lambda>c.
       run_on env (cx1\<lparr>cx_pipeline_cmds := cmds, cx_conn := Some c\<rparr>) c command_id))))"

lemma execute_command_checked:
  "execute_command env inven u rid req = thenE (check_capacity env) (launch_checked env inven u rid req)"
  by (simp add: execute_command_def launch_checked_def)

text \<open>
  \<open>nd_checked\<close>: requests that have passed the check and are not registered yet; \<open>nd_holders\<close>: the tasks that hold the
  semaphore; \<open>nd_waiting\<close>: those that wait for it, first come first served. \<open>queue_acquire\<close> is \<^verbatim>\<open>Semaphore.acquire\<close> of the
  standard library for a semaphore made with \<^verbatim>\<open>COMMAND_MAX_CONCURRENCY\<close>.
\<close>

record 'e node =
  nd_pod :: "'e pod"
  nd_checked :: "command_request list"
  nd_holders :: "string list"
  nd_waiting :: "string list"

definition new_tasks :: "'e pod \<Rightarrow> 'e pod \<Rightarrow> string list" where
  "new_tasks p p' = drop (length (pod_tasks p)) (pod_tasks p')"

fun queue_acquire :: "settings \<Rightarrow> string list \<times> string list \<Rightarrow> (string list \<times> string list) option" where
  "queue_acquire cfg (holders, []) = None"
| "queue_acquire cfg (holders, cid # waiting) =
     (if int (length holders) < COMMAND_MAX_CONCURRENCY cfg then Some (holders @ [cid], waiting) else None)"

text \<open>
  At most \<open>K\<close> launches are between check and registration. A new id is none that is in use (\<^verbatim>\<open>uuid4\<close>). The task of a run
  is started with some context and limit, its own.
\<close>

inductive node_step :: "('e, 'd) env \<Rightarrow> 'e pod inventory option \<Rightarrow> nat \<Rightarrow> 'e node \<Rightarrow> 'e node \<Rightarrow> bool"
  for env inven K where
  check: "length (nd_checked s) < K \<Longrightarrow> check_capacity env (nd_pod s) = (Inr (), p) \<Longrightarrow>
     node_step env inven K s (s\<lparr>nd_pod := p, nd_checked := nd_checked s @ [req]\<rparr>)"
| refuse: "check_capacity env (nd_pod s) = (Inl e, p) \<Longrightarrow> node_step env inven K s (s\<lparr>nd_pod := p\<rparr>)"
| launch: "req \<in> set (nd_checked s) \<Longrightarrow> launch_checked env inven u rid req (nd_pod s) = (r, p) \<Longrightarrow>
     distinct (nd_holders s @ nd_waiting s @ new_tasks (nd_pod s) p) \<Longrightarrow>
     node_step env inven K s (s\<lparr>nd_pod := p, nd_checked := remove1 req (nd_checked s),
       nd_waiting := nd_waiting s @ new_tasks (nd_pod s) p\<rparr>)"
| acquire: "queue_acquire (env_settings env) (nd_holders s, nd_waiting s) = Some (holders, waiting) \<Longrightarrow>
     node_step env inven K s (s\<lparr>nd_holders := holders, nd_waiting := waiting\<rparr>)"
| finish: "cid \<in> set (nd_holders s) \<Longrightarrow> timeout_wrapper env cx cid t (nd_pod s) = (r, p) \<Longrightarrow>
     node_step env inven K s (s\<lparr>nd_pod := p, nd_holders := remove1 cid (nd_holders s)\<rparr>)"
| kill: "kill_command env cid msg force (nd_pod s) = (r, p) \<Longrightarrow> node_step env inven K s (s\<lparr>nd_pod := p\<rparr>)"
| poll: "get_command_execution_result env loads cid fmt (nd_pod s) = (r, p) \<Longrightarrow> node_step env inven K s (s\<lparr>nd_pod := p\<rparr>)"

definition node_start :: "'e \<Rightarrow> 'e node" where
  "node_start e = \<lparr>nd_pod = \<lparr>pod_pool = [], pod_dry_conns = [], pod_dry_procs = [], pod_tasks = [], pod_world = e\<rparr>,
     nd_checked = [], nd_holders = [], nd_waiting = []\<rparr>"

section \<open>Frames\<close>

text \<open>With nothing said of the stored records, the frame rules need no assumption on the environment.\<close>

abbreviation no_records :: "('e, 'd) env \<Rightarrow> 'e \<Rightarrow> string \<Rightarrow> 'd option" where
  "no_records env \<equiv> \<lambda>_ _. None"

lemma ssh_frame_free: "ssh_frame env (no_records env)"
  by (simp add: ssh_frame_def)

lemma keeps_repo_free [quiet]:
  "keeps (no_records env) (repo_get env cid)" "keeps (no_records env) (repo_save env st ttl)"
  "keeps (no_records env) (repo_update env cid f ttl)" "keeps (no_records env) (repo_update_if env cid C f ttl)"
proof -
  show get: "keeps (no_records env) (repo_get env cid)" unfolding repo_get_def by (intro quiet) simp
  show save: "keeps (no_records env) (repo_save env st ttl)" for st ttl unfolding repo_save_def by (intro quiet) simp
  show "keeps (no_records env) (repo_update env cid f ttl)"
    unfolding repo_update_def update_with_def by (intro quiet get save)
  show "keeps (no_records env) (repo_update_if env cid C f ttl)"
    unfolding repo_update_if_def update_if_with_def by (intro quiet get save)
qed

lemma keeps_kill_free [quiet]: "keeps (no_records env) (kill_command env cid msg force)"
proof -
  have parts: "keeps (no_records env) (check_recorded_config env cid)" "keeps (no_records env) (kill_permitted env cid)"
      "keeps (no_records env) (cross_pod_kill env cid msg ttl)" for ttl
    unfolding check_recorded_config_def kill_permitted_def cross_pod_kill_def pool_get_def
    by (intro quiet ssh_frame_free)+
  show ?thesis unfolding kill_command_def Let_def pool_get_def
    by (intro parts keeps_bindE keeps_thenE keeps_if keeps_ret keeps_repo_free keeps_getS keeps_case_option keeps_do_kill ssh_frame_free)
qed

lemma keeps_poll_free: "keeps (no_records env) (get_command_execution_result env loads cid fmt)"
proof -
  have "keeps (no_records env) (get_state_or_404 env cid)" "keeps (no_records env) (heal_from_marker env st)" for st
    unfolding get_state_or_404_def heal_from_marker_def by (intro quiet ssh_frame_free)+
  then show ?thesis unfolding get_command_execution_result_def by (intro quiet)
qed

text \<open>The ids of the pool.\<close>

definition pool_keys :: "'e pod \<Rightarrow> string list" where
  "pool_keys p = map fst (pod_pool p)"

lemma pool_keys_view: "pool_view p' = pool_view p \<Longrightarrow> pool_keys p' = pool_keys p"
proof -
  assume "pool_view p' = pool_view p"
  then have "map fst (pool_view p') = map fst (pool_view p)" by simp
  then show ?thesis by (simp add: pool_view_def pool_keys_def case_prod_beta comp_def)
qed

lemma keeps_keys: "keeps kv m \<Longrightarrow> m p = (r, p') \<Longrightarrow> pool_keys p' = pool_keys p \<and> pod_tasks p' = pod_tasks p"
  by (simp add: pool_keys_def keepsD)

lemma gently_task: "gently (no_records env) (execution_task env cx cid t)"
proof -
  note free = ssh_frame_free [of env]
  have gather: "keeps (no_records env) (gather_result env logged cid final)" for logged final
    unfolding gather_result_def by (intro quiet free)
  have pgids: "keeps (no_records env) (record_pgids env cid gs t)" for gs
    unfolding record_pgids_def by (intro quiet)
  have store: "keeps (no_records env) (store_result env cid resp)" for resp
    unfolding store_result_def by (intro quiet)
  show ?thesis unfolding execution_task_def thenE_def
    by (intro gently_bindE gently_execute_pipeline free, rule gently_keeps, rule pgids, rule gently_keeps, rule gather)
       (auto intro!: gently_keeps store split: prod.splits)
qed

lemma task_keys:
  assumes "timeout_wrapper env cx cid t p = (r, p')"
  shows "pod_tasks p' = pod_tasks p \<and> (pool_keys p' = pool_keys p \<or> pool_keys p' = filter (\<lambda>k. k \<noteq> cid) (pool_keys p))"
proof -
  obtain x p1 where x: "execution_task env cx cid t p = (x, p1)" by fastforce
  note p1 = gentlyD [OF gently_task x]
  obtain y p2 where y: "guarded_task env cx cid t p = (y, p2)" by fastforce
  have store: "keeps (no_records env) (store_result env cid resp)" for resp
    unfolding store_result_def by (intro quiet)
  have p2: "pool_keys p2 = pool_keys p" "pod_tasks p2 = pod_tasks p"
    using x y p1 pool_keys_view [of p1 p] keeps_keys [OF keeps_kill_free, of env cid _ False p1 y p2]
      keeps_keys [OF store, of _ p1 y p2]
    by (auto simp: guarded_task_run split: sum.splits if_splits)
  let ?close = "case cx_conn cx of None \<Rightarrow> raise (PyAttributeError ''close'') | Some c \<Rightarrow> conn_close env c"
  obtain z p3 where z: "?close p2 = (z, p3)" by fastforce
  have "keeps (no_records env) ?close" by (intro quiet ssh_frame_free)
  from keeps_keys [OF this z] have p3: "pool_keys p3 = pool_keys p2" "pod_tasks p3 = pod_tasks p2" by simp_all
  have rem: "pool_keys (snd (pool_remove cid p3)) = filter (\<lambda>k. k \<noteq> cid) (pool_keys p3)"
      "pod_tasks (snd (pool_remove cid p3)) = pod_tasks p3"
    by (simp_all add: pool_remove_def modifyS_run pool_keys_def filter_map comp_def case_prod_unfold)
  have "p' = (case z of Inl e \<Rightarrow> p3 | Inr u \<Rightarrow> snd (pool_remove cid p3))"
    using assms y z unfolding timeout_wrapper_def guarded_task_def [symmetric]
    by (auto simp: finallyE_run thenE_run split: sum.splits prod.splits)
  then show ?thesis using p2 p3 rem by (auto split: sum.splits)
qed

text \<open>A launch adds at most one id, and a task only under an id it has added.\<close>

lemma length_alist_set: "length (alist_set k v xs) \<le> Suc (length xs)"
  by (induction xs) auto

lemma handle_async_keys:
  assumes "handle_async_execution env cx c cid_opt p = (r, p')"
  shows "pool_keys p' = pool_keys p \<and> pod_tasks p' = pod_tasks p
    \<or> (\<exists>cid en. pod_pool p' = alist_set cid en (pod_pool p) \<and> pod_tasks p' \<in> {pod_tasks p, pod_tasks p @ [cid]})"
proof -
  let ?pick = "case truthy cid_opt of Some i \<Rightarrow> ret i | None \<Rightarrow> ext (new_uuid env)"
  have pick: "keeps (no_records env) ?pick" by (intro quiet) simp
  obtain x p1 where x: "?pick p = (x, p1)" by fastforce
  note p1 = keepsD(1,2) [OF pick x]
  show ?thesis
  proof (cases x)
    case (Inl e)
    then show ?thesis using assms x p1 by (simp add: handle_async_execution_def bindE_run [of ?pick] pool_keys_def)
  next
    case (Inr cid)
    let ?p2 = "p1\<lparr>pod_pool := alist_set cid (initial_entry cx c) (pod_pool p1)\<rparr>"
    let ?save = "repo_save env (initial_state cx cid) (run_timeout (env_settings env) (cx_raw_request cx) + 30)"
    obtain y p3 where y: "?save ?p2 = (y, p3)" by fastforce
    have "keeps (no_records env) ?save" by (intro quiet)
    from keepsD(1,2) [OF this y] p1 have p3: "pod_pool p3 = alist_set cid (initial_entry cx c) (pod_pool p)"
        "pod_tasks p3 = pod_tasks p" by simp_all
    have "pod_pool p' = pod_pool p3 \<and> pod_tasks p' \<in> {pod_tasks p3, pod_tasks p3 @ [cid]}"
      using assms x y Inr
      by (cases y) (auto simp: handle_async_execution_def bindE_run [of ?pick] thenE_run pool_add_def modifyS_run
          create_task_def ret_run)
    then show ?thesis using p3 by auto
  qed
qed

lemma run_on_keys:
  assumes "run_on env cx c cid_opt p = (r, p')"
  shows "pool_keys p' = pool_keys p \<and> pod_tasks p' = pod_tasks p
    \<or> (\<exists>cid en. pod_pool p' = alist_set cid en (pod_pool p) \<and> pod_tasks p' \<in> {pod_tasks p, pod_tasks p @ [cid]})"
proof -
  let ?gate = "catchE (precheck_script_version env cx c)
    (\<lambda>e. if is_exception e then thenE (conn_close env c) (raise e) else raise e)"
  obtain g p1 where g: "?gate p = (g, p1)" by fastforce
  have "keeps (no_records env) ?gate" by (intro quiet ssh_frame_free)
  from keepsD(1,2) [OF this g] have p1: "pod_pool p1 = pod_pool p" "pod_tasks p1 = pod_tasks p" .
  have fire: "keeps (no_records env) (handle_fire_and_forget env cx c)" by (intro quiet ssh_frame_free)
  show ?thesis
  proof (cases g)
    case (Inl e)
    then show ?thesis using assms g p1 by (simp add: run_on_def thenE_run [of ?gate] pool_keys_def)
  next
    case (Inr u)
    show ?thesis
    proof (cases "cc_disconnects_ssh (cx_cmd_config cx)")
      case True
      then have "handle_fire_and_forget env cx c p1 = (r, p')"
        using assms g Inr by (simp add: run_on_def thenE_run [of ?gate])
      from keeps_keys [OF fire this] p1 show ?thesis by (simp add: pool_keys_def)
    next
      case False
      then have "handle_async_execution env cx c cid_opt p1 = (r, p')"
        using assms g Inr by (simp add: run_on_def thenE_run [of ?gate])
      from handle_async_keys [OF this] p1 show ?thesis by (simp add: pool_keys_def)
    qed
  qed
qed

lemma launch_checked_keys:
  assumes "inventory_frame (no_records env) inven" "launch_checked env inven u rid req p = (r, p')"
  shows "pool_keys p' = pool_keys p \<and> pod_tasks p' = pod_tasks p
    \<or> (\<exists>cid en. pod_pool p' = alist_set cid en (pod_pool p) \<and> pod_tasks p' \<in> {pod_tasks p, pod_tasks p @ [cid]})"
proof -
  let ?prep = "bindE (prepare_execution env inven u rid req) (\<lambda>cx0.
      bindE (assign_run_id env cx0) (\<lambda>(command_id, cx1). bindE (liftE (build cx1)) (\<lambda>cmds.
      bindE (connect env (cx1\<lparr>cx_pipeline_cmds := cmds\<rparr>) req) (\<lambda>c. ret (command_id, cx1, cmds, c)))))"
  have split: "launch_checked env inven u rid req =
      bindE ?prep (\<lambda>(command_id, cx1, cmds, c).
        run_on env (cx1\<lparr>cx_pipeline_cmds := cmds, cx_conn := Some c\<rparr>) c command_id)"
    by (rule HOL.ext) (simp add: launch_checked_def bindE_run liftE_run ret_run split: prod.splits sum.splits)
  obtain x p1 where x: "?prep p = (x, p1)" by fastforce
  have "keeps (no_records env) ?prep" using assms(1) by (intro quiet ssh_frame_free)
  from keepsD(1,2) [OF this x] have p1: "pod_pool p1 = pod_pool p" "pod_tasks p1 = pod_tasks p" .
  show ?thesis
  proof (cases x)
    case (Inl e)
    then show ?thesis using assms(2) x p1 by (simp add: split bindE_run [of ?prep] pool_keys_def)
  next
    case (Inr y)
    obtain i cx1 cmds c where "y = (i, cx1, cmds, c)" by (cases y)
    then have "run_on env (cx1\<lparr>cx_pipeline_cmds := cmds, cx_conn := Some c\<rparr>) c i p1 = (r, p')"
      using assms(2) x Inr by (simp add: split bindE_run [of ?prep])
    from run_on_keys [OF this] p1 show ?thesis by (simp add: pool_keys_def)
  qed
qed

section \<open>The invariant\<close>

definition node_ok :: "settings \<Rightarrow> nat \<Rightarrow> 'e node \<Rightarrow> bool" where
  "node_ok cfg K s \<longleftrightarrow>
     int (length (nd_holders s)) \<le> max 0 (COMMAND_MAX_CONCURRENCY cfg)
   \<and> int (length (pool_keys (nd_pod s)) + length (nd_checked s)) \<le> COMMAND_MAX_RUNNING cfg - 1 + int K
   \<and> distinct (nd_holders s @ nd_waiting s) \<and> set (nd_holders s @ nd_waiting s) \<subseteq> set (pool_keys (nd_pod s))"

lemma queue_acquire_Some:
  "queue_acquire cfg (hs, ws) = Some (hs', ws') \<longleftrightarrow>
     (\<exists>cid. ws = cid # ws' \<and> hs' = hs @ [cid] \<and> int (length hs) < COMMAND_MAX_CONCURRENCY cfg)"
  by (cases ws) auto

lemma node_ok_cong:
  assumes "pool_keys p = pool_keys (nd_pod s)"
  shows "node_ok cfg K (s\<lparr>nd_pod := p\<rparr>) = node_ok cfg K s"
  by (simp add: node_ok_def assms)

lemma launch_keeps_ok:
  assumes "node_ok cfg K s" "req \<in> set (nd_checked s)"
    and step: "pool_keys p = pool_keys (nd_pod s) \<and> pod_tasks p = pod_tasks (nd_pod s)
      \<or> (\<exists>cid en. pod_pool p = alist_set cid en (pod_pool (nd_pod s))
            \<and> pod_tasks p \<in> {pod_tasks (nd_pod s), pod_tasks (nd_pod s) @ [cid]})"
    and "distinct (nd_holders s @ nd_waiting s @ new_tasks (nd_pod s) p)"
  shows "node_ok cfg K (s\<lparr>nd_pod := p, nd_checked := remove1 req (nd_checked s),
       nd_waiting := nd_waiting s @ new_tasks (nd_pod s) p\<rparr>)"
proof -
  obtain n where "length (nd_checked s) = Suc n" using assms(2) by (cases "nd_checked s") auto
  then have n: "length (nd_checked s) = Suc n" "length (remove1 req (nd_checked s)) = n"
    using assms(2) by (simp_all add: length_remove1)
  from step show ?thesis
  proof (elim disjE exE conjE, goal_cases)
    case 1
    then show ?case using assms(1,4) n by (simp add: node_ok_def new_tasks_def)
  next
    case (2 cid en)
    have "set (new_tasks (nd_pod s) p) \<subseteq> {cid}" using 2 by (auto simp: new_tasks_def)
    moreover have "set (pool_keys p) = insert cid (set (pool_keys (nd_pod s)))"
      using 2 by (simp add: pool_keys_def alist_set_keys)
    moreover have "length (pool_keys p) \<le> Suc (length (pool_keys (nd_pod s)))"
      using 2 by (simp add: pool_keys_def length_alist_set)
    ultimately show ?case using assms(1,4) n by (auto simp: node_ok_def)
  qed
qed

lemma finish_keeps_ok:
  assumes "node_ok cfg K s" "cid \<in> set (nd_holders s)"
    and "pool_keys p = pool_keys (nd_pod s) \<or> pool_keys p = filter (\<lambda>k. k \<noteq> cid) (pool_keys (nd_pod s))"
  shows "node_ok cfg K (s\<lparr>nd_pod := p, nd_holders := remove1 cid (nd_holders s)\<rparr>)"
proof -
  have d: "distinct (nd_holders s)" "distinct (nd_waiting s)" "set (nd_holders s) \<inter> set (nd_waiting s) = {}"
    using assms(1) by (auto simp: node_ok_def)
  have "length (pool_keys p) \<le> length (pool_keys (nd_pod s))" using assms(3) by auto
  moreover have "length (remove1 cid (nd_holders s)) \<le> length (nd_holders s)" by (simp add: length_remove1)
  ultimately show ?thesis using assms d by (auto simp: node_ok_def)
qed

lemma node_step_ok:
  assumes "inventory_frame (no_records env) inven" "node_step env inven K s s'" "node_ok (env_settings env) K s"
  shows "node_ok (env_settings env) K s'"
  using assms(2)
proof cases
  case (check p req)
  then show ?thesis using assms(3)
    by (auto simp: node_ok_def check_capacity_def pool_size_def io_run pool_keys_def split: if_splits)
next
  case (refuse e p)
  then show ?thesis using assms(3) by (auto simp: check_capacity_def pool_size_def io_run split: if_splits)
next
  case (launch req u rid r p)
  show ?thesis unfolding launch(1)
    by (rule launch_keeps_ok [OF assms(3) launch(2) launch_checked_keys [OF assms(1) launch(3)] launch(4)])
next
  case (acquire holders waiting)
  then show ?thesis using assms(3) by (auto simp: node_ok_def queue_acquire_Some)
next
  case (finish cid cx t r p)
  show ?thesis unfolding finish(1)
    by (rule finish_keeps_ok [OF assms(3) finish(2)]) (use task_keys [OF finish(3)] in simp)
next
  case (kill cid msg force r p)
  then show ?thesis using keeps_keys [OF keeps_kill_free kill(2)] assms(3) by (simp add: node_ok_cong)
next
  case (poll loads cid fmt r p)
  then show ?thesis using keeps_keys [OF keeps_poll_free poll(2)] assms(3) by (simp add: node_ok_cong)
qed

section \<open>Properties\<close>

text \<open>
  Property C18. How far the limits hold. On every schedule and whatever Redis and the hosts do, at most \<^verbatim>\<open>COMMAND_MAX_CONCURRENCY\<close>
  tasks run at a time; every task that runs or waits has a pool entry of its own; and with at most \<open>K\<close> launches between
  check and registration the pool never exceeds \<^verbatim>\<open>COMMAND_MAX_RUNNING\<close> by more than \<open>K - 1\<close>: one launch at a time would keep the limit,
  and the witness shows that two do not.
\<close>

theorem queue_bounds:
  assumes "(node_step env inven K)\<^sup>*\<^sup>* (node_start e) s" "inventory_frame (no_records env) inven"
    and "0 < COMMAND_MAX_RUNNING (env_settings env)"
  shows "int (length (nd_holders s)) \<le> max 0 (COMMAND_MAX_CONCURRENCY (env_settings env))
    \<and> int (length (pod_pool (nd_pod s)) + length (nd_checked s)) \<le> COMMAND_MAX_RUNNING (env_settings env) - 1 + int K
    \<and> distinct (nd_holders s @ nd_waiting s) \<and> set (nd_holders s @ nd_waiting s) \<subseteq> fst ` set (pod_pool (nd_pod s))
    \<and> length (nd_holders s) + length (nd_waiting s) \<le> length (pod_pool (nd_pod s))"
proof -
  from assms(1) have ok: "node_ok (env_settings env) K s"
  proof (induction rule: rtranclp_induct)
    case base
    show ?case using assms(3) by (simp add: node_ok_def node_start_def pool_keys_def)
  next
    case (step s t)
    then show ?case by (blast intro: node_step_ok [OF assms(2)])
  qed
  have "length (nd_holders s @ nd_waiting s) = card (set (nd_holders s @ nd_waiting s))"
    using ok by (simp only: node_ok_def distinct_card)
  also have "\<dots> \<le> card (set (pool_keys (nd_pod s)))" using ok by (intro card_mono) (auto simp: node_ok_def)
  also have "\<dots> \<le> length (pool_keys (nd_pod s))" by (rule card_length)
  finally show ?thesis using ok by (simp add: node_ok_def pool_keys_def)
qed

text \<open>A process with room for one run, whose ids differ.\<close>

definition narrow_env :: "(demo_world, command_state) env" where
  "narrow_env = (demo_launch_env True)\<lparr>new_uuid := \<lambda>w. (Inr (if w = [] then ''u1'' else ''u2''), w),
     env_settings := (demo_settings True)\<lparr>COMMAND_MAX_RUNNING := 1\<rparr>\<rparr>"

lemma launch_checked_demo:
  fixes p :: "demo_world pod"
  assumes "pod_world p = w" "w = [] \<longleftrightarrow> u = ''u1''" "u \<in> {''u1'', ''u2''}"
  shows "\<exists>p' en d. launch_checked narrow_env None ''alice'' ''r1'' demo_request p
     = (Inr ((response ''running'')\<lparr>rs_command_id := Some u\<rparr>), p')
    \<and> pod_pool p' = alist_set u en (pod_pool p) \<and> pod_tasks p' = pod_tasks p @ [u] \<and> pod_world p' = d # w"
proof -
  let ?env = narrow_env
  obtain cx where cx: "prepare_execution ?env None ''alice'' ''r1'' demo_request p
      = (Inr cx, p)" "cx_cmd_config cx = demo_config" "cx_raw_request cx = demo_request" "cx_run_id cx = None"
    by (simp add: launch_eval narrow_env_def)
  have b: "build cx = Inr [[''run'', ''site.yml'']]"
    unfolding build_def cx(2-4) by code_simp
  have flags: "\<not> cc_logged demo_config" "\<not> cc_disconnects_ssh demo_config" "\<not> cc_checks_script_version demo_config"
    by (simp_all add: demo_config_def)
  have opt: "rq_option demo_request = None" by (simp add: demo_request_def)
  have u: "new_uuid narrow_env (pod_world p) = (Inr u, w)" using assms by (auto simp: narrow_env_def)
  show ?thesis
    by (simp add: launch_checked_def io_run cx b assign_run_id_def flags connect_def
        make_dry_conn_def run_on_def precheck_script_version_def handle_async_execution_def truthy_def pool_add_def
        repo_save_def create_task_def run_timeout_def opt)
       (use u assms in \<open>auto simp: narrow_env_def demo_env_def demo_settings_def demo_setex_def io_run\<close>)
qed

lemma queue_bounds_witness:
  "\<exists>s. (node_step narrow_env None 2)\<^sup>*\<^sup>* (node_start []) s \<and> COMMAND_MAX_RUNNING (env_settings narrow_env) = 1
     \<and> length (pod_pool (nd_pod s)) = 2 \<and> nd_waiting s = [''u1'', ''u2'']
     \<and> length (nd_holders s) + length (nd_waiting s) \<le> length (pod_pool (nd_pod s))"
proof -
  let ?step = "node_step narrow_env None 2" and ?p = "nd_pod (node_start ([] :: demo_world))" and ?q = demo_request
  have room: "COMMAND_MAX_RUNNING (env_settings narrow_env) = 1" by (simp add: narrow_env_def)
  obtain p1 en1 d1 where p1: "launch_checked narrow_env None ''alice'' ''r1'' ?q ?p
      = (Inr ((response ''running'')\<lparr>rs_command_id := Some ''u1''\<rparr>), p1)"
    "pod_pool p1 = [(''u1'', en1)]" "pod_tasks p1 = [''u1'']" "pod_world p1 = [d1]"
    using launch_checked_demo [of ?p "[]" "''u1''"] by (auto simp: node_start_def)
  obtain p2 en2 where p2: "launch_checked narrow_env None ''alice'' ''r1'' ?q p1
      = (Inr ((response ''running'')\<lparr>rs_command_id := Some ''u2''\<rparr>), p2)"
    "pod_pool p2 = [(''u1'', en1), (''u2'', en2)]" "pod_tasks p2 = [''u1'', ''u2'']"
    using launch_checked_demo [of p1 "[d1]" "''u2''"] p1 by auto
  let ?a = "(node_start [])\<lparr>nd_checked := [?q]\<rparr>" and ?b = "(node_start [])\<lparr>nd_checked := [?q, ?q]\<rparr>"
  let ?c = "?b\<lparr>nd_pod := p1, nd_checked := [?q], nd_waiting := [''u1'']\<rparr>"
  let ?d = "?c\<lparr>nd_pod := p2, nd_checked := [], nd_waiting := [''u1'', ''u2'']\<rparr>"
  have admitted: "check_capacity narrow_env ?p = (Inr (), ?p)"
    by (simp add: check_capacity_def pool_size_def io_run room node_start_def)
  have 1: "?step (node_start []) ?a"
    using node_step.check [of "node_start []" 2 narrow_env ?p None ?q] admitted by (simp add: node_start_def)
  have 2: "?step ?a ?b"
    using node_step.check [of ?a 2 narrow_env ?p None ?q] admitted by (simp add: node_start_def)
  have 3: "?step ?b ?c"
    using node_step.launch [of ?q ?b narrow_env None "''alice''" "''r1''" _ p1 2] p1
    by (simp add: node_start_def new_tasks_def)
  have 4: "?step ?c ?d"
    using node_step.launch [of ?q ?c narrow_env None "''alice''" "''r1''" _ p2 2] p1 p2
    by (simp add: node_start_def new_tasks_def)
  have run: "?step\<^sup>*\<^sup>* (node_start []) ?d"
    using 1 2 3 4 by (meson rtranclp.rtrancl_into_rtrancl rtranclp.rtrancl_refl)
  have "inventory_frame (no_records narrow_env) (None :: demo_world pod inventory option)"
    by (simp add: inventory_frame_def)
  from queue_bounds [OF run this] room p2 run show ?thesis by (intro exI [of _ ?d]) simp
qed

end
