(* ===== verification/Lifespan.thy ===== *)
theory Lifespan
  imports Dispatch
begin

text \<open>
  The end of a process: \<^verbatim>\<open>app/core/redis_client.py\<close>, which keeps the two Redis clients, and the part of
  \<^verbatim>\<open>lifespan\<close> in \<^verbatim>\<open>app/main.py\<close> after the \<^verbatim>\<open>yield\<close>. Making and closing a client are parameters. \<^verbatim>\<open>asyncio.gather\<close> is
  given in its two extreme schedules: \<open>gather\<close>, where every kill runs to its end, and \<open>gather_stopping\<close>, where the kills
  after the first one that raises have done nothing yet; the end of the event loop then cancels them.
\<close>

section \<open>The clients\<close>

record redis_clients =
  rd_instance :: "nat option"
  rd_binary_instance :: "nat option"

record 'e process =
  pr_pod :: "'e pod"
  pr_redis :: redis_clients

definition on_pod :: "('e pod, 'a) io \<Rightarrow> ('e process, 'a) io" where
  "on_pod m = (\<lambda>s. case m (pr_pod s) of (r, p) \<Rightarrow> (r, s\<lparr>pr_pod := p\<rparr>))"

text \<open>\<open>from_url\<close> makes a client that decodes its answers, or not; \<open>aclose\<close> closes one, with its pool or without.\<close>

record 'e redis_library =
  from_url :: "bool \<Rightarrow> ('e, nat) io"
  aclose :: "nat \<Rightarrow> bool \<Rightarrow> ('e, unit) io"

definition get_client :: "'e redis_library \<Rightarrow> ('e process, nat) io" where
  "get_client lib = bindE (getS (\<lambda>s. rd_instance (pr_redis s))) (\<lambda>c. case c of
       Some h \<Rightarrow> ret h
     | None \<Rightarrow> bindE (on_pod (ext (from_url lib True))) (\<lambda>h.
         thenE (modifyS (\<lambda>s. s\<lparr>pr_redis := (pr_redis s)\<lparr>rd_instance := Some h\<rparr>\<rparr>)) (ret h)))"

definition get_binary_client :: "'e redis_library \<Rightarrow> ('e process, nat) io" where
  "get_binary_client lib = bindE (getS (\<lambda>s. rd_binary_instance (pr_redis s))) (\<lambda>c. case c of
       Some h \<Rightarrow> ret h
     | None \<Rightarrow> bindE (on_pod (ext (from_url lib False))) (\<lambda>h.
         thenE (modifyS (\<lambda>s. s\<lparr>pr_redis := (pr_redis s)\<lparr>rd_binary_instance := Some h\<rparr>\<rparr>)) (ret h)))"

fun is_runtime_error :: "exn \<Rightarrow> bool" where
  "is_runtime_error (PyRuntimeError m) = True"
| "is_runtime_error _ = False"

definition close_one :: "'e redis_library \<Rightarrow> nat \<Rightarrow> ('e process, unit) io" where
  "close_one lib h = catchE (on_pod (ext (aclose lib h True)))
     (\<lambda>e. if is_runtime_error e then on_pod (ext (aclose lib h False)) else raise e)"

definition redis_close :: "'e redis_library \<Rightarrow> ('e process, unit) io" where
  "redis_close lib =
     thenE (bindE (getS (\<lambda>s. rd_instance (pr_redis s))) (\<lambda>c. case c of
              None \<Rightarrow> ret ()
            | Some h \<Rightarrow> thenE (close_one lib h) (modifyS (\<lambda>s. s\<lparr>pr_redis := (pr_redis s)\<lparr>rd_instance := None\<rparr>\<rparr>))))
       (bindE (getS (\<lambda>s. rd_binary_instance (pr_redis s))) (\<lambda>c. case c of
              None \<Rightarrow> ret ()
            | Some h \<Rightarrow> thenE (close_one lib h) (modifyS (\<lambda>s. s\<lparr>pr_redis := (pr_redis s)\<lparr>rd_binary_instance := None\<rparr>\<rparr>))))"

section \<open>Shutdown\<close>

fun gather_stopping :: "('s, unit) io list \<Rightarrow> ('s, unit) io" where
  "gather_stopping [] = ret ()"
| "gather_stopping (m # ms) = thenE m (gather_stopping ms)"

definition shutdown_on :: "(('e pod, unit) io list \<Rightarrow> ('e pod, unit) io) \<Rightarrow> ('e, 'd) env \<Rightarrow> ('e pod, unit) io" where
  "shutdown_on sched env =
     bindE pool_command_ids (\<lambda>ids. sched (map (\<lambda>cid. kill_command env cid ''Killed'' False) ids))"

lemma shutdown_gracefully_on: "shutdown_gracefully env = shutdown_on gather env"
  by (simp add: shutdown_gracefully_def shutdown_on_def)

definition lifespan_exit ::
  "(('e pod, unit) io list \<Rightarrow> ('e pod, unit) io) \<Rightarrow> 'e redis_library \<Rightarrow> ('e, 'd) env \<Rightarrow> ('e process, unit) io" where
  "lifespan_exit sched lib env =
     thenE (catchE (thenE (get_client lib) (on_pod (shutdown_on sched env)))
              (\<lambda>e. if is_exception e then ret () else raise e))
       (redis_close lib)"

section \<open>Lemmas\<close>

text \<open>Closing a client does not write records, and succeeds, perhaps only without its pool.\<close>

definition redis_library_ok :: "('e \<Rightarrow> string \<Rightarrow> 'd option) \<Rightarrow> 'e redis_library \<Rightarrow> bool" where
  "redis_library_ok kv lib \<longleftrightarrow>
     (\<forall>b e. kv (snd (from_url lib b e)) = kv e) \<and> (\<forall>h b e. kv (snd (aclose lib h b e)) = kv e)
   \<and> (\<forall>h e x. fst (aclose lib h True e) = Inl x \<longrightarrow> is_runtime_error x) \<and> (\<forall>h e. fst (aclose lib h False e) = Inr ())
   \<and> (\<forall>b e x. fst (from_url lib b e) = Inl x \<longrightarrow> is_exception x)"

lemma close_one_ok:
  assumes "redis_library_ok kv lib"
  shows "\<exists>e. close_one lib h s = (Inr (), s\<lparr>pr_pod := (pr_pod s)\<lparr>pod_world := e\<rparr>\<rparr>) \<and> kv e = kv (pod_world (pr_pod s))"
proof -
  obtain r e where a: "aclose lib h True (pod_world (pr_pod s)) = (r, e)" by fastforce
  then have e: "kv e = kv (pod_world (pr_pod s))" "\<And>x. r = Inl x \<Longrightarrow> is_runtime_error x"
    using assms unfolding redis_library_ok_def by (metis snd_conv, metis fst_conv)
  obtain r' e' where b: "aclose lib h False e = (r', e')" by fastforce
  then have e': "kv e' = kv e" "r' = Inr ()"
    using assms unfolding redis_library_ok_def by (metis snd_conv, metis fst_conv)
  show ?thesis using a b e e' by (cases r) (auto simp: close_one_def catchE_run on_pod_def ext_run)
qed

lemma clients_forgotten [simp]:
  "x\<lparr>rd_instance := None\<rparr> = \<lparr>rd_instance = None, rd_binary_instance = rd_binary_instance x\<rparr>" for x :: redis_clients
  by (cases x) simp

lemma redis_close_ok:
  assumes "redis_library_ok kv lib"
  shows "\<exists>e. redis_close lib s = (Inr (), s\<lparr>pr_pod := (pr_pod s)\<lparr>pod_world := e\<rparr>,
      pr_redis := \<lparr>rd_instance = None, rd_binary_instance = None\<rparr>\<rparr>) \<and> kv e = kv (pod_world (pr_pod s))"
proof -
  let ?first = "bindE (getS (\<lambda>s. rd_instance (pr_redis s))) (\<lambda>c. case c of None \<Rightarrow> ret ()
      | Some h \<Rightarrow> thenE (close_one lib h) (modifyS (\<lambda>s. s\<lparr>pr_redis := (pr_redis s)\<lparr>rd_instance := None\<rparr>\<rparr>)))"
  have "\<exists>e. ?first s = (Inr (), s\<lparr>pr_pod := (pr_pod s)\<lparr>pod_world := e\<rparr>, pr_redis := (pr_redis s)\<lparr>rd_instance := None\<rparr>\<rparr>)
      \<and> kv e = kv (pod_world (pr_pod s))"
  proof (cases "rd_instance (pr_redis s)")
    case None
    then show ?thesis by (intro exI [of _ "pod_world (pr_pod s)"]) (simp add: bindE_run getS_run ret_run)
  next
    case (Some h)
    then show ?thesis using close_one_ok [OF assms, of h s]
      by (auto simp: bindE_run thenE_run getS_run modifyS_run)
  qed
  then obtain e where e: "?first s = (Inr (), s\<lparr>pr_pod := (pr_pod s)\<lparr>pod_world := e\<rparr>, pr_redis := (pr_redis s)\<lparr>rd_instance := None\<rparr>\<rparr>)"
      "kv e = kv (pod_world (pr_pod s))" by blast
  let ?t = "s\<lparr>pr_pod := (pr_pod s)\<lparr>pod_world := e\<rparr>, pr_redis := (pr_redis s)\<lparr>rd_instance := None\<rparr>\<rparr>"
  have rest: "redis_close lib s = bindE (getS (\<lambda>s. rd_binary_instance (pr_redis s))) (\<lambda>c. case c of None \<Rightarrow> ret ()
      | Some h \<Rightarrow> thenE (close_one lib h) (modifyS (\<lambda>s. s\<lparr>pr_redis := (pr_redis s)\<lparr>rd_binary_instance := None\<rparr>\<rparr>))) ?t"
    by (simp add: redis_close_def thenE_run [of ?first] e(1))
  show ?thesis
  proof (cases "rd_binary_instance (pr_redis s)")
    case None
    then show ?thesis using e(2) unfolding rest
      by (intro exI [of _ e]) (simp add: bindE_run getS_run ret_run)
  next
    case (Some h)
    then show ?thesis using close_one_ok [OF assms, of h ?t] e(2) unfolding rest
      by (auto simp: bindE_run thenE_run getS_run modifyS_run)
  qed
qed

lemma get_client_ok:
  assumes "redis_library_ok kv lib" "get_client lib s = (r, s')"
  shows "\<exists>e. pr_pod s' = (pr_pod s)\<lparr>pod_world := e\<rparr> \<and> kv e = kv (pod_world (pr_pod s))"
    "r = Inl x \<Longrightarrow> is_exception x"
proof -
  obtain q e where q: "from_url lib True (pod_world (pr_pod s)) = (q, e)" by fastforce
  then have e: "kv e = kv (pod_world (pr_pod s))" "\<And>x. q = Inl x \<Longrightarrow> is_exception x"
    using assms(1) unfolding redis_library_ok_def by (metis snd_conv, metis fst_conv)
  show "\<exists>e. pr_pod s' = (pr_pod s)\<lparr>pod_world := e\<rparr> \<and> kv e = kv (pod_world (pr_pod s))"
  proof (cases "rd_instance (pr_redis s)")
    case (Some h)
    then show ?thesis using assms(2)
      by (intro exI [of _ "pod_world (pr_pod s)"]) (auto simp: get_client_def bindE_run getS_run ret_run)
  next
    case None
    then show ?thesis using assms(2) q e(1)
      by (intro exI [of _ e]) (cases q; auto simp: get_client_def bindE_run thenE_run getS_run ret_run on_pod_def ext_run modifyS_run)
  qed
  show "r = Inl x \<Longrightarrow> is_exception x"
    using assms(2) q e(2) by (cases q) (auto simp: get_client_def bindE_run thenE_run getS_run ret_run on_pod_def ext_run
        modifyS_run split: option.splits)
qed

interpretation first_failure: task_schedule gather_stopping
proof
  fix ms and I :: "'a \<Rightarrow> bool" and s r s'
  assume "\<And>m p r p'. m \<in> set ms \<Longrightarrow> I p \<Longrightarrow> m p = (r, p') \<Longrightarrow> I p'" "I s" "gather_stopping ms s = (r, s')"
  then show "I s'"
  proof (induction ms arbitrary: s r)
    case Nil
    then show ?case by (simp add: ret_run)
  next
    case (Cons m ms)
    obtain x q where x: "m s = (x, q)" by fastforce
    have q: "I q" by (rule Cons.prems(1) [where m = m and p = s and r = x, OF _ Cons.prems(2) x]) simp
    show ?case
    proof (cases x)
      case (Inl e)
      then show ?thesis using Cons.prems(3) x q by (simp add: thenE_run)
    next
      case (Inr u)
      then have "gather_stopping ms q = (r, s')" using Cons.prems(3) x by (simp add: thenE_run)
      from Cons.IH [OF _ q this] Cons.prems(1) show ?thesis by auto
    qed
  qed
qed

text \<open>A killable run of the pool that runs is flipped, whatever the other kills do.\<close>

definition run_under_kill :: "('e, 'd) env \<Rightarrow> ('e \<Rightarrow> string \<Rightarrow> 'd option) \<Rightarrow> string \<Rightarrow> command_status set \<Rightarrow> 'e pod \<Rightarrow> bool" where
  "run_under_kill env kv cid sts p \<longleftrightarrow> ids_match env kv p
     \<and> (\<exists>en. map_of (pod_pool p) cid = Some en \<and> en_killable en) \<and> (\<exists>s. stored env kv p cid = Some s \<and> cs_status s \<in> sts)"

lemma kill_flips:
  assumes "redis_ok env kv" "ssh_frame env kv" "0 < COMMAND_RESULT_TTL_SECONDS (env_settings env)"
    and "run_under_kill env kv cid ({RUNNING} \<union> {KILLING, KILLED}) p" "kill_command env c msg False p = (r, p')"
  shows "run_under_kill env kv cid ({RUNNING} \<union> {KILLING, KILLED}) p'"
    "run_under_kill env kv cid {KILLING, KILLED} p \<or> c = cid \<Longrightarrow> run_under_kill env kv cid {KILLING, KILLED} p'"
proof -
  from assms(4) obtain en s where a: "ids_match env kv p" "map_of (pod_pool p) cid = Some en" "en_killable en"
    "stored env kv p cid = Some s" "cs_status s \<in> {RUNNING} \<union> {KILLING, KILLED}" by (auto simp: run_under_kill_def)
  note step = kill_unforced_step [OF assms(1,2) a(1) assms(3,5)]
  have "\<exists>s'. stored env kv p' cid = Some s' \<and> (if c \<noteq> cid \<or> cs_status s \<noteq> RUNNING then s' = s else cs_status s' \<in> {KILLING, KILLED})"
  proof (cases "c = cid")
    case False
    then show ?thesis using step a(4) by auto
  next
    case True
    then have k: "False \<or> killable_now env kv p c" using a(2,3) by (simp add: killable_now_def)
    have st: "stored env kv p c = Some s" using a(4) True by simp
    have en: "map_of (pod_pool p) c = Some en" using a(2) True by simp
    from kill_effect [OF assms(1,2) a(1) assms(3) k st assms(5), unfolded en option.case] obtain s' where
      s': "stored env kv p' c = Some s'" "if cs_status s \<noteq> RUNNING then s' = s
        else r = Inr () \<and> s' = killed_by msg s \<or> r = Inl Cancelled \<and> s' = mark_killing msg s"
      by auto
    then show ?thesis using True by (intro exI [of _ s']) (auto simp: killed_by_def mark_defs split: if_splits)
  qed
  with step a show "run_under_kill env kv cid ({RUNNING} \<union> {KILLING, KILLED}) p'"
    "run_under_kill env kv cid {KILLING, KILLED} p \<or> c = cid \<Longrightarrow> run_under_kill env kv cid {KILLING, KILLED} p'"
    by (auto simp: run_under_kill_def split: if_splits)
qed

lemma gather_flips:
  assumes "redis_ok env kv" "ssh_frame env kv" "0 < COMMAND_RESULT_TTL_SECONDS (env_settings env)"
    and "run_under_kill env kv cid ({RUNNING} \<union> {KILLING, KILLED}) p"
    and "run_under_kill env kv cid {KILLING, KILLED} p \<or> cid \<in> set ids"
    and "gather (map (\<lambda>c. kill_command env c msg False) ids) p = (r, p')"
  shows "run_under_kill env kv cid {KILLING, KILLED} p'"
  using assms(4-6)
proof (induction ids arbitrary: p r)
  case Nil
  then show ?case by (simp add: ret_run)
next
  case (Cons c cs)
  obtain x q where x: "kill_command env c msg False p = (x, q)" by fastforce
  note q = kill_flips [OF assms(1-3) Cons.prems(1) x]
  obtain y where y: "gather (map (\<lambda>c. kill_command env c msg False) cs) q = (y, p')"
    using Cons.prems(3) x by (auto split: sum.splits prod.splits) (metis prod.collapse)
  show ?case by (rule Cons.IH [OF q(1) _ y]) (use q(2) Cons.prems(2) in auto)
qed

lemma shutdown_on_run:
  "shutdown_on sched env p = sched (map (\<lambda>c. kill_command env c ''Killed'' False) (map fst (pod_pool p))) p"
  by (simp add: shutdown_on_def bindE_run pool_command_ids_def getS_run del: map_map)

text \<open>The teardown as a whole: what the shutdown does to the records, and the clients closed.\<close>

lemma lifespan_exit_cases:
  assumes "redis_library_ok kv lib" "lifespan_exit sched lib env s = (r, s')"
  obtains q x p1 p2 where
    "pod_pool q = pod_pool (pr_pod s)" "pod_tasks q = pod_tasks (pr_pod s)" "kv (pod_world q) = kv (pod_world (pr_pod s))"
    "p1 = q \<and> x = Inr () \<and> rd_instance (pr_redis s) = None \<or> shutdown_on sched env q = (x, p1)"
    "pod_pool p2 = pod_pool p1" "pod_tasks p2 = pod_tasks p1" "kv (pod_world p2) = kv (pod_world p1)" "pr_pod s' = p2"
    "r = Inr () \<and> pr_redis s' = \<lparr>rd_instance = None, rd_binary_instance = None\<rparr> \<or> (\<exists>e. x = Inl e \<and> r = Inl e \<and> \<not> is_exception e)"
proof -
  obtain g t where g: "get_client lib s = (g, t)" by fastforce
  obtain e where e: "pr_pod t = (pr_pod s)\<lparr>pod_world := e\<rparr>" "kv e = kv (pod_world (pr_pod s))"
    using get_client_ok(1) [OF assms(1) g] by blast
  have frame: "pod_pool (pr_pod t) = pod_pool (pr_pod s)" "pod_tasks (pr_pod t) = pod_tasks (pr_pod s)"
    "kv (pod_world (pr_pod t)) = kv (pod_world (pr_pod s))" using e by simp_all
  have close: "\<exists>p2. pod_pool p2 = pod_pool (pr_pod u) \<and> pod_tasks p2 = pod_tasks (pr_pod u) \<and> kv (pod_world p2) = kv (pod_world (pr_pod u))
      \<and> pr_pod s' = p2 \<and> r = Inr () \<and> pr_redis s' = \<lparr>rd_instance = None, rd_binary_instance = None\<rparr>"
    if "redis_close lib u = (r, s')" for u
    using redis_close_ok [OF assms(1), of u] that by auto
  show ?thesis
  proof (cases g)
    case (Inl x)
    then have none: "rd_instance (pr_redis s) = None"
      using g by (cases "rd_instance (pr_redis s)") (auto simp: get_client_def bindE_run getS_run ret_run)
    from Inl have "redis_close lib t = (r, s')"
      using assms(2) g get_client_ok(2) [OF assms(1) g Inl] by (simp add: lifespan_exit_def thenE_run catchE_run ret_run)
    from close [OF this] that [of "pr_pod t" "pr_pod t" "Inr ()"] frame none show ?thesis by auto
  next
    case (Inr h)
    obtain x p1 where x: "shutdown_on sched env (pr_pod t) = (x, p1)" by fastforce
    show ?thesis
    proof (cases "\<exists>e. x = Inl e \<and> \<not> is_exception e")
      case True
      then obtain e where "x = Inl e" "\<not> is_exception e" by blast
      moreover from this have "r = Inl e" "pr_pod s' = p1"
        using assms(2) g Inr x by (auto simp: lifespan_exit_def thenE_run catchE_run raise_run on_pod_def)
      ultimately show ?thesis using that [of "pr_pod t" p1 x p1] frame x by auto
    next
      case False
      then have "redis_close lib (t\<lparr>pr_pod := p1\<rparr>) = (r, s')"
        using assms(2) g Inr x by (cases x) (auto simp: lifespan_exit_def thenE_run catchE_run ret_run on_pod_def)
      from close [OF this] that [of "pr_pod t" p1 x] frame x show ?thesis by auto
    qed
  qed
qed

section \<open>Properties\<close>


definition demo_redis_library :: "demo_world redis_library" where
  "demo_redis_library = \<lparr>from_url = (\<lambda>b. ret (if b then 0 else 1)), aclose = (\<lambda>h pool. if pool then raise (PyRuntimeError []) else ret ())\<rparr>"

lemma demo_redis_library_ok: "redis_library_ok map_of demo_redis_library"
  by (simp add: redis_library_ok_def demo_redis_library_def ret_run raise_run)


text \<open>
  Property C29. One failing kill abandons the others. \<^verbatim>\<open>shutdown_gracefully\<close> gathers the kills without collecting their exceptions, so
  the first one ends the wait. When the pool starts with a killable entry whose record is gone (a launch whose save
  failed leaves one, and so does a run that outlives its record), there is a schedule on which nothing is killed: the teardown
  logs the error, closes Redis and returns, and every other record still says what it said.
\<close>

theorem shutdown_abandons:
  assumes "redis_ok env kv" "redis_library_ok kv lib" "rd_instance (pr_redis s) \<noteq> None"
    and "pod_pool (pr_pod s) = (cid, en) # rest" "en_killable en" "stored env kv (pr_pod s) cid = None"
  shows "\<exists>s'. lifespan_exit gather_stopping lib env s = (Inr (), s')
    \<and> pr_redis s' = \<lparr>rd_instance = None, rd_binary_instance = None\<rparr> \<and> stored env kv (pr_pod s') = stored env kv (pr_pod s)"
proof -
  obtain h where h: "rd_instance (pr_redis s) = Some h" using assms(3) by blast
  have permitted: "False \<or> killable_now env kv (pr_pod s) cid" using assms(4,5) by (simp add: killable_now_def)
  from repo_update_if_none [OF assms(1,6)] obtain m where
    "repo_update_if env cid is_running (mark_killing ''Killed'') (COMMAND_RESULT_TTL_SECONDS (env_settings env)) (pr_pod s)
      = (Inl (AppExc CommandExecution m), pr_pod s)" by metis
  then have kill: "kill_command env cid ''Killed'' False (pr_pod s) = (Inl (AppExc CommandExecution m), pr_pod s)"
    unfolding kill_body [OF permitted assms(1)]
    by (simp add: thenE_run check_recorded_config_local [of _ cid en] assms(4) bindE_run [of "repo_update_if _ _ _ _ _"])
  have stop: "shutdown_on gather_stopping env (pr_pod s) = (Inl (AppExc CommandExecution m), pr_pod s)"
    by (simp add: shutdown_on_run assms(4) thenE_run kill)
  obtain e where "redis_close lib s = (Inr (), s\<lparr>pr_pod := (pr_pod s)\<lparr>pod_world := e\<rparr>,
      pr_redis := \<lparr>rd_instance = None, rd_binary_instance = None\<rparr>\<rparr>)" "kv e = kv (pod_world (pr_pod s))"
    using redis_close_ok [OF assms(2)] by blast
  moreover from this(2) have "stored env kv ((pr_pod s)\<lparr>pod_world := e\<rparr>) = stored env kv (pr_pod s)"
    by (simp add: fun_eq_iff stored_def)
  ultimately show ?thesis
    by (simp add: lifespan_exit_def thenE_run catchE_run get_client_def bindE_run getS_run h ret_run on_pod_def stop)
qed

lemma shutdown_abandons_witness:
  "\<exists>s'. lifespan_exit gather_stopping demo_redis_library (demo_env (demo_settings False) demo_whitelist demo_answer)
       \<lparr>pr_pod = demo_busy_pod\<lparr>pod_pool := (''c0'', (snd (last (pod_pool demo_busy_pod)))) # pod_pool demo_busy_pod\<rparr>,
         pr_redis = \<lparr>rd_instance = Some 0, rd_binary_instance = None\<rparr>\<rparr> = (Inr (), s')
     \<and> map_of (pod_world (pr_pod s')) (state_key ''c2'') = Some (demo_state ''c2'' RUNNING None True)"
proof -
  let ?env = "demo_env (demo_settings False) demo_whitelist demo_answer"
  let ?en = "snd (last (pod_pool demo_busy_pod))"
  let ?s = "\<lparr>pr_pod = demo_busy_pod\<lparr>pod_pool := (''c0'', ?en) # pod_pool demo_busy_pod\<rparr>,
         pr_redis = \<lparr>rd_instance = Some 0, rd_binary_instance = None\<rparr>\<rparr>"
  have gone: "stored ?env map_of (pr_pod ?s) ''c0'' = None"
    and there: "map_of (pod_world (pr_pod ?s)) (state_key ''c2'') = Some (demo_state ''c2'' RUNNING None True)"
    by (simp_all add: stored_demo) (simp_all add: demo_busy_pod_def state_key_def)
  have en: "en_killable ?en" by (simp add: demo_busy_pod_def)
  have pool: "pod_pool (pr_pod ?s) = (''c0'', ?en) # pod_pool demo_busy_pod" by simp
  have used: "rd_instance (pr_redis ?s) \<noteq> None" by simp
  from shutdown_abandons [OF redis_ok_demo demo_redis_library_ok used pool en gone] there show ?thesis
    by (auto simp: stored_demo fun_eq_iff simp del: demo_pod_fields(5))
qed

end
