(* ===== verification/Docs.thy ===== *)
theory Docs
  imports Base
begin

text \<open>
  The offline documentation of main.py: which pages the application serves, which assets they
  load from the static mount (app/static), and what is in the one asset small enough to read.
  The Swagger bundle is a vendored library and stays a parameter, \<^verbatim>\<open>bundle\<close>.
\<close>

section \<open>Assets and pages\<close>

text \<open>The whole text of static/docs-assets/redoc.standalone.js.\<close>

definition redoc_standalone_js :: string where
  "redoc_standalone_js = ''Couldn'' @ [CHR 0x27] @ ''t find the requested file /bundles/redoc.standalone.js in redoc.''"

text \<open>The scripts of the static mount; anything else answers 404.\<close>

definition static_script :: "string \<Rightarrow> string \<Rightarrow> string option" where
  "static_script bundle path =
     (if path = ''/static/docs-assets/swagger-ui-bundle.js'' then Some bundle
      else if path = ''/static/docs-assets/redoc.standalone.js'' then Some redoc_standalone_js
      else None)"

text \<open>The script URL of the page registered for a path, None where no page is registered.\<close>

definition docs_script_url :: "bool \<Rightarrow> string \<Rightarrow> string option" where
  "docs_script_url debug path =
     (if \<not> debug then None
      else if path = ''/docs'' then Some ''/static/docs-assets/swagger-ui-bundle.js''
      else if path = ''/redoc'' then Some ''/static/docs-assets/redoc.standalone.js''
      else None)"

section \<open>String literals of a script\<close>

text \<open>
  A quoted string literal of ECMAScript must close before the line ends. The scanner tells
  whether every literal that opens on a line closes on it (a text without comments, regular
  expressions and templates needs no more): its state is the quote that is open.
\<close>

fun literals_close :: "char option \<Rightarrow> string \<Rightarrow> bool" where
  "literals_close q [] = (q = None)"
| "literals_close None (c # cs) =
     literals_close (if c = CHR 0x27 \<or> c = CHR 0x22 then Some c else None) cs"
| "literals_close (Some q) [c] = (c = q)"
| "literals_close (Some q) (c # d # cs) =
     (if c = q then literals_close None (d # cs)
      else if c = CHR 0x0A then False
      else if c = CHR 0x5C then literals_close (Some q) cs
      else literals_close (Some q) (d # cs))"

section \<open>The pages\<close>

lemma docs_only_in_debug: "docs_script_url False path = None"
  by (simp add: docs_script_url_def)

lemma docs_scripts_served:
  "docs_script_url debug path = Some url \<Longrightarrow> \<exists>js. static_script bundle url = Some js"
  by (auto simp: docs_script_url_def static_script_def split: if_splits)

lemma redoc_text_open: "\<not> literals_close None redoc_standalone_js"
  by (simp add: redoc_standalone_js_def)

text \<open>
  The script of the page /redoc is served, and is not a program: it opens a string literal that
  its only line never closes.
\<close>

lemma redoc_page_unusable:
  "\<exists>url js. docs_script_url True ''/redoc'' = Some url \<and> static_script bundle url = Some js
     \<and> \<not> literals_close None js"
  using redoc_text_open by (simp add: docs_script_url_def static_script_def)

end
