(* ===== verification/Vm.thy ===== *)
theory Vm
  imports Inventory
begin

text \<open>
  \<^verbatim>\<open>app/repositories/vm_repository.py\<close>: the lookup of a virtual machine by its name, which must be unique. The
  transport and the JSON values are those of \<^verbatim>\<open>Inventory\<close>, its first argument here the \<^verbatim>\<open>Authorization\<close> header;
  what pydantic reads as an \<^verbatim>\<open>int\<close> is a parameter.
\<close>

section \<open>Models\<close>

record vm_k8s_cluster =
  vc_id :: int
  vc_name :: string

record vm_info =
  vm_id :: int
  vm_name :: string
  vm_k8s_cluster :: vm_k8s_cluster

definition int_field :: "(json \<Rightarrow> int option) \<Rightarrow> string \<Rightarrow> (string \<times> json) list \<Rightarrow> exn + int" where
  "int_field to_int k fs = (case Option.bind (map_of fs k) to_int of Some n \<Rightarrow> Inr n | None \<Rightarrow> Inl (invalid k))"

fun validate_vm_cluster :: "(json \<Rightarrow> int option) \<Rightarrow> json \<Rightarrow> exn + vm_k8s_cluster" where
  "validate_vm_cluster to_int (JObj fs) =
     (case int_field to_int ''id'' fs of Inl e \<Rightarrow> Inl e
      | Inr i \<Rightarrow> (case str_field ''name'' fs of Inl e \<Rightarrow> Inl e
          | Inr n \<Rightarrow> Inr \<lparr>vc_id = i, vc_name = n\<rparr>))"
| "validate_vm_cluster to_int _ = Inl (invalid ''k8s-cluster'')"

text \<open>The alias of the field comes first, its name is accepted too.\<close>

definition cluster_field :: "(string \<times> json) list \<Rightarrow> json option" where
  "cluster_field fs = (case map_of fs ''k8s-cluster'' of Some j \<Rightarrow> Some j | None \<Rightarrow> map_of fs ''k8s_cluster'')"

fun validate_vm_info :: "(json \<Rightarrow> int option) \<Rightarrow> json \<Rightarrow> exn + vm_info" where
  "validate_vm_info to_int (JObj fs) =
     (case int_field to_int ''id'' fs of Inl e \<Rightarrow> Inl e
      | Inr i \<Rightarrow> (case str_field ''name'' fs of Inl e \<Rightarrow> Inl e
          | Inr n \<Rightarrow> (case cluster_field fs of None \<Rightarrow> Inl (invalid ''k8s-cluster'')
              | Some cj \<Rightarrow> (case validate_vm_cluster to_int cj of Inl e \<Rightarrow> Inl e
                  | Inr c \<Rightarrow> Inr \<lparr>vm_id = i, vm_name = n, vm_k8s_cluster = c\<rparr>))))"
| "validate_vm_info to_int _ = Inl (invalid ''root'')"

section \<open>The lookup\<close>

definition VM_PATH :: string where
  "VM_PATH = ''/api/v1/vms''"

text \<open>\<^verbatim>\<open>results[0]\<close> of a decoded value whose length is one.\<close>

fun first_result :: "json \<Rightarrow> exn + json" where
  "first_result (JArr (j # _)) = Inr j"
| "first_result (JStr (c # _)) = Inr (JStr [c])"
| "first_result (JObj fs) = Inl (PyKeyError ''0'')"
| "first_result _ = Inl (PyOther ''IndexError'')"

definition decode_vm :: "(json \<Rightarrow> int option) \<Rightarrow> string \<Rightarrow> json option \<Rightarrow> exn + vm_info" where
  "decode_vm to_int node_name body = (case body of
       None \<Rightarrow> Inl (unavailable (''VM API returned non-JSON response for '' @ squoted node_name @ ''.''))
     | Some (JObj fs) \<Rightarrow>
         (case map_of fs ''results'' of
            None \<Rightarrow> Inl (unavailable (''VM API returned unexpected payload shape for '' @ squoted node_name @ ''.''))
          | Some results \<Rightarrow> (case json_len results of
                Inl e \<Rightarrow> Inl e
              | Inr n \<Rightarrow>
                  if n = 0 then Inl (AppExc NotFound (''VM '' @ squoted node_name @ '' not found.''))
                  else if n > 1
                  then Inl (unavailable (''VM lookup for '' @ squoted node_name @ '' returned '' @ nat_str n
                         @ '' results; expected exactly 1 (unique-name invariant).''))
                  else (case first_result results of Inl e \<Rightarrow> Inl e | Inr j \<Rightarrow> validate_vm_info to_int j)))
     | Some _ \<Rightarrow> Inl (unavailable (''VM API returned unexpected payload shape for '' @ squoted node_name @ ''.'')))"

definition vm_lookup_by_name ::
  "(json \<Rightarrow> int option) \<Rightarrow> 's transport \<Rightarrow> string \<Rightarrow> string \<Rightarrow> ('s, vm_info) io" where
  "vm_lookup_by_name to_int http token node_name = (\<lambda>s.
     case http (''Bearer '' @ token) VM_PATH ''name'' node_name s of
       (HttpTimeout, s') \<Rightarrow> (Inl (AppExc UpstreamTimeout (''VM lookup for '' @ squoted node_name @ '' timed out'')), s')
     | (HttpRequestError m, s') \<Rightarrow> (Inl (unavailable (''VM lookup for '' @ squoted node_name @ '' failed: '' @ m)), s')
     | (HttpResponse code body, s') \<Rightarrow>
         (if code \<ge> 400
          then Inl (unavailable (''VM API returned '' @ nat_str code @ '' for '' @ squoted node_name @ ''.''))
          else decode_vm to_int node_name body, s'))"

section \<open>Properties\<close>

text \<open>A validation fails only with a validation error.\<close>

lemma validate_vm_error: "validate_vm_info to_int j = Inl e \<Longrightarrow> malformed_error e"
proof -
  have "validate_vm_cluster to_int c = Inl e \<Longrightarrow> malformed_error e" for c
    by (cases c) (auto simp: int_field_def str_field_def invalid_def split: option.splits json.splits sum.splits)
  then show "validate_vm_info to_int j = Inl e \<Longrightarrow> malformed_error e"
    by (cases j) (auto simp: int_field_def str_field_def invalid_def split: option.splits json.splits sum.splits)
qed

text \<open>What came with a good status, if anything.\<close>

fun good_results :: "http_result \<Rightarrow> json option" where
  "good_results (HttpResponse code (Some (JObj fs))) = (if code \<ge> 400 then None else map_of fs ''results'')"
| "good_results _ = None"

definition decode_results :: "(json \<Rightarrow> int option) \<Rightarrow> string \<Rightarrow> json \<Rightarrow> exn + vm_info" where
  "decode_results to_int node results = decode_vm to_int node (Some (JObj [(''results'', results)]))"

lemma decode_results:
  "decode_results to_int node (JArr []) = Inl (AppExc NotFound (''VM '' @ squoted node @ '' not found.''))"
  "decode_results to_int node (JArr [x]) = validate_vm_info to_int x"
  "1 < length xs \<Longrightarrow> \<exists>m. decode_results to_int node (JArr xs) = Inl (AppExc UpstreamUnavailable m)"
  by (auto simp: decode_results_def decode_vm_def unavailable_def)

lemma decode_results_no_list:
  assumes "\<And>xs. j \<noteq> JArr xs"
  shows "\<exists>e. decode_results to_int node j = Inl e \<and> (upstream_error e \<or> malformed_error e)"
proof (cases j)
  case (JStr cs)
  then show ?thesis
    by (cases cs; cases "tl cs") (auto simp: decode_results_def decode_vm_def invalid_def)
qed (use assms in \<open>auto simp: decode_results_def decode_vm_def\<close>)

lemma vm_lookup_cases:
  "good_results (fst (http (''Bearer '' @ token) VM_PATH ''name'' node s)) = Some j \<Longrightarrow>
     fst (vm_lookup_by_name to_int http token node s) = decode_results to_int node j"
  "good_results (fst (http (''Bearer '' @ token) VM_PATH ''name'' node s)) = None \<Longrightarrow>
     \<exists>e. fst (vm_lookup_by_name to_int http token node s) = Inl e \<and> upstream_error e"
  by (cases "http (''Bearer '' @ token) VM_PATH ''name'' node s";
      auto simp: vm_lookup_by_name_def decode_vm_def decode_results_def split: http_result.splits option.splits json.splits)+

text \<open>
  Property C36. The contract of the virtual machine lookup. It answers a machine exactly when the reply has a good status and a list of
  exactly one result that is valid; with a list, no result is a 404 and several are an error of the upstream
  service. Every other failure is one the contract documents, except when \<^verbatim>\<open>results\<close> is no list at all or its one item does not
  validate: those errors are not translated and end as an internal error.
\<close>

theorem vm_lookup_contract:
  fixes to_int http token node s
  defines "reply \<equiv> fst (http (''Bearer '' @ token) VM_PATH ''name'' node s)"
    and "r \<equiv> fst (vm_lookup_by_name to_int http token node s)"
  shows "(r = Inr v \<longleftrightarrow> (\<exists>x. good_results reply = Some (JArr [x]) \<and> validate_vm_info to_int x = Inr v))
    \<and> (good_results reply = Some (JArr []) \<longrightarrow> (\<exists>m. r = Inl (AppExc NotFound m)))
    \<and> (\<forall>xs. good_results reply = Some (JArr xs) \<and> 1 < length xs \<longrightarrow> (\<exists>m. r = Inl (AppExc UpstreamUnavailable m)))
    \<and> (\<forall>e. r = Inl e \<longrightarrow> upstream_error e
        \<or> malformed_error e \<and> (\<exists>j. good_results reply = Some j \<and> (\<forall>xs. j = JArr xs \<longrightarrow> length xs = 1)))"
proof -
  note r = vm_lookup_cases [where to_int = to_int and http = http and token = token and node = node and s = s,
      folded reply_def, folded r_def]
  show ?thesis
  proof (cases "good_results reply")
    case None
    with r(2) show ?thesis by auto
  next
    case (Some j)
    then have rj: "r = decode_results to_int node j" by (rule r(1))
    show ?thesis
    proof (cases "\<exists>xs. j = JArr xs")
      case False
      with decode_results_no_list [of j to_int node] show ?thesis unfolding rj Some by auto
    next
      case True
      then obtain xs where j: "j = JArr xs" by blast
      consider "xs = []" | x where "xs = [x]" | "1 < length xs" by (cases xs; cases "tl xs") auto
      then show ?thesis
      proof cases
        case 1
        then show ?thesis unfolding rj Some j by (simp add: decode_results)
      next
        case (2 x)
        then show ?thesis unfolding rj Some j by (auto simp: decode_results dest: validate_vm_error)
      next
        case 3
        with decode_results(3) [OF 3, of to_int node] show ?thesis unfolding rj Some j by auto
      qed
    qed
  qed
qed

definition demo_vm_transport :: "nat transport" where
  "demo_vm_transport auth path pname pvalue = (\<lambda>n. (HttpResponse 200 (Some (JObj [(''results'', JArr [JObj [(''id'', JNum 7),
     (''name'', JStr pvalue), (''k8s-cluster'', JObj [(''id'', JNum 3), (''name'', JStr ''c'')])]])])), Suc n))"

fun demo_int :: "json \<Rightarrow> int option" where
  "demo_int (JNum n) = Some n"
| "demo_int _ = None"

lemma vm_lookup_contract_witness:
  "fst (vm_lookup_by_name demo_int demo_vm_transport ''t'' ''vm1'' 0)
     = Inr \<lparr>vm_id = 7, vm_name = ''vm1'', vm_k8s_cluster = \<lparr>vc_id = 3, vc_name = ''c''\<rparr>\<rparr>"
  using vm_lookup_contract [of demo_int demo_vm_transport "''t''" "''vm1''" 0
      "\<lparr>vm_id = 7, vm_name = ''vm1'', vm_k8s_cluster = \<lparr>vc_id = 3, vc_name = ''c''\<rparr>\<rparr>"]
  by (simp add: demo_vm_transport_def int_field_def str_field_def cluster_field_def)

end
