(* ===== verification/Logs.thy ===== *)
theory Logs
  imports PyStr
begin

text \<open>
  The log filters and the set-up of \<^verbatim>\<open>app/core/logging.py\<close>. A record is its message and the attributes that are not of the
  standard library; \<open>log_context\<close> are the two context variables of a request, \<open>span\<close> is what OpenTelemetry answers for the
  current span: its validity and its two numbers.
\<close>

record log_record =
  lr_message :: string
  lr_extra :: "string \<rightharpoonup> string"

record log_context =
  lc_request_id :: string
  lc_account :: string

definition log_context_default :: log_context where
  "log_context_default = \<lparr>lc_request_id = ''N/A'', lc_account = ''-''\<rparr>"

definition set_default :: "string \<Rightarrow> string \<Rightarrow> (string \<rightharpoonup> string) \<Rightarrow> (string \<rightharpoonup> string)" where
  "set_default k v m = (if m k = None then m(k \<mapsto> v) else m)"

definition request_id_filter :: "log_context \<Rightarrow> log_record \<Rightarrow> bool \<times> log_record" where
  "request_id_filter ctx lr =
     (True, lr\<lparr>lr_extra := set_default ''port'' ''-'' (set_default ''host'' ''-'' (set_default ''command_id'' ''-''
        (set_default ''username'' (lc_account ctx) ((lr_extra lr)(''request_id'' \<mapsto> lc_request_id ctx)))))\<rparr>)"

text \<open>\<^verbatim>\<open>format(n, "032x")\<close> and \<^verbatim>\<open>format(n, "016x")\<close>.\<close>

definition HEX_DIGITS :: string where
  "HEX_DIGITS = ''0123456789abcdef''"

definition hex_digit :: "nat \<Rightarrow> char" where
  "hex_digit d = HEX_DIGITS ! d"

fun hex_str :: "nat \<Rightarrow> string" where
  "hex_str n = (if n < 16 then [hex_digit n] else hex_str (n div 16) @ [hex_digit (n mod 16)])"

declare hex_str.simps [simp del]

definition hex_format :: "nat \<Rightarrow> nat \<Rightarrow> string" where
  "hex_format width n = replicate (width - length (hex_str n)) (CHR ''0'') @ hex_str n"

definition otel_filter :: "(bool \<times> nat \<times> nat) \<Rightarrow> log_record \<Rightarrow> bool \<times> log_record" where
  "otel_filter span lr = (case span of (valid, trace_id, span_id) \<Rightarrow>
     (True, lr\<lparr>lr_extra := (if valid
        then (lr_extra lr)(''otelTraceID'' \<mapsto> hex_format 32 trace_id, ''otelSpanID'' \<mapsto> hex_format 16 span_id)
        else (lr_extra lr)(''otelTraceID'' \<mapsto> ''-'', ''otelSpanID'' \<mapsto> ''-''))\<rparr>))"

definition health_filter :: "log_record \<Rightarrow> bool" where
  "health_filter lr \<longleftrightarrow> \<not> contains ''/health'' (lr_message lr) \<and> \<not> contains ''/metrics'' (lr_message lr)"

text \<open>The attributes the format of \<^verbatim>\<open>setup_logging\<close> names beyond those every record has.\<close>

definition LOG_FORMAT_FIELDS :: "string list" where
  "LOG_FORMAT_FIELDS = [''request_id'', ''username'', ''command_id'', ''host'', ''port'', ''otelTraceID'', ''otelSpanID'']"

text \<open>The handler: the filters in the order they are added, then the values the formatter reads; \<open>None\<close> when an
  attribute is missing, which in Python is a logging error.\<close>

definition handle_record :: "log_context \<Rightarrow> (bool \<times> nat \<times> nat) \<Rightarrow> log_record \<Rightarrow> string list option" where
  "handle_record ctx span lr =
     (case request_id_filter ctx lr of (ok, lr1) \<Rightarrow> case otel_filter span lr1 of (ok', lr2) \<Rightarrow>
        let vs = map (lr_extra lr2) LOG_FORMAT_FIELDS in
        if ok \<and> ok' \<and> None \<notin> set vs then Some (map the vs) else None)"

section \<open>Lemmas\<close>

fun unhex :: "nat \<Rightarrow> string \<Rightarrow> nat" where
  "unhex acc [] = acc"
| "unhex acc (c # cs) = unhex (16 * acc + length (takeWhile (\<lambda>d. d \<noteq> c) HEX_DIGITS)) cs"

lemma unhex_append: "unhex acc (xs @ ys) = unhex (unhex acc xs) ys"
  by (induction xs arbitrary: acc) auto

lemma takeWhile_index: "distinct xs \<Longrightarrow> d < length xs \<Longrightarrow> length (takeWhile (\<lambda>c. c \<noteq> xs ! d) xs) = d"
proof (induction xs arbitrary: d)
  case (Cons x xs)
  then show ?case by (cases d) auto
qed simp

lemma hex_digits: "distinct HEX_DIGITS" "length HEX_DIGITS = 16" "CHR ''0'' = HEX_DIGITS ! 0"
  by (simp_all add: HEX_DIGITS_def)

lemma hex_digit_index: "d < 16 \<Longrightarrow> length (takeWhile (\<lambda>c. c \<noteq> hex_digit d) HEX_DIGITS) = d"
  using takeWhile_index [of HEX_DIGITS d] hex_digits by (simp add: hex_digit_def)

lemma unhex_zeros: "unhex 0 (replicate n (CHR ''0'')) = 0"
  using takeWhile_index [of HEX_DIGITS 0] hex_digits by (induction n) simp_all

lemma unhex_hex_str: "unhex 0 (hex_str n) = n"
proof (induction n rule: hex_str.induct)
  case (1 n)
  then show ?case by (subst hex_str.simps) (simp add: unhex_append hex_digit_index)
qed

text \<open>
  Every record can be formatted, whatever its caller attached and outside of any request; it carries the id of the request
  and, unless the caller named one, its account; the ids of the trace are padded to their width and read back.
\<close>

lemma log_lines_complete:
  "\<exists>vs. handle_record ctx (valid, t, n) lr = Some vs \<and> length vs = length LOG_FORMAT_FIELDS
     \<and> vs ! 0 = lc_request_id ctx
     \<and> vs ! 1 = (case lr_extra lr ''username'' of None \<Rightarrow> lc_account ctx | Some u \<Rightarrow> u)
     \<and> (valid \<longrightarrow> unhex 0 (vs ! 5) = t \<and> unhex 0 (vs ! 6) = n \<and> 32 \<le> length (vs ! 5) \<and> 16 \<le> length (vs ! 6))"
  by (auto simp: handle_record_def request_id_filter_def otel_filter_def set_default_def LOG_FORMAT_FIELDS_def Let_def
      hex_format_def unhex_append unhex_zeros unhex_hex_str split: option.splits)

end
