(* ===== verification/Tokens.thy ===== *)
theory Tokens
  imports Auth
begin

text \<open>
  The life of a token: \<^verbatim>\<open>create_access_token\<close> of \<^verbatim>\<open>app/core/security.py\<close> under the login of \<^verbatim>\<open>Auth\<close>, and the cookie the
  login sets. Time is in seconds. The library that signs and checks is a parameter: \<open>jwt_decode at\<close> is its answer at
  the time \<open>at\<close>.
\<close>

section \<open>Operations\<close>

text \<open>\<open>default_minutes\<close> is the setting that stands in for an absent lifetime.\<close>

definition create_access_token :: "(claims \<Rightarrow> string) \<Rightarrow> int \<Rightarrow> int \<Rightarrow> int option \<Rightarrow> claims \<Rightarrow> string" where
  "create_access_token encode default_minutes now expires_minutes data =
     encode ((''exp'', JNum (now + 60 * (case expires_minutes of Some m \<Rightarrow> m | None \<Rightarrow> default_minutes)))
       # filter (\<lambda>(k, _). k \<noteq> ''exp'') data)"

record cookie =
  ck_key :: string
  ck_value :: string
  ck_max_age :: int
  ck_httponly :: bool
  ck_samesite :: string
  ck_secure :: bool

definition ACCESS_TOKEN_COOKIE :: string where
  "ACCESS_TOKEN_COOKIE = ''access_token''"

definition set_access_cookie :: "string \<Rightarrow> int \<Rightarrow> cookie" where
  "set_access_cookie token max_age = \<lparr>ck_key = ACCESS_TOKEN_COOKIE, ck_value = token, ck_max_age = max_age,
     ck_httponly = True, ck_samesite = ''lax'', ck_secure = False\<rparr>"

text \<open>\<^verbatim>\<open>POST /token\<close> at the time \<open>now\<close>: its answer and its cookie.\<close>

definition token_response ::
  "(string \<Rightarrow> string \<Rightarrow> exn + bool) \<Rightarrow> (claims \<Rightarrow> string) \<Rightarrow> int \<Rightarrow> int \<Rightarrow> user_records option \<Rightarrow> string \<Rightarrow> string
   \<Rightarrow> exn + token_data \<times> cookie" where
  "token_response checkpw encode minutes now file account password =
     (case token_endpoint checkpw (\<lambda>claims m. create_access_token encode minutes now (Some m) claims) minutes file account password of
        Inl e \<Rightarrow> Inl e
      | Inr t \<Rightarrow> Inr (t, set_access_cookie (td_access_token t) (td_expires_in t)))"

section \<open>Properties\<close>

text \<open>
  Property C22. From password to endpoint, and until when. A token handed out by \<^verbatim>\<open>/token\<close> was given against the password of the
  stored account of that name. If the library reads back what it signed until it expires, then for exactly the announced
  number of seconds the token opens exactly the endpoints whose scopes are among those of the stored account, as that
  account, every other one answering 403; afterwards every endpoint answers 401. The cookie holds the same
  token for the same time, out of reach of scripts.
\<close>

theorem token_lifetime:
  assumes "token_response checkpw encode minutes now file account password = Inr (t, c)" "account \<noteq> []"
    and "\<And>at u payload. authenticate checkpw file account password = Inr u \<Longrightarrow> payload = (''exp'', JNum (now + 60 * minutes)) # token_claims u \<Longrightarrow>
          jwt_decode at (encode payload) = (if now + 60 * minutes < at then None else Some payload)"
  shows "\<exists>d. get_by_account file account = Inr (Some d) \<and> checkpw password (us_hashed_password d) = Inr True
    \<and> (\<forall>at required. get_current_user (jwt_decode at) required (Some (td_access_token t)) =
        (if now + td_expires_in t < at then Inl (AppExc Auth ''Invalid or expired token.'')
         else if set required \<subseteq> set (us_scopes d) then Inr \<lparr>us_account = account, us_scopes = us_scopes d\<rparr>
         else Inl (AppExc Forbidden (''Token is missing required scopes: ''
                @ list_str (filter (\<lambda>s. s \<notin> set (us_scopes d)) required)))))
    \<and> ck_value c = td_access_token t \<and> ck_max_age c = td_expires_in t \<and> ck_httponly c"
proof -
  obtain u where u: "authenticate checkpw file account password = Inr u"
      "t = generate_token (\<lambda>claims m. create_access_token encode minutes now (Some m) claims) minutes u"
      "c = set_access_cookie (td_access_token t) (td_expires_in t)"
    using assms(1) by (auto simp: token_response_def token_endpoint_def split: sum.splits)
  from authenticated [OF u(1)] obtain d where d: "get_by_account file account = Inr (Some d)"
      "checkpw password (us_hashed_password d) = Inr True" "u = \<lparr>us_account = account, us_scopes = us_scopes d\<rparr>" by metis
  define payload where "payload = (''exp'', JNum (now + td_expires_in t)) # token_claims u"
  have t: "td_access_token t = encode payload"
    by (simp add: u(2) generate_token_def create_access_token_def payload_def token_claims_def mult.commute)
  have dec: "jwt_decode at (encode payload) = (if now + td_expires_in t < at then None else Some payload)" for at
    using assms(3) [OF u(1), of payload] by (simp add: payload_def u(2) generate_token_def mult.commute)
  have fields: "map_of payload ''sub'' = Some (JStr account)" "map_of payload ''scopes'' = Some (JArr (map JStr (us_scopes d)))"
    by (simp_all add: payload_def token_claims_def d(3))
  have "get_current_user (jwt_decode at) required (Some (td_access_token t)) =
        (if now + td_expires_in t < at then Inl (AppExc Auth ''Invalid or expired token.'')
         else if set required \<subseteq> set (us_scopes d) then Inr \<lparr>us_account = account, us_scopes = us_scopes d\<rparr>
         else Inl (AppExc Forbidden (''Token is missing required scopes: ''
                @ list_str (filter (\<lambda>s. s \<notin> set (us_scopes d)) required))))" for at required
  proof (cases "now + td_expires_in t < at")
    case True
    then have "jwt_decode at (encode payload) = None" by (simp add: dec)
    then show ?thesis using True by (simp add: get_current_user_def validate_token_def decode_access_token_def t)
  next
    case False
    then have "jwt_decode at (encode payload) = Some payload" by (simp add: dec)
    from validate_payload [where jwt_decode = "jwt_decode at" and token = "encode payload" and payload = payload
        and account = account and scopes = "us_scopes d", OF this fields(1) assms(2) fields(2)] False show ?thesis by (simp add: get_current_user_def t)
  qed
  with d(1,2) u(3) show ?thesis by (auto simp: set_access_cookie_def)
qed

lemma token_lifetime_witness:
  "\<exists>t c. token_response (\<lambda>p h. Inr (p = ''pw'')) (\<lambda>_. ''token'') 60 1000 (Some demo_users) ''alice'' ''pw'' = Inr (t, c)
     \<and> (\<forall>at::int. get_current_user (\<lambda>s. if 4600 < at then None else Some [(''exp'', JNum 4600), (''sub'', JStr ''alice''),
            (''scopes'', JArr [JStr ''command_api''])]) [''command_api''] (Some (td_access_token t)) =
          (if 4600 < at then Inl (AppExc Auth ''Invalid or expired token.'')
           else Inr \<lparr>us_account = ''alice'', us_scopes = [''command_api'']\<rparr>))"
proof -
  let ?check = "\<lambda>p h. Inr (p = ''pw'') :: exn + bool"
  let ?d = "\<lparr>us_account = ''alice'', us_scopes = [''command_api''], us_hashed_password = ''h1''\<rparr>"
  let ?dec = "\<lambda>at s. if (4600::int) < at then None else Some [(''exp'', JNum 4600), (''sub'', JStr ''alice''), (''scopes'', JArr [JStr ''command_api''])]"
  have d: "get_by_account (Some demo_users) ''alice'' = Inr (Some ?d)"
    by (simp add: get_by_account_def demo_users_def user_of_record_def claim_scopes_def)
  have a: "authenticate ?check (Some demo_users) ''alice'' ''pw'' = Inr \<lparr>us_account = ''alice'', us_scopes = [''command_api'']\<rparr>"
    by (simp add: authenticate_def d)
  obtain t c where run: "token_response ?check (\<lambda>_. ''token'') 60 1000 (Some demo_users) ''alice'' ''pw'' = Inr (t, c)"
    and t: "td_expires_in t = 3600"
    by (simp add: token_response_def token_endpoint_def a generate_token_def)
  have dec: "?dec at ''token'' = (if 1000 + 60 * 60 < at then None else Some payload)"
    if "authenticate ?check (Some demo_users) ''alice'' ''pw'' = Inr u" "payload = (''exp'', JNum (1000 + 60 * 60)) # token_claims u"
    for at u payload using that by (auto simp: a token_claims_def)
  have named: "''alice'' \<noteq> []" by simp
  show ?thesis
  proof (rule exE [OF token_lifetime [where jwt_decode = ?dec, OF run named]], goal_cases)
    case (1 at u payload)
    then show ?case by (rule dec)
  next
    case (2 d')
    then have same: "us_scopes d' = [''command_api'']" using d by auto
    from 2 have use: "get_current_user (?dec at) [''command_api''] (Some (td_access_token t)) =
        (if 1000 + td_expires_in t < at then Inl (AppExc Auth ''Invalid or expired token.'')
         else if set [''command_api''] \<subseteq> set (us_scopes d') then Inr \<lparr>us_account = ''alice'', us_scopes = us_scopes d'\<rparr>
         else Inl (AppExc Forbidden (''Token is missing required scopes: ''
                @ list_str (filter (\<lambda>s. s \<notin> set (us_scopes d')) [''command_api'']))))" for at by blast
    have "get_current_user (?dec at) [''command_api''] (Some (td_access_token t)) =
        (if 4600 < at then Inl (AppExc Auth ''Invalid or expired token.'')
         else Inr \<lparr>us_account = ''alice'', us_scopes = [''command_api'']\<rparr>)" for at
      unfolding use t same by simp
    with run show ?case by (intro exI conjI allI)
  qed
qed

end
