(* ===== verification/Spec2Isabelle.thy ===== *)
theory Spec2Isabelle
  imports Lifespan Docs Vm Logs Tokens
begin

text \<open>
  \<^bold>\<open>Deploy Service.\<close>
  A FastAPI application (Python, \<^verbatim>\<open>src/app\<close>) with two jobs: it runs whitelisted command pipelines on
  control nodes over SSH and lets callers poll, watch and kill them, and it triggers, inspects,
  cancels and retries GitLab pipelines. Several processes (pods) serve the same API: the record of a run
  lives in Redis, the SSH connection of a run in the one process that started it.

  \<^bold>\<open>How the parts interact.\<close>
  \<^item> A POST to \<^verbatim>\<open>/command/execution\<close> passes the token check (\<^verbatim>\<open>core/dependencies.py\<close>) and enters
    \<^verbatim>\<open>CommandExecutor.execute_command\<close>: capacity, whitelist and arguments, the inventory lookup of host and
    bastion, the final pipeline, the SSH connection, the version gate. Then it either answers at once
    (a disconnecting command) or registers a pool entry and a record and creates a background task.
  \<^item> The task runs the pipeline, stores its result with \<^verbatim>\<open>update_if\<close> and frees the slot; a timeout kills.
  \<^item> Polls read the record and may recover a lost run from the exit marker on the host; kills flip the
    record to KILLING and go through the local connection, or a new one from another pod.
  \<^item> The log viewer page polls the trace endpoint, which reads and slices the remote log.
  \<^item> The deploy endpoints choose a project, a token and a repository (GitLab, or the dry-run stand-in) for
    each request; finished job traces are cached in Redis.

  \<^bold>\<open>Theories and the code they model.\<close>
  \<^item> \<^verbatim>\<open>Base\<close>: the exceptions of \<^verbatim>\<open>core/exceptions.py\<close> with those of Python the code meets; \<open>io\<close>,
    the state and exception monad every handler is written in (\<open>bindE\<close>, \<open>thenE\<close>, \<open>ret\<close>, \<open>raise\<close>, handlers
    that mirror the \<^verbatim>\<open>except\<close> and \<^verbatim>\<open>finally\<close> clauses), and its rules.
  \<^item> \<^verbatim>\<open>PyStr\<close>, \<^verbatim>\<open>Regex\<close>: the string methods and the regular expressions of the standard library.
    \<^verbatim>\<open>Semver\<close>: \<^verbatim>\<open>core/version.py\<close>. \<^verbatim>\<open>Shlex\<close>: \<^verbatim>\<open>shlex\<close>, the step wrapper of the executor, and a
    specification of how a POSIX shell splits the line.
  \<^item> \<^verbatim>\<open>Domain\<close>: \<^verbatim>\<open>domain/command.py\<close>. \<^verbatim>\<open>Pipeline\<close>: \<^verbatim>\<open>services/pipeline_builder.py\<close>.
    \<^verbatim>\<open>DryRunSsh\<close>: \<^verbatim>\<open>repositories/dry_run_ssh_connection.py\<close>.
  \<^item> \<^verbatim>\<open>Env\<close>: \<open>settings\<close> (\<^verbatim>\<open>core/config.py\<close>), \<open>env\<close> (everything that is not code of the repository) and
    \<open>pod\<close>, the state of one process: \<^verbatim>\<open>command_pool\<close> with its entries in insertion order, the dry-run objects,
    the tasks created, and the external state \<open>'e\<close>.
  \<^item> \<^verbatim>\<open>StateRepo\<close>: \<^verbatim>\<open>repositories/command_state_repository.py\<close>. \<^verbatim>\<open>Race\<close>: its writers on any schedule.
    \<^verbatim>\<open>SshSupport\<close>: \<^verbatim>\<open>services/command_ssh.py\<close> and the authenticators. \<^verbatim>\<open>Heal\<close>:
    \<^verbatim>\<open>services/command_state_helpers.py\<close>. \<^verbatim>\<open>Lifecycle\<close>: \<^verbatim>\<open>services/command_lifecycle.py\<close>.
  \<^item> \<^verbatim>\<open>Inventory\<close>: \<^verbatim>\<open>repositories/inventory_repository.py\<close> and \<^verbatim>\<open>clients/inventory_client.py\<close>. \<^verbatim>\<open>Hosts\<close>:
    \<^verbatim>\<open>bastion_matching.py\<close>, \<^verbatim>\<open>host_resolver.py\<close>, \<^verbatim>\<open>services/inventory_service.py\<close>.
  \<^item> \<^verbatim>\<open>Launch\<close>, \<^verbatim>\<open>Run\<close>: the request half and the background half of \<^verbatim>\<open>services/command_executor.py\<close>.
  \<^item> \<^verbatim>\<open>LogRender\<close>: \<^verbatim>\<open>core/log_renderer.py\<close>. \<^verbatim>\<open>Trace\<close>: \<^verbatim>\<open>services/command_trace.py\<close>. \<^verbatim>\<open>Viewer\<close>: the polling
    script of \<^verbatim>\<open>core/log_viewer_template.py\<close>. \<^verbatim>\<open>Service\<close>: \<^verbatim>\<open>services/command_service.py\<close> and
    \<^verbatim>\<open>services/command_output_format.py\<close>.
  \<^item> \<^verbatim>\<open>Auth\<close>: \<^verbatim>\<open>core/dependencies.py\<close>, \<^verbatim>\<open>core/security.py\<close>, \<^verbatim>\<open>services/auth_service.py\<close>, the JSON user
    repository, the login endpoints of \<^verbatim>\<open>main.py\<close>. \<^verbatim>\<open>Api\<close>: \<^verbatim>\<open>api/v1/command.py\<close>, the
    start-up guard.
  \<^item> \<^verbatim>\<open>Deploy\<close>: \<^verbatim>\<open>services/deploy_service.py\<close> over an abstract pipeline repository. \<^verbatim>\<open>Gitlab\<close>: the
    repository over the GitLab SDK, the trace cache, the dry-run repository. \<^verbatim>\<open>DeployApi\<close>: \<^verbatim>\<open>api/v1/deploy.py\<close>.
  \<^item> \<^verbatim>\<open>InventoryApi\<close>: \<^verbatim>\<open>api/v1/inventory.py\<close>, \<^verbatim>\<open>api/v1/auth.py\<close> and the choice of the inventory. \<^verbatim>\<open>Routes\<close>: the route
    table of \<^verbatim>\<open>main.py\<close> and \<^verbatim>\<open>api/router.py\<close> with the first match. \<^verbatim>\<open>App\<close>: a request through the
    middleware of \<^verbatim>\<open>core/logging.py\<close>, an endpoint of any router, the envelope of \<^verbatim>\<open>domain/models.py\<close> and the error
    handlers of \<^verbatim>\<open>core/exceptions.py\<close>. \<^verbatim>\<open>EndToEnd\<close>: a run from its launch through its task to a poll.
  \<^item> \<^verbatim>\<open>Queue\<close>: what can happen to a run between its launch and its turn. \<^verbatim>\<open>Dispatch\<close>: the pool and the semaphore of
    \<^verbatim>\<open>services/command_pool.py\<close> under any interleaving of launches, tasks, kills and polls of one process.
    \<^verbatim>\<open>Lifespan\<close>: \<^verbatim>\<open>core/redis_client.py\<close> and the end of a process in \<^verbatim>\<open>main.py\<close>.
  \<^item> \<^verbatim>\<open>Vm\<close>: \<^verbatim>\<open>repositories/vm_repository.py\<close>, which no endpoint uses yet. \<^verbatim>\<open>Logs\<close>: the filters of \<^verbatim>\<open>core/logging.py\<close>.
    \<^verbatim>\<open>Tokens\<close>: the life of a token of \<^verbatim>\<open>core/security.py\<close> and its cookie.
  \<^item> \<^verbatim>\<open>Docs\<close>: the offline documentation pages of \<^verbatim>\<open>main.py\<close> and the script assets they load.

  A handler is one definition with the name of the Python method, composed from the definitions of the
  methods it calls; an \<^verbatim>\<open>await\<close> is one step of the monad; \<open>Inl\<close> is the exception that leaves it.
  Records and enumerations keep the names of their classes.
\<close>

text \<open>
  \<^bold>\<open>Interfaces.\<close> Four locales state what one part relies on in another; each is interpreted on the
  model of the code. \<open>command_store\<close> (\<^verbatim>\<open>StateRepo\<close>): a read returns what was saved, a failed save
  changes nothing; \<open>repo\<close> interprets it for the Redis repository, and the updates are proved in it once.
  \<open>inventory_repo\<close> (\<^verbatim>\<open>Inventory\<close>): what a lookup may raise; the two HTTP implementations and the
  dry-run one. \<open>trace_source\<close> (\<^verbatim>\<open>Gitlab\<close>): the byte range of a job trace; the GitLab and the dry-run repository.
  \<open>task_schedule\<close> (\<^verbatim>\<open>Lifecycle\<close>): what every task keeps, the whole keeps; the two schedules of \<^verbatim>\<open>asyncio.gather\<close>.
  The order of the statuses of a run is the instance of \<open>linorder\<close> in \<^verbatim>\<open>Race\<close>.

  \<^bold>\<open>What the lemmas show.\<close>
  \<^item> Launching: what a request has passed when it runs (\<open>prepare_authorised\<close>), that the version gate fails closed,
    that a launch leaves all of record, pool entry and task or nothing, that a dry run touches no host,
    that a shell reads a step as the literal arguments.
  \<^item> Running: whatever the host does, the task frees exactly its slot and settles the record.
  \<^item> Records: results, recoveries and kills change only what they may, branch by branch; with atomic updates
    the status of a record would only move forward, with the real ones a kill can be lost; on any schedule the fields of a
    record fit its status.
  \<^item> Watching: a client that polls a growing log gets each complete line once, rendered as a whole; the page
    stops at the end of a run, and after five failures.
  \<^item> Composition: a launched run settles whatever the host does, and what the host printed is what a poll answers.
  \<^item> Waiting: the concurrency limit holds and the running limit up to the launches under way; a run killed while it
    waits is executed all the same, and a run that waits too long is lost.
  \<^item> Shutdown: what the end of a process closes, spares and kills, and that one kill that raises can abandon the others.
  \<^item> Requests: every route is reached by its own paths; every answer carries the request id and the dry-run marker,
    and shows nothing of an unexpected exception.
  \<^item> Access: no answer and no effect without the scope; what a login opens and for how long; where it redirects.
  \<^item> Pipelines: when a trigger is a duplicate, that the cache does not change an answer, that a dry run never
    asks GitLab.

  \<^bold>\<open>Bounds.\<close> Only the regular expression engine has fuel: a star, a \<^verbatim>\<open>findall\<close> and a \<^verbatim>\<open>sub\<close> run with the number of
  characters left plus one, and each round consumes a character or ends. The reading of process groups
  loops over the steps of the pipeline. Python's integers and the byte offsets are \<open>int\<close> or \<open>nat\<close>, as they are unbounded
  there. The page's failure counter is a JavaScript number far below its exact range.

  \<^bold>\<open>Parameters and hypotheses.\<close> The code relies on documented behaviour of: Redis (\<open>redis_ok\<close>: a key holds what
  was set, with a positive lifetime; \<open>trace_redis_ok\<close> for the binary client; \<open>redis_library_ok\<close>: closing a client raises at most a \<^verbatim>\<open>RuntimeError\<close>, and not without its pool), the serialisation of records (a dumped record loads
  again), asyncssh and the host (\<open>ssh_frame\<close>: SSH calls do not write Redis), the inventory server
  (\<open>inventory_frame\<close>, likewise), UUIDs (\<open>uuid_ok\<close>: a new id is a text that is not empty; \<open>node_step\<close>: and none in use), the records in Redis (\<open>ids_match\<close>: a record is stored
  under its own id). The JWT library, bcrypt, ansi2html, \<^verbatim>\<open>json.loads\<close>, gzip, UTF-8 decoding,
  HTTP and the GitLab SDK are functions the definitions take. Every property with such a hypothesis has a witness on a concrete
  instance.

  \<^bold>\<open>Simplifications.\<close> Characters are the 256 of Latin-1; log output and the \<^verbatim>\<open>detail\<close> payload of errors are left out; seconds are
  integers; \<^verbatim>\<open>asyncio.gather\<close> has its two extreme schedules (\<open>gather\<close>, \<open>gather_stopping\<close>; the interleaving of the writers of a record is \<^verbatim>\<open>Race\<close>); a
  cancelled \<^verbatim>\<open>wait_for\<close> raises its timeout; a launch after its check, a task and a kill are each one step of \<open>node_step\<close>; query strings and bodies arrive parsed.

  \<^bold>\<open>Not modelled.\<close> Which lines are logged, markup and styles (no effect on the behaviour above); the construction of the
  HTTP clients; loading of settings (pydantic). The repository's only two JavaScript files are documentation assets:
  \<^verbatim>\<open>swagger-ui-bundle.js\<close>, a vendored minified library on one line, is a parameter; \<^verbatim>\<open>redoc.standalone.js\<close> is
  the text of a failed download and stands in \<^verbatim>\<open>Docs\<close> as it is.
\<close>

end
